(* ===== verification/L9_Prelude.thy ===== *)
theory L9_Prelude
  imports Main "HOL-Library.Char_ord" "HOL-Library.List_Lexorder" "HOL-Library.Multiset"
    "HOL-Library.Product_Lexorder"
begin

text \<open>
  The prelude of the l9-ci-sdk development: the exceptions a Python function of \<open>l9_ci\<close> can
  raise and the result type that carries them, the two sequencing combinators of fallible code,
  the string operations of Python that the source calls, \<open>sorted\<close> and \<open>set\<close> on lists, and the
  lemmas every component shares.

  A Python \<open>str\<close> is a \<^typ>\<open>string\<close>, the list of its code points; the model covers the code points
  below 256. A Python \<open>set\<close> that is only tested, united or sorted is a list, read through
  \<^const>\<open>set\<close> and sorted by the function \<open>sorted_set\<close>, so that no iteration order is assumed.
\<close>

named_theorems res_simps "evaluation of the result combinators"
named_theorems wf_intros "well-formedness of constructed records"

subsection \<open>Exceptions and results\<close>

text \<open>
  The exceptions the source raises or catches; the string is \<open>str(exc)\<close>.
  \<open>UnsupportedProviderVersionError\<close> and \<open>json.JSONDecodeError\<close> are subclasses of \<open>ValueError\<close>,
  \<open>FileNotFoundError\<close> is a subclass of \<open>OSError\<close>.
\<close>

datatype pyexc =
    ValueError string
  | UnsupportedProviderVersionError string
  | JSONDecodeError string
  | TypeError string
  | KeyError string
  | AttributeError string
  | AssertionError string
  | OSError string
  | FileNotFoundError string
  | TimeoutExpired string
  | OverflowError string

fun exc_message :: "pyexc \<Rightarrow> string" where
  "exc_message (ValueError m) = m"
| "exc_message (UnsupportedProviderVersionError m) = m"
| "exc_message (JSONDecodeError m) = m"
| "exc_message (TypeError m) = m"
| "exc_message (KeyError m) = m"
| "exc_message (AttributeError m) = m"
| "exc_message (AssertionError m) = m"
| "exc_message (OSError m) = m"
| "exc_message (FileNotFoundError m) = m"
| "exc_message (TimeoutExpired m) = m"
| "exc_message (OverflowError m) = m"

text \<open>\<open>type(exc).__name__\<close>\<close>

fun exc_type_name :: "pyexc \<Rightarrow> string" where
  "exc_type_name (ValueError _) = ''ValueError''"
| "exc_type_name (UnsupportedProviderVersionError _) = ''UnsupportedProviderVersionError''"
| "exc_type_name (JSONDecodeError _) = ''JSONDecodeError''"
| "exc_type_name (TypeError _) = ''TypeError''"
| "exc_type_name (KeyError _) = ''KeyError''"
| "exc_type_name (AttributeError _) = ''AttributeError''"
| "exc_type_name (AssertionError _) = ''AssertionError''"
| "exc_type_name (OSError _) = ''OSError''"
| "exc_type_name (FileNotFoundError _) = ''FileNotFoundError''"
| "exc_type_name (TimeoutExpired _) = ''TimeoutExpired''"
| "exc_type_name (OverflowError _) = ''OverflowError''"

fun is_value_error :: "pyexc \<Rightarrow> bool" where
  "is_value_error (ValueError _) = True"
| "is_value_error (UnsupportedProviderVersionError _) = True"
| "is_value_error (JSONDecodeError _) = True"
| "is_value_error _ = False"

fun is_os_error :: "pyexc \<Rightarrow> bool" where
  "is_os_error (OSError _) = True"
| "is_os_error (FileNotFoundError _) = True"
| "is_os_error _ = False"

type_synonym 'a result = "pyexc + 'a"

definition and_then :: "'a result \<Rightarrow> ('a \<Rightarrow> 'b result) \<Rightarrow> 'b result" where
  "and_then r f = (case r of Inl e \<Rightarrow> Inl e | Inr a \<Rightarrow> f a)"

definition guard_or :: "bool \<Rightarrow> pyexc \<Rightarrow> unit result" where
  "guard_or ok e = (if ok then Inr () else Inl e)"

fun map_res :: "('a \<Rightarrow> 'b result) \<Rightarrow> 'a list \<Rightarrow> 'b list result" where
  "map_res f [] = Inr []"
| "map_res f (x # xs) = and_then (f x) (\<lambda>y. and_then (map_res f xs) (\<lambda>ys. Inr (y # ys)))"

lemma and_then_simps [simp, res_simps]:
  "and_then (Inl e) f = Inl e"
  "and_then (Inr a) f = f a"
  by (simp_all add: and_then_def)

lemma and_then_eq_Inr:
  "and_then r f = Inr b \<longleftrightarrow> (\<exists>a. r = Inr a \<and> f a = Inr b)"
  by (cases r) auto

lemma and_then_eq_Inl:
  "and_then r f = Inl e \<longleftrightarrow> r = Inl e \<or> (\<exists>a. r = Inr a \<and> f a = Inl e)"
  by (cases r) auto

lemma and_then_cong [fundef_cong]:
  "r = r' \<Longrightarrow> (\<And>a. r' = Inr a \<Longrightarrow> f a = g a) \<Longrightarrow> and_then r f = and_then r' g"
  by (cases r') auto

lemma guard_or_simps [simp, res_simps]:
  "guard_or True e = Inr ()"
  "guard_or False e = Inl e"
  by (simp_all add: guard_or_def)

lemma guard_or_eq_Inr [simp]: "guard_or b e = Inr u \<longleftrightarrow> b"
  by (simp add: guard_or_def)

lemma guard_or_eq_Inl [simp]: "guard_or b e = Inl e' \<longleftrightarrow> \<not> b \<and> e' = e"
  by (auto simp: guard_or_def)

lemma map_res_cong [fundef_cong]:
  "xs = ys \<Longrightarrow> (\<And>x. x \<in> set ys \<Longrightarrow> f x = g x) \<Longrightarrow> map_res f xs = map_res g ys"
  by (induction ys arbitrary: xs) (auto intro!: and_then_cong)

lemma map_res_InrI: "(\<And>x. x \<in> set xs \<Longrightarrow> f x = Inr (g x)) \<Longrightarrow> map_res f xs = Inr (map g xs)"
  by (induction xs) auto

lemma map_res_eq_Inr_iff:
  "map_res f xs = Inr ys \<longleftrightarrow> list_all2 (\<lambda>x y. f x = Inr y) xs ys"
  by (induction xs arbitrary: ys)
    (auto simp: and_then_eq_Inr list_all2_Cons1)

lemma map_res_length: "map_res f xs = Inr ys \<Longrightarrow> length ys = length xs"
  by (simp add: map_res_eq_Inr_iff list_all2_lengthD)

lemma map_res_set: "map_res f xs = Inr ys \<Longrightarrow> y \<in> set ys \<Longrightarrow> \<exists>x \<in> set xs. f x = Inr y"
  by (induction xs arbitrary: ys) (auto simp: and_then_eq_Inr)

lemma map_res_Inl: "map_res f xs = Inl e \<Longrightarrow> \<exists>x \<in> set xs. f x = Inl e"
  by (induction xs) (auto simp: and_then_eq_Inl)

lemma map_res_ex: "(\<exists>ys. map_res f xs = Inr ys) \<longleftrightarrow> (\<forall>x \<in> set xs. \<exists>y. f x = Inr y)"
proof (induction xs)
  case (Cons x xs)
  then show ?case by (auto simp: and_then_eq_Inr)
qed simp

lemma map_res_Nils:
  "(\<exists>ess. map_res f xs = Inr ess \<and> concat ess = []) \<longleftrightarrow> (\<forall>x \<in> set xs. f x = Inr [])"
proof (induction xs)
  case (Cons x xs)
  have "(\<exists>ess. map_res f (x # xs) = Inr ess \<and> concat ess = []) \<longleftrightarrow>
      f x = Inr [] \<and> (\<exists>ess. map_res f xs = Inr ess \<and> concat ess = [])"
    by (cases "f x"; cases "map_res f xs") auto
  then show ?case unfolding Cons.IH by simp
qed simp

lemma map_res_list_all:
  assumes "map_res f xs = Inr ys" and "\<And>x y. f x = Inr y \<Longrightarrow> P y"
  shows "list_all P ys"
  using map_res_set [OF assms(1)] assms(2) by (auto simp: list_all_iff)

lemma map_res_compose:
  "map_res (\<lambda>x. and_then (f x) g) xs = Inr zs \<longleftrightarrow>
     (\<exists>ys. map_res f xs = Inr ys \<and> map_res g ys = Inr zs)"
proof -
  have "map_res (\<lambda>x. and_then (f x) g) xs = and_then (map_res f xs) (map_res g)
      \<or> (\<exists>e e'. map_res (\<lambda>x. and_then (f x) g) xs = Inl e \<and>
            and_then (map_res f xs) (map_res g) = Inl e')"
  proof (induction xs)
    case (Cons x xs)
    show ?case
    proof (cases "f x")
      case (Inr y)
      then show ?thesis
        using Cons by (cases "g y"; cases "map_res f xs") auto
    qed simp
  qed simp
  then show ?thesis
    by (auto simp: and_then_eq_Inr eq_commute [of "Inr zs"])
qed

lemma map_res_Inr_cong:
  assumes "\<And>x r. x \<in> set xs \<Longrightarrow> f x = Inr r \<longleftrightarrow> g x = Inr r"
  shows "map_res f xs = Inr rs \<longleftrightarrow> map_res g xs = Inr rs"
  unfolding map_res_eq_Inr_iff
  using assms by (auto simp: list_all2_conv_all_nth)

lemma map_res_conv_map: "map_res f xs = map_res id (map f xs)"
  by (induction xs) simp_all

lemma map_res_map_cong: "map f xs = map f ys \<Longrightarrow> map_res f xs = map_res f ys"
  by (simp only: map_res_conv_map [of f])

lemma map_res_zip:
  assumes "map_res f xs = Inr ys"
  shows "\<forall>(x, y) \<in> set (zip xs ys). f x = Inr y"
  using assms
proof (induction xs arbitrary: ys)
  case (Cons x xs)
  then show ?case by (auto simp: and_then_eq_Inr)
qed simp

lemma map_res_pairs:
  "map_res f (map fst ps) = Inr (map snd ps) \<longleftrightarrow> (\<forall>(x, y) \<in> set ps. f x = Inr y)"
  by (induction ps) (auto simp: and_then_eq_Inr)

lemma map_res_mset:
  assumes "map_res f xs = Inr ys" "mset xs' = mset xs"
  shows "\<exists>ys'. map_res f xs' = Inr ys' \<and> mset ys' = mset ys"
proof -
  define g where "g x = projr (f x)" for x
  have g: "f x = Inr (g x)" if "x \<in> set xs" for x
  proof -
    have "\<forall>x \<in> set xs. \<exists>y. f x = Inr y"
      unfolding map_res_ex [symmetric] using assms(1) by (rule exI)
    then have "\<exists>y. f x = Inr y"
      using that by (rule bspec)
    then obtain y where "f x = Inr y" ..
    then show ?thesis
      by (simp add: g_def)
  qed
  have "map_res f xs = Inr (map g xs)"
    using g by (rule map_res_InrI)
  then have "ys = map g xs"
    using assms(1) by simp
  moreover have "map_res f xs' = Inr (map g xs')"
    by (rule map_res_InrI) (use g mset_eq_setD [OF assms(2)] in blast)
  ultimately show ?thesis
    using assms(2) by (intro exI [of _ "map g xs'"]) (simp only: mset_map simp_thms)
qed

subsection \<open>Python strings\<close>

definition py_isspace :: "char \<Rightarrow> bool" where
  "py_isspace c \<longleftrightarrow>
     (let n = of_char c :: nat
      in (9 \<le> n \<and> n \<le> 13) \<or> (28 \<le> n \<and> n \<le> 32) \<or> n = 133 \<or> n = 160)"

definition py_lstrip :: "string \<Rightarrow> string" where
  "py_lstrip s = dropWhile py_isspace s"

definition py_rstrip :: "string \<Rightarrow> string" where
  "py_rstrip s = rev (dropWhile py_isspace (rev s))"

definition py_strip :: "string \<Rightarrow> string" where
  "py_strip s = py_rstrip (py_lstrip s)"

definition blank :: "string \<Rightarrow> bool" where
  "blank s \<longleftrightarrow> list_all py_isspace s"

definition is_digit :: "char \<Rightarrow> bool" where
  "is_digit c \<longleftrightarrow> CHR ''0'' \<le> c \<and> c \<le> CHR ''9''"

definition py_lower_char :: "char \<Rightarrow> char" where
  "py_lower_char c =
     (let n = of_char c :: nat
      in if (65 \<le> n \<and> n \<le> 90) \<or> (192 \<le> n \<and> n \<le> 222 \<and> n \<noteq> 215) then char_of (n + 32) else c)"

definition py_lower :: "string \<Rightarrow> string" where
  "py_lower s = map py_lower_char s"

definition py_upper_char :: "char \<Rightarrow> string" where
  "py_upper_char c =
     (let n = of_char c :: nat
      in if (97 \<le> n \<and> n \<le> 122) \<or> (224 \<le> n \<and> n \<le> 254 \<and> n \<noteq> 247) then [char_of (n - 32)]
         else if n = 223 then ''SS'' else [c])"

definition py_upper :: "string \<Rightarrow> string" where
  "py_upper s = concat (map py_upper_char s)"

definition replace_char :: "char \<Rightarrow> char \<Rightarrow> string \<Rightarrow> string" where
  "replace_char a b s = map (\<lambda>c. if c = a then b else c) s"

fun split_on :: "char \<Rightarrow> string \<Rightarrow> string list" where
  "split_on d [] = [[]]"
| "split_on d (c # cs) =
     (if c = d then [] # split_on d cs
      else (case split_on d cs of [] \<Rightarrow> [[c]] | p # ps \<Rightarrow> (c # p) # ps))"

text \<open>\<open>s.split(d, maxsplit=1)[0]\<close>: everything before the first \<open>d\<close>.\<close>

definition before_char :: "char \<Rightarrow> string \<Rightarrow> string" where
  "before_char d s = takeWhile (\<lambda>c. c \<noteq> d) s"

text \<open>\<open>s.partition(d)[2]\<close>: everything after the first \<open>d\<close>, empty when there is none.\<close>

definition after_char :: "char \<Rightarrow> string \<Rightarrow> string" where
  "after_char d s = tl (dropWhile (\<lambda>c. c \<noteq> d) s)"

fun join :: "string \<Rightarrow> string list \<Rightarrow> string" where
  "join sep [] = []"
| "join sep [x] = x"
| "join sep (x # y # ys) = x @ sep @ join sep (y # ys)"

definition starts_with :: "string \<Rightarrow> string \<Rightarrow> bool" where
  "starts_with p s \<longleftrightarrow> take (length p) s = p"

fun contains :: "string \<Rightarrow> string \<Rightarrow> bool" where
  "contains p [] \<longleftrightarrow> p = []"
| "contains p (c # cs) \<longleftrightarrow> starts_with p (c # cs) \<or> contains p cs"

text \<open>\<open>str.splitlines\<close>\<close>

definition line_break :: "char \<Rightarrow> bool" where
  "line_break c \<longleftrightarrow> (of_char c :: nat) \<in> {10, 11, 12, 13, 28, 29, 30, 133}"

fun splitlines_from :: "string \<Rightarrow> string \<Rightarrow> string list" where
  "splitlines_from acc [] = (if acc = [] then [] else [rev acc])"
| "splitlines_from acc [c] = (if line_break c then [rev acc] else [rev (c # acc)])"
| "splitlines_from acc (c # d # s) =
     (if c = CHR 0x0D \<and> d = CHR 0x0A then rev acc # splitlines_from [] s
      else if line_break c then rev acc # splitlines_from [] (d # s)
      else splitlines_from (c # acc) (d # s))"

definition splitlines :: "string \<Rightarrow> string list" where
  "splitlines s = splitlines_from [] s"

lemma join_Cons: "join sep (x # xs) = (if xs = [] then x else x @ sep @ join sep xs)"
  by (cases xs) auto

lemma length_join_filter: "length (join sep (filter P xs)) \<le> length (join sep xs)"
proof (induction xs)
  case (Cons x xs)
  then show ?case
    by (cases "P x"; cases "xs = []") (auto simp: join_Cons)
qed simp

lemma blank_iff_strip: "py_strip s = [] \<longleftrightarrow> blank s"
  by (auto simp: py_strip_def py_rstrip_def py_lstrip_def blank_def dropWhile_eq_Nil_conv
      list_all_iff dest: set_dropWhileD)
    (metis dropWhile_eq_Nil_conv hd_dropWhile hd_in_set)

lemma set_py_strip: "c \<in> set (py_strip s) \<Longrightarrow> c \<in> set s"
  unfolding py_strip_def py_rstrip_def py_lstrip_def
  by (metis set_dropWhileD set_rev)

lemma dropWhile_idem: "dropWhile P (dropWhile P xs) = dropWhile P xs"
  by (induction xs) auto

lemma lstrip_rstrip_fixed:
  assumes "xs = dropWhile P xs"
  shows "dropWhile P (rev (dropWhile P (rev xs))) = rev (dropWhile P (rev xs))"
proof (cases xs)
  case Nil
  then show ?thesis by simp
next
  case (Cons y ys)
  with assms have ny: "\<not> P y"
    by (metis hd_dropWhile list.distinct(1) list.sel(1))
  have "dropWhile P (rev xs) \<noteq> [] \<and> last (dropWhile P (rev xs)) = y"
    using ny unfolding Cons by (simp add: dropWhile_append)
  then obtain zs where "rev (dropWhile P (rev xs)) = y # zs"
    by (metis list.sel(1) list.exhaust hd_rev rev_is_Nil_conv)
  with ny show ?thesis by simp
qed

lemma py_strip_idem [simp]: "py_strip (py_strip s) = py_strip s"
proof -
  have "py_lstrip (py_strip s) = py_strip s"
    unfolding py_strip_def py_rstrip_def py_lstrip_def
    by (rule lstrip_rstrip_fixed) (simp add: dropWhile_idem)
  then show ?thesis
    by (simp add: py_strip_def py_rstrip_def dropWhile_idem)
qed

lemma py_strip_infix: "\<exists>a b. s = a @ py_strip s @ b"
proof -
  let ?t = "dropWhile py_isspace s"
  have "s = takeWhile py_isspace s @ ?t" by simp
  moreover have "?t = rev (dropWhile py_isspace (rev ?t)) @ rev (takeWhile py_isspace (rev ?t))"
    by (metis rev_append rev_rev_ident takeWhile_dropWhile_id)
  ultimately show ?thesis
    unfolding py_strip_def py_rstrip_def py_lstrip_def by metis
qed

lemma length_py_strip: "py_strip s \<noteq> s \<Longrightarrow> length (py_strip s) < length s"
  using py_strip_infix [of s]
  by (metis append.left_neutral append_Nil2 length_append length_greater_0_conv
      trans_less_add1 trans_less_add2 less_add_same_cancel1 less_add_same_cancel2)

lemma split_on_nonempty [simp]: "split_on d s \<noteq> []"
  by (induction s) (auto split: list.splits)

lemma split_on_no_sep: "p \<in> set (split_on d s) \<Longrightarrow> d \<notin> set p"
proof (induction s arbitrary: p)
  case Nil
  then show ?case by simp
next
  case (Cons c cs)
  then show ?case
    by (cases "split_on d cs") (auto split: if_splits)
qed

lemma split_on_id: "d \<notin> set s \<Longrightarrow> split_on d s = [s]"
  by (induction s) auto

lemma split_on_append: "d \<notin> set p \<Longrightarrow> split_on d (p @ d # s) = p # split_on d s"
  by (induction p) auto

lemma join_split: "join [d] (split_on d s) = s"
proof (induction s)
  case Nil
  then show ?case by simp
next
  case (Cons c cs)
  then show ?case
    by (cases "split_on d cs"; cases "tl (split_on d cs)") (auto split: list.splits)
qed

lemma split_join:
  "ps \<noteq> [] \<Longrightarrow> (\<And>p. p \<in> set ps \<Longrightarrow> d \<notin> set p) \<Longrightarrow> split_on d (join [d] ps) = ps"
proof (induction ps)
  case Nil
  then show ?case by simp
next
  case (Cons x xs)
  then show ?case
    by (cases xs) (simp_all add: split_on_id split_on_append)
qed

lemma set_split_on:
  assumes "p \<in> set (split_on d s)" "c \<in> set p"
  shows "c \<in> set s"
  using assms
proof (induction s arbitrary: p)
  case Nil
  then show ?case by simp
next
  case (Cons x xs)
  then show ?case
    by (cases "split_on d xs") (fastforce split: if_splits)+
qed

lemma starts_with_append [simp]: "starts_with p (p @ s)"
  by (simp add: starts_with_def)

subsection \<open>Sorting, sets and keyed tables\<close>

text \<open>
  \<open>sorted(xs, key=k)\<close> is \<^const>\<open>sort_key\<close>, which is stable as Python's sort is;
  \<open>sorted(set(xs))\<close> is \<open>sorted_set\<close>. A dict comprehension \<open>{k(x): x for x in xs}\<close> keeps
  the last element of every key.
\<close>

definition sorted_set :: "'a::linorder list \<Rightarrow> 'a list" where
  "sorted_set xs = sort (remdups xs)"

definition dict_by :: "('a \<Rightarrow> 'k) \<Rightarrow> 'a list \<Rightarrow> 'k \<Rightarrow> 'a option" where
  "dict_by k xs = map_of (rev (map (\<lambda>x. (k x, x)) xs))"

definition unique_by :: "('a \<Rightarrow> 'k) \<Rightarrow> 'a list \<Rightarrow> bool" where
  "unique_by k xs \<longleftrightarrow> distinct (map k xs)"

lemma set_sorted_set [simp]: "set (sorted_set xs) = set xs"
  by (simp add: sorted_set_def)

lemma sorted_sorted_set [simp]: "sorted (sorted_set xs)"
  by (simp add: sorted_set_def)

lemma distinct_sorted_set [simp]: "distinct (sorted_set xs)"
  by (simp add: sorted_set_def)

lemma sorted_set_Nil [simp]: "sorted_set [] = []"
  by (simp add: sorted_set_def)

lemma sorted_set_eq_Nil [simp]: "sorted_set xs = [] \<longleftrightarrow> xs = []"
  by (metis set_empty set_sorted_set)

lemma sorted_set_cong: "set xs = set ys \<Longrightarrow> sorted_set xs = sorted_set ys"
  by (metis distinct_sorted_set set_sorted_set sorted_distinct_set_unique sorted_sorted_set)

lemma sorted_set_idem [simp]: "sorted_set (sorted_set xs) = sorted_set xs"
  by (rule sorted_set_cong) simp

lemma sorted_set_sort [simp]: "sorted_set (sort xs) = sorted_set xs"
  by (rule sorted_set_cong) simp

lemma sorted_set_remdups [simp]: "sorted_set (remdups xs) = sorted_set xs"
  by (rule sorted_set_cong) simp

lemma sort_mset_cong:
  fixes xs ys :: "'a::linorder list"
  assumes "mset xs = mset ys"
  shows "sort xs = sort ys"
  using assms by (metis sorted_list_of_multiset_mset)

lemma sort_key_eq_Nil [simp]: "sort_key k xs = [] \<longleftrightarrow> xs = []"
  by (metis set_empty set_sort)

lemma dict_by_Some: "dict_by k xs i = Some x \<Longrightarrow> x \<in> set xs \<and> k x = i"
  by (auto simp: dict_by_def dest!: map_of_SomeD)

lemma dict_by_None: "dict_by k xs i = None \<longleftrightarrow> i \<notin> k ` set xs"
  by (auto simp: dict_by_def map_of_eq_None_iff image_iff rev_map)

lemma dict_by_unique:
  assumes "unique_by k xs"
  shows "dict_by k xs i = Some x \<longleftrightarrow> x \<in> set xs \<and> k x = i"
proof -
  let ?ps = "rev (map (\<lambda>x. (k x, x)) xs)"
  have "map fst ?ps = rev (map k xs)"
    by (simp add: rev_map comp_def)
  then have "distinct (map fst ?ps)"
    using assms by (simp add: unique_by_def)
  then have "map_of ?ps i = Some x \<longleftrightarrow> (i, x) \<in> set ?ps"
    by (rule map_of_eq_Some_iff)
  then show ?thesis
    by (auto simp: dict_by_def)
qed

lemma dict_by_mset:
  assumes "unique_by k xs" "mset xs = mset ys"
  shows "dict_by k ys = dict_by k xs"
proof
  fix i
  have "unique_by k ys"
    using assms unfolding unique_by_def by (metis mset_eq_imp_distinct_iff mset_map)
  moreover have "set xs = set ys"
    using assms(2) by (rule mset_eq_setD)
  ultimately have "dict_by k ys i = Some x \<longleftrightarrow> dict_by k xs i = Some x" for x
    by (simp add: dict_by_unique assms(1))
  then show "dict_by k ys i = dict_by k xs i"
    by (metis option.exhaust)
qed

lemma map_sort_key_mset:
  fixes k :: "'a \<Rightarrow> 'k::linorder"
  assumes "mset (map k xs) = mset (map k ys)"
  shows "map k (sort_key k xs) = map k (sort_key k ys)"
proof -
  have "map k (sort_key k zs) = sort (map k zs)" for zs
    by (rule properties_for_sort [symmetric]) simp_all
  then show ?thesis
    using assms by (metis sorted_list_of_multiset_mset)
qed

lemma sort_key_mset_unique:
  fixes k :: "'a \<Rightarrow> 'k::linorder"
  assumes u: "unique_by k xs" and m: "mset xs = mset ys"
  shows "sort_key k xs = sort_key k ys"
proof -
  have "mset (map k xs) = mset (map k ys)"
    using m by simp
  then have "map k (sort_key k xs) = map k (sort_key k ys)"
    by (rule map_sort_key_mset)
  moreover have "inj_on k (set (sort_key k xs) \<union> set (sort_key k ys))"
    using u mset_eq_setD [OF m] by (simp add: unique_by_def distinct_map)
  ultimately show ?thesis
    by (rule inj_on_map_eq_map [THEN iffD1, rotated])
qed

subsection \<open>Updating a dictionary\<close>

text \<open>\<open>d[k] = v\<close> on a dictionary with keys of one type.\<close>

fun assoc_put :: "'k \<Rightarrow> 'v \<Rightarrow> ('k \<times> 'v) list \<Rightarrow> ('k \<times> 'v) list" where
  "assoc_put k v [] = [(k, v)]"
| "assoc_put k v ((k', v') # d) = (if k = k' then (k, v) # d else (k', v') # assoc_put k v d)"

lemma map_of_assoc_put [simp]: "map_of (assoc_put k v d) = (map_of d)(k \<mapsto> v)"
  by (induction k v d rule: assoc_put.induct) (auto simp: fun_eq_iff)

lemma set_assoc_put_keys [simp]: "fst ` set (assoc_put k v d) = insert k (fst ` set d)"
  by (induction k v d rule: assoc_put.induct) auto

lemma distinct_assoc_put: "distinct (map fst d) \<Longrightarrow> distinct (map fst (assoc_put k v d))"
  by (induction k v d rule: assoc_put.induct) auto

lemma list_all_assoc_put:
  "list_all (\<lambda>(k, v). P k v) d \<Longrightarrow> P k v \<Longrightarrow> list_all (\<lambda>(k, v). P k v) (assoc_put k v d)"
  by (induction k v d rule: assoc_put.induct) auto

end
