(* ===== verification/Py_Value.thy ===== *)
theory Py_Value
  imports L9_Prelude
begin

text \<open>
  The dynamic values that cross the boundary of the SDK: what \<open>json.loads\<close> and
  \<open>yaml.safe_load\<close> return and what the \<open>to_dict\<close> methods build. A \<open>dict\<close> is an association list
  in insertion order. Floating point numbers are left out of the value type: no artifact of the
  SDK carries one, and every \<open>isinstance\<close> test of the source treats a float as it treats any
  other value that is neither an integer nor a string nor a container.

  The theory also holds the built-ins of Python the source applies to such values: \<open>str\<close>,
  \<open>repr\<close>, \<open>int\<close>, \<open>bool\<close>, \<open>dict\<close>, iteration, subscription, \<open>get\<close>, and \<open>date.isoformat\<close>. The
  conversion guard of CPython for decimal strings of more than 4300 digits is not modelled.
\<close>

subsection \<open>Dates\<close>

datatype date = Date (date_year: nat) (date_month: nat) (date_day: nat)

instantiation date :: linorder
begin

definition less_eq_date :: "date \<Rightarrow> date \<Rightarrow> bool" where
  "less_eq_date a b \<longleftrightarrow>
     date_year a < date_year b \<or>
     (date_year a = date_year b \<and>
       (date_month a < date_month b \<or> (date_month a = date_month b \<and> date_day a \<le> date_day b)))"

definition less_date :: "date \<Rightarrow> date \<Rightarrow> bool" where
  "less_date a b \<longleftrightarrow>
     date_year a < date_year b \<or>
     (date_year a = date_year b \<and>
       (date_month a < date_month b \<or> (date_month a = date_month b \<and> date_day a < date_day b)))"

instance
  by intro_classes (auto simp: less_eq_date_def less_date_def intro: date.expand)

end

datatype pyval =
    PNone
  | PBool bool
  | PInt int
  | PStr string
  | PDate date
  | PDateTime date string string \<comment> \<open>a timestamp: its date, its \<open>str\<close> and its \<open>repr\<close>\<close>
  | PList "pyval list"
  | PDict "(pyval \<times> pyval) list"

type_synonym pydict = "(pyval \<times> pyval) list"

subsection \<open>Decimal integers\<close>

definition digit_char :: "nat \<Rightarrow> char" where
  "digit_char n = char_of (48 + n)"

definition digit_value :: "char \<Rightarrow> nat" where
  "digit_value c = of_char c - 48"

fun string_of_nat :: "nat \<Rightarrow> string" where
  "string_of_nat n =
     (if n < 10 then [digit_char n] else string_of_nat (n div 10) @ [digit_char (n mod 10)])"

declare string_of_nat.simps [simp del]

definition string_of_int :: "int \<Rightarrow> string" where
  "string_of_int i = (if i < 0 then CHR ''-'' # string_of_nat (nat (- i)) else string_of_nat (nat i))"

definition nat_of_digits :: "string \<Rightarrow> nat" where
  "nat_of_digits s = foldl (\<lambda>acc c. 10 * acc + digit_value c) 0 s"

text \<open>\<open>int(s)\<close>: white space around, one sign, digits with single underscores between them.\<close>

fun digits_grouped :: "string \<Rightarrow> bool" where
  "digits_grouped [] = False"
| "digits_grouped [c] = is_digit c"
| "digits_grouped (c # d # cs) =
     (is_digit c \<and> (if d = CHR ''_'' then digits_grouped cs else digits_grouped (d # cs)))"

definition py_int_of_string :: "string \<Rightarrow> int option" where
  "py_int_of_string s =
     (let t = py_strip s;
          neg = (t \<noteq> [] \<and> hd t = CHR ''-'');
          body = (if t \<noteq> [] \<and> (hd t = CHR ''-'' \<or> hd t = CHR ''+'') then tl t else t)
      in if digits_grouped body
         then let n = int (nat_of_digits (filter is_digit body)) in Some (if neg then - n else n)
         else None)"

subsection \<open>\<open>str\<close>, \<open>repr\<close>, \<open>bool\<close>, \<open>int\<close>\<close>

definition pad2 :: "nat \<Rightarrow> string" where
  "pad2 n = (if n < 10 then CHR ''0'' # string_of_nat n else string_of_nat n)"

definition pad4 :: "nat \<Rightarrow> string" where
  "pad4 n = replicate (4 - length (string_of_nat n)) CHR ''0'' @ string_of_nat n"

definition isoformat :: "date \<Rightarrow> string" where
  "isoformat d = pad4 (date_year d) @ ''-'' @ pad2 (date_month d) @ ''-'' @ pad2 (date_day d)"

definition hex_digit :: "nat \<Rightarrow> char" where
  "hex_digit n = (if n < 10 then char_of (48 + n) else char_of (87 + n))"

definition repr_char :: "char \<Rightarrow> char \<Rightarrow> string" where
  "repr_char q c =
     (let n = of_char c :: nat
      in if c = q \<or> n = 92 then [CHR 0x5C, c]
         else if n = 10 then [CHR 0x5C, CHR ''n'']
         else if n = 13 then [CHR 0x5C, CHR ''r'']
         else if n = 9 then [CHR 0x5C, CHR ''t'']
         else if n < 32 \<or> (127 \<le> n \<and> n \<le> 160) \<or> n = 173
           then [CHR 0x5C, CHR ''x'', hex_digit (n div 16), hex_digit (n mod 16)]
         else [c])"

definition repr_string :: "string \<Rightarrow> string" where
  "repr_string s =
     (let q = (if CHR 0x27 \<in> set s \<and> CHR 0x22 \<notin> set s then CHR 0x22 else CHR 0x27)
      in [q] @ concat (map (repr_char q) s) @ [q])"

fun py_repr :: "pyval \<Rightarrow> string" where
  "py_repr PNone = ''None''"
| "py_repr (PBool b) = (if b then ''True'' else ''False'')"
| "py_repr (PInt i) = string_of_int i"
| "py_repr (PStr s) = repr_string s"
| "py_repr (PDate d) =
     ''datetime.date('' @ string_of_nat (date_year d) @ '', '' @ string_of_nat (date_month d) @
     '', '' @ string_of_nat (date_day d) @ '')''"
| "py_repr (PDateTime d s r) = r"
| "py_repr (PList xs) = ''['' @ join '', '' (map py_repr xs) @ '']''"
| "py_repr (PDict kvs) =
     ''{'' @ join '', '' (map (\<lambda>(k, v). py_repr k @ '': '' @ py_repr v) kvs) @ ''}''"

fun py_str :: "pyval \<Rightarrow> string" where
  "py_str (PStr s) = s"
| "py_str (PDate d) = isoformat d"
| "py_str (PDateTime d s r) = s"
| "py_str v = py_repr v"

fun py_truthy :: "pyval \<Rightarrow> bool" where
  "py_truthy PNone = False"
| "py_truthy (PBool b) = b"
| "py_truthy (PInt i) = (i \<noteq> 0)"
| "py_truthy (PStr s) = (s \<noteq> [])"
| "py_truthy (PDate _) = True"
| "py_truthy (PDateTime _ _ _) = True"
| "py_truthy (PList xs) = (xs \<noteq> [])"
| "py_truthy (PDict kvs) = (kvs \<noteq> [])"

fun py_type_name :: "pyval \<Rightarrow> string" where
  "py_type_name PNone = ''NoneType''"
| "py_type_name (PBool _) = ''bool''"
| "py_type_name (PInt _) = ''int''"
| "py_type_name (PStr _) = ''str''"
| "py_type_name (PDate _) = ''datetime.date''"
| "py_type_name (PDateTime _ _ _) = ''datetime.datetime''"
| "py_type_name (PList _) = ''list''"
| "py_type_name (PDict _) = ''dict''"

fun py_int :: "pyval \<Rightarrow> int result" where
  "py_int (PInt i) = Inr i"
| "py_int (PBool b) = Inr (if b then 1 else 0)"
| "py_int (PStr s) =
     (case py_int_of_string s of
        Some i \<Rightarrow> Inr i
      | None \<Rightarrow> Inl (ValueError (''invalid literal for int() with base 10: '' @ repr_string s)))"
| "py_int v =
     Inl (TypeError (''int() argument must be a string, a bytes-like object or a real number, not '' @
       repr_string (py_type_name v)))"

subsection \<open>\<open>isinstance\<close>\<close>

fun is_str :: "pyval \<Rightarrow> bool" where
  "is_str (PStr _) = True"
| "is_str _ = False"

fun is_mapping :: "pyval \<Rightarrow> bool" where
  "is_mapping (PDict _) = True"
| "is_mapping _ = False"

fun is_list :: "pyval \<Rightarrow> bool" where
  "is_list (PList _) = True"
| "is_list _ = False"

fun is_bool :: "pyval \<Rightarrow> bool" where
  "is_bool (PBool _) = True"
| "is_bool _ = False"

text \<open>\<open>isinstance(v, int)\<close> holds for booleans too.\<close>

fun as_int :: "pyval \<Rightarrow> int option" where
  "as_int (PInt i) = Some i"
| "as_int (PBool b) = Some (if b then 1 else 0)"
| "as_int _ = None"

text \<open>\<open>isinstance(v, str) and v.strip()\<close>\<close>

fun non_blank_str :: "pyval \<Rightarrow> bool" where
  "non_blank_str (PStr s) = (\<not> blank s)"
| "non_blank_str _ = False"

subsection \<open>Dictionaries\<close>

fun hashable :: "pyval \<Rightarrow> bool" where
  "hashable (PList _) = False"
| "hashable (PDict _) = False"
| "hashable _ = True"

fun key_norm :: "pyval \<Rightarrow> pyval" where
  "key_norm (PBool b) = PInt (if b then 1 else 0)"
| "key_norm v = v"

fun dict_put :: "pyval \<Rightarrow> pyval \<Rightarrow> pydict \<Rightarrow> pydict" where
  "dict_put k v [] = [(k, v)]"
| "dict_put k v ((k', v') # d) =
     (if key_norm k = key_norm k' then (k', v) # d else (k', v') # dict_put k v d)"

definition dget :: "pydict \<Rightarrow> string \<Rightarrow> pyval option" where
  "dget d k = map_of d (PStr k)"

text \<open>\<open>d.get(k)\<close>, \<open>d.get(k, default)\<close> and \<open>d[k]\<close>.\<close>

definition dget_none :: "pydict \<Rightarrow> string \<Rightarrow> pyval" where
  "dget_none d k = (case dget d k of None \<Rightarrow> PNone | Some v \<Rightarrow> v)"

definition dget_default :: "pydict \<Rightarrow> string \<Rightarrow> pyval \<Rightarrow> pyval" where
  "dget_default d k v0 = (case dget d k of None \<Rightarrow> v0 | Some v \<Rightarrow> v)"

definition dsub :: "pydict \<Rightarrow> string \<Rightarrow> pyval result" where
  "dsub d k = (case dget d k of None \<Rightarrow> Inl (KeyError (repr_string k)) | Some v \<Rightarrow> Inr v)"

text \<open>A literal \<open>{"k": v, ...}\<close>, and the optional entries \<open>if v is not None: d[k] = v\<close>.\<close>

definition opt_entry :: "string \<Rightarrow> pyval \<Rightarrow> pydict" where
  "opt_entry k v = (if v = PNone then [] else [(PStr k, v)])"

fun pstr_opt :: "string option \<Rightarrow> pyval" where
  "pstr_opt None = PNone"
| "pstr_opt (Some s) = PStr s"

subsection \<open>Iteration and \<open>dict(...)\<close>\<close>

fun py_iter :: "pyval \<Rightarrow> pyval list result" where
  "py_iter (PList xs) = Inr xs"
| "py_iter (PDict kvs) = Inr (map fst kvs)"
| "py_iter (PStr s) = Inr (map (\<lambda>c. PStr [c]) s)"
| "py_iter v = Inl (TypeError (repr_string (py_type_name v) @ '' object is not iterable''))"

definition dict_item :: "pydict \<Rightarrow> pyval \<Rightarrow> pydict result" where
  "dict_item d item =
     and_then (py_iter item) (\<lambda>kv.
       case kv of
         [k, v] \<Rightarrow> if hashable k then Inr (dict_put k v d)
                   else Inl (TypeError (''unhashable type: '' @ repr_string (py_type_name k)))
       | _ \<Rightarrow> Inl (ValueError ''dictionary update sequence element has the wrong length''))"

fun dict_items :: "pydict \<Rightarrow> pyval list \<Rightarrow> pydict result" where
  "dict_items d [] = Inr d"
| "dict_items d (i # is) = and_then (dict_item d i) (\<lambda>d'. dict_items d' is)"

fun py_dict :: "pyval \<Rightarrow> pydict result" where
  "py_dict (PDict kvs) = Inr kvs"
| "py_dict v = and_then (py_iter v) (dict_items [])"

text \<open>\<open>tuple(str(item) for item in payload.get(key, []))\<close>\<close>

definition str_items :: "pyval \<Rightarrow> string list result" where
  "str_items v = and_then (py_iter v) (\<lambda>xs. Inr (map py_str xs))"

text \<open>
  The tests \<open>if not isinstance(v, Mapping): raise ValueError(msg)\<close>,
  \<open>if not isinstance(v, str) or not v.strip(): ...\<close> and
  \<open>if not isinstance(v, str) or not v: ...\<close>, returning the value read.
\<close>

fun mapping_or :: "string \<Rightarrow> pyval \<Rightarrow> pydict result" where
  "mapping_or msg (PDict d) = Inr d"
| "mapping_or msg _ = Inl (ValueError msg)"

fun str_or :: "string \<Rightarrow> pyval \<Rightarrow> string result" where
  "str_or msg (PStr s) = Inr s"
| "str_or msg _ = Inl (ValueError msg)"

fun non_blank_or :: "string \<Rightarrow> pyval \<Rightarrow> string result" where
  "non_blank_or msg (PStr s) = (if blank s then Inl (ValueError msg) else Inr s)"
| "non_blank_or msg _ = Inl (ValueError msg)"

fun nonempty_or :: "string \<Rightarrow> pyval \<Rightarrow> string result" where
  "nonempty_or msg (PStr s) = (if s = [] then Inl (ValueError msg) else Inr s)"
| "nonempty_or msg _ = Inl (ValueError msg)"

text \<open>\<open>v.get(...)\<close> or \<open>v.items()\<close> on a value that may be no mapping.\<close>

fun mapping_attr :: "string \<Rightarrow> pyval \<Rightarrow> pydict result" where
  "mapping_attr attr (PDict d) = Inr d"
| "mapping_attr attr v =
     Inl (AttributeError (repr_string (py_type_name v) @ '' object has no attribute '' @ repr_string attr))"

text \<open>\<open>len(v)\<close>; a JSON object knows its size as a list of entries.\<close>

fun py_len :: "pyval \<Rightarrow> int result" where
  "py_len (PList xs) = Inr (int (length xs))"
| "py_len (PDict kvs) = Inr (int (length kvs))"
| "py_len (PStr s) = Inr (int (length s))"
| "py_len v = Inl (TypeError (''object of type '' @ repr_string (py_type_name v) @ '' has no len()''))"

text \<open>\<open>d == {...}\<close> for a literal dictionary of integers: order does not count.\<close>

fun equals_int_dict :: "pyval \<Rightarrow> (string \<times> int) list \<Rightarrow> bool" where
  "equals_int_dict (PDict d) es \<longleftrightarrow>
     length d = length es \<and>
     list_all (\<lambda>(k, i). case dget d k of None \<Rightarrow> False | Some v \<Rightarrow> as_int v = Some i) es"
| "equals_int_dict _ es \<longleftrightarrow> False"

text \<open>Two artefacts of a JSON encoder and decoder only: every key is a string, keys differ.\<close>

fun json_keys :: "pyval \<Rightarrow> bool" where
  "json_keys (PList xs) \<longleftrightarrow> list_all json_keys xs"
| "json_keys (PDict kvs) \<longleftrightarrow>
     list_all (\<lambda>(k, v). is_str k \<and> json_keys v) kvs \<and> distinct (map fst kvs)"
| "json_keys _ \<longleftrightarrow> True"

subsection \<open>Shared lemmas\<close>

lemma dget_simps [simp]:
  "dget [] k = None"
  "dget ((PStr k', v) # d) k = (if k = k' then Some v else dget d k)"
  by (simp_all add: dget_def)

lemma mapping_or_Inr [simp]: "mapping_or msg v = Inr d \<longleftrightarrow> v = PDict d"
  by (cases v) auto

lemma str_or_Inr [simp]: "str_or msg v = Inr s \<longleftrightarrow> v = PStr s"
  by (cases v) auto

lemma non_blank_or_Inr [simp]: "non_blank_or msg v = Inr s \<longleftrightarrow> v = PStr s \<and> \<not> blank s"
  by (cases v) auto

lemma nonempty_or_Inr [simp]: "nonempty_or msg v = Inr s \<longleftrightarrow> v = PStr s \<and> s \<noteq> []"
  by (cases v) auto

lemma mapping_attr_Inr [simp]: "mapping_attr a v = Inr d \<longleftrightarrow> v = PDict d"
  by (cases v) auto

lemma dget_append: "dget (d @ d') k = (case dget d k of None \<Rightarrow> dget d' k | Some v \<Rightarrow> Some v)"
  by (simp add: dget_def map_add_def split: option.splits)

lemma dget_opt_entry [simp]:
  "dget (opt_entry k' v) k = (if k = k' \<and> v \<noteq> PNone then Some v else None)"
  by (simp add: opt_entry_def)

lemma dget_opt_entry_append [simp]:
  "dget (opt_entry k' v @ d) k = (if k = k' \<and> v \<noteq> PNone then Some v else dget d k)"
  by (simp add: opt_entry_def)

lemma dget_none_simps [simp]:
  "dget_none [] k = PNone"
  "dget_none ((PStr k', v) # d) k = (if k = k' then v else dget_none d k)"
  by (simp_all add: dget_none_def)

lemma dget_none_opt_entry [simp]:
  "dget d k = None \<Longrightarrow> dget_none (opt_entry k v @ d) k = v"
  "k \<noteq> k' \<Longrightarrow> dget_none (opt_entry k' v @ d) k = dget_none d k"
  "dget_none (opt_entry k v) k = v"
  "k \<noteq> k' \<Longrightarrow> dget_none (opt_entry k' v) k = PNone"
  by (auto simp: dget_none_def)

lemma dsub_simps [simp]:
  "dsub ((PStr k', v) # d) k = (if k = k' then Inr v else dsub d k)"
  "k \<noteq> k' \<Longrightarrow> dsub (opt_entry k' v @ d) k = dsub d k"
  by (simp_all add: dsub_def)

lemma dget_default_simps [simp]:
  "dget_default ((PStr k', v) # d) k v0 = (if k = k' then v else dget_default d k v0)"
  "k \<noteq> k' \<Longrightarrow> dget_default (opt_entry k' v @ d) k v0 = dget_default d k v0"
  by (simp_all add: dget_default_def)

lemma pstr_opt_eq_PNone [simp]: "pstr_opt s = PNone \<longleftrightarrow> s = None"
  by (cases s) auto

lemma str_items_strs [simp]: "str_items (PList (map PStr ss)) = Inr ss"
  by (simp add: str_items_def comp_def)

lemma dict_put_other: "key_norm k \<noteq> key_norm k' \<Longrightarrow> map_of (dict_put k v d) k' = map_of d k'"
  by (induction d) auto

lemma digit_value_char [simp]: "n < 10 \<Longrightarrow> digit_value (digit_char n) = n"
  by (simp add: digit_value_def digit_char_def of_char_of)

lemma is_digit_digit_char [simp]: "n < 10 \<Longrightarrow> is_digit (digit_char n)"
  by (simp add: is_digit_def digit_char_def less_eq_char_def of_char_of)

lemma string_of_nat_digits: "list_all is_digit (string_of_nat n)"
  by (induction n rule: string_of_nat.induct) (subst string_of_nat.simps, simp)

lemma string_of_nat_nonempty [simp]: "string_of_nat n \<noteq> []"
  by (subst string_of_nat.simps) simp

lemma nat_of_digits_snoc: "nat_of_digits (s @ [c]) = 10 * nat_of_digits s + digit_value c"
  by (simp add: nat_of_digits_def)

lemma nat_of_digits_string_of_nat [simp]: "nat_of_digits (string_of_nat n) = n"
proof (induction n rule: string_of_nat.induct)
  case (1 n)
  show ?case
  proof (cases "n < 10")
    case True
    then show ?thesis
      by (subst string_of_nat.simps) (simp add: nat_of_digits_def)
  next
    case False
    with "1.IH" show ?thesis
      by (subst string_of_nat.simps) (simp add: nat_of_digits_snoc)
  qed
qed

lemma is_digit_not_space: "is_digit c \<Longrightarrow> \<not> py_isspace c"
  by (simp add: is_digit_def py_isspace_def less_eq_char_def Let_def)

lemma digits_grouped_digits: "s \<noteq> [] \<Longrightarrow> list_all is_digit s \<Longrightarrow> digits_grouped s"
  by (induction s rule: digits_grouped.induct) (auto simp: is_digit_def)

lemma py_strip_nonspace: "list_all (\<lambda>c. \<not> py_isspace c) s \<Longrightarrow> py_strip s = s"
proof -
  assume a: "list_all (\<lambda>c. \<not> py_isspace c) s"
  have "dropWhile py_isspace t = t" if "list_all (\<lambda>c. \<not> py_isspace c) t" for t
    using that by (cases t) auto
  with a show ?thesis
    by (simp add: py_strip_def py_lstrip_def py_rstrip_def)
qed

lemma strip_digits: "list_all is_digit s \<Longrightarrow> py_strip s = s"
  by (rule py_strip_nonspace) (auto simp: list_all_iff is_digit_not_space)

lemma filter_digits: "list_all is_digit s \<Longrightarrow> filter is_digit s = s"
  by (simp add: list_all_iff)

lemma py_int_string_of_nat [simp]: "py_int_of_string (string_of_nat n) = Some (int n)"
proof -
  have d: "list_all is_digit (string_of_nat n)" by (rule string_of_nat_digits)
  then have h: "is_digit (hd (string_of_nat n))"
    by (cases "string_of_nat n") auto
  then have "hd (string_of_nat n) \<noteq> CHR ''-''" "hd (string_of_nat n) \<noteq> CHR ''+''"
    by (auto simp: is_digit_def)
  with d show ?thesis
    by (simp add: py_int_of_string_def strip_digits digits_grouped_digits filter_digits)
qed

subsection \<open>Sorted keys and sets\<close>

fun the_str :: "pyval \<Rightarrow> string" where
  "the_str (PStr s) = s"
| "the_str _ = []"

text \<open>
  \<open>sorted\<close> on the distinct keys of a dictionary. Strings and numbers have an order of their own, a
  mixture raises; two or more timestamps are not covered.
\<close>

definition sorted_keys :: "pyval list \<Rightarrow> pyval list result" where
  "sorted_keys ks =
     (if length ks \<le> 1 then Inr ks
      else if list_all is_str ks then Inr (map PStr (sort (map the_str ks)))
      else if list_all (\<lambda>k. as_int k \<noteq> None) ks then Inr (sort_key (\<lambda>k. the (as_int k)) ks)
      else Inl (TypeError ''keys of different types are not ordered''))"

lemma sorted_keys_Nil [simp]: "sorted_keys [] = Inr []"
  by (simp add: sorted_keys_def)

lemma sorted_keys_set: "sorted_keys ks = Inr ss \<Longrightarrow> set ss = set ks"
  by (auto simp: sorted_keys_def list_all_iff image_iff split: if_splits) (metis is_str.elims(2) the_str.simps(1))+

text \<open>The elements of \<open>{v, ...}\<close>: the first of equal values stays.\<close>

definition set_of_values :: "pyval list \<Rightarrow> pyval list" where
  "set_of_values vs = rev (fold (\<lambda>v acc. if key_norm v \<in> key_norm ` set acc then acc else v # acc) vs [])"

lemma set_of_values_fold:
  "key_norm ` set (fold (\<lambda>v acc. if key_norm v \<in> key_norm ` set acc then acc else v # acc) vs acc) =
     key_norm ` set vs \<union> key_norm ` set acc"
  "distinct (map key_norm acc) \<Longrightarrow>
     distinct (map key_norm (fold (\<lambda>v acc. if key_norm v \<in> key_norm ` set acc then acc else v # acc) vs acc))"
  by (induction vs arbitrary: acc) auto

lemma set_of_values_set: "key_norm ` set (set_of_values vs) = key_norm ` set vs"
  by (simp add: set_of_values_def set_of_values_fold)

lemma set_of_values_distinct: "distinct (map key_norm (set_of_values vs))"
  by (simp add: set_of_values_def set_of_values_fold rev_map [symmetric])

lemma sorted_keys_distinct:
  assumes "sorted_keys ks = Inr ss" "distinct (map key_norm ks)"
  shows "distinct (map key_norm ss)"
proof -
  have "mset ss = mset ks"
  proof (cases "length ks \<le> 1 \<or> \<not> list_all is_str ks")
    case False
    then have "map PStr (map the_str ks) = ks"
      by (auto simp: list_all_iff intro!: map_idI elim!: is_str.elims(2))
    then have "mset (map PStr (sort (map the_str ks))) = mset ks"
      by (metis mset_map mset_sort)
    with assms(1) False show ?thesis by (auto simp: sorted_keys_def)
  qed (use assms(1) in \<open>auto simp: sorted_keys_def split: if_splits\<close>)
  then have "mset (map key_norm ss) = mset (map key_norm ks)" by simp
  with assms(2) show ?thesis by (metis mset_eq_imp_distinct_iff)
qed

end
