(* ===== verification/Codec.thy ===== *)
theory Codec
  imports Py_Value
begin

text \<open>
  The interface every canonical record of \<open>l9_ci/contracts\<close> offers: \<open>to_dict\<close> and \<open>from_dict\<close>. The
  contract is that decoding inverts encoding on the records the constructor can build. What the
  bundle needs of its parts (lists of records survive the round trip, encodings tell records
  apart) is proved once, in the locale, and reached through its interpretations.
\<close>

text \<open>
  \<open>Cls.from_dict(item)\<close> on an arbitrary \<open>item\<close>: a method that starts with \<open>payload[...]\<close> raises
  \<open>TypeError\<close> on a value that is no mapping, one that starts with \<open>payload.get\<close> raises
  \<open>AttributeError\<close>.
\<close>

fun subscripted :: "(pydict \<Rightarrow> 'a result) \<Rightarrow> pyval \<Rightarrow> 'a result" where
  "subscripted f (PDict d) = f d"
| "subscripted f v = Inl (TypeError (repr_string (py_type_name v) @ '' object is not subscriptable''))"

fun with_get :: "(pydict \<Rightarrow> 'a result) \<Rightarrow> pyval \<Rightarrow> 'a result" where
  "with_get f (PDict d) = f d"
| "with_get f v =
     Inl (AttributeError (repr_string (py_type_name v) @ '' object has no attribute '' @ repr_string ''get''))"

text \<open>\<open>tuple(decode(item) for item in value)\<close> and the encoding of a tuple of records.\<close>

definition decode_items :: "(pyval \<Rightarrow> 'a result) \<Rightarrow> pyval \<Rightarrow> 'a list result" where
  "decode_items f v = and_then (py_iter v) (map_res f)"

definition encode_items :: "('a \<Rightarrow> pydict) \<Rightarrow> 'a list \<Rightarrow> pyval" where
  "encode_items f xs = PList (map (\<lambda>x. PDict (f x)) xs)"

lemma decode_items_PList [simp]: "decode_items f (PList vs) = map_res f vs"
  by (simp add: decode_items_def)

locale codec =
  fixes to_dict :: "'a \<Rightarrow> pydict"
    and from_dict :: "pydict \<Rightarrow> 'a result"
    and wf :: "'a \<Rightarrow> bool"
  assumes decode_encode: "wf x \<Longrightarrow> from_dict (to_dict x) = Inr x"
begin

lemma encode_inj: "wf x \<Longrightarrow> wf y \<Longrightarrow> to_dict x = to_dict y \<Longrightarrow> x = y"
  by (metis decode_encode sum.inject(2))

lemma decode_encode_items:
  assumes "list_all wf xs" and "\<And>d. f (PDict d) = from_dict d"
  shows "decode_items f (encode_items to_dict xs) = Inr xs"
  using assms
  by (induction xs) (simp_all add: encode_items_def decode_encode)

lemma subscripted_items:
  "list_all wf xs \<Longrightarrow> decode_items (subscripted from_dict) (encode_items to_dict xs) = Inr xs"
  by (rule decode_encode_items) simp_all

lemma with_get_items:
  "list_all wf xs \<Longrightarrow> decode_items (with_get from_dict) (encode_items to_dict xs) = Inr xs"
  by (rule decode_encode_items) simp_all

lemma encode_items_inj:
  assumes "list_all wf xs" "list_all wf ys" "encode_items to_dict xs = encode_items to_dict ys"
  shows "xs = ys"
proof -
  have "Inr xs = (Inr ys :: 'a list result)"
    using subscripted_items [OF assms(1)] subscripted_items [OF assms(2)] by (simp only: assms(3))
  then show ?thesis by (rule sum.inject(2) [THEN iffD1])
qed

end

end
