(* ===== verification/Contracts_Source.thy ===== *)
theory Contracts_Source
  imports Codec
begin

text \<open>
  \<open>l9_ci/contracts/source.py\<close>: normalisation of repository-relative paths and the source
  location, with its validation, its \<open>to_dict\<close> and its \<open>from_dict\<close>.

  The four position fields and the two byte offsets are kept as \<^typ>\<open>pyval\<close>: \<open>from_dict\<close> stores
  \<open>payload.get(...)\<close> without a type test, and only the comparison in \<open>__post_init__\<close> constrains
  them. A comparison of a value that is not a number raises \<open>TypeError\<close>.
\<close>

subsection \<open>POSIX paths (\<open>pathlib.PurePosixPath\<close>)\<close>

definition posix_parts :: "string \<Rightarrow> string list" where
  "posix_parts s = filter (\<lambda>p. p \<noteq> [] \<and> p \<noteq> ''.'') (split_on CHR ''/'' s)"

definition posix_absolute :: "string \<Rightarrow> bool" where
  "posix_absolute s \<longleftrightarrow> (case s of [] \<Rightarrow> False | c # _ \<Rightarrow> c = CHR ''/'')"

text \<open>\<open>as_posix()\<close> of a relative path.\<close>

definition relative_as_posix :: "string \<Rightarrow> string" where
  "relative_as_posix s = (if posix_parts s = [] then ''.'' else join ''/'' (posix_parts s))"

definition normalize_repository_path :: "string \<Rightarrow> string result" where
  "normalize_repository_path path =
     (let raw = py_strip (replace_char CHR 0x5C CHR ''/'' path)
      in if raw = [] then Inl (ValueError ''source path must not be empty'')
         else if posix_absolute raw then
           Inl (ValueError ''source path must be repository-relative'')
         else if ''..'' \<in> set (posix_parts raw) then
           Inl (ValueError ''source path must not contain traversal segments'')
         else let normalized = relative_as_posix raw
              in if normalized = [] \<or> normalized = ''.'' then
                   Inl (ValueError ''source path must identify a repository file'')
                 else Inr normalized)"

text \<open>What a normalised path is: relative, made of proper segments only.\<close>

definition safe_segment :: "string \<Rightarrow> bool" where
  "safe_segment p \<longleftrightarrow>
     p \<noteq> [] \<and> p \<noteq> ''.'' \<and> p \<noteq> ''..'' \<and> CHR ''/'' \<notin> set p \<and> CHR 0x5C \<notin> set p"

definition repository_relative :: "string \<Rightarrow> bool" where
  "repository_relative q \<longleftrightarrow> (\<exists>ps. ps \<noteq> [] \<and> list_all safe_segment ps \<and> q = join ''/'' ps)"

lemma posix_parts_join:
  "ps \<noteq> [] \<Longrightarrow> list_all safe_segment ps \<Longrightarrow> posix_parts (join ''/'' ps) = ps"
  by (subst posix_parts_def, subst split_join)
    (auto simp: list_all_iff safe_segment_def filter_id_conv)

lemma repository_relative_code [code]:
  "repository_relative q \<longleftrightarrow>
     (let ps = posix_parts q in ps \<noteq> [] \<and> list_all safe_segment ps \<and> q = join ''/'' ps)"
  by (auto simp: repository_relative_def Let_def posix_parts_join)

lemma join_safe_head:
  assumes "ps \<noteq> []" "list_all safe_segment ps"
  shows "join ''/'' ps \<noteq> [] \<and> hd (join ''/'' ps) \<noteq> CHR ''/''"
proof -
  obtain p qs where ps: "ps = p # qs"
    using assms(1) by (cases ps) auto
  with assms obtain c cs where p: "p = c # cs" and c: "c \<noteq> CHR ''/''"
    by (cases p) (auto simp: safe_segment_def)
  show ?thesis
    using c by (cases qs) (simp_all add: ps p)
qed

lemma join_safe_not_dot:
  assumes "ps \<noteq> []" "list_all safe_segment ps"
  shows "join ''/'' ps \<noteq> ''.''"
proof
  assume "join ''/'' ps = ''.''"
  then have "posix_parts ''.'' = ps"
    using posix_parts_join [OF assms] by simp
  with assms(1) show False
    by (simp add: posix_parts_def)
qed

lemma no_backslash_join:
  assumes "list_all safe_segment ps"
  shows "CHR 0x5C \<notin> set (join ''/'' ps)"
  using assms by (induction ps rule: induct_list012) (auto simp: safe_segment_def)

lemma replace_char_id: "a \<notin> set s \<Longrightarrow> replace_char a b s = s"
  by (induction s) (auto simp: replace_char_def)

lemma replace_char_gone: "a \<noteq> b \<Longrightarrow> a \<notin> set (replace_char a b s)"
  by (auto simp: replace_char_def)

lemma normalize_Inr_parts:
  assumes "normalize_repository_path path = Inr q"
  shows "\<exists>ps. ps \<noteq> [] \<and> list_all safe_segment ps \<and> q = join ''/'' ps \<and>
           ps = posix_parts (py_strip (replace_char CHR 0x5C CHR ''/'' path))"
proof -
  let ?raw = "py_strip (replace_char CHR 0x5C CHR ''/'' path)"
  let ?ps = "posix_parts ?raw"
  have q: "q = relative_as_posix ?raw" and nt: "''..'' \<notin> set ?ps" and nd: "relative_as_posix ?raw \<noteq> ''.''"
    using assms by (auto simp: normalize_repository_path_def Let_def split: if_splits)
  from nd have ne: "?ps \<noteq> []"
    by (simp add: relative_as_posix_def split: if_splits)
  have raw: "CHR 0x5C \<notin> set ?raw"
    using replace_char_gone [of "CHR 0x5C" "CHR ''/''" path] by (auto dest: set_py_strip)
  have "safe_segment p" if p: "p \<in> set ?ps" for p
  proof -
    from p have sp: "p \<in> set (split_on CHR ''/'' ?raw)" and "p \<noteq> []" "p \<noteq> ''.''"
      by (simp_all add: posix_parts_def)
    moreover have "CHR ''/'' \<notin> set p" by (rule split_on_no_sep [OF sp])
    moreover have "CHR 0x5C \<notin> set p" using set_split_on [OF sp] raw by blast
    moreover have "p \<noteq> ''..''" using p nt by blast
    ultimately show ?thesis by (simp add: safe_segment_def)
  qed
  then have "list_all safe_segment ?ps"
    by (simp add: list_all_iff)
  with ne q show ?thesis
    by (intro exI [of _ ?ps]) (simp add: relative_as_posix_def)
qed

lemma normalize_repository_relative:
  "normalize_repository_path path = Inr q \<Longrightarrow> repository_relative q"
  using normalize_Inr_parts [of path q] by (auto simp: repository_relative_def)

lemma normalize_of_relative:
  assumes "repository_relative q"
  shows "normalize_repository_path q =
    (if py_strip q = q then Inr q else normalize_repository_path (py_strip q))"
proof -
  obtain ps where ps: "ps \<noteq> []" "list_all safe_segment ps" "q = join ''/'' ps"
    using assms by (auto simp: repository_relative_def)
  have r: "replace_char CHR 0x5C CHR ''/'' q = q"
    using ps by (simp add: replace_char_id no_backslash_join)
  have rs: "replace_char CHR 0x5C CHR ''/'' (py_strip q) = py_strip q"
    using no_backslash_join [OF ps(2)] set_py_strip ps(3) by (auto intro!: replace_char_id)
  show ?thesis
  proof (cases "py_strip q = q")
    case True
    have "q \<noteq> []" "\<not> posix_absolute q" and pq: "posix_parts q = ps" and "q \<noteq> ''.''"
      using join_safe_head [OF ps(1,2)] join_safe_not_dot [OF ps(1,2)] posix_parts_join [OF ps(1,2)]
      by (auto simp: ps(3) posix_absolute_def split: list.splits)
    moreover have "''..'' \<notin> set (posix_parts q)"
      using ps(2) by (auto simp: pq list_all_iff safe_segment_def)
    moreover have "relative_as_posix q = q"
      using ps(1,3) pq by (simp add: relative_as_posix_def)
    ultimately show ?thesis
      using True by (simp add: normalize_repository_path_def Let_def r)
  next
    case False
    then show ?thesis
      by (simp add: normalize_repository_path_def Let_def r rs)
  qed
qed

lemma normalize_fixed_iff:
  "normalize_repository_path q = Inr q \<longleftrightarrow> repository_relative q \<and> py_strip q = q"
proof
  assume a: "normalize_repository_path q = Inr q"
  then have rel: "repository_relative q"
    by (rule normalize_repository_relative)
  have "py_strip q = q"
  proof (rule ccontr)
    assume ns: "py_strip q \<noteq> q"
    obtain ps where ps: "ps \<noteq> []" "list_all safe_segment ps" "q = join ''/'' ps"
        "ps = posix_parts (py_strip (replace_char CHR 0x5C CHR ''/'' q))"
      using normalize_Inr_parts [OF a] by blast
    have nb: "CHR 0x5C \<notin> set q"
      using no_backslash_join [OF ps(2)] by (simp only: ps(3) not_False_eq_True)
    have r: "ps = posix_parts (py_strip q)"
      using ps(4) by (simp only: replace_char_id [OF nb])
    \<comment> \<open>the segments of \<open>py_strip q\<close> cover no more characters than \<open>py_strip q\<close> itself\<close>
    have len: "length (join ''/'' (filter P (split_on CHR ''/'' s))) \<le> length s" for P s
      using length_join_filter [of "''/''" P "split_on CHR ''/'' s"] by (simp add: join_split)
    have "length q \<le> length (py_strip q)"
      by (subst ps(3), subst r) (simp add: posix_parts_def len)
    moreover have "length (py_strip q) < length q"
      using ns by (rule length_py_strip)
    ultimately show False by simp
  qed
  with rel show "repository_relative q \<and> py_strip q = q" by simp
next
  assume "repository_relative q \<and> py_strip q = q"
  then show "normalize_repository_path q = Inr q"
    by (simp add: normalize_of_relative)
qed

subsection \<open>Source locations\<close>

record source_location =
  sl_path :: string
  sl_start_line :: pyval
  sl_start_column :: pyval
  sl_end_line :: pyval
  sl_end_column :: pyval
  sl_byte_start :: pyval
  sl_byte_end :: pyval

text \<open>\<open>if value is not None and value < bound: raise ValueError(message)\<close>\<close>

definition check_at_least :: "int \<Rightarrow> pyval \<Rightarrow> string \<Rightarrow> unit result" where
  "check_at_least bound v message =
     (if v = PNone then Inr ()
      else case as_int v of
             None \<Rightarrow> Inl (TypeError (''< not supported between instances of '' @ py_type_name v @ '' and int''))
           | Some i \<Rightarrow> if i < bound then Inl (ValueError message) else Inr ())"

definition check_positive :: "string \<Rightarrow> pyval \<Rightarrow> unit result" where
  "check_positive name v = check_at_least 1 v (name @ '' must be positive'')"

definition check_non_negative :: "string \<Rightarrow> pyval \<Rightarrow> unit result" where
  "check_non_negative name v = check_at_least 0 v (name @ '' must be non-negative'')"

text \<open>\<open>if low is not None and high is not None and high < low: raise ValueError(message)\<close>\<close>

definition check_ordered :: "pyval \<Rightarrow> pyval \<Rightarrow> string \<Rightarrow> unit result" where
  "check_ordered low high message =
     (case (as_int low, as_int high) of
        (Some l, Some h) \<Rightarrow> if h < l then Inl (ValueError message) else Inr ()
      | _ \<Rightarrow> Inr ())"

definition source_location_post_init :: "source_location \<Rightarrow> source_location result" where
  "source_location_post_init l =
     and_then (normalize_repository_path (sl_path l)) (\<lambda>path.
     and_then (check_positive ''start_line'' (sl_start_line l)) (\<lambda>_.
     and_then (check_positive ''start_column'' (sl_start_column l)) (\<lambda>_.
     and_then (check_positive ''end_line'' (sl_end_line l)) (\<lambda>_.
     and_then (check_positive ''end_column'' (sl_end_column l)) (\<lambda>_.
     and_then (check_non_negative ''byte_start'' (sl_byte_start l)) (\<lambda>_.
     and_then (check_non_negative ''byte_end'' (sl_byte_end l)) (\<lambda>_.
     and_then (check_ordered (sl_start_line l) (sl_end_line l)
       ''end_line must be greater than or equal to start_line'') (\<lambda>_.
     and_then (check_ordered (sl_byte_start l) (sl_byte_end l)
       ''byte_end must be greater than or equal to byte_start'') (\<lambda>_.
     Inr (l\<lparr>sl_path := path\<rparr>))))))))))"

definition SourceLocation ::
  "string \<Rightarrow> pyval \<Rightarrow> pyval \<Rightarrow> pyval \<Rightarrow> pyval \<Rightarrow> pyval \<Rightarrow> pyval \<Rightarrow> source_location result" where
  "SourceLocation path sline scol eline ecol bstart bend =
     source_location_post_init
       \<lparr>sl_path = path, sl_start_line = sline, sl_start_column = scol, sl_end_line = eline,
        sl_end_column = ecol, sl_byte_start = bstart, sl_byte_end = bend\<rparr>"

definition source_location_to_dict :: "source_location \<Rightarrow> pydict" where
  "source_location_to_dict l =
     [(PStr ''normalized_path'', PStr (sl_path l))] @
     opt_entry ''start_line'' (sl_start_line l) @
     opt_entry ''start_column'' (sl_start_column l) @
     opt_entry ''end_line'' (sl_end_line l) @
     opt_entry ''end_column'' (sl_end_column l) @
     opt_entry ''byte_start'' (sl_byte_start l) @
     opt_entry ''byte_end'' (sl_byte_end l)"

definition source_location_from_dict :: "pydict \<Rightarrow> source_location result" where
  "source_location_from_dict payload =
     and_then (dsub payload ''normalized_path'') (\<lambda>path.
       SourceLocation (py_str path)
         (dget_none payload ''start_line'') (dget_none payload ''start_column'')
         (dget_none payload ''end_line'') (dget_none payload ''end_column'')
         (dget_none payload ''byte_start'') (dget_none payload ''byte_end''))"

text \<open>
  A location the constructor can have built: its path is repository-relative, its positions are
  positive and ordered. It is stable when the path carries no white space at its ends.
\<close>

definition int_at_least :: "int \<Rightarrow> pyval \<Rightarrow> bool" where
  "int_at_least b v \<longleftrightarrow> v = PNone \<or> (case as_int v of None \<Rightarrow> False | Some i \<Rightarrow> b \<le> i)"

definition int_ordered :: "pyval \<Rightarrow> pyval \<Rightarrow> bool" where
  "int_ordered low high \<longleftrightarrow>
     (case (as_int low, as_int high) of (Some l, Some h) \<Rightarrow> l \<le> h | _ \<Rightarrow> True)"

definition valid_location :: "source_location \<Rightarrow> bool" where
  "valid_location l \<longleftrightarrow>
     repository_relative (sl_path l) \<and>
     int_at_least 1 (sl_start_line l) \<and> int_at_least 1 (sl_start_column l) \<and>
     int_at_least 1 (sl_end_line l) \<and> int_at_least 1 (sl_end_column l) \<and>
     int_at_least 0 (sl_byte_start l) \<and> int_at_least 0 (sl_byte_end l) \<and>
     int_ordered (sl_start_line l) (sl_end_line l) \<and> int_ordered (sl_byte_start l) (sl_byte_end l)"

definition stable_location :: "source_location \<Rightarrow> bool" where
  "stable_location l \<longleftrightarrow> valid_location l \<and> py_strip (sl_path l) = sl_path l"

lemma check_at_least_Inr: "check_at_least b v m = Inr u \<longleftrightarrow> int_at_least b v"
  by (auto simp: check_at_least_def int_at_least_def split: option.splits)

lemma check_ordered_Inr: "check_ordered a b m = Inr u \<longleftrightarrow> int_ordered a b"
  by (auto simp: check_ordered_def int_ordered_def split: option.splits)

lemmas location_checks =
  check_positive_def check_non_negative_def check_at_least_Inr check_ordered_Inr

lemma post_init_Inr_iff:
  "source_location_post_init l = Inr l' \<longleftrightarrow>
     (\<exists>path. normalize_repository_path (sl_path l) = Inr path \<and> l' = l\<lparr>sl_path := path\<rparr> \<and>
       int_at_least 1 (sl_start_line l) \<and> int_at_least 1 (sl_start_column l) \<and>
       int_at_least 1 (sl_end_line l) \<and> int_at_least 1 (sl_end_column l) \<and>
       int_at_least 0 (sl_byte_start l) \<and> int_at_least 0 (sl_byte_end l) \<and>
       int_ordered (sl_start_line l) (sl_end_line l) \<and> int_ordered (sl_byte_start l) (sl_byte_end l))"
  by (auto simp: source_location_post_init_def and_then_eq_Inr location_checks)

lemma post_init_valid:
  "source_location_post_init l = Inr l' \<Longrightarrow> valid_location l'"
  by (auto simp: post_init_Inr_iff valid_location_def dest: normalize_repository_relative)

lemma SourceLocation_valid:
  "SourceLocation p a b c d e f = Inr l \<Longrightarrow> valid_location l"
  unfolding SourceLocation_def by (rule post_init_valid)

lemma post_init_stable:
  "stable_location l \<Longrightarrow> source_location_post_init l = Inr l"
  unfolding post_init_Inr_iff
  by (rule exI [of _ "sl_path l"])
    (simp add: stable_location_def valid_location_def normalize_fixed_iff)

lemma source_location_roundtrip:
  "stable_location l \<Longrightarrow> source_location_from_dict (source_location_to_dict l) = Inr l"
proof -
  have "source_location_from_dict (source_location_to_dict l) = source_location_post_init l"
    by (cases l)
      (simp add: source_location_from_dict_def source_location_to_dict_def SourceLocation_def)
  then show "stable_location l \<Longrightarrow> ?thesis"
    by (simp add: post_init_stable)
qed

interpretation location_codec:
  codec source_location_to_dict source_location_from_dict stable_location
  by unfold_locales (rule source_location_roundtrip)

subsection \<open>Property\<close>

text \<open>
  C11: a location never leaves the repository. Every \<open>SourceLocation\<close> that can be constructed has a
  path of at least one segment, joined by single slashes, with no empty, \<open>.\<close> or \<open>..\<close> segment and
  no backslash; its line and column numbers are at least one, its byte offsets are not negative,
  and an end never precedes its start.
\<close>

theorem SourceLocation_safe:
  assumes "SourceLocation path a b c d e f = Inr l"
  shows "repository_relative (sl_path l) \<and>
      int_at_least 1 (sl_start_line l) \<and> int_at_least 1 (sl_start_column l) \<and>
      int_at_least 1 (sl_end_line l) \<and> int_at_least 1 (sl_end_column l) \<and>
      int_at_least 0 (sl_byte_start l) \<and> int_at_least 0 (sl_byte_end l) \<and>
      int_ordered (sl_start_line l) (sl_end_line l) \<and> int_ordered (sl_byte_start l) (sl_byte_end l)"
  using SourceLocation_valid [OF assms] by (simp only: valid_location_def)

theorem SourceLocation_safe_witness:
  "repository_relative ''src/a.py'' \<and> int_ordered (PInt 3) (PInt 4)"
proof -
  have "SourceLocation ''./src//a.py'' (PInt 3) PNone (PInt 4) PNone PNone PNone =
      Inr \<lparr>sl_path = ''src/a.py'', sl_start_line = PInt 3, sl_start_column = PNone,
           sl_end_line = PInt 4, sl_end_column = PNone, sl_byte_start = PNone, sl_byte_end = PNone\<rparr>"
    by code_simp
  from SourceLocation_safe [OF this] show ?thesis
    by simp
qed

text \<open>
  Normalising twice can change a path: the text is stripped before the leading \<open>./\<close> is dropped, so a
  normalized path may begin with a space, which the next reading removes.
\<close>

lemma normalize_not_idempotent:
  "normalize_repository_path ''./ a'' = Inr '' a''" "normalize_repository_path '' a'' = Inr ''a''"
  by code_simp+


end
