(* ===== verification/Contracts_Records.thy ===== *)
theory Contracts_Records
  imports Contracts_Source
begin

text \<open>
  The canonical records of \<open>l9_ci/contracts\<close>: evidence (\<open>evidence.py\<close>), findings (\<open>finding.py\<close>),
  policy classifications (\<open>classification.py\<close>), provider coverage (\<open>coverage.py\<close>) and provider
  failures (\<open>failure.py\<close>). Every record has its constructor check \<open>..._post_init\<close>, its
  \<open>..._to_dict\<close> and its \<open>..._from_dict\<close>, and each is shown to implement the \<open>codec\<close> interface.

  Fields that \<open>from_dict\<close> copies with \<open>payload.get(...)\<close> and no conversion are \<^typ>\<open>pyval\<close>s
  (\<open>None\<close> is \<^const>\<open>PNone\<close>); all other fields have the type of their annotation.
\<close>

subsection \<open>String enumerations\<close>

definition enum_lookup :: "string \<Rightarrow> ('e \<Rightarrow> string) \<Rightarrow> 'e list \<Rightarrow> pyval \<Rightarrow> 'e result" where
  "enum_lookup cls val members v =
     (case find (\<lambda>e. v = PStr (val e)) members of
        Some e \<Rightarrow> Inr e
      | None \<Rightarrow> Inl (ValueError (py_repr v @ '' is not a valid '' @ cls)))"

datatype severity =
  Sev_Critical | Sev_High | Sev_Medium | Sev_Low | Sev_Informational | Sev_Unknown

fun severity_value :: "severity \<Rightarrow> string" where
  "severity_value Sev_Critical = ''critical''"
| "severity_value Sev_High = ''high''"
| "severity_value Sev_Medium = ''medium''"
| "severity_value Sev_Low = ''low''"
| "severity_value Sev_Informational = ''informational''"
| "severity_value Sev_Unknown = ''unknown''"

definition parse_severity :: "pyval \<Rightarrow> severity result" where
  "parse_severity = enum_lookup ''Severity'' severity_value
     [Sev_Critical, Sev_High, Sev_Medium, Sev_Low, Sev_Informational, Sev_Unknown]"

datatype confidence = Conf_High | Conf_Medium | Conf_Low | Conf_Unknown

fun confidence_value :: "confidence \<Rightarrow> string" where
  "confidence_value Conf_High = ''high''"
| "confidence_value Conf_Medium = ''medium''"
| "confidence_value Conf_Low = ''low''"
| "confidence_value Conf_Unknown = ''unknown''"

definition parse_confidence :: "pyval \<Rightarrow> confidence result" where
  "parse_confidence = enum_lookup ''Confidence'' confidence_value
     [Conf_High, Conf_Medium, Conf_Low, Conf_Unknown]"

datatype rule_mode = Blocking | Advisory | Shadow | Disabled | Unresolved_Mode

fun rule_mode_value :: "rule_mode \<Rightarrow> string" where
  "rule_mode_value Blocking = ''blocking''"
| "rule_mode_value Advisory = ''advisory''"
| "rule_mode_value Shadow = ''shadow''"
| "rule_mode_value Disabled = ''disabled''"
| "rule_mode_value Unresolved_Mode = ''unresolved''"

definition parse_rule_mode :: "pyval \<Rightarrow> rule_mode result" where
  "parse_rule_mode = enum_lookup ''RuleMode'' rule_mode_value
     [Blocking, Advisory, Shadow, Disabled, Unresolved_Mode]"

datatype resolution_status = Explicit_Res | Defaulted_Res | Unresolved_Res

fun resolution_status_value :: "resolution_status \<Rightarrow> string" where
  "resolution_status_value Explicit_Res = ''explicit''"
| "resolution_status_value Defaulted_Res = ''defaulted''"
| "resolution_status_value Unresolved_Res = ''unresolved''"

definition parse_resolution_status :: "pyval \<Rightarrow> resolution_status result" where
  "parse_resolution_status = enum_lookup ''ResolutionStatus'' resolution_status_value
     [Explicit_Res, Defaulted_Res, Unresolved_Res]"

datatype coverage_status =
  Cov_Complete | Cov_Partial | Cov_Skipped | Cov_Unsupported | Cov_Failed

fun coverage_status_value :: "coverage_status \<Rightarrow> string" where
  "coverage_status_value Cov_Complete = ''complete''"
| "coverage_status_value Cov_Partial = ''partial''"
| "coverage_status_value Cov_Skipped = ''skipped''"
| "coverage_status_value Cov_Unsupported = ''unsupported''"
| "coverage_status_value Cov_Failed = ''failed''"

definition parse_coverage_status :: "pyval \<Rightarrow> coverage_status result" where
  "parse_coverage_status = enum_lookup ''CoverageStatus'' coverage_status_value
     [Cov_Complete, Cov_Partial, Cov_Skipped, Cov_Unsupported, Cov_Failed]"

datatype failure_type =
    Not_Installed | Unsupported_Version | Configuration_Error | Execution_Error | Timeout
  | Output_Limit_Exceeded | Report_Missing | Report_Malformed | Report_Unsupported
  | Normalization_Error | Internal_Failure

fun failure_type_value :: "failure_type \<Rightarrow> string" where
  "failure_type_value Not_Installed = ''not_installed''"
| "failure_type_value Unsupported_Version = ''unsupported_version''"
| "failure_type_value Configuration_Error = ''configuration_error''"
| "failure_type_value Execution_Error = ''execution_error''"
| "failure_type_value Timeout = ''timeout''"
| "failure_type_value Output_Limit_Exceeded = ''output_limit_exceeded''"
| "failure_type_value Report_Missing = ''report_missing''"
| "failure_type_value Report_Malformed = ''report_malformed''"
| "failure_type_value Report_Unsupported = ''report_unsupported''"
| "failure_type_value Normalization_Error = ''normalization_error''"
| "failure_type_value Internal_Failure = ''internal_error''"

definition parse_failure_type :: "pyval \<Rightarrow> failure_type result" where
  "parse_failure_type = enum_lookup ''ProviderFailureType'' failure_type_value
     [Not_Installed, Unsupported_Version, Configuration_Error, Execution_Error, Timeout,
      Output_Limit_Exceeded, Report_Missing, Report_Malformed, Report_Unsupported,
      Normalization_Error, Internal_Failure]"

lemma parse_severity_value [simp]: "parse_severity (PStr (severity_value s)) = Inr s"
  unfolding parse_severity_def by (cases s) (simp_all add: enum_lookup_def)

lemma parse_confidence_value [simp]: "parse_confidence (PStr (confidence_value c)) = Inr c"
  unfolding parse_confidence_def by (cases c) (simp_all add: enum_lookup_def)

lemma parse_rule_mode_value [simp]: "parse_rule_mode (PStr (rule_mode_value m)) = Inr m"
  unfolding parse_rule_mode_def by (cases m) (simp_all add: enum_lookup_def)

lemma parse_resolution_status_value [simp]:
  "parse_resolution_status (PStr (resolution_status_value r)) = Inr r"
  unfolding parse_resolution_status_def by (cases r) (simp_all add: enum_lookup_def)

lemma parse_coverage_status_value [simp]:
  "parse_coverage_status (PStr (coverage_status_value s)) = Inr s"
  unfolding parse_coverage_status_def by (cases s) (simp_all add: enum_lookup_def)

lemma parse_failure_type_value [simp]: "parse_failure_type (PStr (failure_type_value t)) = Inr t"
  unfolding parse_failure_type_def by (cases t) (simp_all add: enum_lookup_def)

text \<open>\<open>Severity(raw) if raw else None\<close>, and \<open>x.value if x else None\<close>.\<close>

definition parse_if_truthy :: "(pyval \<Rightarrow> 'e result) \<Rightarrow> pyval \<Rightarrow> 'e option result" where
  "parse_if_truthy p v = (if py_truthy v then and_then (p v) (\<lambda>e. Inr (Some e)) else Inr None)"

fun opt_value :: "('e \<Rightarrow> string) \<Rightarrow> 'e option \<Rightarrow> pyval" where
  "opt_value val None = PNone"
| "opt_value val (Some e) = PStr (val e)"

lemma enum_values_nonempty [simp]: "severity_value s \<noteq> []" "confidence_value c \<noteq> []"
  by (cases s; simp) (cases c; simp)

lemma parse_opt_severity [simp]:
  "parse_if_truthy parse_severity (opt_value severity_value s) = Inr s"
  by (cases s) (simp_all add: parse_if_truthy_def)

lemma parse_opt_confidence [simp]:
  "parse_if_truthy parse_confidence (opt_value confidence_value c) = Inr c"
  by (cases c) (simp_all add: parse_if_truthy_def)

subsection \<open>Shared checks\<close>

text \<open>\<open>for name in (...): if not value.strip(): raise ValueError(f"{name} must be ...")\<close>\<close>

fun require_non_blank :: "string \<Rightarrow> (string \<times> string) list \<Rightarrow> unit result" where
  "require_non_blank suffix [] = Inr ()"
| "require_non_blank suffix ((name, value) # fs) =
     (if blank value then Inl (ValueError (name @ suffix)) else require_non_blank suffix fs)"

lemma require_non_blank_Inr [simp]:
  "require_non_blank suffix fs = Inr u \<longleftrightarrow> list_all (\<lambda>(_, v). \<not> blank v) fs"
  by (induction fs) (auto split: if_splits)

abbreviation sub_str :: "pydict \<Rightarrow> string \<Rightarrow> string result" where
  "sub_str payload key \<equiv> and_then (dsub payload key) (\<lambda>v. Inr (py_str v))"

abbreviation sub_bool :: "pydict \<Rightarrow> string \<Rightarrow> bool result" where
  "sub_bool payload key \<equiv> and_then (dsub payload key) (\<lambda>v. Inr (py_truthy v))"

definition decode_locations :: "pyval \<Rightarrow> source_location list result" where
  "decode_locations = decode_items (\<lambda>v. and_then (py_dict v) source_location_from_dict)"

definition encode_locations :: "source_location list \<Rightarrow> pyval" where
  "encode_locations = encode_items source_location_to_dict"

lemma decode_encode_locations [simp]:
  "list_all stable_location ls \<Longrightarrow> decode_locations (encode_locations ls) = Inr ls"
  unfolding decode_locations_def encode_locations_def
  by (rule location_codec.decode_encode_items) simp_all

definition encode_strs :: "string list \<Rightarrow> pyval" where
  "encode_strs ss = PList (map PStr ss)"

lemma str_items_encode_strs [simp]: "str_items (encode_strs ss) = Inr ss"
  by (simp add: encode_strs_def)

lemma encode_neq_None [simp]: "encode_strs ss \<noteq> PNone" "encode_locations ls \<noteq> PNone"
  by (simp_all add: encode_strs_def encode_locations_def encode_items_def)

subsection \<open>Evidence\<close>

record evidence_record =
  ev_evidence_id :: string
  ev_snapshot_id :: string
  ev_provider_id :: string
  ev_provider_rule_id :: string
  ev_evidence_type :: string
  ev_message :: string
  ev_locations :: "source_location list"
  ev_attributes :: pydict
  ev_limitations :: "string list"
  ev_provider_version :: pyval
  ev_canonical_rule_id :: pyval
  ev_severity :: "severity option"
  ev_confidence :: "confidence option"
  ev_provider_fingerprint :: pyval
  ev_identifiers :: pydict

definition evidence_post_init :: "evidence_record \<Rightarrow> evidence_record result" where
  "evidence_post_init e =
     and_then (require_non_blank '' must be a non-empty string''
       [(''evidence_id'', ev_evidence_id e), (''snapshot_id'', ev_snapshot_id e),
        (''provider_id'', ev_provider_id e), (''provider_rule_id'', ev_provider_rule_id e),
        (''evidence_type'', ev_evidence_type e), (''message'', ev_message e)]) (\<lambda>_. Inr e)"

definition evidence_to_dict :: "evidence_record \<Rightarrow> pydict" where
  "evidence_to_dict e =
     [(PStr ''evidence_id'', PStr (ev_evidence_id e)),
      (PStr ''snapshot_id'', PStr (ev_snapshot_id e)),
      (PStr ''provider_id'', PStr (ev_provider_id e)),
      (PStr ''provider_rule_id'', PStr (ev_provider_rule_id e)),
      (PStr ''evidence_type'', PStr (ev_evidence_type e)),
      (PStr ''message'', PStr (ev_message e)),
      (PStr ''locations'', encode_locations (ev_locations e)),
      (PStr ''attributes'', PDict (ev_attributes e)),
      (PStr ''limitations'', encode_strs (ev_limitations e)),
      (PStr ''identifiers'', PDict (ev_identifiers e))] @
     opt_entry ''provider_version'' (ev_provider_version e) @
     opt_entry ''canonical_rule_id'' (ev_canonical_rule_id e) @
     opt_entry ''severity'' (opt_value severity_value (ev_severity e)) @
     opt_entry ''confidence'' (opt_value confidence_value (ev_confidence e)) @
     opt_entry ''provider_fingerprint'' (ev_provider_fingerprint e)"

text \<open>\<open>{str(key): str(value) for key, value in d.items()}\<close>\<close>

definition str_dict :: "pydict \<Rightarrow> pydict" where
  "str_dict d = fold (\<lambda>(k, v). dict_put (PStr (py_str k)) (PStr (py_str v))) d []"

definition evidence_from_dict :: "pydict \<Rightarrow> evidence_record result" where
  "evidence_from_dict payload =
     and_then (sub_str payload ''evidence_id'') (\<lambda>evidence_id.
     and_then (sub_str payload ''snapshot_id'') (\<lambda>snapshot_id.
     and_then (sub_str payload ''provider_id'') (\<lambda>provider_id.
     and_then (sub_str payload ''provider_rule_id'') (\<lambda>provider_rule_id.
     and_then (sub_str payload ''evidence_type'') (\<lambda>evidence_type.
     and_then (sub_str payload ''message'') (\<lambda>message.
     and_then (decode_locations (dget_default payload ''locations'' (PList []))) (\<lambda>locations.
     and_then (py_dict (dget_default payload ''attributes'' (PDict []))) (\<lambda>attributes.
     and_then (str_items (dget_default payload ''limitations'' (PList []))) (\<lambda>limitations.
     and_then (parse_if_truthy parse_severity (dget_none payload ''severity'')) (\<lambda>severity.
     and_then (parse_if_truthy parse_confidence (dget_none payload ''confidence'')) (\<lambda>confidence.
     and_then (py_dict (dget_default payload ''identifiers'' (PDict []))) (\<lambda>identifiers.
     evidence_post_init
       \<lparr>ev_evidence_id = evidence_id, ev_snapshot_id = snapshot_id, ev_provider_id = provider_id,
        ev_provider_rule_id = provider_rule_id, ev_evidence_type = evidence_type,
        ev_message = message, ev_locations = locations, ev_attributes = attributes,
        ev_limitations = limitations, ev_provider_version = dget_none payload ''provider_version'',
        ev_canonical_rule_id = dget_none payload ''canonical_rule_id'', ev_severity = severity,
        ev_confidence = confidence,
        ev_provider_fingerprint = dget_none payload ''provider_fingerprint'',
        ev_identifiers = str_dict identifiers\<rparr>))))))))))))"

definition valid_evidence :: "evidence_record \<Rightarrow> bool" where
  "valid_evidence e \<longleftrightarrow>
     \<not> blank (ev_evidence_id e) \<and> \<not> blank (ev_snapshot_id e) \<and> \<not> blank (ev_provider_id e) \<and>
     \<not> blank (ev_provider_rule_id e) \<and> \<not> blank (ev_evidence_type e) \<and> \<not> blank (ev_message e)"

definition stable_evidence :: "evidence_record \<Rightarrow> bool" where
  "stable_evidence e \<longleftrightarrow>
     valid_evidence e \<and> list_all stable_location (ev_locations e) \<and>
     str_dict (ev_identifiers e) = ev_identifiers e"

lemma evidence_post_init_Inr:
  "evidence_post_init e = Inr e' \<longleftrightarrow> e' = e \<and> valid_evidence e"
  by (auto simp: evidence_post_init_def and_then_eq_Inr valid_evidence_def)

lemma evidence_from_dict_valid: "evidence_from_dict d = Inr e \<Longrightarrow> valid_evidence e"
  by (auto simp: evidence_from_dict_def and_then_eq_Inr evidence_post_init_Inr)

lemma evidence_roundtrip:
  "stable_evidence e \<Longrightarrow> evidence_from_dict (evidence_to_dict e) = Inr e"
  by (cases e)
    (simp add: evidence_from_dict_def evidence_to_dict_def stable_evidence_def evidence_post_init_Inr)

interpretation evidence_codec: codec evidence_to_dict evidence_from_dict stable_evidence
  by unfold_locales (rule evidence_roundtrip)

subsection \<open>Findings\<close>

record finding =
  fn_finding_id :: string
  fn_snapshot_id :: string
  fn_provider_id :: string
  fn_provider_rule_id :: string
  fn_category :: string
  fn_message :: string
  fn_evidence_ids :: "string list"
  fn_locations :: "source_location list"
  fn_fingerprint :: string
  fn_attributes :: pydict
  fn_limitations :: "string list"
  fn_canonical_rule_id :: pyval
  fn_severity :: "severity option"
  fn_confidence :: "confidence option"
  fn_remediation_class :: pyval

definition finding_post_init :: "finding \<Rightarrow> finding result" where
  "finding_post_init f =
     and_then (require_non_blank '' must be a non-empty string''
       [(''finding_id'', fn_finding_id f), (''snapshot_id'', fn_snapshot_id f),
        (''provider_id'', fn_provider_id f), (''provider_rule_id'', fn_provider_rule_id f),
        (''category'', fn_category f), (''message'', fn_message f),
        (''fingerprint'', fn_fingerprint f)]) (\<lambda>_.
     if fn_evidence_ids f = [] then
       Inl (ValueError ''finding must reference at least one evidence record'')
     else if \<not> distinct (fn_evidence_ids f) then
       Inl (ValueError ''finding evidence references must be unique'')
     else Inr f)"

definition finding_to_dict :: "finding \<Rightarrow> pydict" where
  "finding_to_dict f =
     [(PStr ''finding_id'', PStr (fn_finding_id f)),
      (PStr ''snapshot_id'', PStr (fn_snapshot_id f)),
      (PStr ''provider_id'', PStr (fn_provider_id f)),
      (PStr ''provider_rule_id'', PStr (fn_provider_rule_id f)),
      (PStr ''category'', PStr (fn_category f)),
      (PStr ''message'', PStr (fn_message f)),
      (PStr ''evidence_ids'', encode_strs (fn_evidence_ids f)),
      (PStr ''locations'', encode_locations (fn_locations f)),
      (PStr ''fingerprint'', PStr (fn_fingerprint f)),
      (PStr ''attributes'', PDict (fn_attributes f)),
      (PStr ''limitations'', encode_strs (fn_limitations f))] @
     opt_entry ''canonical_rule_id'' (fn_canonical_rule_id f) @
     opt_entry ''severity'' (opt_value severity_value (fn_severity f)) @
     opt_entry ''confidence'' (opt_value confidence_value (fn_confidence f)) @
     opt_entry ''remediation_class'' (fn_remediation_class f)"

definition finding_from_dict :: "pydict \<Rightarrow> finding result" where
  "finding_from_dict payload =
     and_then (sub_str payload ''finding_id'') (\<lambda>finding_id.
     and_then (sub_str payload ''snapshot_id'') (\<lambda>snapshot_id.
     and_then (sub_str payload ''provider_id'') (\<lambda>provider_id.
     and_then (sub_str payload ''provider_rule_id'') (\<lambda>provider_rule_id.
     and_then (sub_str payload ''category'') (\<lambda>category.
     and_then (sub_str payload ''message'') (\<lambda>message.
     and_then (and_then (dsub payload ''evidence_ids'') str_items) (\<lambda>evidence_ids.
     and_then (decode_locations (dget_default payload ''locations'' (PList []))) (\<lambda>locations.
     and_then (sub_str payload ''fingerprint'') (\<lambda>fingerprint.
     and_then (py_dict (dget_default payload ''attributes'' (PDict []))) (\<lambda>attributes.
     and_then (str_items (dget_default payload ''limitations'' (PList []))) (\<lambda>limitations.
     and_then (parse_if_truthy parse_severity (dget_none payload ''severity'')) (\<lambda>severity.
     and_then (parse_if_truthy parse_confidence (dget_none payload ''confidence'')) (\<lambda>confidence.
     finding_post_init
       \<lparr>fn_finding_id = finding_id, fn_snapshot_id = snapshot_id, fn_provider_id = provider_id,
        fn_provider_rule_id = provider_rule_id, fn_category = category, fn_message = message,
        fn_evidence_ids = evidence_ids, fn_locations = locations, fn_fingerprint = fingerprint,
        fn_attributes = attributes, fn_limitations = limitations,
        fn_canonical_rule_id = dget_none payload ''canonical_rule_id'', fn_severity = severity,
        fn_confidence = confidence,
        fn_remediation_class = dget_none payload ''remediation_class''\<rparr>)))))))))))))"

definition valid_finding :: "finding \<Rightarrow> bool" where
  "valid_finding f \<longleftrightarrow>
     \<not> blank (fn_finding_id f) \<and> \<not> blank (fn_snapshot_id f) \<and> \<not> blank (fn_provider_id f) \<and>
     \<not> blank (fn_provider_rule_id f) \<and> \<not> blank (fn_category f) \<and> \<not> blank (fn_message f) \<and>
     \<not> blank (fn_fingerprint f) \<and> fn_evidence_ids f \<noteq> [] \<and> distinct (fn_evidence_ids f)"

definition stable_finding :: "finding \<Rightarrow> bool" where
  "stable_finding f \<longleftrightarrow> valid_finding f \<and> list_all stable_location (fn_locations f)"

lemma finding_post_init_Inr: "finding_post_init f = Inr f' \<longleftrightarrow> f' = f \<and> valid_finding f"
  by (auto simp: finding_post_init_def and_then_eq_Inr valid_finding_def)

lemma finding_from_dict_valid: "finding_from_dict d = Inr f \<Longrightarrow> valid_finding f"
  by (auto simp: finding_from_dict_def and_then_eq_Inr finding_post_init_Inr)

lemma finding_roundtrip: "stable_finding f \<Longrightarrow> finding_from_dict (finding_to_dict f) = Inr f"
  by (cases f)
    (simp add: finding_from_dict_def finding_to_dict_def stable_finding_def finding_post_init_Inr)

interpretation finding_codec: codec finding_to_dict finding_from_dict stable_finding
  by unfold_locales (rule finding_roundtrip)

subsection \<open>Classifications\<close>

record classification =
  fc_finding_id :: string
  fc_mode :: rule_mode
  fc_resolution_status :: resolution_status
  fc_used_default :: bool
  fc_policy_key :: pyval
  fc_policy_version :: pyval
  fc_waiver_id :: pyval

definition classification_post_init :: "classification \<Rightarrow> classification result" where
  "classification_post_init c =
     (if blank (fc_finding_id c) then Inl (ValueError ''finding_id must be non-empty'')
      else if fc_resolution_status c = Explicit_Res \<and> \<not> py_truthy (fc_policy_key c) then
        Inl (ValueError ''explicit classifications require policy_key'')
      else if fc_mode c = Unresolved_Mode \<and> fc_resolution_status c \<noteq> Unresolved_Res then
        Inl (ValueError ''unresolved mode requires unresolved resolution_status'')
      else if fc_resolution_status c = Unresolved_Res \<and> fc_mode c \<noteq> Unresolved_Mode then
        Inl (ValueError ''unresolved resolution_status requires unresolved mode'')
      else Inr c)"

definition classification_to_dict :: "classification \<Rightarrow> pydict" where
  "classification_to_dict c =
     [(PStr ''finding_id'', PStr (fc_finding_id c)),
      (PStr ''mode'', PStr (rule_mode_value (fc_mode c))),
      (PStr ''resolution_status'', PStr (resolution_status_value (fc_resolution_status c))),
      (PStr ''used_default'', PBool (fc_used_default c))] @
     opt_entry ''policy_key'' (fc_policy_key c) @
     opt_entry ''policy_version'' (fc_policy_version c) @
     opt_entry ''waiver_id'' (fc_waiver_id c)"

definition classification_from_dict :: "pydict \<Rightarrow> classification result" where
  "classification_from_dict payload =
     and_then (sub_str payload ''finding_id'') (\<lambda>finding_id.
     and_then (and_then (sub_str payload ''mode'') (\<lambda>s. parse_rule_mode (PStr s))) (\<lambda>mode.
     and_then (and_then (sub_str payload ''resolution_status'')
                 (\<lambda>s. parse_resolution_status (PStr s))) (\<lambda>status.
     and_then (sub_bool payload ''used_default'') (\<lambda>used_default.
     classification_post_init
       \<lparr>fc_finding_id = finding_id, fc_mode = mode, fc_resolution_status = status,
        fc_used_default = used_default, fc_policy_key = dget_none payload ''policy_key'',
        fc_policy_version = dget_none payload ''policy_version'',
        fc_waiver_id = dget_none payload ''waiver_id''\<rparr>))))"

definition valid_classification :: "classification \<Rightarrow> bool" where
  "valid_classification c \<longleftrightarrow>
     \<not> blank (fc_finding_id c) \<and>
     (fc_resolution_status c = Explicit_Res \<longrightarrow> py_truthy (fc_policy_key c)) \<and>
     (fc_mode c = Unresolved_Mode \<longleftrightarrow> fc_resolution_status c = Unresolved_Res)"

lemma classification_post_init_Inr:
  "classification_post_init c = Inr c' \<longleftrightarrow> c' = c \<and> valid_classification c"
  by (auto simp: classification_post_init_def valid_classification_def)

lemma classification_from_dict_valid:
  "classification_from_dict d = Inr c \<Longrightarrow> valid_classification c"
  by (auto simp: classification_from_dict_def and_then_eq_Inr classification_post_init_Inr)

lemma classification_roundtrip:
  "valid_classification c \<Longrightarrow> classification_from_dict (classification_to_dict c) = Inr c"
  by (cases c)
    (simp add: classification_from_dict_def classification_to_dict_def classification_post_init_Inr)

interpretation classification_codec:
  codec classification_to_dict classification_from_dict valid_classification
  by unfold_locales (rule classification_roundtrip)

subsection \<open>Coverage\<close>

record coverage =
  cv_provider_id :: string
  cv_status :: coverage_status
  cv_files_considered :: int
  cv_files_analyzed :: int
  cv_limitations :: "string list"

definition coverage_post_init :: "coverage \<Rightarrow> coverage result" where
  "coverage_post_init c =
     (if blank (cv_provider_id c) then Inl (ValueError ''provider_id must be non-empty'')
      else if cv_files_considered c < 0 then
        Inl (ValueError ''files_considered must be non-negative'')
      else if cv_files_analyzed c < 0 then
        Inl (ValueError ''files_analyzed must be non-negative'')
      else if cv_files_analyzed c > cv_files_considered c then
        Inl (ValueError ''files_analyzed must not exceed files_considered'')
      else Inr c)"

definition coverage_to_dict :: "coverage \<Rightarrow> pydict" where
  "coverage_to_dict c =
     [(PStr ''provider_id'', PStr (cv_provider_id c)),
      (PStr ''status'', PStr (coverage_status_value (cv_status c))),
      (PStr ''files_considered'', PInt (cv_files_considered c)),
      (PStr ''files_analyzed'', PInt (cv_files_analyzed c)),
      (PStr ''limitations'', encode_strs (cv_limitations c))]"

definition coverage_from_dict :: "pydict \<Rightarrow> coverage result" where
  "coverage_from_dict payload =
     and_then (sub_str payload ''provider_id'') (\<lambda>provider_id.
     and_then (and_then (sub_str payload ''status'') (\<lambda>s. parse_coverage_status (PStr s))) (\<lambda>status.
     and_then (and_then (dsub payload ''files_considered'') py_int) (\<lambda>files_considered.
     and_then (and_then (dsub payload ''files_analyzed'') py_int) (\<lambda>files_analyzed.
     and_then (str_items (dget_default payload ''limitations'' (PList []))) (\<lambda>limitations.
     coverage_post_init
       \<lparr>cv_provider_id = provider_id, cv_status = status, cv_files_considered = files_considered,
        cv_files_analyzed = files_analyzed, cv_limitations = limitations\<rparr>)))))"

definition valid_coverage :: "coverage \<Rightarrow> bool" where
  "valid_coverage c \<longleftrightarrow>
     \<not> blank (cv_provider_id c) \<and> 0 \<le> cv_files_analyzed c \<and>
     cv_files_analyzed c \<le> cv_files_considered c"

lemma coverage_post_init_Inr: "coverage_post_init c = Inr c' \<longleftrightarrow> c' = c \<and> valid_coverage c"
  by (auto simp: coverage_post_init_def valid_coverage_def)

lemma coverage_from_dict_valid: "coverage_from_dict d = Inr c \<Longrightarrow> valid_coverage c"
  by (auto simp: coverage_from_dict_def and_then_eq_Inr coverage_post_init_Inr)

lemma coverage_roundtrip: "valid_coverage c \<Longrightarrow> coverage_from_dict (coverage_to_dict c) = Inr c"
  by (cases c) (simp add: coverage_from_dict_def coverage_to_dict_def coverage_post_init_Inr)

interpretation coverage_codec: codec coverage_to_dict coverage_from_dict valid_coverage
  by unfold_locales (rule coverage_roundtrip)

subsection \<open>Provider failures\<close>

record provider_failure =
  pf_provider_id :: string
  pf_failure_type :: failure_type
  pf_message :: string
  pf_required :: bool
  pf_fatal :: bool
  pf_provider_version :: pyval
  pf_report_path :: pyval
  pf_exit_code :: pyval
  pf_diagnostics :: pydict

definition provider_failure_post_init :: "provider_failure \<Rightarrow> provider_failure result" where
  "provider_failure_post_init f =
     (if blank (pf_provider_id f) then Inl (ValueError ''provider_id must be non-empty'')
      else if blank (pf_message f) then Inl (ValueError ''message must be non-empty'')
      else Inr f)"

definition provider_failure_to_dict :: "provider_failure \<Rightarrow> pydict" where
  "provider_failure_to_dict f =
     [(PStr ''provider_id'', PStr (pf_provider_id f)),
      (PStr ''failure_type'', PStr (failure_type_value (pf_failure_type f))),
      (PStr ''message'', PStr (pf_message f)),
      (PStr ''required'', PBool (pf_required f)),
      (PStr ''fatal'', PBool (pf_fatal f)),
      (PStr ''diagnostics'', PDict (pf_diagnostics f))] @
     opt_entry ''provider_version'' (pf_provider_version f) @
     opt_entry ''report_path'' (pf_report_path f) @
     opt_entry ''exit_code'' (pf_exit_code f)"

definition provider_failure_from_dict :: "pydict \<Rightarrow> provider_failure result" where
  "provider_failure_from_dict payload =
     and_then (sub_str payload ''provider_id'') (\<lambda>provider_id.
     and_then (and_then (sub_str payload ''failure_type'') (\<lambda>s. parse_failure_type (PStr s))) (\<lambda>ftype.
     and_then (sub_str payload ''message'') (\<lambda>message.
     and_then (sub_bool payload ''required'') (\<lambda>required.
     and_then (sub_bool payload ''fatal'') (\<lambda>fatal.
     and_then (py_dict (dget_default payload ''diagnostics'' (PDict []))) (\<lambda>diagnostics.
     provider_failure_post_init
       \<lparr>pf_provider_id = provider_id, pf_failure_type = ftype, pf_message = message,
        pf_required = required, pf_fatal = fatal,
        pf_provider_version = dget_none payload ''provider_version'',
        pf_report_path = dget_none payload ''report_path'',
        pf_exit_code = dget_none payload ''exit_code'', pf_diagnostics = diagnostics\<rparr>))))))"

definition valid_provider_failure :: "provider_failure \<Rightarrow> bool" where
  "valid_provider_failure f \<longleftrightarrow> \<not> blank (pf_provider_id f) \<and> \<not> blank (pf_message f)"

lemma provider_failure_post_init_Inr:
  "provider_failure_post_init f = Inr f' \<longleftrightarrow> f' = f \<and> valid_provider_failure f"
  by (auto simp: provider_failure_post_init_def valid_provider_failure_def)

lemma provider_failure_from_dict_valid:
  "provider_failure_from_dict d = Inr f \<Longrightarrow> valid_provider_failure f"
  by (auto simp: provider_failure_from_dict_def and_then_eq_Inr provider_failure_post_init_Inr)

lemma provider_failure_roundtrip:
  "valid_provider_failure f \<Longrightarrow> provider_failure_from_dict (provider_failure_to_dict f) = Inr f"
  by (cases f)
    (simp add: provider_failure_from_dict_def provider_failure_to_dict_def
      provider_failure_post_init_Inr)

interpretation failure_codec:
  codec provider_failure_to_dict provider_failure_from_dict valid_provider_failure
  by unfold_locales (rule provider_failure_roundtrip)

end
