(* ===== verification/Contracts_Bundle.thy ===== *)
theory Contracts_Bundle
  imports Contracts_Records
begin

text \<open>
  \<open>l9_ci/contracts/bundle.py\<close>: the snapshot descriptor, the provider run and the finding bundle,
  the artifact every stage of the SDK hands to the next one. The clock value \<open>generated_at\<close> is a
  field like the others (the default factory reads the clock). The round trip of the bundle is
  assembled from the \<open>codec\<close> facts of its parts.
\<close>

definition FINDING_BUNDLE_PROTOCOL :: string where
  "FINDING_BUNDLE_PROTOCOL = ''l9.finding-bundle/v1''"

definition FINDING_BUNDLE_SCHEMA_VERSION :: string where
  "FINDING_BUNDLE_SCHEMA_VERSION = ''1.0.0''"

subsection \<open>Snapshot descriptor\<close>

record snapshot_descriptor =
  sd_snapshot_id :: string
  sd_repository_root :: string
  sd_revision :: pyval
  sd_dirty :: pyval

definition snapshot_descriptor_post_init :: "snapshot_descriptor \<Rightarrow> snapshot_descriptor result" where
  "snapshot_descriptor_post_init s =
     (if blank (sd_snapshot_id s) then Inl (ValueError ''snapshot_id must be non-empty'')
      else if blank (sd_repository_root s) then
        Inl (ValueError ''repository_root must be non-empty'')
      else Inr s)"

definition snapshot_descriptor_to_dict :: "snapshot_descriptor \<Rightarrow> pydict" where
  "snapshot_descriptor_to_dict s =
     [(PStr ''snapshot_id'', PStr (sd_snapshot_id s)),
      (PStr ''repository_root'', PStr (sd_repository_root s))] @
     opt_entry ''revision'' (sd_revision s) @
     opt_entry ''dirty'' (sd_dirty s)"

definition snapshot_descriptor_from_dict :: "pydict \<Rightarrow> snapshot_descriptor result" where
  "snapshot_descriptor_from_dict payload =
     and_then (sub_str payload ''snapshot_id'') (\<lambda>snapshot_id.
     and_then (sub_str payload ''repository_root'') (\<lambda>repository_root.
     snapshot_descriptor_post_init
       \<lparr>sd_snapshot_id = snapshot_id, sd_repository_root = repository_root,
        sd_revision = dget_none payload ''revision'', sd_dirty = dget_none payload ''dirty''\<rparr>))"

definition valid_snapshot :: "snapshot_descriptor \<Rightarrow> bool" where
  "valid_snapshot s \<longleftrightarrow> \<not> blank (sd_snapshot_id s) \<and> \<not> blank (sd_repository_root s)"

lemma snapshot_post_init_Inr:
  "snapshot_descriptor_post_init s = Inr s' \<longleftrightarrow> s' = s \<and> valid_snapshot s"
  by (auto simp: snapshot_descriptor_post_init_def valid_snapshot_def)

lemma snapshot_from_dict_valid: "snapshot_descriptor_from_dict d = Inr s \<Longrightarrow> valid_snapshot s"
  by (auto simp: snapshot_descriptor_from_dict_def and_then_eq_Inr snapshot_post_init_Inr)

lemma snapshot_roundtrip:
  "valid_snapshot s \<Longrightarrow> snapshot_descriptor_from_dict (snapshot_descriptor_to_dict s) = Inr s"
  by (cases s)
    (simp add: snapshot_descriptor_from_dict_def snapshot_descriptor_to_dict_def
      snapshot_post_init_Inr)

interpretation snapshot_codec:
  codec snapshot_descriptor_to_dict snapshot_descriptor_from_dict valid_snapshot
  by unfold_locales (rule snapshot_roundtrip)

subsection \<open>Provider run\<close>

record provider_run =
  pr_provider_id :: string
  pr_adapter_version :: string
  pr_provider_version :: pyval
  pr_mode :: string
  pr_required :: bool

definition provider_run_post_init :: "provider_run \<Rightarrow> provider_run result" where
  "provider_run_post_init p =
     (if blank (pr_provider_id p) then Inl (ValueError ''provider_id must be non-empty'')
      else if blank (pr_adapter_version p) then
        Inl (ValueError ''adapter_version must be non-empty'')
      else if pr_mode p \<notin> {''execute'', ''import''} then
        Inl (ValueError ''mode must be execute or import'')
      else Inr p)"

definition provider_run_to_dict :: "provider_run \<Rightarrow> pydict" where
  "provider_run_to_dict p =
     [(PStr ''provider_id'', PStr (pr_provider_id p)),
      (PStr ''adapter_version'', PStr (pr_adapter_version p)),
      (PStr ''mode'', PStr (pr_mode p)),
      (PStr ''required'', PBool (pr_required p))] @
     opt_entry ''provider_version'' (pr_provider_version p)"

definition provider_run_from_dict :: "pydict \<Rightarrow> provider_run result" where
  "provider_run_from_dict payload =
     and_then (sub_str payload ''provider_id'') (\<lambda>provider_id.
     and_then (sub_str payload ''adapter_version'') (\<lambda>adapter_version.
     and_then (sub_str payload ''mode'') (\<lambda>mode.
     and_then (sub_bool payload ''required'') (\<lambda>required.
     provider_run_post_init
       \<lparr>pr_provider_id = provider_id, pr_adapter_version = adapter_version,
        pr_provider_version = dget_none payload ''provider_version'', pr_mode = mode,
        pr_required = required\<rparr>))))"

definition valid_provider_run :: "provider_run \<Rightarrow> bool" where
  "valid_provider_run p \<longleftrightarrow>
     \<not> blank (pr_provider_id p) \<and> \<not> blank (pr_adapter_version p) \<and>
     (pr_mode p = ''execute'' \<or> pr_mode p = ''import'')"

lemma provider_run_post_init_Inr:
  "provider_run_post_init p = Inr p' \<longleftrightarrow> p' = p \<and> valid_provider_run p"
  by (auto simp: provider_run_post_init_def valid_provider_run_def)

lemma provider_run_from_dict_valid: "provider_run_from_dict d = Inr p \<Longrightarrow> valid_provider_run p"
  by (auto simp: provider_run_from_dict_def and_then_eq_Inr provider_run_post_init_Inr)

lemma provider_run_roundtrip:
  "valid_provider_run p \<Longrightarrow> provider_run_from_dict (provider_run_to_dict p) = Inr p"
  by (cases p)
    (simp add: provider_run_from_dict_def provider_run_to_dict_def provider_run_post_init_Inr)

interpretation provider_run_codec:
  codec provider_run_to_dict provider_run_from_dict valid_provider_run
  by unfold_locales (rule provider_run_roundtrip)

subsection \<open>The bundle\<close>

record finding_bundle =
  fb_SDK_version :: string
  fb_snapshot :: snapshot_descriptor
  fb_providers :: "provider_run list"
  fb_evidence :: "evidence_record list"
  fb_findings :: "finding list"
  fb_classifications :: "classification list"
  fb_provider_failures :: "provider_failure list"
  fb_coverage :: "coverage list"
  fb_limitations :: "string list"
  fb_generated_at :: string
  fb_schema :: string
  fb_schema_version :: string

definition finding_bundle_post_init :: "finding_bundle \<Rightarrow> finding_bundle result" where
  "finding_bundle_post_init b =
     (if blank (fb_SDK_version b) then Inl (ValueError ''SDK_version must be non-empty'')
      else Inr b)"

definition bundle_summary :: "finding_bundle \<Rightarrow> pydict" where
  "bundle_summary b =
     [(PStr ''provider_count'', PInt (int (length (fb_providers b)))),
      (PStr ''evidence_count'', PInt (int (length (fb_evidence b)))),
      (PStr ''finding_count'', PInt (int (length (fb_findings b)))),
      (PStr ''classification_count'', PInt (int (length (fb_classifications b)))),
      (PStr ''provider_failure_count'', PInt (int (length (fb_provider_failures b)))),
      (PStr ''coverage_count'', PInt (int (length (fb_coverage b))))]"

definition bundle_to_dict :: "finding_bundle \<Rightarrow> pydict" where
  "bundle_to_dict b =
     [(PStr ''schema'', PStr (fb_schema b)),
      (PStr ''schema_version'', PStr (fb_schema_version b)),
      (PStr ''SDK_version'', PStr (fb_SDK_version b)),
      (PStr ''generated_at'', PStr (fb_generated_at b)),
      (PStr ''snapshot'', PDict (snapshot_descriptor_to_dict (fb_snapshot b))),
      (PStr ''providers'', encode_items provider_run_to_dict (fb_providers b)),
      (PStr ''evidence'', encode_items evidence_to_dict (fb_evidence b)),
      (PStr ''findings'', encode_items finding_to_dict (fb_findings b)),
      (PStr ''classifications'', encode_items classification_to_dict (fb_classifications b)),
      (PStr ''provider_failures'',
         encode_items provider_failure_to_dict (fb_provider_failures b)),
      (PStr ''coverage'', encode_items coverage_to_dict (fb_coverage b)),
      (PStr ''limitations'', encode_strs (fb_limitations b)),
      (PStr ''summary'', PDict (bundle_summary b))]"

abbreviation get_items :: "pydict \<Rightarrow> string \<Rightarrow> (pydict \<Rightarrow> 'a result) \<Rightarrow> 'a list result" where
  "get_items payload key f \<equiv>
     decode_items (subscripted f) (dget_default payload key (PList []))"

definition bundle_from_dict :: "pydict \<Rightarrow> finding_bundle result" where
  "bundle_from_dict payload =
     and_then (sub_str payload ''schema'') (\<lambda>schema.
     and_then (sub_str payload ''schema_version'') (\<lambda>schema_version.
     and_then (sub_str payload ''SDK_version'') (\<lambda>SDK_version.
     and_then (sub_str payload ''generated_at'') (\<lambda>generated_at.
     and_then (and_then (dsub payload ''snapshot'')
                 (subscripted snapshot_descriptor_from_dict)) (\<lambda>snapshot.
     and_then (get_items payload ''providers'' provider_run_from_dict) (\<lambda>providers.
     and_then (get_items payload ''evidence'' evidence_from_dict) (\<lambda>evidence.
     and_then (get_items payload ''findings'' finding_from_dict) (\<lambda>findings.
     and_then (get_items payload ''classifications'' classification_from_dict) (\<lambda>classifications.
     and_then (get_items payload ''provider_failures'' provider_failure_from_dict) (\<lambda>failures.
     and_then (get_items payload ''coverage'' coverage_from_dict) (\<lambda>coverage.
     and_then (str_items (dget_default payload ''limitations'' (PList []))) (\<lambda>limitations.
     finding_bundle_post_init
       \<lparr>fb_SDK_version = SDK_version, fb_snapshot = snapshot, fb_providers = providers,
        fb_evidence = evidence, fb_findings = findings, fb_classifications = classifications,
        fb_provider_failures = failures, fb_coverage = coverage, fb_limitations = limitations,
        fb_generated_at = generated_at, fb_schema = schema,
        fb_schema_version = schema_version\<rparr>))))))))))))"

definition valid_bundle :: "finding_bundle \<Rightarrow> bool" where
  "valid_bundle b \<longleftrightarrow>
     \<not> blank (fb_SDK_version b) \<and> valid_snapshot (fb_snapshot b) \<and>
     list_all valid_provider_run (fb_providers b) \<and> list_all valid_evidence (fb_evidence b) \<and>
     list_all valid_finding (fb_findings b) \<and>
     list_all valid_classification (fb_classifications b) \<and>
     list_all valid_provider_failure (fb_provider_failures b) \<and>
     list_all valid_coverage (fb_coverage b)"

definition stable_bundle :: "finding_bundle \<Rightarrow> bool" where
  "stable_bundle b \<longleftrightarrow>
     valid_bundle b \<and> list_all stable_evidence (fb_evidence b) \<and>
     list_all stable_finding (fb_findings b)"

lemma bundle_post_init_Inr:
  "finding_bundle_post_init b = Inr b' \<longleftrightarrow> b' = b \<and> \<not> blank (fb_SDK_version b)"
  by (auto simp: finding_bundle_post_init_def)

lemma subscripted_Inr: "subscripted f v = Inr x \<longleftrightarrow> (\<exists>d. v = PDict d \<and> f d = Inr x)"
  by (cases v) auto

lemma get_items_valid:
  assumes "get_items payload key f = Inr xs" and "\<And>d x. f d = Inr x \<Longrightarrow> P x"
  shows "list_all P xs"
proof -
  obtain vs where "map_res (subscripted f) vs = Inr xs"
    using assms(1) by (auto simp: decode_items_def and_then_eq_Inr)
  then have "list_all2 (\<lambda>v x. subscripted f v = Inr x) vs xs"
    by (simp add: map_res_eq_Inr_iff)
  then show ?thesis
    by (induction rule: list_all2_induct) (auto simp: subscripted_Inr dest: assms(2))
qed

lemma bundle_from_dict_validI:
  assumes "bundle_from_dict d = Inr b"
  shows "valid_bundle b"
  using assms
  by (auto simp: bundle_from_dict_def and_then_eq_Inr bundle_post_init_Inr valid_bundle_def
      subscripted_Inr snapshot_from_dict_valid
      intro: get_items_valid provider_run_from_dict_valid evidence_from_dict_valid
        finding_from_dict_valid classification_from_dict_valid provider_failure_from_dict_valid
        coverage_from_dict_valid)

lemma bundle_roundtripI:
  assumes "stable_bundle b"
  shows "bundle_from_dict (bundle_to_dict b) = Inr b"
  using assms
  by (cases b)
    (simp add: bundle_from_dict_def bundle_to_dict_def stable_bundle_def valid_bundle_def
      bundle_post_init_Inr snapshot_codec.decode_encode provider_run_codec.subscripted_items
      evidence_codec.subscripted_items finding_codec.subscripted_items
      classification_codec.subscripted_items failure_codec.subscripted_items
      coverage_codec.subscripted_items)

interpretation bundle_codec: codec bundle_to_dict bundle_from_dict stable_bundle
  by unfold_locales (rule bundle_roundtripI)

text \<open>Every count of the embedded summary is the length of the list it names.\<close>

lemma bundle_summary_counts [simp]:
  "dget (bundle_summary b) ''provider_count'' = Some (PInt (int (length (fb_providers b))))"
  "dget (bundle_summary b) ''evidence_count'' = Some (PInt (int (length (fb_evidence b))))"
  "dget (bundle_summary b) ''finding_count'' = Some (PInt (int (length (fb_findings b))))"
  "dget (bundle_summary b) ''classification_count'' =
     Some (PInt (int (length (fb_classifications b))))"
  "dget (bundle_summary b) ''provider_failure_count'' =
     Some (PInt (int (length (fb_provider_failures b))))"
  "dget (bundle_summary b) ''coverage_count'' = Some (PInt (int (length (fb_coverage b))))"
  by (simp_all add: bundle_summary_def)

subsection \<open>Properties\<close>

text \<open>
  C1: reading back the dictionary of a bundle gives the bundle. For every bundle whose records
  pass their constructors, whose locations carry paths that are already stripped, and whose
  evidence identifiers are a string dictionary, \<open>FindingBundle.from_dict(bundle.to_dict())\<close>
  returns the bundle itself, with every provider run, evidence record, finding, classification,
  failure and coverage record.
\<close>

theorem bundle_from_dict_to_dict:
  assumes "stable_bundle b"
  shows "bundle_from_dict (bundle_to_dict b) = Inr b"
  using assms by (rule bundle_codec.decode_encode)

definition sample_snapshot :: snapshot_descriptor where
  "sample_snapshot =
     \<lparr>sd_snapshot_id = ''s1'', sd_repository_root = ''/repo'', sd_revision = PNone, sd_dirty = PBool False\<rparr>"

definition sample_run :: "string \<Rightarrow> bool \<Rightarrow> provider_run" where
  "sample_run p required =
     \<lparr>pr_provider_id = p, pr_adapter_version = ''1.0.0'', pr_provider_version = PStr ''1.99.0'',
      pr_mode = ''import'', pr_required = required\<rparr>"

definition sample_location :: source_location where
  "sample_location =
     \<lparr>sl_path = ''src/a.py'', sl_start_line = PInt 3, sl_start_column = PInt 1, sl_end_line = PInt 4,
      sl_end_column = PNone, sl_byte_start = PNone, sl_byte_end = PNone\<rparr>"

definition sample_evidence :: "string \<Rightarrow> evidence_record" where
  "sample_evidence i =
     \<lparr>ev_evidence_id = i, ev_snapshot_id = ''s1'', ev_provider_id = ''semgrep'',
      ev_provider_rule_id = ''r1'', ev_evidence_type = ''static_analysis_match'', ev_message = ''m'',
      ev_locations = [sample_location], ev_attributes = [], ev_limitations = [],
      ev_provider_version = PNone, ev_canonical_rule_id = PStr ''L9-1'', ev_severity = Some Sev_High,
      ev_confidence = None, ev_provider_fingerprint = PNone, ev_identifiers = []\<rparr>"

definition sample_finding :: "string \<Rightarrow> string \<Rightarrow> finding" where
  "sample_finding i rule =
     \<lparr>fn_finding_id = i, fn_snapshot_id = ''s1'', fn_provider_id = ''semgrep'',
      fn_provider_rule_id = rule, fn_category = ''security'', fn_message = ''m'',
      fn_evidence_ids = [''e1''], fn_locations = [sample_location], fn_fingerprint = ''fp'',
      fn_attributes = [], fn_limitations = [], fn_canonical_rule_id = PStr ''L9-1'',
      fn_severity = Some Sev_High, fn_confidence = None, fn_remediation_class = PNone\<rparr>"

definition sample_classification :: "string \<Rightarrow> rule_mode \<Rightarrow> classification" where
  "sample_classification i m =
     \<lparr>fc_finding_id = i, fc_mode = m,
      fc_resolution_status = (if m = Unresolved_Mode then Unresolved_Res else Explicit_Res),
      fc_used_default = False, fc_policy_key = PStr ''k'', fc_policy_version = PStr ''1'',
      fc_waiver_id = PNone\<rparr>"

definition sample_coverage :: "string \<Rightarrow> coverage_status \<Rightarrow> coverage" where
  "sample_coverage p s =
     \<lparr>cv_provider_id = p, cv_status = s, cv_files_considered = 2, cv_files_analyzed = 2,
      cv_limitations = []\<rparr>"

definition sample_bundle :: finding_bundle where
  "sample_bundle =
     \<lparr>fb_SDK_version = ''0.1.0'', fb_snapshot = sample_snapshot,
      fb_providers = [sample_run ''semgrep'' True], fb_evidence = [sample_evidence ''e1''],
      fb_findings = [sample_finding ''f1'' ''r1''],
      fb_classifications = [sample_classification ''f1'' Advisory],
      fb_provider_failures = [], fb_coverage = [sample_coverage ''semgrep'' Cov_Complete],
      fb_limitations = [], fb_generated_at = ''2026-01-01T00:00:00Z'',
      fb_schema = FINDING_BUNDLE_PROTOCOL, fb_schema_version = FINDING_BUNDLE_SCHEMA_VERSION\<rparr>"

lemmas sample_defs =
  sample_bundle_def sample_snapshot_def sample_run_def sample_location_def sample_evidence_def
  sample_finding_def sample_classification_def sample_coverage_def
  FINDING_BUNDLE_PROTOCOL_def FINDING_BUNDLE_SCHEMA_VERSION_def

lemma sample_bundle_stable: "stable_bundle sample_bundle"
  by code_simp

theorem bundle_from_dict_to_dict_witness:
  "stable_bundle sample_bundle \<and> bundle_from_dict (bundle_to_dict sample_bundle) = Inr sample_bundle"
  using bundle_from_dict_to_dict [OF sample_bundle_stable] sample_bundle_stable by blast

text \<open>
  C2: no malformed record gets in. Whatever dictionary \<open>FindingBundle.from_dict\<close> accepts, every
  record of the bundle it returns satisfies the checks of its constructor: identifiers are not
  blank, findings reference distinct evidence, unresolved mode and unresolved status go together,
  coverage counts are ordered.
\<close>

theorem bundle_from_dict_valid:
  assumes "bundle_from_dict d = Inr b"
  shows "valid_bundle b"
  using assms by (rule bundle_from_dict_validI)

theorem bundle_from_dict_valid_witness:
  "bundle_from_dict (bundle_to_dict sample_bundle) = Inr sample_bundle \<and> valid_bundle sample_bundle"
  using bundle_from_dict_valid [OF bundle_roundtripI [OF sample_bundle_stable]]
    bundle_roundtripI [OF sample_bundle_stable] by blast

end
