(* ===== verification/Sha256.thy ===== *)
theory Sha256
  imports Py_Value "HOL-Library.Word"
begin

text \<open>
  \<open>hashlib.sha256(text.encode("utf-8")).hexdigest()\<close>: the encoding of the code points below 256 and
  the hash function on 32-bit words, with its hexadecimal digest. The SDK uses it for the digest
  of a bundle, the fingerprints of findings, the identifiers of snapshots and the digests of
  governance reports.
\<close>

unbundle bit_operations_syntax

definition utf8_char :: "char \<Rightarrow> string" where
  "utf8_char c =
     (let n = of_char c :: nat
      in if n < 128 then [c] else [char_of (192 + n div 64), char_of (128 + n mod 64)])"

definition utf8_encode :: "string \<Rightarrow> string" where
  "utf8_encode s = concat (map utf8_char s)"

definition sha_k :: "32 word list" where
  "sha_k =
    [1116352408, 1899447441, 3049323471, 3921009573, 961987163, 1508970993, 2453635748, 2870763221,
     3624381080, 310598401, 607225278, 1426881987, 1925078388, 2162078206, 2614888103, 3248222580,
     3835390401, 4022224774, 264347078, 604807628, 770255983, 1249150122, 1555081692, 1996064986,
     2554220882, 2821834349, 2952996808, 3210313671, 3336571891, 3584528711, 113926993, 338241895,
     666307205, 773529912, 1294757372, 1396182291, 1695183700, 1986661051, 2177026350, 2456956037,
     2730485921, 2820302411, 3259730800, 3345764771, 3516065817, 3600352804, 4094571909, 275423344,
     430227734, 506948616, 659060556, 883997877, 958139571, 1322822218, 1537002063, 1747873779,
     1955562222, 2024104815, 2227730452, 2361852424, 2428436474, 2756734187, 3204031479, 3329325298]"

definition sha_init :: "32 word list" where
  "sha_init =
    [1779033703, 3144134277, 1013904242, 2773480762, 1359893119, 2600822924, 528734635, 1541459225]"

subsection \<open>Padding and words\<close>

definition byte_of :: "char \<Rightarrow> 32 word" where
  "byte_of c = word_of_nat (of_char c)"

text \<open>The 64-bit big-endian length of the message in bits.\<close>

definition length_bytes :: "nat \<Rightarrow> 32 word list" where
  "length_bytes n = map (\<lambda>i. word_of_nat (8 * n div 256 ^ (7 - i) mod 256)) [0..<8]"

definition sha_pad :: "string \<Rightarrow> 32 word list" where
  "sha_pad s =
     (let n = length s
      in map byte_of s @ [0x80] @ replicate ((119 - n mod 64) mod 64) 0 @ length_bytes n)"

fun words_of :: "32 word list \<Rightarrow> 32 word list" where
  "words_of (a # b # c # d # bs) =
     (push_bit 24 a OR push_bit 16 b OR push_bit 8 c OR d) # words_of bs"
| "words_of _ = []"

subsection \<open>Compression\<close>

definition rotr :: "nat \<Rightarrow> 32 word \<Rightarrow> 32 word" where
  "rotr n x = (drop_bit n x OR push_bit (32 - n) x)"

definition small_sigma0 :: "32 word \<Rightarrow> 32 word" where
  "small_sigma0 x = rotr 7 x XOR rotr 18 x XOR drop_bit 3 x"

definition small_sigma1 :: "32 word \<Rightarrow> 32 word" where
  "small_sigma1 x = rotr 17 x XOR rotr 19 x XOR drop_bit 10 x"

definition big_sigma0 :: "32 word \<Rightarrow> 32 word" where
  "big_sigma0 x = rotr 2 x XOR rotr 13 x XOR rotr 22 x"

definition big_sigma1 :: "32 word \<Rightarrow> 32 word" where
  "big_sigma1 x = rotr 6 x XOR rotr 11 x XOR rotr 25 x"

text \<open>The message schedule: the last sixteen words, newest last, give the next one.\<close>

primrec schedule :: "nat \<Rightarrow> 32 word list \<Rightarrow> 32 word list" where
  "schedule 0 ws = ws"
| "schedule (Suc n) ws =
     (let m = length ws
      in schedule n (ws @ [small_sigma1 (ws ! (m - 2)) + ws ! (m - 7) +
                           small_sigma0 (ws ! (m - 15)) + ws ! (m - 16)]))"

fun sha_round :: "32 word \<times> 32 word \<Rightarrow> 32 word list \<Rightarrow> 32 word list" where
  "sha_round (k, w) [a, b, c, d, e, f, g, h] =
     (let t1 = h + big_sigma1 e + ((e AND f) XOR (NOT e AND g)) + k + w;
          t2 = big_sigma0 a + ((a AND b) XOR (a AND c) XOR (b AND c))
      in [t1 + t2, a, b, c, d + t1, e, f, g])"
| "sha_round _ st = st"

definition sha_block :: "32 word list \<Rightarrow> 32 word list \<Rightarrow> 32 word list" where
  "sha_block st ws = map2 (+) st (fold sha_round (zip sha_k (schedule 48 ws)) st)"

fun sha_blocks :: "nat \<Rightarrow> 32 word list \<Rightarrow> 32 word list \<Rightarrow> 32 word list" where
  "sha_blocks 0 ws st = st"
| "sha_blocks (Suc n) ws st = sha_blocks n (drop 16 ws) (sha_block st (take 16 ws))"

definition word_hex :: "32 word \<Rightarrow> string" where
  "word_hex w = map (\<lambda>i. hex_digit (unat w div 16 ^ (7 - i) mod 16)) [0..<8]"

definition sha256_hexdigest :: "string \<Rightarrow> string" where
  "sha256_hexdigest bytes =
     (let ws = words_of (sha_pad bytes)
      in concat (map word_hex (sha_blocks (length ws div 16) ws sha_init)))"

subsection \<open>The shape of a digest\<close>

lemma length_sha_round [simp]: "length (sha_round kw st) = length st"
  by (induction kw st rule: sha_round.induct) (simp_all add: Let_def)

lemma length_fold_sha_round [simp]: "length (fold sha_round kws st) = length st"
  by (induction kws arbitrary: st) simp_all

lemma length_sha_blocks [simp]: "length (sha_blocks n ws st) = length st"
  by (induction n arbitrary: ws st) (simp_all add: sha_block_def)

lemma length_concat_word_hex: "length (concat (map word_hex ws)) = 8 * length ws"
  by (induction ws) (simp_all add: word_hex_def)

lemma length_sha256: "length (sha256_hexdigest s) = 64"
  by (simp add: sha256_hexdigest_def length_concat_word_hex sha_init_def Let_def)

lemma hex_digit_lower:
  "n < 16 \<Longrightarrow> is_digit (hex_digit n) \<or> (CHR ''a'' \<le> hex_digit n \<and> hex_digit n \<le> CHR ''f'')"
  by (auto simp: hex_digit_def is_digit_def less_eq_char_def of_char_of)

lemma sha256_digits:
  "c \<in> set (sha256_hexdigest s) \<Longrightarrow> is_digit c \<or> (CHR ''a'' \<le> c \<and> c \<le> CHR ''f'')"
proof -
  assume "c \<in> set (sha256_hexdigest s)"
  then obtain n where "c = hex_digit (n mod 16)"
    by (auto simp: sha256_hexdigest_def word_hex_def Let_def)
  then show ?thesis
    using hex_digit_lower [of "n mod 16"] by simp
qed

subsection \<open>The input of the hash\<close>

text \<open>The encoding loses nothing.\<close>

fun utf8_decode :: "string \<Rightarrow> string" where
  "utf8_decode [] = []"
| "utf8_decode [c] = [c]"
| "utf8_decode (c # d # s) =
     (if (of_char c :: nat) < 128 then c # utf8_decode (d # s)
      else char_of (64 * (of_char c - 192) + (of_char d - 128) :: nat) # utf8_decode s)"

lemma utf8_decode_char: "utf8_decode (utf8_char c @ s) = c # utf8_decode s"
proof (cases "(of_char c :: nat) < 128")
  case True
  then show ?thesis
    by (cases s) (simp_all add: utf8_char_def)
next
  case False
  let ?n = "of_char c :: nat"
  have n: "?n < 256" by (rule nat_of_char_less_256)
  have "(of_char (char_of (192 + ?n div 64)) :: nat) = 192 + ?n div 64"
  proof -
    have "?n div 64 < 4" using n by (simp add: div_less_iff_less_mult)
    then have "192 + ?n div 64 < 256" by linarith
    then show ?thesis by (simp add: of_char_of)
  qed
  moreover have "(of_char (char_of (128 + ?n mod 64)) :: nat) = 128 + ?n mod 64"
  proof -
    have "?n mod 64 < 64" by simp
    then have "128 + ?n mod 64 < 256" by linarith
    then show ?thesis by (simp add: of_char_of)
  qed
  ultimately show ?thesis
    using False unfolding utf8_char_def Let_def by simp
qed

lemma utf8_decode_encode: "utf8_decode (utf8_encode s) = s"
  by (induction s) (simp_all add: utf8_encode_def utf8_decode_char)

lemma utf8_encode_inj: "utf8_encode s = utf8_encode t \<longleftrightarrow> s = t"
  by (metis utf8_decode_encode)

end
