(* ===== verification/Serializer.thy ===== *)
theory Serializer
  imports Contracts_Bundle Sha256
begin

text \<open>
  \<open>l9_ci/artifacts/serializer.py\<close>: canonicalisation, the JSON text of a canonical value, the bytes
  of a bundle and the atomic write. \<open>json.dumps\<close> with \<open>sort_keys=True\<close> and
  compact separators is modelled on values whose keys are strings, the only ones it is given
  after \<open>canonicalize\<close>. The file system of \<open>write_bundle_atomic\<close> is a map from paths to contents,
  and the function is a transition system whose every intermediate state is visible, because the
  process may be interrupted, or the machine may stop, between any two of its calls.
\<close>

subsection \<open>Canonical values\<close>

fun canonicalize :: "pyval \<Rightarrow> pyval" where
  "canonicalize (PDict kvs) =
     PDict (fold (\<lambda>(k, v). dict_put (PStr k) v)
              (sort_key fst (map (\<lambda>(k, v). (py_str k, canonicalize v)) kvs)) [])"
| "canonicalize (PList xs) = PList (map canonicalize xs)"
| "canonicalize v = v"

subsection \<open>\<open>json.dumps\<close>\<close>

text \<open>The flag is \<open>ensure_ascii\<close>.\<close>

definition json_escape :: "bool \<Rightarrow> char \<Rightarrow> string" where
  "json_escape ascii c =
     (let n = of_char c :: nat
      in if n = 34 \<or> n = 92 then [CHR 0x5C, c]
         else if n = 10 then [CHR 0x5C, CHR ''n'']
         else if n = 13 then [CHR 0x5C, CHR ''r'']
         else if n = 9 then [CHR 0x5C, CHR ''t'']
         else if n = 8 then [CHR 0x5C, CHR ''b'']
         else if n = 12 then [CHR 0x5C, CHR ''f'']
         else if n < 32 \<or> (ascii \<and> 128 \<le> n) then
           [CHR 0x5C, CHR ''u'', CHR ''0'', CHR ''0'', hex_digit (n div 16), hex_digit (n mod 16)]
         else [c])"

definition json_string :: "bool \<Rightarrow> string \<Rightarrow> string" where
  "json_string ascii s = [CHR 0x22] @ concat (map (json_escape ascii) s) @ [CHR 0x22]"

fun json_key :: "pyval \<Rightarrow> string result" where
  "json_key (PStr s) = Inr s"
| "json_key _ = Inl (TypeError ''keys must be strings'')"

fun json_dumps :: "bool \<Rightarrow> pyval \<Rightarrow> string result" where
  "json_dumps ascii PNone = Inr ''null''"
| "json_dumps ascii (PBool b) = Inr (if b then ''true'' else ''false'')"
| "json_dumps ascii (PInt i) = Inr (string_of_int i)"
| "json_dumps ascii (PStr s) = Inr (json_string ascii s)"
| "json_dumps ascii (PDate d) = Inl (TypeError ''Object of type date is not JSON serializable'')"
| "json_dumps ascii (PDateTime d s r) =
     Inl (TypeError ''Object of type datetime is not JSON serializable'')"
| "json_dumps ascii (PList xs) =
     and_then (map_res (json_dumps ascii) xs) (\<lambda>ss. Inr ([CHR 0x5B] @ join '','' ss @ [CHR 0x5D]))"
| "json_dumps ascii (PDict kvs) =
     and_then (map_res (\<lambda>(k, v). and_then (json_key k) (\<lambda>key.
                 and_then (json_dumps ascii v) (\<lambda>text. Inr (key, text)))) kvs) (\<lambda>entries.
     Inr ([CHR 0x7B] @
       join '','' (map (\<lambda>(k, t). json_string ascii k @ '':'' @ t) (sort_key fst entries)) @
       [CHR 0x7D]))"

definition canonical_json_bytes :: "pyval \<Rightarrow> string result" where
  "canonical_json_bytes value =
     and_then (json_dumps False (canonicalize value)) (\<lambda>text. Inr (utf8_encode (text @ [CHR 0x0A])))"

subsection \<open>The bytes of a bundle\<close>

text \<open>
  The lists of the payload are sorted by their identifying entries. Sorting the dictionaries by
  \<open>item["finding_id"]\<close> is sorting the records by the field that entry holds.
\<close>

definition sort_bundle :: "finding_bundle \<Rightarrow> finding_bundle" where
  "sort_bundle b =
     b\<lparr>fb_providers :=
         sort_key (\<lambda>p. (pr_provider_id p, pr_adapter_version p, pr_mode p)) (fb_providers b),
       fb_evidence := sort_key ev_evidence_id (fb_evidence b),
       fb_findings := sort_key fn_finding_id (fb_findings b),
       fb_classifications := sort_key fc_finding_id (fb_classifications b),
       fb_provider_failures :=
         sort_key (\<lambda>f. (pf_provider_id f, failure_type_value (pf_failure_type f), pf_message f))
           (fb_provider_failures b),
       fb_coverage := sort_key cv_provider_id (fb_coverage b),
       fb_limitations := sort (fb_limitations b)\<rparr>"

definition bundle_bytes :: "finding_bundle \<Rightarrow> string result" where
  "bundle_bytes b = canonical_json_bytes (PDict (bundle_to_dict (sort_bundle b)))"

text \<open>Two bundles that hold the same records, whose identifying entries are unique.\<close>

definition reordered :: "finding_bundle \<Rightarrow> finding_bundle \<Rightarrow> bool" where
  "reordered b b' \<longleftrightarrow>
     (\<exists>ps es fs cs pfs cvs ls.
        b' = b\<lparr>fb_providers := ps, fb_evidence := es, fb_findings := fs, fb_classifications := cs,
               fb_provider_failures := pfs, fb_coverage := cvs, fb_limitations := ls\<rparr> \<and>
        mset ps = mset (fb_providers b) \<and> mset es = mset (fb_evidence b) \<and>
        mset fs = mset (fb_findings b) \<and> mset cs = mset (fb_classifications b) \<and>
        mset pfs = mset (fb_provider_failures b) \<and> mset cvs = mset (fb_coverage b) \<and>
        mset ls = mset (fb_limitations b))"

definition sortable_bundle :: "finding_bundle \<Rightarrow> bool" where
  "sortable_bundle b \<longleftrightarrow>
     unique_by (\<lambda>p. (pr_provider_id p, pr_adapter_version p, pr_mode p)) (fb_providers b) \<and>
     unique_by ev_evidence_id (fb_evidence b) \<and> unique_by fn_finding_id (fb_findings b) \<and>
     unique_by fc_finding_id (fb_classifications b) \<and>
     unique_by (\<lambda>f. (pf_provider_id f, failure_type_value (pf_failure_type f), pf_message f))
       (fb_provider_failures b) \<and>
     unique_by cv_provider_id (fb_coverage b)"

lemma sort_bundle_reordered:
  assumes "sortable_bundle b" "reordered b b'"
  shows "sort_bundle b' = sort_bundle b"
proof -
  obtain ps es fs cs pfs cvs ls where
    b': "b' = b\<lparr>fb_providers := ps, fb_evidence := es, fb_findings := fs, fb_classifications := cs,
               fb_provider_failures := pfs, fb_coverage := cvs, fb_limitations := ls\<rparr>"
    and m: "mset (fb_providers b) = mset ps" "mset (fb_evidence b) = mset es"
      "mset (fb_findings b) = mset fs" "mset (fb_classifications b) = mset cs"
      "mset (fb_provider_failures b) = mset pfs" "mset (fb_coverage b) = mset cvs"
      "mset (fb_limitations b) = mset ls"
    using assms(2) unfolding reordered_def by metis
  note k = assms(1) [unfolded sortable_bundle_def]
  have "sort_key (\<lambda>p. (pr_provider_id p, pr_adapter_version p, pr_mode p)) (fb_providers b) =
      sort_key (\<lambda>p. (pr_provider_id p, pr_adapter_version p, pr_mode p)) ps"
    and "sort_key ev_evidence_id (fb_evidence b) = sort_key ev_evidence_id es"
    and "sort_key fn_finding_id (fb_findings b) = sort_key fn_finding_id fs"
    and "sort_key fc_finding_id (fb_classifications b) = sort_key fc_finding_id cs"
    and "sort_key (\<lambda>f. (pf_provider_id f, failure_type_value (pf_failure_type f), pf_message f))
        (fb_provider_failures b) =
      sort_key (\<lambda>f. (pf_provider_id f, failure_type_value (pf_failure_type f), pf_message f)) pfs"
    and "sort_key cv_provider_id (fb_coverage b) = sort_key cv_provider_id cvs"
    using k m by (blast intro: sort_key_mset_unique)+
  moreover have "sort (fb_limitations b) = sort ls"
    using m(7) by (rule sort_mset_cong)
  ultimately show ?thesis
    by (simp add: sort_bundle_def b')
qed

lemma sort_bundle_idem: "sort_bundle (sort_bundle b) = sort_bundle b"
  by (simp add: sort_bundle_def sort_key_id_if_sorted)

subsection \<open>Canonical JSON text\<close>

text \<open>The values the SDK serialises: string keys, all different, no dates.\<close>

fun json_value :: "pyval \<Rightarrow> bool" where
  "json_value (PList xs) \<longleftrightarrow> list_all json_value xs"
| "json_value (PDict kvs) \<longleftrightarrow>
     list_all (\<lambda>(k, v). is_str k \<and> json_value v) kvs \<and> distinct (map fst kvs)"
| "json_value (PDate _) \<longleftrightarrow> False"
| "json_value (PDateTime _ _ _) \<longleftrightarrow> False"
| "json_value _ \<longleftrightarrow> True"

lemma is_str_eq: "is_str k \<longleftrightarrow> k = PStr (py_str k)"
  by (cases k) auto

lemma fold_dict_put_distinct:
  assumes "distinct (map fst es)" "set (map fst es) \<inter> {k. PStr k \<in> fst ` set d} = {}"
    "\<forall>(k, v) \<in> set d. is_str k"
  shows "fold (\<lambda>(k, v). dict_put (PStr k) v) es d = d @ map (\<lambda>(k, v). (PStr k, v)) es"
  using assms
proof (induction es arbitrary: d)
  case Nil
  then show ?case by simp
next
  case (Cons e es)
  obtain k v where e: "e = (k, v)" by (cases e)
  have new: "dict_put (PStr k) v d' = d' @ [(PStr k, v)]"
    if "PStr k \<notin> fst ` set d'" "\<forall>(k, v) \<in> set d'. is_str k" for d'
    using that
  proof (induction d')
    case Nil
    then show ?case by simp
  next
    case (Cons p d')
    obtain k' v' where p: "p = (k', v')" by (cases p)
    with Cons.prems have "is_str k'" "k' \<noteq> PStr k" by auto
    then have "key_norm (PStr k) \<noteq> key_norm k'"
      by (cases k') auto
    with Cons p show ?case by auto
  qed
  have "dict_put (PStr k) v d = d @ [(PStr k, v)]"
    using Cons.prems by (intro new) (auto simp: e)
  moreover have "fold (\<lambda>(k, v). dict_put (PStr k) v) es (d @ [(PStr k, v)]) =
      (d @ [(PStr k, v)]) @ map (\<lambda>(k, v). (PStr k, v)) es"
    using Cons.prems by (intro Cons.IH) (auto simp: e)
  ultimately show ?case by (simp add: e)
qed

text \<open>The entries of a dictionary with their keys as strings, as \<open>canonicalize\<close> sorts them.\<close>

abbreviation canonical_entries :: "pydict \<Rightarrow> (string \<times> pyval) list" where
  "canonical_entries kvs \<equiv> map (\<lambda>(k, v). (py_str k, canonicalize v)) kvs"

lemma inj_py_str: "list_all (\<lambda>(k, v). is_str k) kvs \<Longrightarrow> inj_on py_str (fst ` set kvs)"
proof (rule inj_onI)
  fix a b
  assume k: "list_all (\<lambda>(k, v). is_str k) kvs"
    and ab: "a \<in> fst ` set kvs" "b \<in> fst ` set kvs" "py_str a = py_str b"
  then have "is_str a" "is_str b"
    by (auto simp: list_all_iff)
  with ab(3) show "a = b"
    by (metis is_str_eq)
qed

lemma unique_canonical_entries:
  assumes "list_all (\<lambda>(k, v). is_str k) kvs" "distinct (map fst kvs)"
  shows "unique_by fst (canonical_entries kvs)"
proof -
  have "map fst (canonical_entries kvs) = map py_str (map fst kvs)"
    by (simp add: case_prod_beta)
  then show ?thesis
    using assms(2) inj_py_str [OF assms(1)] by (simp only: unique_by_def distinct_map set_map)
qed

lemma canonicalize_PDict:
  assumes "list_all (\<lambda>(k, v). is_str k) kvs" "distinct (map fst kvs)"
  shows "canonicalize (PDict kvs) =
    PDict (map (\<lambda>(k, v). (PStr k, v)) (sort_key fst (canonical_entries kvs)))"
proof -
  have "mset (map fst (sort_key fst (canonical_entries kvs))) = mset (map fst (canonical_entries kvs))"
    by (simp only: mset_map mset_sort)
  then have "distinct (map fst (sort_key fst (canonical_entries kvs)))"
    using unique_canonical_entries [OF assms] unfolding unique_by_def
    by (metis mset_eq_imp_distinct_iff)
  then show ?thesis
    by (simp add: fold_dict_put_distinct)
qed

text \<open>
  The same logical value: dictionaries may list their entries in another order, at any depth. The
  order of list elements counts.
\<close>

inductive same_value :: "pyval \<Rightarrow> pyval \<Rightarrow> bool" where
  same_refl: "same_value v v"
| same_order: "mset kvs = mset kvs' \<Longrightarrow> same_value (PDict kvs) (PDict kvs')"
| same_entries:
    "list_all2 (\<lambda>e e'. fst e = fst e' \<and> same_value (snd e) (snd e')) kvs kvs' \<Longrightarrow>
     same_value (PDict kvs) (PDict kvs')"
| same_items: "list_all2 same_value xs xs' \<Longrightarrow> same_value (PList xs) (PList xs')"
| same_trans: "same_value u v \<Longrightarrow> same_value v w \<Longrightarrow> same_value u w"

lemma json_value_PDict:
  "json_value (PDict kvs) \<longleftrightarrow>
     list_all (\<lambda>(k, v). is_str k) kvs \<and> list_all (\<lambda>e. json_value (snd e)) kvs \<and>
     distinct (map fst kvs)"
  by (auto simp: list_all_iff)

lemma list_all2_map_fst: "list_all2 (\<lambda>e e'. fst e = fst e' \<and> P e e') xs ys \<Longrightarrow> map fst xs = map fst ys"
  by (induction rule: list_all2_induct) auto

lemma list_all_fst: "list_all (\<lambda>(k, v). P k) xs \<longleftrightarrow> list_all P (map fst xs)"
  by (induction xs) auto

lemma same_value_canonical:
  "same_value v w \<Longrightarrow> json_value v \<Longrightarrow> json_value w \<and> canonicalize v = canonicalize w"
proof (induction rule: same_value.induct)
  case (same_order kvs kvs')
  note j = same_order.prems [unfolded json_value_PDict]
  have m: "set kvs = set kvs'" "mset (map fst kvs) = mset (map fst kvs')"
    using same_order.hyps by (auto dest: mset_eq_setD)
  then have j': "json_value (PDict kvs')"
    using j unfolding json_value_PDict
    by (simp only: list_all_iff) (metis mset_eq_imp_distinct_iff)
  have "sort_key fst (canonical_entries kvs) = sort_key fst (canonical_entries kvs')"
    using j same_order.hyps by (intro sort_key_mset_unique unique_canonical_entries) simp_all
  then show ?case
    using j j' by (simp add: canonicalize_PDict json_value_PDict del: json_value.simps canonicalize.simps)
next
  case (same_entries kvs kvs')
  note j = same_entries.prems [unfolded json_value_PDict]
  have f: "map fst kvs = map fst kvs'"
    using same_entries.IH by (rule list_all2_map_fst)
  have "list_all (\<lambda>e. json_value (snd e)) kvs' \<and> canonical_entries kvs = canonical_entries kvs'"
    using same_entries.IH conjunct1 [OF conjunct2 [OF j]]
    by (induction rule: list_all2_induct) auto
  then show ?case
    using j f by (simp add: canonicalize_PDict json_value_PDict list_all_fst del: json_value.simps canonicalize.simps)
next
  case (same_items xs xs')
  have "list_all json_value xs' \<and> map canonicalize xs = map canonicalize xs'"
    using same_items.IH same_items.prems [simplified]
    by (induction rule: list_all2_induct) auto
  then show ?case by simp
qed auto

subsection \<open>The atomic write\<close>

text \<open>
  \<open>mkstemp\<close> creates a file of a name not in use beside the destination; the content reaches it in
  pieces; \<open>flush\<close>, \<open>fsync\<close> and the end of the \<open>with\<close> block leave the whole content in it;
  \<open>os.replace\<close> moves it over the destination in one step; the \<open>finally\<close> block unlinks what is left
  of it. Every call may raise, and an interruption may arrive at any point inside the \<open>try\<close>.
\<close>

type_synonym file_system = "string \<Rightarrow> string option"

datatype write_phase = Ready | Temp_Open nat | Synced | Renamed | Unwinding | Returned | Raised

inductive write_step ::
  "string \<Rightarrow> string \<Rightarrow> string \<Rightarrow> write_phase \<times> file_system \<Rightarrow> write_phase \<times> file_system \<Rightarrow> bool"
  for content tmp dest
where
  make_temp:
    "files tmp = None \<Longrightarrow> tmp \<noteq> dest \<Longrightarrow>
     write_step content tmp dest (Ready, files) (Temp_Open 0, files(tmp \<mapsto> []))"
| temp_fails: "write_step content tmp dest (Ready, files) (Raised, files)"
| write_more:
    "n < m \<Longrightarrow> m \<le> length content \<Longrightarrow>
     write_step content tmp dest (Temp_Open n, files) (Temp_Open m, files(tmp \<mapsto> take m content))"
| fsync:
    "write_step content tmp dest (Temp_Open n, files) (Synced, files(tmp \<mapsto> content))"
| replace_dest:
    "write_step content tmp dest (Synced, files) (Renamed, files(dest := files tmp, tmp := None))"
| write_fails: "write_step content tmp dest (Temp_Open n, files) (Unwinding, files)"
| replace_fails: "write_step content tmp dest (Synced, files) (Unwinding, files)"
| interrupted: "write_step content tmp dest (Renamed, files) (Unwinding, files)"
| cleanup: "write_step content tmp dest (Renamed, files) (Returned, files(tmp := None))"
| cleanup_raising: "write_step content tmp dest (Unwinding, files) (Raised, files(tmp := None))"

inductive_simps write_step_simps [simp]:
  "write_step c t d (Ready, F) s"
  "write_step c t d (Temp_Open n, F) s"
  "write_step c t d (Synced, F) s"
  "write_step c t d (Renamed, F) s"
  "write_step c t d (Unwinding, F) s"
  "write_step c t d (Returned, F) s"
  "write_step c t d (Raised, F) s"

text \<open>What holds of the files in each phase, against the files before the call.\<close>

fun write_inv :: "string \<Rightarrow> string \<Rightarrow> string \<Rightarrow> file_system \<Rightarrow> write_phase \<times> file_system \<Rightarrow> bool" where
  "write_inv c t d F0 (Ready, F) \<longleftrightarrow> F = F0"
| "write_inv c t d F0 (Temp_Open n, F) \<longleftrightarrow>
     t \<noteq> d \<and> F0 t = None \<and> n \<le> length c \<and> F = F0(t \<mapsto> take n c)"
| "write_inv c t d F0 (Synced, F) \<longleftrightarrow> t \<noteq> d \<and> F0 t = None \<and> F = F0(t \<mapsto> c)"
| "write_inv c t d F0 (Renamed, F) \<longleftrightarrow> t \<noteq> d \<and> F0 t = None \<and> F = F0(d \<mapsto> c)"
| "write_inv c t d F0 (Unwinding, F) \<longleftrightarrow>
     t \<noteq> d \<and> F0 t = None \<and>
     (F = F0(d \<mapsto> c) \<or> (\<exists>n. n \<le> length c \<and> F = F0(t \<mapsto> take n c)))"
| "write_inv c t d F0 (Returned, F) \<longleftrightarrow> F = F0(d \<mapsto> c)"
| "write_inv c t d F0 (Raised, F) \<longleftrightarrow> F = F0 \<or> F = F0(d \<mapsto> c)"

lemma temp_gone: "F0 t = None \<Longrightarrow> F0(t := None) = F0"
  by (auto simp: fun_eq_iff)

lemma write_inv_step:
  "write_step c t d s s' \<Longrightarrow> write_inv c t d F0 s \<Longrightarrow> write_inv c t d F0 s'"
  by (induction s s' rule: write_step.induct)
    (auto simp: temp_gone fun_upd_twist intro: exI [of _ "length c"])

lemma write_inv_reachable:
  assumes "(write_step c t d)\<^sup>*\<^sup>* (Ready, F0) s"
  shows "write_inv c t d F0 s"
  using assms by (induction rule: rtranclp_induct) (auto intro: write_inv_step)

lemma write_inv_dest:
  "write_inv c t d F0 (p, F) \<Longrightarrow> F d = F0 d \<or> F d = Some c"
  by (cases p) auto

lemma write_inv_others:
  "write_inv c t d F0 (p, F) \<Longrightarrow> x \<noteq> d \<Longrightarrow> x \<noteq> t \<Longrightarrow> F x = F0 x"
  by (cases p) auto

text \<open>Every step lowers a measure, and only the two final phases have no step.\<close>

fun write_measure :: "string \<Rightarrow> write_phase \<Rightarrow> nat" where
  "write_measure c Ready = length c + 5"
| "write_measure c (Temp_Open n) = length c - n + 4"
| "write_measure c Synced = 3"
| "write_measure c Renamed = 2"
| "write_measure c Unwinding = 1"
| "write_measure c _ = 0"

lemma write_measure_step:
  "write_step c t d s s' \<Longrightarrow> write_measure c (fst s') < write_measure c (fst s)"
  by (induction s s' rule: write_step.induct) auto

lemma write_measure_steps:
  "(write_step c t d ^^ n) s s' \<Longrightarrow> n + write_measure c (fst s') \<le> write_measure c (fst s)"
proof (induction n arbitrary: s')
  case (Suc n)
  then obtain s1 where "(write_step c t d ^^ n) s s1" "write_step c t d s1 s'"
    by auto
  then show ?case
    using Suc.IH [of s1] write_measure_step [of c t d s1 s'] by simp
qed simp

lemma write_progress:
  "phase \<noteq> Returned \<Longrightarrow> phase \<noteq> Raised \<Longrightarrow> \<exists>s'. write_step c t d (phase, files) s'"
  by (cases phase)
    (blast intro: temp_fails write_fails replace_fails cleanup cleanup_raising)+

subsection \<open>Properties\<close>

text \<open>
  The bytes of a bundle do not depend on the order of its records. Two bundles that hold the
  same provider runs, evidence, findings, classifications, failures, coverage records and
  limitations in any order serialise to the same bytes (or fail alike), provided the records are
  distinguished by the keys \<open>bundle_bytes\<close> sorts on.
\<close>

theorem bundle_bytes_order_independent:
  assumes "sortable_bundle b" and "reordered b b'"
  shows "bundle_bytes b' = bundle_bytes b"
  using sort_bundle_reordered [OF assms] by (simp add: bundle_bytes_def)

definition two_finding_bundle :: finding_bundle where
  "two_finding_bundle =
     sample_bundle\<lparr>fb_findings := [sample_finding ''f1'' ''r1'', sample_finding ''f2'' ''r1'']\<rparr>"

theorem bundle_bytes_order_independent_witness:
  "two_finding_bundle\<lparr>fb_findings := rev (fb_findings two_finding_bundle)\<rparr> \<noteq> two_finding_bundle \<and>
   bundle_bytes (two_finding_bundle\<lparr>fb_findings := rev (fb_findings two_finding_bundle)\<rparr>) =
     bundle_bytes two_finding_bundle"
proof -
  have s: "sortable_bundle two_finding_bundle"
    by code_simp
  have "reordered two_finding_bundle (two_finding_bundle\<lparr>fb_findings := rev (fb_findings two_finding_bundle)\<rparr>)"
    unfolding reordered_def
    by (intro exI conjI) (auto simp: two_finding_bundle_def sample_bundle_def)
  then show ?thesis
    using bundle_bytes_order_independent [OF s]
    by (simp add: two_finding_bundle_def sample_finding_def sample_bundle_def)
qed

text \<open>
  Equal JSON values have equal canonical bytes. Two JSON values that differ only in the order
  of dictionary entries, at any depth, are serialised to the same canonical bytes.
\<close>

theorem canonical_json_bytes_same_value:
  assumes "same_value v w" and "json_value v"
  shows "canonical_json_bytes v = canonical_json_bytes w"
  using same_value_canonical [OF assms] by (simp add: canonical_json_bytes_def)

theorem canonical_json_bytes_same_value_witness:
  "canonical_json_bytes (PDict [(PStr ''b'', PInt 1), (PStr ''a'', PNone)]) =
   canonical_json_bytes (PDict [(PStr ''a'', PNone), (PStr ''b'', PInt 1)])"
proof -
  have "same_value (PDict [(PStr ''b'', PInt 1), (PStr ''a'', PNone)])
      (PDict [(PStr ''a'', PNone), (PStr ''b'', PInt 1)])"
    by (rule same_order) simp
  then show ?thesis
    by (rule canonical_json_bytes_same_value) simp
qed





end
