(* ===== verification/Command_Line.thy ===== *)
theory Command_Line
  imports Serializer
begin

text \<open>
  \<open>l9_ci/cli\<close> (exit codes, output formats, diagnostics) and \<open>l9_ci/commands/errors.py\<close>, the mapping
  from an exception of a handler to its diagnostic code and exit code. A handler returns an
  \<open>outcome\<close>: the exit code, what it printed and the files it wrote. An exception that leaves a
  handler is the left value of its result.
\<close>

subsection \<open>Exit codes and formats\<close>

datatype exit_code =
    SUCCESS
  | GATE_FAILURE
  | INVALID_ARGUMENTS
  | PROVIDER_EXECUTION_FAILURE
  | PROVIDER_REPORT_FAILURE
  | ARTIFACT_VALIDATION_FAILURE
  | UNRESOLVED_STRICT_CONTRACT
  | INTERNAL_ERROR
  | INCOMPATIBLE_VERSION
  | OPERATIONAL_LIMIT_EXCEEDED

fun exit_value :: "exit_code \<Rightarrow> int" where
  "exit_value SUCCESS = 0"
| "exit_value GATE_FAILURE = 1"
| "exit_value INVALID_ARGUMENTS = 2"
| "exit_value PROVIDER_EXECUTION_FAILURE = 3"
| "exit_value PROVIDER_REPORT_FAILURE = 4"
| "exit_value ARTIFACT_VALIDATION_FAILURE = 5"
| "exit_value UNRESOLVED_STRICT_CONTRACT = 6"
| "exit_value INTERNAL_ERROR = 7"
| "exit_value INCOMPATIBLE_VERSION = 8"
| "exit_value OPERATIONAL_LIMIT_EXCEEDED = 9"

text \<open>\<open>default.name.lower()\<close>\<close>

fun exit_name :: "exit_code \<Rightarrow> string" where
  "exit_name SUCCESS = ''success''"
| "exit_name GATE_FAILURE = ''gate_failure''"
| "exit_name INVALID_ARGUMENTS = ''invalid_arguments''"
| "exit_name PROVIDER_EXECUTION_FAILURE = ''provider_execution_failure''"
| "exit_name PROVIDER_REPORT_FAILURE = ''provider_report_failure''"
| "exit_name ARTIFACT_VALIDATION_FAILURE = ''artifact_validation_failure''"
| "exit_name UNRESOLVED_STRICT_CONTRACT = ''unresolved_strict_contract''"
| "exit_name INTERNAL_ERROR = ''internal_error''"
| "exit_name INCOMPATIBLE_VERSION = ''incompatible_version''"
| "exit_name OPERATIONAL_LIMIT_EXCEEDED = ''operational_limit_exceeded''"

lemma exit_value_inj: "exit_value a = exit_value b \<longleftrightarrow> a = b"
  by (cases a; cases b) simp_all

datatype output_format = Text_Format | Json_Format

text \<open>\<open>OutputFormat(args.format)\<close>; the argument parser admits the two texts only.\<close>

definition output_format_of :: "string \<Rightarrow> output_format result" where
  "output_format_of s =
     (if s = ''text'' then Inr Text_Format
      else if s = ''json'' then Inr Json_Format
      else Inl (ValueError (repr_string s @ '' is not a valid OutputFormat'')))"

record cli_diagnostic =
  cd_code :: string
  cd_message :: string
  cd_details :: pydict

definition cli_render :: "cli_diagnostic \<Rightarrow> output_format \<Rightarrow> string result" where
  "cli_render d format =
     (case format of
        Json_Format \<Rightarrow>
          json_dumps True (PDict [(PStr ''ok'', PBool False),
            (PStr ''error'', PDict [(PStr ''code'', PStr (cd_code d)), (PStr ''message'', PStr (cd_message d)),
               (PStr ''details'', PDict (cd_details d))])])
      | Text_Format \<Rightarrow> Inr (''error['' @ cd_code d @ '']: '' @ cd_message d))"

definition render_success :: "pydict \<Rightarrow> output_format \<Rightarrow> string result" where
  "render_success payload format =
     (case format of
        Json_Format \<Rightarrow> json_dumps True (PDict [(PStr ''ok'', PBool True), (PStr ''result'', PDict payload)])
      | Text_Format \<Rightarrow>
          Inr (join [CHR 0x0A] (map (\<lambda>(k, v). py_str k @ ''='' @ py_str v)
            (sort_key (\<lambda>e. py_str (fst e)) payload))))"

subsection \<open>Exceptions\<close>

definition classify_exception :: "pyexc \<Rightarrow> exit_code \<Rightarrow> string \<times> exit_code" where
  "classify_exception exc d =
     (case exc of
        UnsupportedProviderVersionError _ \<Rightarrow> (''incompatible_version'', INCOMPATIBLE_VERSION)
      | FileNotFoundError _ \<Rightarrow> (exit_name d, d)
      | _ \<Rightarrow>
          if is_value_error exc then
            let message = exc_message exc
            in if contains ''strict'' message \<or> contains ''unresolved'' message then
                 (''unresolved_strict_contract'', UNRESOLVED_STRICT_CONTRACT)
               else if contains ''schema'' message \<or> contains ''validation'' message then
                 (''artifact_validation'', ARTIFACT_VALIDATION_FAILURE)
               else (exit_name d, d)
          else (''internal_error'', INTERNAL_ERROR))"

record outcome =
  oc_exit :: exit_code
  oc_stdout :: "string list"
  oc_stderr :: "string list"
  oc_files :: "(string \<times> string) list"

definition printed :: "exit_code \<Rightarrow> string list \<Rightarrow> outcome" where
  "printed code lines = \<lparr>oc_exit = code, oc_stdout = lines, oc_stderr = [], oc_files = []\<rparr>"

definition complained :: "exit_code \<Rightarrow> string list \<Rightarrow> outcome" where
  "complained code lines = \<lparr>oc_exit = code, oc_stdout = [], oc_stderr = lines, oc_files = []\<rparr>"

definition emit_error :: "pyexc \<Rightarrow> output_format \<Rightarrow> exit_code \<Rightarrow> outcome result" where
  "emit_error exc format d =
     (case classify_exception exc d of
        (code, exit) \<Rightarrow>
          and_then (cli_render \<lparr>cd_code = code, cd_message = exc_message exc, cd_details = []\<rparr> format) (\<lambda>line.
          Inr (complained exit [line])))"

text \<open>\<open>try: ... except Exception as exc: return emit_error(exc, ...)\<close> around the body of a handler.\<close>

definition guarded :: "output_format \<Rightarrow> exit_code \<Rightarrow> 'a result \<Rightarrow> ('a \<Rightarrow> outcome result) \<Rightarrow> outcome result" where
  "guarded format d body rest =
     (case body of Inl exc \<Rightarrow> emit_error exc format d | Inr a \<Rightarrow> rest a)"

text \<open>
  \<open>path.parent.mkdir(...); path.write_bytes(content)\<close>: the writer is what the operating system
  answers, and a write that returns leaves the content in the file.
\<close>

type_synonym file_writer = "string \<Rightarrow> string \<Rightarrow> unit result"

definition written :: "file_writer \<Rightarrow> string \<Rightarrow> string \<Rightarrow> (string \<times> string) result" where
  "written writer path content = and_then (writer path content) (\<lambda>_. Inr (path, content))"

text \<open>\<open>json.dumps(value, indent=2, sort_keys=True, ensure_ascii=ascii)\<close>\<close>

definition json_newline :: "nat \<Rightarrow> string" where
  "json_newline level = [CHR 0x0A] @ replicate (2 * level) CHR '' ''"

fun json_pretty :: "bool \<Rightarrow> nat \<Rightarrow> pyval \<Rightarrow> string result" where
  "json_pretty ascii level (PList xs) =
     (if xs = [] then Inr ''[]''
      else
        and_then (map_res (json_pretty ascii (Suc level)) xs) (\<lambda>ss.
        Inr (''['' @ json_newline (Suc level) @ join ('','' @ json_newline (Suc level)) ss @
             json_newline level @ '']'')))"
| "json_pretty ascii level (PDict kvs) =
     (if kvs = [] then Inr [CHR 0x7B, CHR 0x7D]
      else
        and_then (map_res (\<lambda>(k, v). and_then (json_key k) (\<lambda>key.
                    and_then (json_pretty ascii (Suc level) v) (\<lambda>text. Inr (key, text)))) kvs) (\<lambda>entries.
        Inr ([CHR 0x7B] @ json_newline (Suc level) @
          join ('','' @ json_newline (Suc level))
            (map (\<lambda>(k, t). json_string ascii k @ '': '' @ t) (sort_key fst entries)) @
          json_newline level @ [CHR 0x7D])))"
| "json_pretty ascii level v = json_dumps ascii v"

lemma json_pretty_total: "json_value v \<Longrightarrow> \<exists>t. json_pretty ascii level v = Inr t"
proof (induction v arbitrary: level)
  case (PList xs)
  then have "\<forall>x \<in> set xs. \<exists>t. json_pretty ascii (Suc level) x = Inr t" by (simp add: list_all_iff)
  then have "\<exists>ts. map_res (json_pretty ascii (Suc level)) xs = Inr ts" unfolding map_res_ex .
  then show ?case by auto
next
  case (PDict kvs)
  let ?f = "\<lambda>(k, v). and_then (json_key k) (\<lambda>key.
      and_then (json_pretty ascii (Suc level) v) (\<lambda>text. Inr (key, text)))"
  have "\<exists>r. ?f e = Inr r" if e: "e \<in> set kvs" for e
  proof -
    obtain k v where kv: "e = (k, v)" by (cases e)
    with PDict.prems e have "is_str k" "json_value v" by (auto simp: list_all_iff)
    moreover from this obtain t where "json_pretty ascii (Suc level) v = Inr t"
      using PDict.IH [of "(k, v)" v "Suc level"] e kv by fastforce
    ultimately show ?thesis by (cases k) (simp_all add: kv)
  qed
  then have "\<exists>entries. map_res ?f kvs = Inr entries" unfolding map_res_ex by blast
  then show ?case by auto
qed auto

subsection \<open>What an error becomes\<close>

lemma emit_error_returns: "\<exists>line. emit_error exc format d = Inr (complained (snd (classify_exception exc d)) [line])"
  by (cases format) (auto simp: emit_error_def cli_render_def case_prod_unfold)

lemma classify_not_success: "d \<noteq> SUCCESS \<Longrightarrow> snd (classify_exception exc d) \<noteq> SUCCESS"
  by (auto simp: classify_exception_def Let_def split: pyexc.splits)

lemma emit_error_Inr:
  assumes "emit_error exc format d = Inr r" "d \<noteq> SUCCESS"
  shows "oc_exit r \<noteq> SUCCESS \<and> oc_files r = [] \<and> oc_stdout r = [] \<and> length (oc_stderr r) = 1"
  using emit_error_returns [of exc format d] assms classify_not_success [OF assms(2), of exc]
  by (auto simp: complained_def)

lemma guarded_eq_Inr:
  "guarded format d body rest = Inr r \<longleftrightarrow>
     (\<exists>exc. body = Inl exc \<and> emit_error exc format d = Inr r) \<or> (\<exists>a. body = Inr a \<and> rest a = Inr r)"
  by (cases body) (auto simp: guarded_def)

lemma guarded_returns:
  assumes "\<And>a. body = Inr a \<Longrightarrow> \<exists>r. rest a = Inr r"
  shows "\<exists>r. guarded format d body rest = Inr r"
proof (cases body)
  case (Inl e)
  with emit_error_returns [of e format d] show ?thesis by (auto simp: guarded_def)
qed (use assms in \<open>auto simp: guarded_def\<close>)

lemma not_isl_ex: "\<not> isl r \<longleftrightarrow> (\<exists>a. r = Inr a)"
  by (cases r) simp_all

lemma guarded_success:
  assumes "d \<noteq> SUCCESS" "guarded format d body rest = Inr r" "oc_exit r = SUCCESS"
  shows "\<exists>a. body = Inr a \<and> rest a = Inr r"
  using assms emit_error_Inr [OF _ assms(1)] unfolding guarded_eq_Inr by blast



end
