(* ===== verification/Policy.thy ===== *)
theory Policy
  imports Contracts_Bundle
begin

text \<open>
  \<open>l9_ci/policy\<close>: the finding policy (\<open>model.py\<close>), the classification of findings
  (\<open>classifier.py\<close>) and the trusted remediation classes (\<open>remediation.py\<close>). YAML parsing is
  outside the model: the loaders start from the parsed file.
\<close>

subsection \<open>The finding policy\<close>

record policy_rule =
  pl_provider_rule_id :: string
  pl_policy_key :: string
  pl_mode :: rule_mode

record finding_policy =
  po_version :: string
  po_default_mode :: rule_mode
  po_rules :: "(string \<times> policy_rule) list"

definition policy_entry :: "pyval \<times> pyval \<Rightarrow> (string \<times> policy_rule) result" where
  "policy_entry kv =
     and_then (nonempty_or ''policy rule IDs must be non-empty strings'' (fst kv)) (\<lambda>rule_id.
     and_then (mapping_or (''policy rule '' @ repr_string rule_id @ '' must be an object'') (snd kv)) (\<lambda>entry.
     and_then (non_blank_or (''policy rule '' @ repr_string rule_id @ '' requires policy_key'')
                 (dget_none entry ''policy_key'')) (\<lambda>policy_key.
     and_then (str_or (''policy rule '' @ repr_string rule_id @ '' requires mode'')
                 (dget_none entry ''mode'')) (\<lambda>mode_raw.
     and_then (parse_rule_mode (PStr mode_raw)) (\<lambda>mode.
     Inr (rule_id,
       \<lparr>pl_provider_rule_id = rule_id, pl_policy_key = policy_key, pl_mode = mode\<rparr>))))))"

definition finding_policy_from_dict :: "pydict \<Rightarrow> finding_policy result" where
  "finding_policy_from_dict payload =
     (if dget_none payload ''schema'' \<noteq> PStr ''l9.finding-policy/v1'' then
        Inl (ValueError ''unsupported finding policy schema'')
      else
        and_then (mapping_or ''policy metadata must be an object''
                    (dget_none payload ''metadata'')) (\<lambda>metadata.
        and_then (non_blank_or ''policy version must be non-empty''
                    (dget_none metadata ''version'')) (\<lambda>version.
        and_then (mapping_or ''policy defaults must be an object''
                    (dget_default payload ''defaults'' (PDict []))) (\<lambda>defaults.
        and_then (parse_rule_mode (PStr (py_str (dget_default defaults ''mode''
                    (PStr (rule_mode_value Unresolved_Mode)))))) (\<lambda>default_mode.
        and_then (mapping_or ''policy rules must be an object''
                    (dget_default payload ''rules'' (PDict []))) (\<lambda>raw_rules.
        and_then (map_res policy_entry raw_rules) (\<lambda>rules.
        Inr \<lparr>po_version = version, po_default_mode = default_mode, po_rules = rules\<rparr>)))))))"

definition finding_policy_load :: "pyval \<Rightarrow> finding_policy result" where
  "finding_policy_load payload =
     and_then (mapping_or ''policy root must be an object'' payload) finding_policy_from_dict"

definition valid_policy :: "finding_policy \<Rightarrow> bool" where
  "valid_policy p \<longleftrightarrow>
     \<not> blank (po_version p) \<and>
     list_all (\<lambda>(i, r). i \<noteq> [] \<and> pl_provider_rule_id r = i \<and> \<not> blank (pl_policy_key r)) (po_rules p)"

lemma policy_entry_Inr:
  "policy_entry kv = Inr (i, r) \<Longrightarrow> i \<noteq> [] \<and> pl_provider_rule_id r = i \<and> \<not> blank (pl_policy_key r)"
  by (auto simp: policy_entry_def and_then_eq_Inr)

lemma finding_policy_load_valid: "finding_policy_load v = Inr p \<Longrightarrow> valid_policy p"
  by (auto simp: finding_policy_load_def finding_policy_from_dict_def valid_policy_def
      and_then_eq_Inr split: if_splits elim!: map_res_list_all dest: policy_entry_Inr)

lemma blank_Nil [simp]: "blank []"
  by (simp add: blank_def)

lemma valid_policy_rule:
  assumes "valid_policy p" "map_of (po_rules p) i = Some r"
  shows "pl_policy_key r \<noteq> []"
proof -
  have "(i, r) \<in> set (po_rules p)"
    using assms(2) by (rule map_of_SomeD)
  then have "\<not> blank (pl_policy_key r)"
    using assms(1) by (auto simp: valid_policy_def list_all_iff)
  then show ?thesis
    by auto
qed

subsection \<open>Classification of findings\<close>

record classification_result =
  cr_classifications :: "classification list"
  cr_unresolved_finding_ids :: "string list"

definition require_resolved :: "classification_result \<Rightarrow> unit result" where
  "require_resolved r =
     (if cr_unresolved_finding_ids r \<noteq> [] then
        Inl (ValueError (''unresolved finding classifications: '' @
               join '', '' (cr_unresolved_finding_ids r)))
      else Inr ())"

text \<open>One iteration of the loop: the classification, and whether the finding is left unresolved.\<close>

definition classify_finding :: "finding_policy \<Rightarrow> finding \<Rightarrow> (classification \<times> bool) result" where
  "classify_finding policy f =
     (case map_of (po_rules policy) (fn_provider_rule_id f) of
        Some rule \<Rightarrow>
          and_then (classification_post_init
            \<lparr>fc_finding_id = fn_finding_id f, fc_mode = pl_mode rule,
             fc_resolution_status = Explicit_Res, fc_used_default = False,
             fc_policy_key = PStr (pl_policy_key rule),
             fc_policy_version = PStr (po_version policy), fc_waiver_id = PNone\<rparr>) (\<lambda>c. Inr (c, False))
      | None \<Rightarrow>
          if po_default_mode policy = Unresolved_Mode then
            and_then (classification_post_init
              \<lparr>fc_finding_id = fn_finding_id f, fc_mode = Unresolved_Mode,
               fc_resolution_status = Unresolved_Res, fc_used_default = False,
               fc_policy_key = PNone, fc_policy_version = PStr (po_version policy),
               fc_waiver_id = PNone\<rparr>) (\<lambda>c. Inr (c, True))
          else
            and_then (classification_post_init
              \<lparr>fc_finding_id = fn_finding_id f, fc_mode = po_default_mode policy,
               fc_resolution_status = Defaulted_Res, fc_used_default = True,
               fc_policy_key = PNone, fc_policy_version = PStr (po_version policy),
               fc_waiver_id = PNone\<rparr>) (\<lambda>c. Inr (c, False)))"

definition classify_findings ::
  "finding list \<Rightarrow> finding_policy \<Rightarrow> bool \<Rightarrow> classification_result result"
where
  "classify_findings findings policy strict =
     and_then (map_res (classify_finding policy) (sort_key fn_finding_id findings)) (\<lambda>rs.
     let r = \<lparr>cr_classifications = map fst rs,
              cr_unresolved_finding_ids =
                sort (map (\<lambda>c. fc_finding_id (fst c)) (filter snd rs))\<rparr>
     in if strict then and_then (require_resolved r) (\<lambda>_. Inr r) else Inr r)"

text \<open>The mode a policy gives to a provider rule, read off the policy alone.\<close>

definition policy_mode :: "finding_policy \<Rightarrow> string \<Rightarrow> rule_mode" where
  "policy_mode policy i =
     (case map_of (po_rules policy) i of Some rule \<Rightarrow> pl_mode rule | None \<Rightarrow> po_default_mode policy)"

definition rule_is_unresolved :: "finding_policy \<Rightarrow> string \<Rightarrow> bool" where
  "rule_is_unresolved policy i \<longleftrightarrow>
     (\<exists>rule. map_of (po_rules policy) i = Some rule \<and> pl_mode rule = Unresolved_Mode)"

lemma classify_finding_fields:
  assumes "classify_finding policy f = Inr (c, u)"
  shows "fc_finding_id c = fn_finding_id f"
    and "fc_mode c = policy_mode policy (fn_provider_rule_id f)"
    and "u \<longleftrightarrow> fc_mode c = Unresolved_Mode"
    and "valid_classification c"
  using assms
  by (auto simp: classify_finding_def policy_mode_def and_then_eq_Inr classification_post_init_Inr
      valid_classification_def split: option.splits if_splits)

lemma classify_finding_Inr:
  assumes "valid_policy policy"
  shows "(\<exists>r. classify_finding policy f = Inr r) \<longleftrightarrow>
    \<not> blank (fn_finding_id f) \<and> \<not> rule_is_unresolved policy (fn_provider_rule_id f)"
  using valid_policy_rule [OF assms]
  by (auto simp: classify_finding_def rule_is_unresolved_def and_then_eq_Inr
      classification_post_init_Inr valid_classification_def split: option.splits)

lemma classify_rows:
  assumes "map_res (classify_finding policy) fs = Inr rs"
  shows "map (\<lambda>r. fc_finding_id (fst r)) rs = map fn_finding_id fs"
    and "map (\<lambda>r. fc_mode (fst r)) rs = map (\<lambda>f. policy_mode policy (fn_provider_rule_id f)) fs"
    and "\<forall>(c, u) \<in> set rs. (u \<longleftrightarrow> fc_mode c = Unresolved_Mode) \<and> valid_classification c"
proof -
  have "list_all2 (\<lambda>f r. classify_finding policy f = Inr r) fs rs"
    using assms by (simp add: map_res_eq_Inr_iff)
  then have "map (\<lambda>r. fc_finding_id (fst r)) rs = map fn_finding_id fs \<and>
    map (\<lambda>r. fc_mode (fst r)) rs = map (\<lambda>f. policy_mode policy (fn_provider_rule_id f)) fs \<and>
    (\<forall>(c, u) \<in> set rs. (u \<longleftrightarrow> fc_mode c = Unresolved_Mode) \<and> valid_classification c)"
    by (induction rule: list_all2_induct) (auto dest: classify_finding_fields)
  then show "map (\<lambda>r. fc_finding_id (fst r)) rs = map fn_finding_id fs"
    "map (\<lambda>r. fc_mode (fst r)) rs = map (\<lambda>f. policy_mode policy (fn_provider_rule_id f)) fs"
    "\<forall>(c, u) \<in> set rs. (u \<longleftrightarrow> fc_mode c = Unresolved_Mode) \<and> valid_classification c"
    by blast+
qed

lemma classify_findings_shape:
  assumes "classify_findings fs policy strict = Inr r"
  shows "map fc_finding_id (cr_classifications r) = sort (map fn_finding_id fs)"
    and "list_all valid_classification (cr_classifications r)"
    and "map fc_mode (cr_classifications r) =
         map (\<lambda>f. policy_mode policy (fn_provider_rule_id f)) (sort_key fn_finding_id fs)"
    and "set (cr_unresolved_finding_ids r) =
         {fc_finding_id c |c. c \<in> set (cr_classifications r) \<and> fc_mode c = Unresolved_Mode}"
    and "strict \<Longrightarrow> cr_unresolved_finding_ids r = []"
proof -
  obtain rs where rs: "map_res (classify_finding policy) (sort_key fn_finding_id fs) = Inr rs"
    and r: "r = \<lparr>cr_classifications = map fst rs,
        cr_unresolved_finding_ids = sort (map (\<lambda>c. fc_finding_id (fst c)) (filter snd rs))\<rparr>"
    and st: "strict \<Longrightarrow> require_resolved r = Inr ()"
    using assms by (auto simp: classify_findings_def and_then_eq_Inr Let_def split: if_splits)
  note rows = classify_rows [OF rs]
  have "map fn_finding_id (sort_key fn_finding_id fs) = sort (map fn_finding_id fs)"
    by (rule properties_for_sort [symmetric]) simp_all
  then show "map fc_finding_id (cr_classifications r) = sort (map fn_finding_id fs)"
    using rows(1) by (simp add: r comp_def)
  show "list_all valid_classification (cr_classifications r)"
    using rows(3) by (auto simp: r list_all_iff)
  show "map fc_mode (cr_classifications r) =
      map (\<lambda>f. policy_mode policy (fn_provider_rule_id f)) (sort_key fn_finding_id fs)"
    using rows(2) by (simp add: r comp_def)
  show "set (cr_unresolved_finding_ids r) =
      {fc_finding_id c |c. c \<in> set (cr_classifications r) \<and> fc_mode c = Unresolved_Mode}"
    using rows(3) by (auto simp: r) force+
  show "cr_unresolved_finding_ids r = []" if strict
    using st [OF that] by (simp add: require_resolved_def split: if_splits)
qed

lemma classify_findings_total:
  assumes "valid_policy policy"
  shows "(\<exists>r. classify_findings fs policy False = Inr r) \<longleftrightarrow>
    (\<forall>f \<in> set fs. \<not> blank (fn_finding_id f) \<and> \<not> rule_is_unresolved policy (fn_provider_rule_id f))"
proof -
  have "(\<exists>r. classify_findings fs policy False = Inr r) \<longleftrightarrow>
      (\<exists>rs. map_res (classify_finding policy) (sort_key fn_finding_id fs) = Inr rs)"
    by (simp add: classify_findings_def and_then_eq_Inr Let_def)
  then show ?thesis
    by (simp only: map_res_ex classify_finding_Inr [OF assms] set_sort)
qed

subsection \<open>Remediation classes\<close>

definition ALLOWED_REMEDIATION_CLASSES :: "string list" where
  "ALLOWED_REMEDIATION_CLASSES = [''safe-autofix'', ''mechanical'']"

record remediation_map =
  rm_version :: string
  rm_mappings :: "(string \<times> string) list"

definition repr_strs :: "string list \<Rightarrow> string" where
  "repr_strs ss = py_repr (PList (map PStr ss))"

definition remediation_map_post_init :: "remediation_map \<Rightarrow> remediation_map result" where
  "remediation_map_post_init m =
     (let invalid = filter (\<lambda>v. v \<notin> set ALLOWED_REMEDIATION_CLASSES) (map snd (rm_mappings m))
      in if invalid \<noteq> [] then
           Inl (ValueError (''remediation map contains classes outside '' @
             repr_strs (sort ALLOWED_REMEDIATION_CLASSES) @ '': '' @ repr_strs (sorted_set invalid)))
         else Inr m)"

definition remediation_map_empty :: remediation_map where
  "remediation_map_empty = \<lparr>rm_version = ''0'', rm_mappings = []\<rparr>"

fun remediation_entry :: "pyval \<times> pyval \<Rightarrow> (string \<times> string) list \<Rightarrow> (string \<times> string) list" where
  "remediation_entry (k, PDict entry) d =
     (case dget entry ''remediation_class'' of
        Some v \<Rightarrow> assoc_put (py_str k) (py_str v) d
      | None \<Rightarrow> d)"
| "remediation_entry _ d = d"

definition remediation_map_load :: "pyval \<Rightarrow> remediation_map result" where
  "remediation_map_load parsed =
     and_then (mapping_attr ''get'' (if py_truthy parsed then parsed else PDict [])) (\<lambda>data.
     let metadata = dget_default data ''metadata'' (PDict []);
         rules_raw = dget_default data ''rules'' (PDict [])
     in and_then (mapping_attr ''items'' (if py_truthy rules_raw then rules_raw else PDict [])) (\<lambda>rules.
        and_then (mapping_attr ''get'' metadata) (\<lambda>md.
        remediation_map_post_init
          \<lparr>rm_version = py_str (dget_default md ''version'' (PStr ''0'')),
           rm_mappings = fold remediation_entry rules []\<rparr>)))"

text \<open>\<open>mappings.get(key)\<close>: a key that cannot be hashed raises, a key that is no string is absent.\<close>

fun remediation_for :: "remediation_map \<Rightarrow> pyval \<Rightarrow> string option result" where
  "remediation_for m PNone = Inr None"
| "remediation_for m (PStr s) = Inr (map_of (rm_mappings m) s)"
| "remediation_for m v =
     (if hashable v then Inr None
      else Inl (TypeError (''unhashable type: '' @ repr_string (py_type_name v))))"

definition apply_remediation :: "remediation_map \<Rightarrow> finding \<Rightarrow> finding result" where
  "apply_remediation m f =
     and_then (remediation_for m (fn_canonical_rule_id f)) (\<lambda>rc.
     case rc of
       Some c \<Rightarrow> finding_post_init (f\<lparr>fn_remediation_class := PStr c\<rparr>)
     | None \<Rightarrow> Inr f)"

definition apply_remediation_classes :: "finding list \<Rightarrow> remediation_map \<Rightarrow> finding list result" where
  "apply_remediation_classes fs m = map_res (apply_remediation m) fs"

definition valid_remediation_map :: "remediation_map \<Rightarrow> bool" where
  "valid_remediation_map m \<longleftrightarrow> snd ` set (rm_mappings m) \<subseteq> set ALLOWED_REMEDIATION_CLASSES"

lemma remediation_map_post_init_Inr:
  "remediation_map_post_init m = Inr m' \<longleftrightarrow> m' = m \<and> valid_remediation_map m"
  by (auto simp: remediation_map_post_init_def valid_remediation_map_def filter_empty_conv)

lemma remediation_map_load_valid: "remediation_map_load v = Inr m \<Longrightarrow> valid_remediation_map m"
  by (auto simp: remediation_map_load_def Let_def and_then_eq_Inr remediation_map_post_init_Inr)

lemma apply_remediation_Inr:
  assumes "apply_remediation m f = Inr f'"
  shows "f' = f \<or> (\<exists>s c. fn_canonical_rule_id f = PStr s \<and> map_of (rm_mappings m) s = Some c \<and>
    f' = f\<lparr>fn_remediation_class := PStr c\<rparr>)"
  using assms
  by (cases "fn_canonical_rule_id f")
    (auto simp: apply_remediation_def finding_post_init_Inr split: option.splits)

lemma apply_remediation_valid:
  assumes "valid_finding f" "hashable (fn_canonical_rule_id f)"
  shows "\<exists>f'. apply_remediation m f = Inr f'"
  using assms
  by (cases "fn_canonical_rule_id f")
    (auto simp: apply_remediation_def finding_post_init_Inr valid_finding_def split: option.splits)

subsection \<open>Properties\<close>

text \<open>
  C10: classification gives one well-formed record per finding, in the order of the finding ids.
  Each record passes its constructor and has the mode the policy assigns to the rule of its
  finding (its explicit rule, else the default mode); the unresolved ids are exactly those of the
  records in unresolved mode, and with strict mode there are none.
\<close>

theorem classify_findings_faithful:
  assumes "classify_findings fs policy strict = Inr r"
  shows "map fc_finding_id (cr_classifications r) = sort (map fn_finding_id fs) \<and>
    list_all valid_classification (cr_classifications r) \<and>
    map fc_mode (cr_classifications r) =
      map (\<lambda>f. policy_mode policy (fn_provider_rule_id f)) (sort_key fn_finding_id fs) \<and>
    set (cr_unresolved_finding_ids r) =
      {fc_finding_id c |c. c \<in> set (cr_classifications r) \<and> fc_mode c = Unresolved_Mode} \<and>
    (strict \<longrightarrow> cr_unresolved_finding_ids r = [])"
  using classify_findings_shape [OF assms] by blast

definition sample_policy :: finding_policy where
  "sample_policy =
     \<lparr>po_version = ''1'', po_default_mode = Unresolved_Mode,
      po_rules = [(''r1'', \<lparr>pl_provider_rule_id = ''r1'', pl_policy_key = ''k1'', pl_mode = Blocking\<rparr>)]\<rparr>"

theorem classify_findings_faithful_witness:
  "\<exists>r. classify_findings [sample_finding ''f2'' ''r2'', sample_finding ''f1'' ''r1''] sample_policy False = Inr r \<and>
     map fc_finding_id (cr_classifications r) = [''f1'', ''f2''] \<and>
     map fc_mode (cr_classifications r) = [Blocking, Unresolved_Mode]"
proof -
  let ?fs = "[sample_finding ''f2'' ''r2'', sample_finding ''f1'' ''r1'']"
  have v: "valid_policy sample_policy"
    by code_simp
  have "\<exists>r. classify_findings ?fs sample_policy False = Inr r"
    unfolding classify_findings_total [OF v]
    by (simp add: sample_finding_def sample_policy_def rule_is_unresolved_def blank_def py_isspace_def)
  then obtain r where r: "classify_findings ?fs sample_policy False = Inr r"
    by blast
  moreover have "sort_key fn_finding_id ?fs = [sample_finding ''f1'' ''r1'', sample_finding ''f2'' ''r2'']"
    by code_simp
  moreover have "sort (map fn_finding_id ?fs) = [''f1'', ''f2'']"
    by code_simp
  ultimately show ?thesis
    using classify_findings_faithful [OF r]
    by (intro exI [of _ r]) (simp add: policy_mode_def sample_policy_def sample_finding_def)
qed


definition sample_policy_document :: "string \<Rightarrow> pyval" where
  "sample_policy_document mode =
     PDict [(PStr ''schema'', PStr ''l9.finding-policy/v1''),
            (PStr ''metadata'', PDict [(PStr ''version'', PStr ''1'')]),
            (PStr ''rules'', PDict [(PStr ''r1'',
               PDict [(PStr ''policy_key'', PStr ''k1''), (PStr ''mode'', PStr mode)])])]"


text \<open>
  Remediation only ever assigns an allowed class. Whatever mapping file loads, applying it
  leaves a finding as it was or sets its remediation class to \<open>safe-autofix\<close> or \<open>mechanical\<close>, the
  value the file gives for the canonical rule of the finding; nothing else of the finding changes.
\<close>

theorem remediation_allowed:
  assumes "remediation_map_load document = Inr m" and "apply_remediation m f = Inr f'"
  shows "f' = f \<or>
    (\<exists>rule c. fn_canonical_rule_id f = PStr rule \<and> map_of (rm_mappings m) rule = Some c \<and>
       c \<in> set ALLOWED_REMEDIATION_CLASSES \<and> f' = f\<lparr>fn_remediation_class := PStr c\<rparr>)"
  using apply_remediation_Inr [OF assms(2)] remediation_map_load_valid [OF assms(1)]
  by (fastforce simp: valid_remediation_map_def dest: map_of_SomeD)

definition sample_remediation_document :: pyval where
  "sample_remediation_document =
     PDict [(PStr ''rules'', PDict [(PStr ''L9-1'',
        PDict [(PStr ''remediation_class'', PStr ''mechanical'')])])]"

theorem remediation_allowed_witness:
  "\<exists>m f'. remediation_map_load sample_remediation_document = Inr m \<and>
     apply_remediation m (sample_finding ''f1'' ''r1'') = Inr f' \<and>
     f' = (sample_finding ''f1'' ''r1'')\<lparr>fn_remediation_class := PStr ''mechanical''\<rparr>"
proof -
  let ?m = "\<lparr>rm_version = ''0'', rm_mappings = [(''L9-1'', ''mechanical'')]\<rparr>"
  have m: "remediation_map_load sample_remediation_document = Inr ?m"
    by code_simp
  have "\<exists>f'. apply_remediation ?m (sample_finding ''f1'' ''r1'') = Inr f' \<and>
      fn_remediation_class f' = PStr ''mechanical''"
    by (simp add: apply_remediation_def sample_finding_def finding_post_init_Inr valid_finding_def
        blank_def py_isspace_def)
  then obtain f' where f': "apply_remediation ?m (sample_finding ''f1'' ''r1'') = Inr f'"
    "fn_remediation_class f' = PStr ''mechanical''"
    by blast
  then show ?thesis
    using m remediation_allowed [OF m f'(1)] by (auto simp: sample_finding_def)
qed

end
