(* ===== verification/Py_Regex.thy ===== *)
theory Py_Regex
  imports L9_Prelude
begin

text \<open>
  The part of Python's \<open>re\<close> module that the SDK uses, as a backtracking matcher. A pattern is a
  value of \<open>regex\<close>; \<open>matches r c\<close> lists every way to match \<open>r\<close> at a position \<open>c\<close>, in the order in
  which the backtracking engine of Python tries them (left alternative first, greedy repetition
  first), so the head of the list is the match Python reports. A position remembers the character
  before it (for word boundaries and look-behind), the text still to be read and the groups
  captured so far. Repetition is bounded by the length of the remaining text: every round of a
  star consumes a character, so no match is lost (\<open>star_matches_enough\<close>).
\<close>

record position =
  pos_prev :: "char option"
  pos_rest :: string
  pos_groups :: "(nat \<times> string) list"

datatype regex =
    Empty_re
  | Chars "char \<Rightarrow> bool"
  | Seq_re regex regex
  | Alt_re regex regex
  | Star_re regex
  | Group_re nat regex
  | Word_boundary
  | Not_behind "char \<Rightarrow> bool"
  | Not_ahead "char \<Rightarrow> bool"
  | At_end \<comment> \<open>\<open>$\<close>: the end of the text, or just before a final newline\<close>

subsection \<open>Character classes\<close>

definition re_digit :: "char \<Rightarrow> bool" where "re_digit c \<longleftrightarrow> is_digit c"

definition re_space :: "char \<Rightarrow> bool" where "re_space c \<longleftrightarrow> py_isspace c"

definition ascii_lower :: "char \<Rightarrow> bool" where
  "ascii_lower c \<longleftrightarrow> CHR ''a'' \<le> c \<and> c \<le> CHR ''z''"

definition ascii_upper :: "char \<Rightarrow> bool" where
  "ascii_upper c \<longleftrightarrow> CHR ''A'' \<le> c \<and> c \<le> CHR ''Z''"

text \<open>\<open>\w\<close> on a \<open>str\<close>: the alphanumeric code points below 256 and the underscore.\<close>

definition re_word :: "char \<Rightarrow> bool" where
  "re_word c \<longleftrightarrow>
     is_digit c \<or> ascii_lower c \<or> ascii_upper c \<or> c = CHR ''_'' \<or>
     (let n = of_char c :: nat
      in n \<in> {170, 178, 179, 181, 185, 186, 188, 189, 190} \<or>
         (192 \<le> n \<and> n \<noteq> 215 \<and> n \<noteq> 247))"

definition lower_hex :: "char \<Rightarrow> bool" where
  "lower_hex c \<longleftrightarrow> is_digit c \<or> (CHR ''a'' \<le> c \<and> c \<le> CHR ''f'')"

definition any_hex :: "char \<Rightarrow> bool" where
  "any_hex c \<longleftrightarrow> lower_hex c \<or> (CHR ''A'' \<le> c \<and> c \<le> CHR ''F'')"

subsection \<open>Derived patterns\<close>

definition Opt_re :: "regex \<Rightarrow> regex" where "Opt_re r = Alt_re r Empty_re"

definition Plus_re :: "regex \<Rightarrow> regex" where "Plus_re r = Seq_re r (Star_re r)"

fun Lit :: "string \<Rightarrow> regex" where
  "Lit [] = Empty_re"
| "Lit [c] = Chars (\<lambda>x. x = c)"
| "Lit (c # d # cs) = Seq_re (Chars (\<lambda>x. x = c)) (Lit (d # cs))"

fun Seqs :: "regex list \<Rightarrow> regex" where
  "Seqs [] = Empty_re"
| "Seqs [r] = r"
| "Seqs (r # s # rs) = Seq_re r (Seqs (s # rs))"

fun Alts :: "regex list \<Rightarrow> regex" where
  "Alts [] = Chars (\<lambda>_. False)"
| "Alts [r] = r"
| "Alts (r # s # rs) = Alt_re r (Alts (s # rs))"

text \<open>\<open>r{m}\<close> and \<open>r{m,n}\<close>\<close>

primrec Times_re :: "nat \<Rightarrow> regex \<Rightarrow> regex" where
  "Times_re 0 r = Empty_re"
| "Times_re (Suc n) r = Seq_re r (Times_re n r)"

primrec Upto_re :: "nat \<Rightarrow> regex \<Rightarrow> regex" where
  "Upto_re 0 r = Empty_re"
| "Upto_re (Suc n) r = Opt_re (Seq_re r (Upto_re n r))"

definition Range_re :: "nat \<Rightarrow> nat \<Rightarrow> regex \<Rightarrow> regex" where
  "Range_re m n r = Seq_re (Times_re m r) (Upto_re (n - m) r)"

text \<open>The \<open>re.IGNORECASE\<close> reading of an ASCII literal.\<close>

definition Lit_nocase :: "string \<Rightarrow> regex" where
  "Lit_nocase s = Seqs (map (\<lambda>c. Chars (\<lambda>x. py_lower_char x = py_lower_char c)) s)"

subsection \<open>The matcher\<close>

definition step_char :: "(char \<Rightarrow> bool) \<Rightarrow> position \<Rightarrow> position list" where
  "step_char p c =
     (case pos_rest c of
        [] \<Rightarrow> []
      | x # xs \<Rightarrow> if p x then [c\<lparr>pos_prev := Some x, pos_rest := xs\<rparr>] else [])"

definition at_word_boundary :: "position \<Rightarrow> bool" where
  "at_word_boundary c \<longleftrightarrow>
     (case pos_prev c of None \<Rightarrow> False | Some x \<Rightarrow> re_word x) \<noteq>
     (case pos_rest c of [] \<Rightarrow> False | x # _ \<Rightarrow> re_word x)"

definition consumed :: "position \<Rightarrow> position \<Rightarrow> string" where
  "consumed c c' = take (length (pos_rest c) - length (pos_rest c')) (pos_rest c)"

fun star_matches :: "nat \<Rightarrow> (position \<Rightarrow> position list) \<Rightarrow> position \<Rightarrow> position list" where
  "star_matches 0 m c = [c]"
| "star_matches (Suc n) m c =
     concat (map (star_matches n m) (filter (\<lambda>c'. length (pos_rest c') < length (pos_rest c)) (m c))) @ [c]"

primrec matches :: "regex \<Rightarrow> position \<Rightarrow> position list" where
  "matches Empty_re c = [c]"
| "matches (Chars p) c = step_char p c"
| "matches (Seq_re r s) c = concat (map (matches s) (matches r c))"
| "matches (Alt_re r s) c = matches r c @ matches s c"
| "matches (Star_re r) c = star_matches (length (pos_rest c)) (matches r) c"
| "matches (Group_re n r) c =
     map (\<lambda>c'. c'\<lparr>pos_groups := (n, consumed c c') # pos_groups c'\<rparr>) (matches r c)"
| "matches Word_boundary c = (if at_word_boundary c then [c] else [])"
| "matches (Not_behind p) c =
     (case pos_prev c of Some x \<Rightarrow> if p x then [] else [c] | None \<Rightarrow> [c])"
| "matches (Not_ahead p) c =
     (case pos_rest c of x # _ \<Rightarrow> if p x then [] else [c] | [] \<Rightarrow> [c])"
| "matches At_end c = (if pos_rest c = [] \<or> pos_rest c = [CHR 0x0A] then [c] else [])"

definition start_of :: "string \<Rightarrow> position" where
  "start_of s = \<lparr>pos_prev = None, pos_rest = s, pos_groups = []\<rparr>"

fun first_of :: "'a list \<Rightarrow> 'a option" where
  "first_of [] = None"
| "first_of (x # _) = Some x"

text \<open>\<open>re.match\<close>, \<open>re.fullmatch\<close> and \<open>re.search\<close>; the last gives the start and the end of a match.\<close>

definition re_match :: "regex \<Rightarrow> string \<Rightarrow> position option" where
  "re_match r s = first_of (matches r (start_of s))"

definition re_fullmatch :: "regex \<Rightarrow> string \<Rightarrow> bool" where
  "re_fullmatch r s \<longleftrightarrow> list_ex (\<lambda>c. pos_rest c = []) (matches r (start_of s))"

fun search_from :: "regex \<Rightarrow> char option \<Rightarrow> string \<Rightarrow> (position \<times> position) option" where
  "search_from r p [] =
     map_option (Pair \<lparr>pos_prev = p, pos_rest = [], pos_groups = []\<rparr>)
       (first_of (matches r \<lparr>pos_prev = p, pos_rest = [], pos_groups = []\<rparr>))"
| "search_from r p (x # xs) =
     (case first_of (matches r \<lparr>pos_prev = p, pos_rest = x # xs, pos_groups = []\<rparr>) of
        Some c \<Rightarrow> Some (\<lparr>pos_prev = p, pos_rest = x # xs, pos_groups = []\<rparr>, c)
      | None \<Rightarrow> search_from r (Some x) xs)"

definition re_search :: "regex \<Rightarrow> string \<Rightarrow> (position \<times> position) option" where
  "re_search r s = search_from r None s"

text \<open>\<open>re.finditer\<close> for a pattern that matches no empty text.\<close>

function find_all :: "regex \<Rightarrow> char option \<Rightarrow> string \<Rightarrow> position list" where
  "find_all r p [] = []"
| "find_all r p (x # xs) =
     (case first_of (matches r \<lparr>pos_prev = p, pos_rest = x # xs, pos_groups = []\<rparr>) of
        Some c \<Rightarrow>
          if length (pos_rest c) < length (x # xs) then c # find_all r (pos_prev c) (pos_rest c)
          else find_all r (Some x) xs
      | None \<Rightarrow> find_all r (Some x) xs)"
  by pat_completeness auto

termination by (relation "measure (\<lambda>(r, p, s). length s)") auto

text \<open>\<open>match.group(n)\<close>\<close>

definition group_of :: "nat \<Rightarrow> position \<Rightarrow> string" where
  "group_of n c = (case map_of (pos_groups c) n of None \<Rightarrow> [] | Some g \<Rightarrow> g)"

subsection \<open>Lemmas\<close>

lemma step_char_suffix: "c' \<in> set (step_char p c) \<Longrightarrow> \<exists>t. pos_rest c = t @ pos_rest c'"
  by (cases "pos_rest c") (auto simp: step_char_def split: if_splits)

lemma star_matches_suffix:
  assumes "\<And>c c'. c' \<in> set (m c) \<Longrightarrow> \<exists>t. pos_rest c = t @ pos_rest c'"
  shows "c' \<in> set (star_matches n m c) \<Longrightarrow> \<exists>t. pos_rest c = t @ pos_rest c'"
proof (induction n arbitrary: c)
  case 0
  then show ?case by simp
next
  case (Suc n)
  then consider "c' = c" | d where "d \<in> set (m c)" "c' \<in> set (star_matches n m d)"
    by auto
  then show ?case
  proof cases
    case 1
    then show ?thesis by simp
  next
    case 2
    then show ?thesis
      using assms [OF 2(1)] Suc.IH [OF 2(2)] by auto
  qed
qed

text \<open>A match reads a prefix of the text: what is left is always a suffix.\<close>

lemma matches_suffix: "c' \<in> set (matches r c) \<Longrightarrow> \<exists>t. pos_rest c = t @ pos_rest c'"
proof (induction r arbitrary: c c')
  case (Seq_re r s)
  then obtain d where d: "d \<in> set (matches r c)" "c' \<in> set (matches s d)"
    by auto
  obtain t where "pos_rest c = t @ pos_rest d"
    using Seq_re.IH(1) [OF d(1)] by blast
  moreover obtain u where "pos_rest d = u @ pos_rest c'"
    using Seq_re.IH(2) [OF d(2)] by blast
  ultimately show ?case by simp
next
  case (Star_re r)
  then show ?case by (auto intro: star_matches_suffix)
qed (auto simp: step_char_suffix split: if_splits option.splits list.splits)

lemma star_matches_enough:
  "length (pos_rest c) \<le> n \<Longrightarrow> star_matches n m c = star_matches (length (pos_rest c)) m c"
proof (induction n arbitrary: c rule: less_induct)
  case (less n)
  show ?case
  proof (cases "n = length (pos_rest c)")
    case False
    with less.prems obtain k where n: "n = Suc k" and k: "length (pos_rest c) \<le> k"
      by (cases n) auto
    let ?F = "filter (\<lambda>c'. length (pos_rest c') < length (pos_rest c)) (m c)"
    show ?thesis
    proof (cases "length (pos_rest c)")
      case 0
      then have "?F = []" by simp
      with 0 n show ?thesis by simp
    next
      case (Suc j)
      have "star_matches k m c' = star_matches j m c'" if "c' \<in> set ?F" for c'
        using that Suc k n less.IH [of k c'] less.IH [of j c'] by auto
      then have "map (star_matches k m) ?F = map (star_matches j m) ?F"
        by (rule map_cong [OF refl])
      with n Suc show ?thesis by (simp del: filter.simps map_eq_conv)
    qed
  qed simp
qed

lemma first_eq_None [simp]: "first_of xs = None \<longleftrightarrow> xs = []"
  by (cases xs) auto

lemma search_from_None:
  "search_from r p s = None \<Longrightarrow>
     s = t @ u \<Longrightarrow> t \<noteq> [] \<Longrightarrow> matches r \<lparr>pos_prev = Some (last t), pos_rest = u, pos_groups = []\<rparr> = []"
proof (induction s arbitrary: p t)
  case Nil
  then show ?case by simp
next
  case (Cons x xs)
  from Cons.prems obtain t' where t: "t = x # t'" and xs: "xs = t' @ u"
    by (cases t) auto
  from Cons.prems(1) have n: "search_from r (Some x) xs = None"
    by (simp split: option.splits)
  show ?case
  proof (cases t')
    case Nil
    with xs have "xs = u" by simp
    with n Nil t show ?thesis
      by (cases u) (simp_all split: option.splits)
  next
    case (Cons y ys)
    then show ?thesis
      using Cons.IH [OF n xs] t by simp
  qed
qed

lemma matches_Times_class:
  assumes "list_all p t" "length t = n"
  shows "\<exists>c'. matches (Times_re n (Chars p)) \<lparr>pos_prev = q, pos_rest = t @ u, pos_groups = g\<rparr> = [c'] \<and>
    pos_rest c' = u \<and> pos_groups c' = g"
  using assms
proof (induction n arbitrary: t q)
  case 0
  then show ?case by simp
next
  case (Suc n)
  then obtain x t' where t: "t = x # t'" "p x" "list_all p t'" "length t' = n"
    by (cases t) auto
  then show ?case
    using Suc.IH [OF t(3,4), of "Some x"] by (simp add: step_char_def)
qed

lemma matches_Times_class_only:
  assumes "c' \<in> set (matches (Times_re n (Chars p)) c)"
  shows "\<exists>t. pos_rest c = t @ pos_rest c' \<and> length t = n \<and> list_all p t"
  using assms
proof (induction n arbitrary: c)
  case 0
  then show ?case by simp
next
  case (Suc n)
  then obtain x xs where r: "pos_rest c = x # xs" and px: "p x"
    and d: "c' \<in> set (matches (Times_re n (Chars p)) (c\<lparr>pos_prev := Some x, pos_rest := xs\<rparr>))"
    by (cases "pos_rest c") (auto simp: step_char_def split: if_splits)
  obtain t where "xs = t @ pos_rest c'" "length t = n" "list_all p t"
    using Suc.IH [OF d] by auto
  with r px show ?case
    by (intro exI [of _ "x # t"]) simp
qed

end
