(* ===== verification/Py_Dates.thy ===== *)
theory Py_Dates
  imports Py_Value
begin

text \<open>
  \<open>datetime.date\<close> as the SDK uses it: the calendar, and \<open>date.fromisoformat\<close> as CPython 3.11 (the
  oldest version the project supports) reads the ISO 8601 forms \<open>YYYY-MM-DD\<close>, \<open>YYYYMMDD\<close>,
  \<open>YYYY-Www\<close>, \<open>YYYY-Www-D\<close>, \<open>YYYYWww\<close> and \<open>YYYYWwwD\<close>.
\<close>

definition leap_year :: "nat \<Rightarrow> bool" where
  "leap_year y \<longleftrightarrow> y mod 4 = 0 \<and> (y mod 100 \<noteq> 0 \<or> y mod 400 = 0)"

definition month_lengths :: "nat \<Rightarrow> nat list" where
  "month_lengths y = [31, if leap_year y then 29 else 28, 31, 30, 31, 30, 31, 31, 30, 31, 30, 31]"

definition valid_date :: "date \<Rightarrow> bool" where
  "valid_date d \<longleftrightarrow>
     1 \<le> date_year d \<and> date_year d \<le> 9999 \<and> 1 \<le> date_month d \<and> date_month d \<le> 12 \<and>
     1 \<le> date_day d \<and> date_day d \<le> month_lengths (date_year d) ! (date_month d - 1)"

definition make_date :: "nat \<Rightarrow> nat \<Rightarrow> nat \<Rightarrow> date option" where
  "make_date y m d = (if valid_date (Date y m d) then Some (Date y m d) else None)"

subsection \<open>Week dates\<close>

definition days_before_year :: "nat \<Rightarrow> int" where
  "days_before_year y =
     (let p = int y - 1 in p * 365 + p div 4 - p div 100 + p div 400)"

definition first_weekday :: "nat \<Rightarrow> int" where
  "first_weekday y = (days_before_year y + 1 + 6) mod 7"

definition week1_monday :: "nat \<Rightarrow> int" where
  "week1_monday y =
     (let first = days_before_year y + 1; wd = first_weekday y
      in first - wd + (if wd > 3 then 7 else 0))"

definition year_length :: "nat \<Rightarrow> int" where
  "year_length y = (if leap_year y then 366 else 365)"

fun month_and_day :: "nat \<Rightarrow> nat list \<Rightarrow> nat \<Rightarrow> nat \<times> nat" where
  "month_and_day m [] n = (m, n)"
| "month_and_day m (l # ls) n = (if n \<le> l then (m, n) else month_and_day (Suc m) ls (n - l))"

text \<open>The date of an ordinal that lies in the year \<open>y\<close> or within a month of it.\<close>

definition date_near :: "nat \<Rightarrow> int \<Rightarrow> date" where
  "date_near y ord =
     (let n = ord - days_before_year y
      in if n \<le> 0 then Date (y - 1) 12 (nat (31 + n))
         else if n > year_length y then Date (y + 1) 1 (nat (n - year_length y))
         else (case month_and_day 1 (month_lengths y) (nat n) of (m, d) \<Rightarrow> Date y m d))"

definition iso_to_ymd :: "nat \<Rightarrow> nat \<Rightarrow> nat \<Rightarrow> date option" where
  "iso_to_ymd y w d =
     (if y < 1 \<or> 9999 < y \<or> w < 1 \<or> 53 < w \<or>
         (w = 53 \<and> \<not> (first_weekday y = 3 \<or> (first_weekday y = 2 \<and> leap_year y))) \<or>
         d < 1 \<or> 7 < d
      then None
      else let r = date_near y (week1_monday y + (int w - 1) * 7 + int d - 1)
           in if date_year r \<le> 9999 then Some r else None)"

subsection \<open>\<open>date.fromisoformat\<close>\<close>

definition read_digits :: "nat \<Rightarrow> string \<Rightarrow> (nat \<times> string) option" where
  "read_digits n s =
     (if n \<le> length s \<and> list_all is_digit (take n s)
      then Some (nat_of_digits (take n s), drop n s) else None)"

text \<open>The separator, when the form has one.\<close>

definition read_sep :: "bool \<Rightarrow> string \<Rightarrow> string option" where
  "read_sep sep s =
     (if sep then (if starts_with ''-'' s then Some (tl s) else None) else Some s)"

definition read_week_date :: "nat \<Rightarrow> bool \<Rightarrow> string \<Rightarrow> date option" where
  "read_week_date y sep s =
     Option.bind (read_digits 2 s) (\<lambda>(w, r).
       if r = [] then iso_to_ymd y w 1
       else Option.bind (read_sep sep r) (\<lambda>r'.
            Option.bind (read_digits 1 r') (\<lambda>(d, _). iso_to_ymd y w d)))"

definition read_month_date :: "nat \<Rightarrow> bool \<Rightarrow> string \<Rightarrow> date option" where
  "read_month_date y sep s =
     Option.bind (read_digits 2 s) (\<lambda>(m, r).
     Option.bind (read_sep sep r) (\<lambda>r'.
     Option.bind (read_digits 2 r') (\<lambda>(d, _). make_date y m d)))"

definition date_fromisoformat :: "string \<Rightarrow> date option" where
  "date_fromisoformat s =
     (if length s \<notin> {7, 8, 10} then None
      else Option.bind (read_digits 4 s) (\<lambda>(y, r).
           let sep = starts_with ''-'' r;
               r' = (if sep then tl r else r)
           in if starts_with ''W'' r' then read_week_date y sep (tl r')
              else read_month_date y sep r'))"

subsection \<open>Round trip\<close>

lemma length_string_of_nat: "n < 10 ^ k \<Longrightarrow> 0 < k \<Longrightarrow> length (string_of_nat n) \<le> k"
proof (induction k arbitrary: n)
  case (Suc k)
  show ?case
  proof (cases "n < 10")
    case True
    then show ?thesis by (subst string_of_nat.simps) simp
  next
    case False
    with Suc.prems have "n div 10 < 10 ^ k" and "0 < k"
      by (auto simp: div_less_iff_less_mult mult.commute) (cases k; simp)
    with Suc.IH [of "n div 10"] False show ?thesis
      by (subst string_of_nat.simps) simp
  qed
qed simp

lemma nat_of_digits_zeros: "nat_of_digits (replicate k CHR ''0'' @ s) = nat_of_digits s"
  by (induction k) (simp_all add: nat_of_digits_def digit_value_def)

lemma list_all_zeros: "list_all is_digit (replicate k CHR ''0'')"
  by (induction k) (simp_all add: is_digit_def)

lemma pad4_read:
  assumes "n \<le> 9999"
  shows "read_digits 4 (pad4 n @ s) = Some (n, s)" and "length (pad4 n) = 4"
proof -
  have l: "length (string_of_nat n) \<le> 4"
    using assms by (intro length_string_of_nat) simp_all
  then show *: "length (pad4 n) = 4"
    by (simp add: pad4_def)
  have "nat_of_digits (pad4 n) = n"
    by (simp add: pad4_def nat_of_digits_zeros)
  moreover have "list_all is_digit (pad4 n)"
    by (simp add: pad4_def list_all_zeros string_of_nat_digits)
  ultimately show "read_digits 4 (pad4 n @ s) = Some (n, s)"
    using * by (simp add: read_digits_def)
qed

lemma pad2_read:
  assumes "n < 100"
  shows "read_digits 2 (pad2 n @ s) = Some (n, s)" and "length (pad2 n) = 2"
    and "\<exists>c t. pad2 n = c # t \<and> is_digit c"
proof -
  have p: "pad2 n = replicate (2 - length (string_of_nat n)) CHR ''0'' @ string_of_nat n"
  proof (cases "n < 10")
    case True
    then have "string_of_nat n = [digit_char n]" by (subst string_of_nat.simps) simp
    with True show ?thesis by (simp add: pad2_def)
  next
    case False
    then have "string_of_nat n = string_of_nat (n div 10) @ [digit_char (n mod 10)]"
      by (subst string_of_nat.simps) simp
    moreover have "Suc 0 \<le> length (string_of_nat (n div 10))" by (simp add: Suc_le_eq)
    ultimately have "2 \<le> length (string_of_nat n)" by simp
    with False show ?thesis by (simp add: pad2_def)
  qed
  have l: "length (string_of_nat n) \<le> 2"
    using assms by (intro length_string_of_nat) simp_all
  then show *: "length (pad2 n) = 2"
    by (simp add: p)
  have "nat_of_digits (pad2 n) = n"
    by (simp add: p nat_of_digits_zeros)
  moreover have d: "list_all is_digit (pad2 n)"
    by (simp add: p list_all_zeros string_of_nat_digits)
  ultimately show "read_digits 2 (pad2 n @ s) = Some (n, s)"
    using * by (simp add: read_digits_def)
  show "\<exists>c t. pad2 n = c # t \<and> is_digit c"
    using * d by (cases "pad2 n") auto
qed

lemma fromisoformat_isoformat:
  assumes "valid_date d"
  shows "date_fromisoformat (isoformat d) = Some d"
proof -
  obtain y m dd where d: "d = Date y m dd" by (cases d)
  have "m - 1 < 12" and b: "y \<le> 9999" "m < 100" "1 \<le> m"
    using assms by (auto simp: valid_date_def d)
  have "\<forall>l \<in> set (month_lengths y). l \<le> 31"
    by (simp add: month_lengths_def)
  moreover have "month_lengths y ! (m - 1) \<in> set (month_lengths y)"
    using \<open>m - 1 < 12\<close> by (intro nth_mem) (simp add: month_lengths_def)
  ultimately have "dd < 100"
    using assms by (force simp: valid_date_def d)
  note r = pad4_read [OF b(1)] pad2_read [OF b(2)] pad2_read [OF \<open>dd < 100\<close>]
  obtain c t where c: "pad2 m = c # t" "is_digit c"
    using r(5) by blast
  then have "c \<noteq> CHR ''W''"
    by (auto simp: is_digit_def)
  then have w: "\<not> starts_with ''W'' (pad2 m @ s)" for s
    using c by (simp add: starts_with_def)
  have "read_digits 2 (pad2 dd) = Some (dd, [])"
    using r(6) [of "[]"] by simp
  moreover have "length (isoformat d) = 10"
    using r by (simp add: isoformat_def d)
  ultimately show ?thesis
    using assms r w
    by (simp add: date_fromisoformat_def isoformat_def d read_month_date_def read_sep_def
        starts_with_def make_date_def flip: append_Cons)
qed

lemma valid_date_fromisoformat_month: "read_month_date y sep s = Some d \<Longrightarrow> valid_date d"
  by (auto simp: read_month_date_def make_date_def bind_eq_Some_conv split: if_splits)

end
