(* ===== verification/Baseline_Schemas.thy ===== *)
theory Baseline_Schemas
  imports Contracts_Source Policy Py_Regex Py_Dates
begin

text \<open>
  \<open>l9_ci/baseline/schemas.py\<close>: the removal condition and the three kinds of ledger entry, with the
  checks of their constructors. A constructor is a function from the values it is given to the
  record with its fields normalised; \<open>expires\<close> and \<open>removal_condition\<close> arrive as the YAML parser
  left them, the other fields as strings.
\<close>

definition BASELINE_SCHEMA_VERSION :: string where
  "BASELINE_SCHEMA_VERSION = ''1.0.0''"

subsection \<open>Patterns\<close>

definition id_char :: "char \<Rightarrow> bool" where
  "id_char c \<longleftrightarrow> ascii_lower c \<or> is_digit c \<or> c \<in> set ''._/-''"

definition slug_char :: "char \<Rightarrow> bool" where
  "slug_char c \<longleftrightarrow> re_word c \<or> c = CHR ''.'' \<or> c = CHR ''-''"

definition handle_char :: "char \<Rightarrow> bool" where
  "handle_char c \<longleftrightarrow> ascii_lower c \<or> ascii_upper c \<or> is_digit c"

definition ID_PATTERN :: regex where
  "ID_PATTERN =
     Seqs [Chars (\<lambda>c. ascii_lower c \<or> is_digit c), Range_re 2 127 (Chars id_char), At_end]"

definition ISSUE_PATTERN :: regex where
  "ISSUE_PATTERN =
     Seqs [Group_re 1 (Alts
       [Seqs [Lit ''https://github.com/'', Plus_re (Chars slug_char), Lit ''/'',
              Plus_re (Chars slug_char), Lit ''/issues/'', Plus_re (Chars re_digit)],
        Seqs [Plus_re (Chars slug_char), Lit ''/'', Plus_re (Chars slug_char), Lit ''#'',
              Plus_re (Chars re_digit)],
        Seqs [Lit ''#'', Plus_re (Chars re_digit)]]), At_end]"

definition OWNER_PATTERN :: regex where
  "OWNER_PATTERN =
     Seqs [Opt_re (Lit ''@''), Chars handle_char,
           Range_re 0 38 (Chars (\<lambda>c. handle_char c \<or> c = CHR ''-'')),
           Opt_re (Group_re 1 (Seqs [Lit ''/'', Plus_re (Chars slug_char)])), At_end]"

definition FINGERPRINT_PATTERN :: regex where
  "FINGERPRINT_PATTERN = Seqs [Times_re 64 (Chars lower_hex), At_end]"

definition PLACEHOLDER_TOKENS :: "string list" where
  "PLACEHOLDER_TOKENS =
     [''tbd'', ''todo'', ''fixme'', ''placeholder'', ''unknown'', ''n/a'', ''na'', ''none'', ''xxx'',
      ''changeme'', ''@tbd'', ''@todo'', ''@owner'', ''@someone'']"

definition REMOVAL_CONDITION_KINDS :: "string list" where
  "REMOVAL_CONDITION_KINDS = [''finding-absent'', ''test-passes'', ''migrated-to'']"

lemma fingerprint_match:
  "re_match FINGERPRINT_PATTERN s \<noteq> None \<longleftrightarrow>
     (\<exists>t u. s = t @ u \<and> length t = 64 \<and> list_all lower_hex t \<and> (u = [] \<or> u = [CHR 0x0A]))"
  (is "?L \<longleftrightarrow> ?R")
proof
  assume ?L
  then have "matches FINGERPRINT_PATTERN (start_of s) \<noteq> []"
    by (simp add: re_match_def)
  then have "\<exists>d \<in> set (matches (Times_re 64 (Chars lower_hex)) (start_of s)). matches At_end d \<noteq> []"
    by (auto simp only: FINGERPRINT_PATTERN_def Seqs.simps matches.simps concat_eq_Nil_conv set_map ball_simps)
  then obtain d where d: "d \<in> set (matches (Times_re 64 (Chars lower_hex)) (start_of s))"
    and e: "pos_rest d = [] \<or> pos_rest d = [CHR 0x0A]"
    by (auto split: if_splits)
  obtain t where "s = t @ pos_rest d" "length t = 64" "list_all lower_hex t"
    using matches_Times_class_only [OF d] by (auto simp: start_of_def)
  with e show ?R by blast
next
  assume ?R
  then obtain t u where t: "s = t @ u" "length t = 64" "list_all lower_hex t"
    and u: "u = [] \<or> u = [CHR 0x0A]"
    by blast
  obtain d where "matches (Times_re 64 (Chars lower_hex)) (start_of s) = [d]" "pos_rest d = u"
    using matches_Times_class [OF t(3,2), of None u "[]"] by (auto simp: start_of_def t(1))
  with u have "matches FINGERPRINT_PATTERN (start_of s) \<noteq> []"
    by (simp only: FINGERPRINT_PATTERN_def Seqs.simps matches.simps) auto
  then show ?L by (simp add: re_match_def)
qed

subsection \<open>Checks of single values\<close>

definition require_non_empty :: "string \<Rightarrow> pyval \<Rightarrow> string result" where
  "require_non_empty name v =
     and_then (non_blank_or (name @ '' must be a non-empty string'') v) (\<lambda>s. Inr (py_strip s))"

definition reject_placeholder :: "string \<Rightarrow> string \<Rightarrow> string result" where
  "reject_placeholder name value =
     (if py_lower (py_strip value) \<in> set PLACEHOLDER_TOKENS
      then Inl (ValueError (name @ '' must not be a placeholder value: '' @ repr_string value))
      else Inr value)"

fun parse_iso_date :: "string \<Rightarrow> pyval \<Rightarrow> date result" where
  "parse_iso_date name (PDate d) = Inr d"
| "parse_iso_date name (PDateTime d _ _) = Inr d"
| "parse_iso_date name (PStr s) =
     (case date_fromisoformat (py_strip s) of
        Some d \<Rightarrow> Inr d
      | None \<Rightarrow> Inl (ValueError (name @ '' must be an ISO date (YYYY-MM-DD): '' @ repr_string s)))"
| "parse_iso_date name _ = Inl (ValueError (name @ '' must be an ISO date (YYYY-MM-DD)''))"

definition validate_owner :: "string \<Rightarrow> string result" where
  "validate_owner owner =
     and_then (require_non_empty ''owner'' (PStr owner)) (\<lambda>value.
     and_then (reject_placeholder ''owner'' value) (\<lambda>_.
     if re_match OWNER_PATTERN value = None then
       Inl (ValueError (''owner must be a GitHub handle or org/team slug: '' @ repr_string value))
     else Inr value))"

definition validate_issue :: "string \<Rightarrow> string result" where
  "validate_issue issue =
     and_then (require_non_empty ''issue'' (PStr issue)) (\<lambda>value.
     and_then (reject_placeholder ''issue'' value) (\<lambda>_.
     if re_match ISSUE_PATTERN value = None then
       Inl (ValueError (''issue must be a GitHub issue URL, owner/repo#N, or #N reference: '' @
              repr_string value))
     else Inr value))"

subsection \<open>Removal conditions\<close>

record removal_condition =
  rc_kind :: string
  rc_target :: "string option"

definition RemovalCondition :: "pyval \<Rightarrow> pyval \<Rightarrow> removal_condition result" where
  "RemovalCondition kind_raw target_raw =
     and_then (require_non_empty ''removal_condition.kind'' kind_raw) (\<lambda>kind.
     if kind \<notin> set REMOVAL_CONDITION_KINDS then
       Inl (ValueError (''removal_condition.kind must be one of '' @
              repr_strs (sort REMOVAL_CONDITION_KINDS) @ '': '' @ repr_string kind))
     else if kind = ''migrated-to'' then
       and_then (require_non_empty ''removal_condition.target'' target_raw) (\<lambda>target.
       and_then (reject_placeholder ''removal_condition.target'' target) (\<lambda>_.
       Inr \<lparr>rc_kind = kind, rc_target = Some target\<rparr>))
     else if target_raw \<noteq> PNone then
       and_then (require_non_empty ''removal_condition.target'' target_raw) (\<lambda>target.
       Inr \<lparr>rc_kind = kind, rc_target = Some target\<rparr>)
     else Inr \<lparr>rc_kind = kind, rc_target = None\<rparr>)"

fun removal_condition_from_value :: "pyval \<Rightarrow> removal_condition result" where
  "removal_condition_from_value (PStr s) =
     (let raw = py_strip s
      in if CHR '':'' \<in> set raw then
           (let target = py_strip (after_char CHR '':'' raw)
            in RemovalCondition (PStr (py_strip (before_char CHR '':'' raw)))
                 (if target = [] then PNone else PStr target))
         else RemovalCondition (PStr raw) PNone)"
| "removal_condition_from_value (PDict d) =
     RemovalCondition (dget_default d ''kind'' (PStr '''')) (dget_none d ''target'')"
| "removal_condition_from_value _ =
     Inl (ValueError ''removal_condition must be a string or mapping'')"

definition removal_condition_to_dict :: "removal_condition \<Rightarrow> pydict" where
  "removal_condition_to_dict r =
     [(PStr ''kind'', PStr (rc_kind r))] @ opt_entry ''target'' (pstr_opt (rc_target r))"

subsection \<open>Baseline entries\<close>

definition checked_id :: "string \<Rightarrow> string result" where
  "checked_id raw =
     and_then (require_non_empty ''id'' (PStr raw)) (\<lambda>i.
     if re_match ID_PATTERN i = None then
       Inl (ValueError (''id must match ^[a-z0-9][a-z0-9._/-]{2,127}$: '' @ repr_string i))
     else Inr i)"

definition checked_fingerprint :: "string \<Rightarrow> string result" where
  "checked_fingerprint raw =
     and_then (require_non_empty ''fingerprint'' (PStr raw)) (\<lambda>f.
     if re_match FINGERPRINT_PATTERN f = None then
       Inl (ValueError ''fingerprint must be a 64-char lowercase hex SHA-256'')
     else Inr f)"

record baseline_entry =
  be_id :: string
  be_gate :: string
  be_rule :: string
  be_fingerprint :: string
  be_path :: string
  be_owner :: string
  be_issue :: string
  be_introduced_before :: string
  be_expires :: date
  be_removal_condition :: removal_condition
  be_root_cause_group :: "string option"
  be_evidence :: "string option"
  be_last_verified_commit :: "string option"
  be_attributes :: pydict

definition BaselineEntry ::
  "string \<Rightarrow> string \<Rightarrow> string \<Rightarrow> string \<Rightarrow> string \<Rightarrow> string \<Rightarrow> string \<Rightarrow> string \<Rightarrow> pyval \<Rightarrow> pyval \<Rightarrow>
   string option \<Rightarrow> string option \<Rightarrow> string option \<Rightarrow> pydict \<Rightarrow> baseline_entry result"
where
  "BaselineEntry id_raw gate_raw rule_raw fingerprint_raw path_raw owner_raw issue_raw before_raw
     expires_raw removal_raw cause_group evidence commit attributes =
     and_then (checked_id id_raw) (\<lambda>i.
     and_then (require_non_empty ''gate'' (PStr gate_raw)) (\<lambda>gate.
     and_then (require_non_empty ''rule'' (PStr rule_raw)) (\<lambda>rule.
     and_then (checked_fingerprint fingerprint_raw) (\<lambda>fingerprint.
     and_then (and_then (require_non_empty ''path'' (PStr path_raw)) normalize_repository_path) (\<lambda>path.
     and_then (validate_owner owner_raw) (\<lambda>owner.
     and_then (validate_issue issue_raw) (\<lambda>issue.
     and_then (require_non_empty ''introduced_before'' (PStr before_raw)) (\<lambda>introduced_before.
     and_then (parse_iso_date ''expires'' expires_raw) (\<lambda>expires.
     and_then (removal_condition_from_value removal_raw) (\<lambda>removal.
     Inr \<lparr>be_id = i, be_gate = gate, be_rule = rule, be_fingerprint = fingerprint, be_path = path,
          be_owner = owner, be_issue = issue, be_introduced_before = introduced_before,
          be_expires = expires, be_removal_condition = removal, be_root_cause_group = cause_group,
          be_evidence = evidence, be_last_verified_commit = commit,
          be_attributes = attributes\<rparr>))))))))))"

definition baseline_entry_is_expired :: "baseline_entry \<Rightarrow> date \<Rightarrow> bool" where
  "baseline_entry_is_expired e today \<longleftrightarrow> today > be_expires e"

definition baseline_entry_to_dict :: "baseline_entry \<Rightarrow> pydict" where
  "baseline_entry_to_dict e =
     [(PStr ''id'', PStr (be_id e)),
      (PStr ''gate'', PStr (be_gate e)),
      (PStr ''rule'', PStr (be_rule e)),
      (PStr ''fingerprint'', PStr (be_fingerprint e)),
      (PStr ''path'', PStr (be_path e)),
      (PStr ''owner'', PStr (be_owner e)),
      (PStr ''issue'', PStr (be_issue e)),
      (PStr ''introduced_before'', PStr (be_introduced_before e)),
      (PStr ''expires'', PStr (isoformat (be_expires e))),
      (PStr ''removal_condition'', PDict (removal_condition_to_dict (be_removal_condition e)))] @
     opt_entry ''root_cause_group'' (pstr_opt (be_root_cause_group e)) @
     opt_entry ''evidence'' (pstr_opt (be_evidence e)) @
     opt_entry ''last_verified_commit'' (pstr_opt (be_last_verified_commit e)) @
     (if be_attributes e \<noteq> [] then [(PStr ''attributes'', PDict (be_attributes e))] else [])"

subsection \<open>Test quarantine entries\<close>

record test_quarantine_entry =
  tq_id :: string
  tq_test_node_id :: string
  tq_fingerprint :: string
  tq_exception_type :: string
  tq_failure_signature :: string
  tq_owner :: string
  tq_issue :: string
  tq_introduced_before :: string
  tq_expires :: date
  tq_removal_condition :: removal_condition
  tq_root_cause_group :: "string option"
  tq_evidence :: "string option"
  tq_last_verified_commit :: "string option"

definition TestQuarantineEntry ::
  "string \<Rightarrow> string \<Rightarrow> string \<Rightarrow> string \<Rightarrow> string \<Rightarrow> string \<Rightarrow> string \<Rightarrow> string \<Rightarrow> pyval \<Rightarrow> pyval \<Rightarrow>
   string option \<Rightarrow> string option \<Rightarrow> string option \<Rightarrow> test_quarantine_entry result"
where
  "TestQuarantineEntry id_raw node_raw fingerprint_raw exception_raw signature_raw owner_raw
     issue_raw before_raw expires_raw removal_raw cause_group evidence commit =
     and_then (checked_id id_raw) (\<lambda>i.
     and_then (require_non_empty ''test_node_id'' (PStr node_raw)) (\<lambda>node.
     and_then (checked_fingerprint fingerprint_raw) (\<lambda>fingerprint.
     and_then (require_non_empty ''exception_type'' (PStr exception_raw)) (\<lambda>exception_type.
     and_then (require_non_empty ''failure_signature'' (PStr signature_raw)) (\<lambda>signature.
     and_then (validate_owner owner_raw) (\<lambda>owner.
     and_then (validate_issue issue_raw) (\<lambda>issue.
     and_then (require_non_empty ''introduced_before'' (PStr before_raw)) (\<lambda>introduced_before.
     and_then (parse_iso_date ''expires'' expires_raw) (\<lambda>expires.
     and_then (removal_condition_from_value removal_raw) (\<lambda>removal.
     Inr \<lparr>tq_id = i, tq_test_node_id = node, tq_fingerprint = fingerprint,
          tq_exception_type = exception_type, tq_failure_signature = signature, tq_owner = owner,
          tq_issue = issue, tq_introduced_before = introduced_before, tq_expires = expires,
          tq_removal_condition = removal, tq_root_cause_group = cause_group, tq_evidence = evidence,
          tq_last_verified_commit = commit\<rparr>))))))))))"

definition test_quarantine_entry_is_expired :: "test_quarantine_entry \<Rightarrow> date \<Rightarrow> bool" where
  "test_quarantine_entry_is_expired e today \<longleftrightarrow> today > tq_expires e"

definition test_quarantine_entry_to_dict :: "test_quarantine_entry \<Rightarrow> pydict" where
  "test_quarantine_entry_to_dict e =
     [(PStr ''id'', PStr (tq_id e)),
      (PStr ''test_node_id'', PStr (tq_test_node_id e)),
      (PStr ''fingerprint'', PStr (tq_fingerprint e)),
      (PStr ''exception_type'', PStr (tq_exception_type e)),
      (PStr ''failure_signature'', PStr (tq_failure_signature e)),
      (PStr ''owner'', PStr (tq_owner e)),
      (PStr ''issue'', PStr (tq_issue e)),
      (PStr ''introduced_before'', PStr (tq_introduced_before e)),
      (PStr ''expires'', PStr (isoformat (tq_expires e))),
      (PStr ''removal_condition'', PDict (removal_condition_to_dict (tq_removal_condition e)))] @
     opt_entry ''root_cause_group'' (pstr_opt (tq_root_cause_group e)) @
     opt_entry ''evidence'' (pstr_opt (tq_evidence e)) @
     opt_entry ''last_verified_commit'' (pstr_opt (tq_last_verified_commit e))"

subsection \<open>Rule waivers\<close>

record rule_waiver_entry =
  rw_id :: string
  rw_gate :: string
  rw_rule :: string
  rw_path :: string
  rw_owner :: string
  rw_issue :: string
  rw_expires :: date
  rw_reason :: string
  rw_removal_condition :: removal_condition

definition RuleWaiverEntry ::
  "string \<Rightarrow> string \<Rightarrow> string \<Rightarrow> string \<Rightarrow> string \<Rightarrow> string \<Rightarrow> pyval \<Rightarrow> string \<Rightarrow> pyval \<Rightarrow>
   rule_waiver_entry result"
where
  "RuleWaiverEntry id_raw gate_raw rule_raw path_raw owner_raw issue_raw expires_raw reason_raw
     removal_raw =
     and_then (checked_id id_raw) (\<lambda>i.
     and_then (require_non_empty ''gate'' (PStr gate_raw)) (\<lambda>gate.
     and_then (require_non_empty ''rule'' (PStr rule_raw)) (\<lambda>rule.
     if rule \<in> {''*'', ''all'', ''ALL''} then
       Inl (ValueError ''rule waivers must target a single rule, not a wildcard'')
     else
     and_then (require_non_empty ''path'' (PStr path_raw)) (\<lambda>path0.
     if path0 \<in> {''*'', ''**'', ''.''} then
       Inl (ValueError ''rule waivers must target a single path, not a wildcard'')
     else
     and_then (normalize_repository_path path0) (\<lambda>path.
     and_then (validate_owner owner_raw) (\<lambda>owner.
     and_then (validate_issue issue_raw) (\<lambda>issue.
     and_then (parse_iso_date ''expires'' expires_raw) (\<lambda>expires.
     and_then (require_non_empty ''reason'' (PStr reason_raw)) (\<lambda>reason.
     and_then (removal_condition_from_value removal_raw) (\<lambda>removal.
     Inr \<lparr>rw_id = i, rw_gate = gate, rw_rule = rule, rw_path = path, rw_owner = owner,
          rw_issue = issue, rw_expires = expires, rw_reason = reason,
          rw_removal_condition = removal\<rparr>))))))))))"

definition rule_waiver_entry_is_expired :: "rule_waiver_entry \<Rightarrow> date \<Rightarrow> bool" where
  "rule_waiver_entry_is_expired e today \<longleftrightarrow> today > rw_expires e"

definition rule_waiver_entry_to_dict :: "rule_waiver_entry \<Rightarrow> pydict" where
  "rule_waiver_entry_to_dict e =
     [(PStr ''id'', PStr (rw_id e)),
      (PStr ''gate'', PStr (rw_gate e)),
      (PStr ''rule'', PStr (rw_rule e)),
      (PStr ''path'', PStr (rw_path e)),
      (PStr ''owner'', PStr (rw_owner e)),
      (PStr ''issue'', PStr (rw_issue e)),
      (PStr ''expires'', PStr (isoformat (rw_expires e))),
      (PStr ''reason'', PStr (rw_reason e)),
      (PStr ''removal_condition'', PDict (removal_condition_to_dict (rw_removal_condition e)))]"

subsection \<open>Every rejection is a \<open>ValueError\<close>\<close>

text \<open>\<open>only_value_errors r\<close>: when \<open>r\<close> raises, it raises \<open>ValueError\<close>.\<close>

definition only_value_errors :: "'a result \<Rightarrow> bool" where
  "only_value_errors r \<longleftrightarrow> (\<forall>e. r = Inl e \<longrightarrow> (\<exists>m. e = ValueError m))"

lemma only_value_errors_simps [simp]:
  "only_value_errors (Inr x)" "only_value_errors (Inl (ValueError m))"
  by (simp_all add: only_value_errors_def)

lemma only_value_errors_if:
  "(b \<Longrightarrow> only_value_errors r) \<Longrightarrow> (\<not> b \<Longrightarrow> only_value_errors s) \<Longrightarrow>
     only_value_errors (if b then r else s)"
  by simp

lemma only_value_errors_and_then:
  "only_value_errors r \<Longrightarrow> (\<And>x. only_value_errors (k x)) \<Longrightarrow> only_value_errors (and_then r k)"
  by (cases r) (auto simp: only_value_errors_def)

lemmas only_value_errors_intros = only_value_errors_and_then only_value_errors_if

lemma only_value_errors_basic [simp]:
  "only_value_errors (non_blank_or m v)" "only_value_errors (normalize_repository_path p)"
  "only_value_errors (parse_iso_date n v)" "only_value_errors (reject_placeholder n s)"
  by (cases v; simp) (simp add: normalize_repository_path_def Let_def,
    cases v, auto simp: reject_placeholder_def split: option.splits)

lemma only_value_errors_require [simp]: "only_value_errors (require_non_empty n v)"
  by (simp add: require_non_empty_def only_value_errors_and_then)

lemma only_value_errors_checks [simp]:
  "only_value_errors (checked_id s)" "only_value_errors (checked_fingerprint s)"
  "only_value_errors (validate_owner s)" "only_value_errors (validate_issue s)"
  unfolding checked_id_def checked_fingerprint_def validate_owner_def validate_issue_def
  by (intro only_value_errors_intros; simp)+

lemma only_value_errors_RemovalCondition [simp]: "only_value_errors (RemovalCondition k t)"
  unfolding RemovalCondition_def by (intro only_value_errors_intros; simp)

lemma only_value_errors_removal [simp]: "only_value_errors (removal_condition_from_value v)"
  by (cases v) (auto simp: Let_def)

lemma only_value_errors_path [simp]:
  "only_value_errors (and_then (require_non_empty n v) normalize_repository_path)"
  by (intro only_value_errors_intros) simp_all

lemma only_value_errors_entries:
  "only_value_errors (BaselineEntry a b c d e f g h x r u v w z)"
  "only_value_errors (TestQuarantineEntry a b c d e f g h x r u v w)"
  "only_value_errors (RuleWaiverEntry a b c d e f x g r)"
  unfolding BaselineEntry_def TestQuarantineEntry_def RuleWaiverEntry_def
  by (intro only_value_errors_intros; simp)+

subsection \<open>What an accepted entry looks like\<close>

definition trimmed :: "string \<Rightarrow> bool" where
  "trimmed s \<longleftrightarrow> s \<noteq> [] \<and> py_strip s = s"

definition valid_owner :: "string \<Rightarrow> bool" where
  "valid_owner s \<longleftrightarrow>
     trimmed s \<and> py_lower s \<notin> set PLACEHOLDER_TOKENS \<and> re_match OWNER_PATTERN s \<noteq> None"

definition valid_issue :: "string \<Rightarrow> bool" where
  "valid_issue s \<longleftrightarrow>
     trimmed s \<and> py_lower s \<notin> set PLACEHOLDER_TOKENS \<and> re_match ISSUE_PATTERN s \<noteq> None"

definition valid_id :: "string \<Rightarrow> bool" where
  "valid_id s \<longleftrightarrow> trimmed s \<and> re_match ID_PATTERN s \<noteq> None"

definition sha256_hex :: "string \<Rightarrow> bool" where
  "sha256_hex s \<longleftrightarrow> length s = 64 \<and> list_all lower_hex s"

definition valid_removal_condition :: "removal_condition \<Rightarrow> bool" where
  "valid_removal_condition r \<longleftrightarrow>
     trimmed (rc_kind r) \<and> rc_kind r \<in> set REMOVAL_CONDITION_KINDS \<and>
     (case rc_target r of None \<Rightarrow> rc_kind r \<noteq> ''migrated-to''
      | Some t \<Rightarrow> trimmed t \<and> (rc_kind r = ''migrated-to'' \<longrightarrow> py_lower t \<notin> set PLACEHOLDER_TOKENS))"

definition valid_baseline_entry :: "baseline_entry \<Rightarrow> bool" where
  "valid_baseline_entry e \<longleftrightarrow>
     valid_id (be_id e) \<and> trimmed (be_gate e) \<and> trimmed (be_rule e) \<and>
     sha256_hex (be_fingerprint e) \<and> repository_relative (be_path e) \<and> valid_owner (be_owner e) \<and>
     valid_issue (be_issue e) \<and> trimmed (be_introduced_before e) \<and>
     valid_removal_condition (be_removal_condition e)"

lemma py_strip_last: "py_strip s = s \<Longrightarrow> s \<noteq> [] \<Longrightarrow> \<not> py_isspace (last s)"
proof -
  assume "py_strip s = s" "s \<noteq> []"
  then have s: "s = rev (dropWhile py_isspace (rev (py_lstrip s)))"
    by (simp add: py_strip_def py_rstrip_def)
  then obtain c cs where d: "dropWhile py_isspace (rev (py_lstrip s)) = c # cs"
    using \<open>s \<noteq> []\<close> by (metis neq_Nil_conv rev.simps(1))
  then have "\<not> py_isspace c"
    by (metis hd_dropWhile list.sel(1) list.distinct(1))
  moreover have "last s = c"
    using arg_cong [OF s, of last] by (simp add: d)
  ultimately show "\<not> py_isspace (last s)"
    by simp
qed

lemma require_non_empty_Inr:
  "require_non_empty n (PStr raw) = Inr s \<longleftrightarrow> trimmed s \<and> s = py_strip raw"
  by (auto simp: require_non_empty_def and_then_eq_Inr trimmed_def simp flip: blank_iff_strip)

lemma require_non_empty_Inr_any: "require_non_empty n v = Inr s \<Longrightarrow> trimmed s"
  by (cases v) (auto simp: require_non_empty_Inr, auto simp: require_non_empty_def)

lemma require_trimmed [simp]: "trimmed s \<Longrightarrow> require_non_empty n (PStr s) = Inr s"
  by (simp add: require_non_empty_Inr) (simp add: trimmed_def)

lemma fingerprint_trimmed:
  "trimmed s \<Longrightarrow> re_match FINGERPRINT_PATTERN s \<noteq> None \<longleftrightarrow> sha256_hex s"
proof -
  assume t: "trimmed s"
  have "u = []" if "s = t @ u" "u = [] \<or> u = [CHR 0x0A]" for t u
  proof (rule ccontr)
    assume "u \<noteq> []"
    with that have "last s = CHR 0x0A" by simp
    moreover have "\<not> py_isspace (last s)"
      using t unfolding trimmed_def by (metis py_strip_last)
    ultimately show False
      by (simp add: py_isspace_def)
  qed
  then show ?thesis
    unfolding fingerprint_match sha256_hex_def by (metis append_Nil2)
qed

lemma sha256_trimmed: "sha256_hex s \<Longrightarrow> trimmed s"
proof -
  assume s: "sha256_hex s"
  have "\<not> py_isspace c" if "lower_hex c" for c
    using that by (auto simp: lower_hex_def is_digit_def py_isspace_def less_eq_char_def Let_def)
  then have "list_all (\<lambda>c. \<not> py_isspace c) s"
    using s by (auto simp: sha256_hex_def list_all_iff)
  then have "py_strip s = s"
    by (rule py_strip_nonspace)
  with s show ?thesis
    by (auto simp: trimmed_def sha256_hex_def)
qed

lemma checked_id_Inr: "checked_id raw = Inr s \<longleftrightarrow> valid_id s \<and> s = py_strip raw"
  by (auto simp: checked_id_def and_then_eq_Inr require_non_empty_Inr valid_id_def)

lemma checked_fingerprint_Inr: "checked_fingerprint raw = Inr s \<longleftrightarrow> sha256_hex s \<and> s = py_strip raw"
  using fingerprint_trimmed [of s] sha256_trimmed [of s]
  by (auto simp: checked_fingerprint_def and_then_eq_Inr require_non_empty_Inr split: if_splits)

lemma reject_placeholder_Inr:
  "reject_placeholder n s = Inr s' \<longleftrightarrow> s' = s \<and> py_lower (py_strip s) \<notin> set PLACEHOLDER_TOKENS"
  by (auto simp: reject_placeholder_def)

lemma validate_owner_Inr: "validate_owner raw = Inr s \<longleftrightarrow> valid_owner s \<and> s = py_strip raw"
  by (auto simp: validate_owner_def and_then_eq_Inr require_non_empty_Inr valid_owner_def
      reject_placeholder_Inr)

lemma validate_issue_Inr: "validate_issue raw = Inr s \<longleftrightarrow> valid_issue s \<and> s = py_strip raw"
  by (auto simp: validate_issue_def and_then_eq_Inr require_non_empty_Inr valid_issue_def
      reject_placeholder_Inr)

lemma RemovalCondition_valid: "RemovalCondition k t = Inr r \<Longrightarrow> valid_removal_condition r"
  by (auto simp: RemovalCondition_def and_then_eq_Inr valid_removal_condition_def
      reject_placeholder_Inr trimmed_def split: if_splits dest!: require_non_empty_Inr_any)

lemma removal_condition_from_value_valid:
  "removal_condition_from_value v = Inr r \<Longrightarrow> valid_removal_condition r"
  by (cases v) (auto simp: Let_def split: if_splits dest: RemovalCondition_valid)

lemma BaselineEntry_valid:
  assumes "BaselineEntry a b c d e f g h x r u v w z = Inr en"
  shows "valid_baseline_entry en"
  using assms
  by (auto simp: BaselineEntry_def and_then_eq_Inr valid_baseline_entry_def checked_id_Inr
      checked_fingerprint_Inr validate_owner_Inr validate_issue_Inr require_non_empty_Inr
      intro: normalize_repository_relative removal_condition_from_value_valid)

text \<open>Entries that survive being written to a ledger and read again.\<close>

lemma removal_condition_roundtrip:
  "valid_removal_condition r \<Longrightarrow>
     removal_condition_from_value (PDict (removal_condition_to_dict r)) = Inr r"
  by (cases r; cases "rc_target r")
    (auto simp: removal_condition_to_dict_def RemovalCondition_def valid_removal_condition_def
      reject_placeholder_def trimmed_def)

definition stable_baseline_entry :: "baseline_entry \<Rightarrow> bool" where
  "stable_baseline_entry e \<longleftrightarrow>
     valid_baseline_entry e \<and> py_strip (be_path e) = be_path e \<and> valid_date (be_expires e) \<and>
     be_attributes e = []"

lemma isoformat_strip: "valid_date d \<Longrightarrow> py_strip (isoformat d) = isoformat d"
proof (rule py_strip_nonspace)
  have "list_all is_digit (pad2 n)" "list_all is_digit (pad4 n)" for n
    by (simp_all add: pad2_def pad4_def string_of_nat_digits list_all_zeros is_digit_def
        string_of_nat_digits [unfolded is_digit_def])
  then have "list_all (\<lambda>c. \<not> py_isspace c) (pad2 n)" "list_all (\<lambda>c. \<not> py_isspace c) (pad4 n)" for n
    using is_digit_not_space by (metis (mono_tags, lifting) list.pred_mono_strong)+
  then show "list_all (\<lambda>c. \<not> py_isspace c) (isoformat d)"
    by (simp add: isoformat_def py_isspace_def)
qed

subsection \<open>A sample entry\<close>

definition sample_entry :: baseline_entry where
  "sample_entry =
     \<lparr>be_id = ''pe/adapter'', be_gate = ''g'', be_rule = ''r'', be_fingerprint = replicate 64 CHR ''a'',
      be_path = ''src/a.py'', be_owner = ''@team'', be_issue = ''#140'', be_introduced_before = ''8fe08c5'',
      be_expires = Date 2026 9 30, be_removal_condition = \<lparr>rc_kind = ''migrated-to'', rc_target = Some ''T''\<rparr>,
      be_root_cause_group = None, be_evidence = Some ''log'', be_last_verified_commit = None,
      be_attributes = []\<rparr>"

lemma sample_entry_stable: "stable_baseline_entry sample_entry"
  by code_simp

end
