(* ===== verification/Baseline_Comparison.thy ===== *)
theory Baseline_Comparison
  imports Baseline_Schemas
begin

text \<open>
  \<open>l9_ci/baseline/comparison.py\<close> and the function \<open>compare\<close> of \<open>l9_ci/baseline/comparator.py\<close>:
  observed findings, violations, the comparison of fresh observations with a ledger. The date of
  the evaluation is an argument, as in the code. The dictionaries of \<open>compare\<close> are built once from
  the ledger and read afterwards; here they are the list of registered entries, in the order in
  which the code registers them, and look-ups in it. One message of the code holds an em dash,
  which the character type does not have; it is written as two hyphens.
\<close>

subsection \<open>Observed findings, violations, the outcome\<close>

datatype violation_kind =
    New_Finding | Increased_Finding | Changed_Signature | Expired_Exception | Missing_Owner
  | Missing_Issue | Stale_Entry | Resolved_Not_Removed | Malformed_Baseline

fun violation_kind_value :: "violation_kind \<Rightarrow> string" where
  "violation_kind_value New_Finding = ''new-finding''"
| "violation_kind_value Increased_Finding = ''increased-finding''"
| "violation_kind_value Changed_Signature = ''changed-signature''"
| "violation_kind_value Expired_Exception = ''expired-exception''"
| "violation_kind_value Missing_Owner = ''missing-owner''"
| "violation_kind_value Missing_Issue = ''missing-issue''"
| "violation_kind_value Stale_Entry = ''stale-entry''"
| "violation_kind_value Resolved_Not_Removed = ''resolved-not-removed''"
| "violation_kind_value Malformed_Baseline = ''malformed-baseline''"

record observed_finding =
  ob_gate :: string
  ob_rule :: string
  ob_fingerprint :: string
  ob_path :: string
  ob_identity :: string
  ob_message :: string
  ob_exception_type :: "string option"
  ob_attributes :: pydict

definition observed_finding_post_init :: "observed_finding \<Rightarrow> observed_finding result" where
  "observed_finding_post_init f =
     and_then (require_non_blank '' must be a non-empty string''
       [(''observed finding gate'', ob_gate f), (''observed finding rule'', ob_rule f),
        (''observed finding fingerprint'', ob_fingerprint f), (''observed finding path'', ob_path f),
        (''observed finding identity'', ob_identity f)]) (\<lambda>_. Inr f)"

definition observed_finding_to_dict :: "observed_finding \<Rightarrow> pydict" where
  "observed_finding_to_dict f =
     [(PStr ''gate'', PStr (ob_gate f)),
      (PStr ''rule'', PStr (ob_rule f)),
      (PStr ''fingerprint'', PStr (ob_fingerprint f)),
      (PStr ''path'', PStr (ob_path f)),
      (PStr ''identity'', PStr (ob_identity f)),
      (PStr ''message'', PStr (ob_message f))] @
     opt_entry ''exception_type'' (pstr_opt (ob_exception_type f)) @
     (if ob_attributes f \<noteq> [] then [(PStr ''attributes'', PDict (ob_attributes f))] else [])"

record violation =
  vi_kind :: violation_kind
  vi_gate :: string
  vi_rule :: string
  vi_identity :: string
  vi_detail :: string
  vi_fingerprint :: "string option"
  vi_entry_id :: "string option"
  vi_path :: "string option"

definition violation_to_dict :: "violation \<Rightarrow> pydict" where
  "violation_to_dict v =
     [(PStr ''kind'', PStr (violation_kind_value (vi_kind v))),
      (PStr ''gate'', PStr (vi_gate v)),
      (PStr ''rule'', PStr (vi_rule v)),
      (PStr ''identity'', PStr (vi_identity v)),
      (PStr ''detail'', PStr (vi_detail v))] @
     opt_entry ''fingerprint'' (pstr_opt (vi_fingerprint v)) @
     opt_entry ''entry_id'' (pstr_opt (vi_entry_id v)) @
     opt_entry ''path'' (pstr_opt (vi_path v))"

record baseline_summary =
  bs_observed_total :: nat
  bs_known_total :: nat
  bs_new_total :: nat
  bs_changed_total :: nat
  bs_resolved_total :: nat
  bs_expired_total :: nat
  bs_malformed_total :: nat
  bs_violations_total :: nat

definition baseline_summary_to_dict :: "baseline_summary \<Rightarrow> pydict" where
  "baseline_summary_to_dict s =
     [(PStr ''observed_total'', PInt (int (bs_observed_total s))),
      (PStr ''known_total'', PInt (int (bs_known_total s))),
      (PStr ''new_total'', PInt (int (bs_new_total s))),
      (PStr ''changed_total'', PInt (int (bs_changed_total s))),
      (PStr ''resolved_total'', PInt (int (bs_resolved_total s))),
      (PStr ''expired_total'', PInt (int (bs_expired_total s))),
      (PStr ''malformed_total'', PInt (int (bs_malformed_total s))),
      (PStr ''violations_total'', PInt (int (bs_violations_total s)))]"

record baseline_comparison =
  bc_schema_version :: string
  bc_gate :: string
  bc_evaluated_on :: date
  bc_passed :: bool
  bc_summary :: baseline_summary
  bc_violations :: "violation list"
  bc_known :: "observed_finding list"
  bc_new :: "observed_finding list"
  bc_resolved_entry_ids :: "string list"
  bc_suggested_removals :: "string list"

definition baseline_comparison_to_dict :: "baseline_comparison \<Rightarrow> pydict" where
  "baseline_comparison_to_dict c =
     [(PStr ''schema_version'', PStr (bc_schema_version c)),
      (PStr ''gate'', PStr (bc_gate c)),
      (PStr ''evaluated_on'', PStr (isoformat (bc_evaluated_on c))),
      (PStr ''passed'', PBool (bc_passed c)),
      (PStr ''summary'', PDict (baseline_summary_to_dict (bc_summary c))),
      (PStr ''violations'', encode_items violation_to_dict (bc_violations c)),
      (PStr ''known'', encode_items observed_finding_to_dict (bc_known c)),
      (PStr ''new'', encode_items observed_finding_to_dict (bc_new c)),
      (PStr ''resolved_entry_ids'', encode_strs (bc_resolved_entry_ids c)),
      (PStr ''suggested_removals'', encode_strs (bc_suggested_removals c))]"

definition violation_key :: "violation \<Rightarrow> string \<times> string \<times> string \<times> string" where
  "violation_key v = (violation_kind_value (vi_kind v), vi_gate v, vi_rule v, vi_identity v)"

definition sort_violations :: "violation list \<Rightarrow> violation list" where
  "sort_violations vs = sort_key violation_key vs"

subsection \<open>Ledger entries of both kinds\<close>

datatype ledger_entry =
  Scanner_Entry baseline_entry | Quarantine_Entry test_quarantine_entry

fun entry_id :: "ledger_entry \<Rightarrow> string" where
  "entry_id (Scanner_Entry e) = be_id e"
| "entry_id (Quarantine_Entry e) = tq_id e"

fun entry_fingerprint :: "ledger_entry \<Rightarrow> string" where
  "entry_fingerprint (Scanner_Entry e) = be_fingerprint e"
| "entry_fingerprint (Quarantine_Entry e) = tq_fingerprint e"

fun entry_expires :: "ledger_entry \<Rightarrow> date" where
  "entry_expires (Scanner_Entry e) = be_expires e"
| "entry_expires (Quarantine_Entry e) = tq_expires e"

fun entry_is_expired :: "ledger_entry \<Rightarrow> date \<Rightarrow> bool" where
  "entry_is_expired (Scanner_Entry e) today = baseline_entry_is_expired e today"
| "entry_is_expired (Quarantine_Entry e) today = test_quarantine_entry_is_expired e today"

fun entry_identity :: "ledger_entry \<Rightarrow> string" where
  "entry_identity (Quarantine_Entry e) = tq_test_node_id e"
| "entry_identity (Scanner_Entry e) = be_rule e @ ''::'' @ be_path e"

fun entry_gate :: "ledger_entry \<Rightarrow> string \<Rightarrow> string" where
  "entry_gate (Scanner_Entry e) default_gate = be_gate e"
| "entry_gate (Quarantine_Entry e) default_gate = default_gate"

fun entry_rule :: "ledger_entry \<Rightarrow> string \<Rightarrow> string" where
  "entry_rule (Scanner_Entry e) default_rule = be_rule e"
| "entry_rule (Quarantine_Entry e) default_rule = default_rule"

subsection \<open>The steps of \<open>compare\<close>\<close>

text \<open>\<open>entry_by_fingerprint.get(fp)\<close> and \<open>entries_by_identity.get(identity, [])\<close>.\<close>

definition find_entry :: "ledger_entry list \<Rightarrow> string \<Rightarrow> ledger_entry option" where
  "find_entry registered fp = find (\<lambda>e. entry_fingerprint e = fp) registered"

definition identity_entries :: "ledger_entry list \<Rightarrow> string \<Rightarrow> ledger_entry list" where
  "identity_entries registered i = filter (\<lambda>e. entry_identity e = i) registered"

definition register_entry ::
  "string \<Rightarrow> string \<Rightarrow> ledger_entry \<Rightarrow> ledger_entry list \<times> violation list \<Rightarrow>
   ledger_entry list \<times> violation list"
where
  "register_entry gate default_rule entry st =
     (case st of (registered, violations) \<Rightarrow>
        (case find_entry registered (entry_fingerprint entry) of
           Some first \<Rightarrow>
             (registered, violations @
               [\<lparr>vi_kind = Malformed_Baseline, vi_gate = gate, vi_rule = entry_rule entry default_rule,
                 vi_identity = entry_identity entry,
                 vi_detail = ''duplicate fingerprint in ledger: '' @ entry_fingerprint entry @
                   '' (entries '' @ repr_string (entry_id first) @ '' and '' @
                   repr_string (entry_id entry) @ '')'',
                 vi_fingerprint = Some (entry_fingerprint entry), vi_entry_id = Some (entry_id entry),
                 vi_path = None\<rparr>])
         | None \<Rightarrow> (registered @ [entry], violations)))"

definition register_entries ::
  "string \<Rightarrow> string \<Rightarrow> ledger_entry list \<Rightarrow> ledger_entry list \<times> violation list"
where
  "register_entries gate default_rule entries =
     fold (register_entry gate default_rule) entries ([], [])"

definition occurrences :: "observed_finding list \<Rightarrow> string \<Rightarrow> observed_finding list" where
  "occurrences observed fp = filter (\<lambda>f. ob_fingerprint f = fp) observed"

definition increased_violation ::
  "string \<Rightarrow> ledger_entry list \<Rightarrow> observed_finding list \<Rightarrow> string \<Rightarrow> violation list"
where
  "increased_violation gate registered observed fp =
     (case find_entry registered fp of
        Some e \<Rightarrow>
          if length (occurrences observed fp) > 1 then
            (let sample = hd (occurrences observed fp)
             in [\<lparr>vi_kind = Increased_Finding, vi_gate = gate, vi_rule = ob_rule sample,
                  vi_identity = ob_identity sample,
                  vi_detail = ''fingerprint '' @ fp @ '' observed '' @
                    string_of_nat (length (occurrences observed fp)) @ '' times but the '' @
                    ''ledger tolerates exactly one occurrence'',
                  vi_fingerprint = Some fp, vi_entry_id = Some (entry_id e),
                  vi_path = Some (ob_path sample)\<rparr>])
          else []
      | None \<Rightarrow> [])"

datatype observation_outcome =
  Tolerated | Expired_Observation violation | Changed_Observation violation | New_Observation violation

definition observe ::
  "string \<Rightarrow> ledger_entry list \<Rightarrow> date \<Rightarrow> observed_finding \<Rightarrow> observation_outcome"
where
  "observe gate registered today f =
     (case find_entry registered (ob_fingerprint f) of
        Some e \<Rightarrow>
          if entry_is_expired e today then
            Expired_Observation
              \<lparr>vi_kind = Expired_Exception, vi_gate = gate, vi_rule = ob_rule f,
               vi_identity = ob_identity f,
               vi_detail = ''ledger entry '' @ repr_string (entry_id e) @ '' expired on '' @
                 isoformat (entry_expires e) @ ''; '' @ ''the finding is still present'',
               vi_fingerprint = Some (ob_fingerprint f), vi_entry_id = Some (entry_id e),
               vi_path = Some (ob_path f)\<rparr>
          else Tolerated
      | None \<Rightarrow>
          (case identity_entries registered (ob_identity f) of
             e # es \<Rightarrow>
               Changed_Observation
                 \<lparr>vi_kind = Changed_Signature, vi_gate = gate, vi_rule = ob_rule f,
                  vi_identity = ob_identity f,
                  vi_detail = ''identity is ledgered but the observed failure fingerprint '' @
                    ob_fingerprint f @ '' does not match any ledger entry '' @ ''('' @
                    join '', '' (map (\<lambda>x. repr_string (entry_id x)) (e # es)) @
                    ''); the failure has changed and must be '' @ ''re-triaged'',
                  vi_fingerprint = Some (ob_fingerprint f), vi_entry_id = Some (entry_id e),
                  vi_path = Some (ob_path f)\<rparr>
           | [] \<Rightarrow>
               New_Observation
                 \<lparr>vi_kind = New_Finding, vi_gate = gate, vi_rule = ob_rule f,
                  vi_identity = ob_identity f,
                  vi_detail = ''unledgered finding '' @ ob_fingerprint f @ '': '' @
                    (if ob_message f \<noteq> [] then ob_message f else ob_identity f),
                  vi_fingerprint = Some (ob_fingerprint f), vi_entry_id = None,
                  vi_path = Some (ob_path f)\<rparr>))"

fun outcome_violations :: "observation_outcome \<Rightarrow> violation list" where
  "outcome_violations Tolerated = []"
| "outcome_violations (Expired_Observation v) = [v]"
| "outcome_violations (Changed_Observation v) = [v]"
| "outcome_violations (New_Observation v) = [v]"

text \<open>The registered entries that no observation accounts for, in the order of their fingerprints.\<close>

definition unobserved :: "observed_finding list \<Rightarrow> ledger_entry \<Rightarrow> bool" where
  "unobserved observed e \<longleftrightarrow>
     entry_fingerprint e \<notin> set (map ob_fingerprint observed) \<and>
     entry_identity e \<notin> set (map ob_identity observed)"

definition resolved_entries :: "ledger_entry list \<Rightarrow> observed_finding list \<Rightarrow> ledger_entry list" where
  "resolved_entries registered observed =
     filter (unobserved observed) (sort_key entry_fingerprint registered)"

definition resolved_violation :: "string \<Rightarrow> string \<Rightarrow> string list \<Rightarrow> ledger_entry \<Rightarrow> violation" where
  "resolved_violation gate default_rule passing e =
     (let base = (\<lambda>kind detail path.
            \<lparr>vi_kind = kind, vi_gate = gate, vi_rule = entry_rule e default_rule,
             vi_identity = entry_identity e, vi_detail = detail,
             vi_fingerprint = Some (entry_fingerprint e), vi_entry_id = Some (entry_id e),
             vi_path = path\<rparr>)
      in case e of
           Quarantine_Entry _ \<Rightarrow>
             if entry_identity e \<in> set passing then
               base Resolved_Not_Removed
                 (''quarantined test '' @ repr_string (entry_identity e) @
                  '' now passes; remove ledger '' @ ''entry '' @ repr_string (entry_id e) @
                  '' to keep the ledger truthful'') None
             else
               base Stale_Entry
                 (''ledger entry '' @ repr_string (entry_id e) @ '' references test '' @
                  repr_string (entry_identity e) @ '' '' @
                  ''which was not observed in this run (renamed, deleted, or '' @
                  ''not collected); remove or update the entry'') None
         | Scanner_Entry b \<Rightarrow>
             base Stale_Entry
               (''ledger entry '' @ repr_string (entry_id e) @ '' no longer matches any observed '' @
                ''finding; the debt is resolved -- remove the entry to ratchet '' @
                ''the baseline down'') (Some (be_path b)))"

definition compare_violations ::
  "string \<Rightarrow> observed_finding list \<Rightarrow> ledger_entry list \<Rightarrow> date \<Rightarrow> bool \<Rightarrow> string \<Rightarrow> string list \<Rightarrow>
   violation list"
where
  "compare_violations gate observed entries today resolved_requires_removal default_rule passing =
     (case register_entries gate default_rule entries of (registered, duplicates) \<Rightarrow>
        duplicates @
        concat (map (increased_violation gate registered observed)
          (sorted_set (map ob_fingerprint observed))) @
        concat (map (\<lambda>f. outcome_violations (observe gate registered today f)) observed) @
        (if resolved_requires_removal
         then map (resolved_violation gate default_rule passing) (resolved_entries registered observed)
         else []))"

definition compare ::
  "string \<Rightarrow> observed_finding list \<Rightarrow> ledger_entry list \<Rightarrow> date \<Rightarrow> bool \<Rightarrow> string \<Rightarrow> string list \<Rightarrow>
   baseline_comparison"
where
  "compare gate observed entries today resolved_requires_removal default_rule passing =
     (let registered = fst (register_entries gate default_rule entries);
          known = filter (\<lambda>f. observe gate registered today f = Tolerated) observed;
          new_ones = filter (\<lambda>f. case observe gate registered today f of
                         New_Observation _ \<Rightarrow> True | _ \<Rightarrow> False) observed;
          changed = filter (\<lambda>f. case observe gate registered today f of
                         Changed_Observation _ \<Rightarrow> True | _ \<Rightarrow> False) observed;
          resolved = sort (map entry_id (resolved_entries registered observed));
          ordered = sort_violations (compare_violations gate observed entries today
                      resolved_requires_removal default_rule passing)
      in \<lparr>bc_schema_version = ''1.0.0'', bc_gate = gate, bc_evaluated_on = today,
          bc_passed = (ordered = []),
          bc_summary =
            \<lparr>bs_observed_total = length observed, bs_known_total = length known,
             bs_new_total = length new_ones, bs_changed_total = length changed,
             bs_resolved_total = length resolved,
             bs_expired_total = length (filter (\<lambda>e. entry_is_expired e today) registered),
             bs_malformed_total = length (filter (\<lambda>v. vi_kind v = Malformed_Baseline) ordered),
             bs_violations_total = length ordered\<rparr>,
          bc_violations = ordered, bc_known = known, bc_new = new_ones,
          bc_resolved_entry_ids = resolved, bc_suggested_removals = resolved\<rparr>)"

subsection \<open>Registration of the ledger\<close>

lemma find_entry_Some:
  "find_entry es fp = Some e \<Longrightarrow> e \<in> set es \<and> entry_fingerprint e = fp"
  by (auto simp: find_entry_def find_Some_iff)

lemma find_entry_None: "find_entry es fp = None \<longleftrightarrow> fp \<notin> entry_fingerprint ` set es"
  by (auto simp: find_entry_def find_None_iff)

lemma find_entry_unique:
  assumes "distinct (map entry_fingerprint es)"
  shows "find_entry es fp = Some e \<longleftrightarrow> e \<in> set es \<and> entry_fingerprint e = fp"
proof
  assume e: "e \<in> set es \<and> entry_fingerprint e = fp"
  then obtain e' where "find_entry es fp = Some e'"
    using find_entry_None [of es fp] by (cases "find_entry es fp") auto
  moreover from this have "e' \<in> set es" "entry_fingerprint e' = entry_fingerprint e"
    using find_entry_Some e by auto
  then have "e' = e"
    using assms e by (meson distinct_map inj_onD)
  ultimately show "find_entry es fp = Some e" by simp
qed (rule find_entry_Some)

lemma register_entries_snoc:
  "register_entries g r (es @ [e]) = register_entry g r e (register_entries g r es)"
  by (simp add: register_entries_def)

lemma register_entries_distinct: "distinct (map entry_fingerprint (fst (register_entries g r es)))"
proof (induction es rule: rev_induct)
  case Nil
  then show ?case by (simp add: register_entries_def)
next
  case (snoc e es)
  then show ?case
    by (cases "register_entries g r es")
      (auto simp: register_entries_snoc register_entry_def find_entry_None split: option.splits)
qed

lemma register_entries_kinds:
  "v \<in> set (snd (register_entries g r es)) \<Longrightarrow> vi_kind v = Malformed_Baseline"
proof (induction es arbitrary: v rule: rev_induct)
  case Nil
  then show ?case by (simp add: register_entries_def)
next
  case (snoc e es)
  then show ?case
    by (cases "register_entries g r es")
      (auto simp: register_entries_snoc register_entry_def split: option.splits)
qed

lemma register_entries_all:
  "distinct (map entry_fingerprint es) \<Longrightarrow> register_entries g r es = (es, [])"
proof (induction es rule: rev_induct)
  case Nil
  then show ?case by (simp add: register_entries_def)
next
  case (snoc e es)
  then have "register_entries g r es = (es, [])" "find_entry es (entry_fingerprint e) = None"
    by (auto simp: find_entry_None)
  then show ?case
    by (simp add: register_entries_snoc register_entry_def)
qed

lemma register_entries_duplicates:
  "\<not> distinct (map entry_fingerprint es) \<Longrightarrow> snd (register_entries g r es) \<noteq> []"
proof (induction es rule: rev_induct)
  case Nil
  then show ?case by simp
next
  case (snoc e es)
  obtain reg vs where r: "register_entries g r es = (reg, vs)" by fastforce
  show ?case
  proof (cases "distinct (map entry_fingerprint es)")
    case True
    then have "reg = es"
      using register_entries_all [OF True, of g r] r by simp
    moreover have "find_entry es (entry_fingerprint e) \<noteq> None"
      using snoc.prems True by (auto simp: find_entry_None)
    ultimately show ?thesis
      by (auto simp: register_entries_snoc register_entry_def r)
  next
    case False
    then have "vs \<noteq> []"
      using snoc.IH r by simp
    then show ?thesis
      by (auto simp: register_entries_snoc register_entry_def r split: option.splits)
  qed
qed

lemma register_entries_Nil:
  "snd (register_entries g r es) = [] \<longleftrightarrow> distinct (map entry_fingerprint es)"
  using register_entries_all register_entries_duplicates by fastforce

subsection \<open>When the comparison passes\<close>

definition tolerated :: "ledger_entry list \<Rightarrow> date \<Rightarrow> observed_finding \<Rightarrow> bool" where
  "tolerated entries today f \<longleftrightarrow>
     (\<exists>e \<in> set entries. entry_fingerprint e = ob_fingerprint f \<and> \<not> entry_is_expired e today)"

lemma length_occurrences:
  "(\<forall>fp \<in> set (map ob_fingerprint fs). length (occurrences fs fp) \<le> 1) \<longleftrightarrow>
     distinct (map ob_fingerprint fs)"
proof -
  have c: "length (occurrences fs fp) = count_list (map ob_fingerprint fs) fp" for fp
    by (induction fs) (auto simp: occurrences_def)
  have "(\<forall>x \<in> set xs. count_list xs x \<le> 1) \<longleftrightarrow> distinct xs" for xs :: "string list"
    by (induction xs) (auto simp: count_list_0_iff)
  then show ?thesis
    by (simp only: c)
qed

lemma observe_Tolerated:
  assumes "distinct (map entry_fingerprint es)"
  shows "observe g es today f = Tolerated \<longleftrightarrow> tolerated es today f"
proof (cases "find_entry es (ob_fingerprint f)")
  case None
  then have "observe g es today f \<noteq> Tolerated"
    by (simp add: observe_def split: list.split)
  moreover have "\<not> tolerated es today f"
    using None unfolding find_entry_None tolerated_def by (metis image_eqI)
  ultimately show ?thesis by simp
next
  case (Some e)
  then have "e' = e" if "e' \<in> set es" "entry_fingerprint e' = ob_fingerprint f" for e'
    using find_entry_unique [OF assms] that by (metis option.inject)
  with Some show ?thesis
    using find_entry_Some [OF Some] by (auto simp: observe_def tolerated_def)
qed

lemma outcome_violations_Nil [simp]: "outcome_violations x = [] \<longleftrightarrow> x = Tolerated"
  by (cases x) auto

lemma sort_violations_simps [simp]:
  "sort_violations vs = [] \<longleftrightarrow> vs = []" "set (sort_violations vs) = set vs"
  "length (sort_violations vs) = length vs"
  by (simp_all add: sort_violations_def)

lemma increased_Nil:
  assumes "\<forall>f \<in> set fs. tolerated es today f"
  shows "(\<forall>fp \<in> set (map ob_fingerprint fs). increased_violation g es fs fp = []) \<longleftrightarrow>
    distinct (map ob_fingerprint fs)"
proof -
  have "increased_violation g es fs fp = [] \<longleftrightarrow> length (occurrences fs fp) \<le> 1"
    if fp: "fp \<in> set (map ob_fingerprint fs)" for fp
  proof -
    obtain f where "f \<in> set fs" "fp = ob_fingerprint f"
      using fp by auto
    moreover from this obtain e where "e \<in> set es" "entry_fingerprint e = ob_fingerprint f"
      using assms by (auto simp: tolerated_def)
    ultimately have "find_entry es fp \<noteq> None"
      unfolding find_entry_None by (metis image_eqI)
    then show ?thesis
      by (auto simp: increased_violation_def Let_def not_less split: if_splits)
  qed
  then show ?thesis
    using length_occurrences by blast
qed

definition ledger_matches ::
  "observed_finding list \<Rightarrow> ledger_entry list \<Rightarrow> date \<Rightarrow> bool \<Rightarrow> bool"
where
  "ledger_matches observed entries today resolved_requires_removal \<longleftrightarrow>
     distinct (map entry_fingerprint entries) \<and> distinct (map ob_fingerprint observed) \<and>
     list_all (tolerated entries today) observed \<and>
     (resolved_requires_removal \<longrightarrow> \<not> list_ex (unobserved observed) entries)"

lemma compare_violations_Nil:
  "compare_violations g obs es today rrr dr ps = [] \<longleftrightarrow> ledger_matches obs es today rrr"
proof (cases "distinct (map entry_fingerprint es)")
  case True
  have t: "concat (map (\<lambda>f. outcome_violations (observe g es today f)) obs) = [] \<longleftrightarrow>
      list_all (tolerated es today) obs"
    by (auto simp: observe_Tolerated [OF True] list_all_iff)
  have r: "resolved_entries es obs = [] \<longleftrightarrow> \<not> list_ex (unobserved obs) es"
    by (simp add: resolved_entries_def filter_empty_conv list_ex_iff)
  have i: "concat (map (increased_violation g es obs) (sorted_set (map ob_fingerprint obs))) = [] \<longleftrightarrow>
      (\<forall>fp \<in> set (map ob_fingerprint obs). increased_violation g es obs fp = [])"
    by simp
  show ?thesis
    unfolding compare_violations_def register_entries_all [OF True] prod.case append_is_Nil_conv
      t i ledger_matches_def
    using increased_Nil [of obs es today g] True
    by (cases "list_all (tolerated es today) obs") (auto simp: list_all_iff r)
next
  case False
  then have "snd (register_entries g dr es) \<noteq> []"
    by (rule register_entries_duplicates)
  then have "compare_violations g obs es today rrr dr ps \<noteq> []"
    by (cases "register_entries g dr es") (simp add: compare_violations_def)
  with False show ?thesis
    by (simp add: ledger_matches_def)
qed

lemma compare_passed: "bc_passed (compare g obs es today rrr dr ps) \<longleftrightarrow> ledger_matches obs es today rrr"
  by (simp add: compare_def Let_def compare_violations_Nil)

subsection \<open>Every observation is accounted for\<close>

lemma observe_kinds:
  "v \<in> set (outcome_violations (observe g es today f)) \<Longrightarrow>
     vi_kind v \<in> {Expired_Exception, Changed_Signature, New_Finding}"
  by (auto simp: observe_def split: option.splits list.splits if_splits)

lemma increased_kinds:
  "v \<in> set (increased_violation g es fs fp) \<Longrightarrow> vi_kind v = Increased_Finding"
  by (auto simp: increased_violation_def Let_def split: option.splits if_splits)

lemma resolved_kinds: "vi_kind (resolved_violation g r ps e) \<in> {Stale_Entry, Resolved_Not_Removed}"
  by (cases e) (simp_all add: resolved_violation_def Let_def)

lemma observe_outcome_kinds:
  "observe g es today f = Expired_Observation v \<Longrightarrow> vi_kind v = Expired_Exception"
  "observe g es today f = Changed_Observation v \<Longrightarrow> vi_kind v = Changed_Signature"
  "observe g es today f = New_Observation v \<Longrightarrow> vi_kind v = New_Finding"
  by (auto simp: observe_def split: option.splits list.splits if_splits)

lemma observe_partition:
  "length (filter (\<lambda>f. observe g es today f = Tolerated) fs) +
   length (filter (\<lambda>f. case observe g es today f of New_Observation _ \<Rightarrow> True | _ \<Rightarrow> False) fs) +
   length (filter (\<lambda>f. case observe g es today f of Changed_Observation _ \<Rightarrow> True | _ \<Rightarrow> False) fs) +
   length (filter (\<lambda>v. vi_kind v = Expired_Exception)
     (concat (map (\<lambda>f. outcome_violations (observe g es today f)) fs))) = length fs"
proof (induction fs)
  case (Cons f fs)
  show ?case
    using Cons.IH by (cases "observe g es today f") (simp_all add: observe_outcome_kinds)
qed simp

lemma resolved_not_expired [simp]: "vi_kind (resolved_violation g r ps e) \<noteq> Expired_Exception"
  using resolved_kinds [of g r ps e] by auto

lemma length_filter_sort_violations:
  "length (filter P (sort_violations vs)) = length (filter P vs)"
proof -
  have "mset (filter P (sort_violations vs)) = mset (filter P vs)"
    by (simp add: sort_violations_def)
  then show ?thesis by (rule mset_eq_length)
qed

lemma compare_accounts:
  "bs_known_total (bc_summary (compare g obs es today rrr dr ps)) +
   bs_new_total (bc_summary (compare g obs es today rrr dr ps)) +
   bs_changed_total (bc_summary (compare g obs es today rrr dr ps)) +
   length (filter (\<lambda>v. vi_kind v = Expired_Exception) (bc_violations (compare g obs es today rrr dr ps)))
     = length obs"
proof -
  obtain reg dup where r: "register_entries g dr es = (reg, dup)" by fastforce
  have none: "filter (\<lambda>v. vi_kind v = Expired_Exception) vs = []"
    if "\<And>v. v \<in> set vs \<Longrightarrow> vi_kind v \<noteq> Expired_Exception" for vs
    using that by (simp add: filter_empty_conv)
  have d: "filter (\<lambda>v. vi_kind v = Expired_Exception) dup = []"
    using register_entries_kinds [of _ g dr es] r by (intro none) force
  have i: "filter (\<lambda>v. vi_kind v = Expired_Exception)
      (concat (map (increased_violation g reg obs) (sorted_set (map ob_fingerprint obs)))) = []"
    by (rule none) (auto dest: increased_kinds)
  have s: "filter (\<lambda>v. vi_kind v = Expired_Exception)
      (if rrr then map (resolved_violation g dr ps) (resolved_entries reg obs) else []) = []"
    by (rule none) (auto split: if_splits)
  have "filter (\<lambda>v. vi_kind v = Expired_Exception) (compare_violations g obs es today rrr dr ps) =
      filter (\<lambda>v. vi_kind v = Expired_Exception)
        (concat (map (\<lambda>f. outcome_violations (observe g reg today f)) obs))"
    unfolding compare_violations_def r prod.case filter_append d i s by simp
  then show ?thesis
    using observe_partition [of g reg today obs]
    by (simp add: compare_def Let_def r length_filter_sort_violations)
qed

subsection \<open>Ratcheting down\<close>

text \<open>The ledger without the entries the comparison suggests to remove.\<close>

definition ratchet :: "baseline_comparison \<Rightarrow> ledger_entry list \<Rightarrow> ledger_entry list" where
  "ratchet c entries = filter (\<lambda>e. entry_id e \<notin> set (bc_suggested_removals c)) entries"

definition only_removals_left :: "baseline_comparison \<Rightarrow> bool" where
  "only_removals_left c \<longleftrightarrow>
     list_all (\<lambda>v. vi_kind v = Stale_Entry \<or> vi_kind v = Resolved_Not_Removed) (bc_violations c)"

lemma only_removals_left_matches:
  assumes "only_removals_left (compare g obs es today rrr dr ps)"
  shows "ledger_matches obs es today False"
proof -
  have k: "vi_kind v \<in> {Stale_Entry, Resolved_Not_Removed}"
    if "v \<in> set (compare_violations g obs es today rrr dr ps)" for v
    using assms that by (auto simp: only_removals_left_def compare_def Let_def list_all_iff)
  have "compare_violations g obs es today False dr ps = []"
  proof (rule ccontr)
    assume "compare_violations g obs es today False dr ps \<noteq> []"
    then obtain v where v: "v \<in> set (compare_violations g obs es today False dr ps)"
      by (meson last_in_set)
    then have "v \<in> set (compare_violations g obs es today rrr dr ps)"
      by (cases "register_entries g dr es") (auto simp: compare_violations_def)
    then have "vi_kind v \<in> {Stale_Entry, Resolved_Not_Removed}" by (rule k)
    moreover have "vi_kind v \<in> {Malformed_Baseline, Increased_Finding, Expired_Exception,
        Changed_Signature, New_Finding}"
      using v register_entries_kinds [of v g dr es]
      by (cases "register_entries g dr es")
        (auto simp: compare_violations_def dest!: increased_kinds observe_kinds)
    ultimately show False by auto
  qed
  then show ?thesis
    by (simp add: compare_violations_Nil)
qed

lemma ratchet_matches:
  assumes "only_removals_left (compare g obs es today rrr dr ps)" "distinct (map entry_id es)"
  shows "ledger_matches obs (ratchet (compare g obs es today rrr dr ps) es) today True"
proof -
  let ?c = "compare g obs es today rrr dr ps"
  note m = only_removals_left_matches [OF assms(1), unfolded ledger_matches_def]
  have rem: "set (bc_suggested_removals ?c) = entry_id ` {e \<in> set es. unobserved obs e}"
    using m by (auto simp: compare_def Let_def register_entries_all resolved_entries_def)
  have keep: "set (ratchet ?c es) = {e \<in> set es. \<not> unobserved obs e}"
    unfolding ratchet_def rem set_filter
    using assms(2) by (auto simp: distinct_map dest: inj_onD)
  have "distinct (map entry_fingerprint (ratchet ?c es))"
    using m unfolding ratchet_def by (metis distinct_map_filter)
  moreover have "tolerated (ratchet ?c es) today f" if f: "f \<in> set obs" for f
  proof -
    obtain e where "e \<in> set es" "entry_fingerprint e = ob_fingerprint f" "\<not> entry_is_expired e today"
      using m f by (auto simp: list_all_iff tolerated_def)
    with f show ?thesis
      unfolding tolerated_def keep by (auto simp: unobserved_def intro!: bexI [of _ e])
  qed
  ultimately show ?thesis
    using m by (auto simp: ledger_matches_def list_all_iff list_ex_iff keep)
qed

subsection \<open>Properties\<close>

text \<open>
  C5: the comparison implements the ratchet. It passes exactly when the ledger matches the run:
  no two entries share a fingerprint, no fingerprint is observed twice, every observed finding has
  an unexpired entry with its fingerprint and, when resolved entries must be removed, every entry
  is still observed by fingerprint or by identity.
\<close>

theorem compare_passed_iff:
  "bc_passed (compare gate observed entries today resolved_requires_removal default_rule passing) \<longleftrightarrow>
     ledger_matches observed entries today resolved_requires_removal"
  by (rule compare_passed)

text \<open>
  Every observation is accounted for once. The tolerated, the new and the changed findings and
  the violations of an expired exception add up to the number of observed findings.
\<close>

theorem compare_conserves:
  "let c = compare gate observed entries today resolved_requires_removal default_rule passing
   in bs_known_total (bc_summary c) + bs_new_total (bc_summary c) + bs_changed_total (bc_summary c) +
      length (filter (\<lambda>v. vi_kind v = Expired_Exception) (bc_violations c)) = length observed"
  unfolding Let_def by (rule compare_accounts)

text \<open>
  C12: applying the suggested removals turns the gate green. If all that is left to complain about
  are resolved or stale entries, then dropping exactly the entries the comparison suggests gives a
  ledger against which the same run passes.
\<close>

theorem ratchet_passes:
  assumes "only_removals_left (compare gate observed entries today True default_rule passing)"
    and "distinct (map entry_id entries)"
  shows "bc_passed (compare gate observed
    (ratchet (compare gate observed entries today True default_rule passing) entries)
    today True default_rule passing)"
  using ratchet_matches [OF assms] by (simp only: compare_passed)

theorem ratchet_passes_witness:
  "bc_passed (compare ''g'' [] [Scanner_Entry sample_entry] (Date 2026 1 1) True ''r'' []) = False \<and>
   bc_passed (compare ''g'' []
     (ratchet (compare ''g'' [] [Scanner_Entry sample_entry] (Date 2026 1 1) True ''r'' [])
       [Scanner_Entry sample_entry]) (Date 2026 1 1) True ''r'' [])"
proof -
  have l: "only_removals_left (compare ''g'' [] [Scanner_Entry sample_entry] (Date 2026 1 1) True ''r'' [])"
    by code_simp
  have "\<not> bc_passed (compare ''g'' [] [Scanner_Entry sample_entry] (Date 2026 1 1) True ''r'' [])"
    by code_simp
  then show ?thesis
    using ratchet_passes [OF l] by simp
qed

end
