(* ===== verification/Baseline_Ledger.thy ===== *)
theory Baseline_Ledger
  imports Baseline_Comparison
begin

text \<open>
  \<open>load_entries_strict\<close> of \<open>l9_ci/baseline/comparator.py\<close> and \<open>l9_ci/baseline/ledger.py\<close>: ledger files
  are read fail-closed. What reading the file and parsing YAML gives is an argument
  (\<open>yaml_read\<close>); the rest of the loaders is modelled from the parsed document on.
\<close>

subsection \<open>Loops that may raise\<close>

fun fold_res :: "('a \<Rightarrow> 's \<Rightarrow> 's result) \<Rightarrow> 'a list \<Rightarrow> 's \<Rightarrow> 's result" where
  "fold_res f [] s = Inr s"
| "fold_res f (x # xs) s = and_then (f x s) (fold_res f xs)"

lemma fold_res_append: "fold_res f (xs @ ys) s = and_then (fold_res f xs s) (fold_res f ys)"
  by (induction xs arbitrary: s) (auto simp: and_then_def split: sum.splits)

lemma fold_res_total:
  assumes "\<And>x s. P s \<Longrightarrow> \<exists>s'. f x s = Inr s' \<and> P s'" "P s"
  shows "\<exists>s'. fold_res f xs s = Inr s' \<and> P s'"
  using assms(2)
proof (induction xs arbitrary: s)
  case (Cons x xs)
  obtain s' where "f x s = Inr s'" "P s'"
    using assms(1) [OF Cons.prems] by blast
  then show ?case using Cons.IH by simp
qed simp

text \<open>\<open>str(raw[k]) if raw.get(k) is not None else None\<close> and \<open>str(raw.get(k, "") or "")\<close>\<close>

definition opt_str :: "pydict \<Rightarrow> string \<Rightarrow> string option" where
  "opt_str raw k = (case dget_none raw k of PNone \<Rightarrow> None | v \<Rightarrow> Some (py_str v))"

definition str_get :: "pydict \<Rightarrow> string \<Rightarrow> string" where
  "str_get raw k = py_str (dget_default raw k (PStr ''''))"

definition str_or_empty :: "pydict \<Rightarrow> string \<Rightarrow> string" where
  "str_or_empty raw k =
     (let v = dget_default raw k (PStr '''') in py_str (if py_truthy v then v else PStr ''''))"

definition entry_label :: "nat \<Rightarrow> string" where
  "entry_label i = ''entry['' @ string_of_nat i @ '']''"

subsection \<open>\<open>load_entries_strict\<close>\<close>

definition build_entry :: "string \<Rightarrow> pydict \<Rightarrow> ledger_entry result" where
  "build_entry entry_kind raw =
     (if entry_kind = ''test-quarantine'' then
        and_then (TestQuarantineEntry (str_get raw ''id'') (str_get raw ''test_node_id'')
          (str_get raw ''fingerprint'') (str_get raw ''exception_type'')
          (str_get raw ''failure_signature'') (str_or_empty raw ''owner'')
          (str_or_empty raw ''issue'') (str_get raw ''introduced_before'')
          (dget_default raw ''expires'' (PStr '''')) (dget_default raw ''removal_condition'' (PStr ''''))
          (opt_str raw ''root_cause_group'') (opt_str raw ''evidence'')
          (opt_str raw ''last_verified_commit'')) (\<lambda>e. Inr (Quarantine_Entry e))
      else
        and_then (BaselineEntry (str_get raw ''id'') (str_get raw ''gate'') (str_get raw ''rule'')
          (str_get raw ''fingerprint'') (str_get raw ''path'') (str_or_empty raw ''owner'')
          (str_or_empty raw ''issue'') (str_get raw ''introduced_before'')
          (dget_default raw ''expires'' (PStr '''')) (dget_default raw ''removal_condition'' (PStr ''''))
          (opt_str raw ''root_cause_group'') (opt_str raw ''evidence'')
          (opt_str raw ''last_verified_commit'') []) (\<lambda>e. Inr (Scanner_Entry e)))"

definition error_kind :: "string \<Rightarrow> violation_kind" where
  "error_kind message =
     (if starts_with ''owner'' message then Missing_Owner
      else if starts_with ''issue'' message then Missing_Issue
      else Malformed_Baseline)"

definition ledger_violation ::
  "violation_kind \<Rightarrow> string \<Rightarrow> string \<Rightarrow> string \<Rightarrow> string option \<Rightarrow> violation"
where
  "ledger_violation kind gate identity detail eid =
     \<lparr>vi_kind = kind, vi_gate = gate, vi_rule = ''ledger'', vi_identity = identity,
      vi_detail = detail, vi_fingerprint = None, vi_entry_id = eid, vi_path = None\<rparr>"

definition load_entry ::
  "string \<Rightarrow> nat \<times> pyval \<Rightarrow> ledger_entry list \<times> violation list \<Rightarrow>
   (ledger_entry list \<times> violation list) result"
where
  "load_entry entry_kind indexed st =
     (case (indexed, st) of ((index, raw_value), (entries, violations)) \<Rightarrow>
        (case raw_value of
           PDict raw \<Rightarrow>
             (let raw_id = py_str (dget_default raw ''id'' (PStr (entry_label index)))
              in case build_entry entry_kind raw of
                   Inl e \<Rightarrow>
                     if is_value_error e then
                       Inr (entries, violations @
                         [ledger_violation (error_kind (exc_message e)) entry_kind raw_id
                           (''invalid ledger entry '' @ repr_string raw_id @ '': '' @ exc_message e) None])
                     else Inl e
                 | Inr entry \<Rightarrow>
                     if entry_id entry \<in> set (map entry_id entries) then
                       Inr (entries, violations @
                         [ledger_violation Malformed_Baseline entry_kind (entry_id entry)
                           (''duplicate ledger entry id '' @ repr_string (entry_id entry))
                           (Some (entry_id entry))])
                     else Inr (entries @ [entry], violations))
         | _ \<Rightarrow>
             Inr (entries, violations @
               [ledger_violation Malformed_Baseline entry_kind (entry_label index)
                 (''entry '' @ string_of_nat index @ '' is not a mapping'') None])))"

definition load_entries_strict ::
  "pyval list \<Rightarrow> string \<Rightarrow> (ledger_entry list \<times> violation list) result"
where
  "load_entries_strict raw_entries entry_kind =
     fold_res (load_entry entry_kind) (enumerate 0 raw_entries) ([], [])"

subsection \<open>Ledger files\<close>

datatype yaml_read = Read_Failed string | Not_Yaml string | Parsed pyval

fun read_yaml_document :: "string \<Rightarrow> yaml_read \<Rightarrow> pydict result" where
  "read_yaml_document path (Read_Failed m) =
     Inl (ValueError (''cannot read ledger file '' @ path @ '': '' @ m))"
| "read_yaml_document path (Not_Yaml m) =
     Inl (ValueError (''ledger file '' @ path @ '' is not valid YAML: '' @ m))"
| "read_yaml_document path (Parsed v) =
     (if v = PNone then Inr []
      else mapping_or (''ledger file '' @ path @ '' must contain a YAML mapping'') v)"

record loaded_ledger =
  ll_schema_version :: string
  ll_gate :: string
  ll_entries :: "ledger_entry list"
  ll_violations :: "violation list"

text \<open>\<open>isinstance(raw_entries, Sequence)\<close> and no string: a list.\<close>

fun entry_sequence :: "pyval \<Rightarrow> pyval list option" where
  "entry_sequence (PList xs) = Some xs"
| "entry_sequence _ = None"

definition load_ledger :: "string \<Rightarrow> yaml_read \<Rightarrow> string \<Rightarrow> loaded_ledger result" where
  "load_ledger path yaml entry_kind =
     and_then (read_yaml_document path yaml) (\<lambda>document.
     let schema_version = str_get document ''schema_version'';
         gate = str_get document ''gate'';
         label = (if gate \<noteq> [] then gate else entry_kind);
         v1 = (if schema_version \<noteq> BASELINE_SCHEMA_VERSION
               then [ledger_violation Malformed_Baseline label path
                       (''ledger schema_version '' @ repr_string schema_version @
                        '' is not supported; '' @ ''expected '' @ repr_string BASELINE_SCHEMA_VERSION) None]
               else []);
         raw_entries = dget_default document ''entries'' (PList []);
         v2 = (if entry_sequence raw_entries = None
               then [ledger_violation Malformed_Baseline label path ''ledger entries must be a list'' None]
               else []);
         raws = (case entry_sequence raw_entries of None \<Rightarrow> [] | Some xs \<Rightarrow> xs)
     in and_then (load_entries_strict raws entry_kind) (\<lambda>(entries, entry_violations).
        Inr \<lparr>ll_schema_version = schema_version, ll_gate = gate, ll_entries = entries,
             ll_violations = v1 @ v2 @ entry_violations\<rparr>))"

definition load_waiver ::
  "nat \<times> pyval \<Rightarrow> rule_waiver_entry list \<times> violation list \<Rightarrow>
   (rule_waiver_entry list \<times> violation list) result"
where
  "load_waiver indexed st =
     (case (indexed, st) of ((index, raw_value), (waivers, violations)) \<Rightarrow>
        (case raw_value of
           PDict raw \<Rightarrow>
             (case RuleWaiverEntry (str_get raw ''id'') (str_get raw ''gate'') (str_get raw ''rule'')
                     (str_get raw ''path'') (str_or_empty raw ''owner'') (str_or_empty raw ''issue'')
                     (dget_default raw ''expires'' (PStr '''')) (str_get raw ''reason'')
                     (dget_default raw ''removal_condition'' (PStr '''')) of
                Inl e \<Rightarrow>
                  if is_value_error e then
                    Inr (waivers, violations @
                      [ledger_violation (error_kind (exc_message e)) ''rule-waivers''
                        (py_str (dget_default raw ''id'' (PStr (entry_label index))))
                        (''invalid waiver entry: '' @ exc_message e) None])
                  else Inl e
              | Inr waiver \<Rightarrow>
                  if rw_id waiver \<in> set (map rw_id waivers) then
                    Inr (waivers, violations @
                      [ledger_violation Malformed_Baseline ''rule-waivers'' (rw_id waiver)
                        (''duplicate waiver id '' @ repr_string (rw_id waiver)) (Some (rw_id waiver))])
                  else Inr (waivers @ [waiver], violations))
         | _ \<Rightarrow>
             Inr (waivers, violations @
               [ledger_violation Malformed_Baseline ''rule-waivers'' (entry_label index)
                 (''waiver entry '' @ string_of_nat index @ '' is not a mapping'') None])))"

text \<open>\<open>None\<close> for the file: the path does not exist.\<close>

definition load_rule_waivers ::
  "string \<Rightarrow> yaml_read option \<Rightarrow> (rule_waiver_entry list \<times> violation list) result"
where
  "load_rule_waivers path file =
     (case file of
        None \<Rightarrow> Inr ([], [])
      | Some yaml \<Rightarrow>
          and_then (read_yaml_document path yaml) (\<lambda>document.
          (case entry_sequence (dget_default document ''entries'' (PList [])) of
             None \<Rightarrow> Inr ([], [ledger_violation Malformed_Baseline ''rule-waivers'' path
                               ''waiver entries must be a list'' None])
           | Some raws \<Rightarrow> fold_res load_waiver (enumerate 0 raws) ([], []))))"

subsection \<open>Loading never raises and never drops an entry\<close>

lemma build_entry_errors: "only_value_errors (build_entry k raw)"
  unfolding build_entry_def
  by (intro only_value_errors_intros) (simp_all add: only_value_errors_entries)

lemma only_value_errors_Inl: "only_value_errors r \<Longrightarrow> r = Inl e \<Longrightarrow> is_value_error e"
  by (auto simp: only_value_errors_def)

fun ledger_entry_ok :: "ledger_entry \<Rightarrow> bool" where
  "ledger_entry_ok (Scanner_Entry e) \<longleftrightarrow> valid_baseline_entry e"
| "ledger_entry_ok (Quarantine_Entry e) \<longleftrightarrow>
     valid_id (tq_id e) \<and> sha256_hex (tq_fingerprint e) \<and> valid_owner (tq_owner e) \<and>
     valid_issue (tq_issue e) \<and> trimmed (tq_test_node_id e) \<and>
     valid_removal_condition (tq_removal_condition e)"

lemma TestQuarantineEntry_ok:
  assumes "TestQuarantineEntry a b c d e f g h x r u v w = Inr en"
  shows "ledger_entry_ok (Quarantine_Entry en)"
  using assms
  by (auto simp: TestQuarantineEntry_def and_then_eq_Inr checked_id_Inr
      checked_fingerprint_Inr validate_owner_Inr validate_issue_Inr require_non_empty_Inr
      intro: removal_condition_from_value_valid)

lemma build_entry_ok: "build_entry k raw = Inr e \<Longrightarrow> ledger_entry_ok e"
  by (auto simp: build_entry_def and_then_eq_Inr dest: BaselineEntry_valid TestQuarantineEntry_ok
      split: if_splits)

definition loaded_ok :: "ledger_entry list \<Rightarrow> bool" where
  "loaded_ok entries \<longleftrightarrow> list_all ledger_entry_ok entries \<and> distinct (map entry_id entries)"

lemma load_entry_step:
  assumes "loaded_ok es"
  shows "\<exists>es' vs'. load_entry k (i, raw) (es, vs) = Inr (es', vs') \<and> loaded_ok es' \<and>
    length es' + length vs' = Suc (length es + length vs)"
proof (cases "\<exists>d. raw = PDict d")
  case True
  then obtain d where raw: "raw = PDict d" by blast
  show ?thesis
  proof (cases "build_entry k d")
    case (Inl e)
    then have "is_value_error e"
      using only_value_errors_Inl [OF build_entry_errors] by blast
    with Inl assms show ?thesis
      by (simp add: load_entry_def raw Let_def)
  next
    case (Inr e)
    then have "ledger_entry_ok e" by (rule build_entry_ok)
    with Inr assms show ?thesis
      by (auto simp: load_entry_def raw Let_def loaded_ok_def)
  qed
next
  case False
  with assms show ?thesis
    by (cases raw) (simp_all add: load_entry_def)
qed

lemma load_entries_strict_total:
  "\<exists>es vs. load_entries_strict raws k = Inr (es, vs) \<and> loaded_ok es \<and>
     length es + length vs = length raws"
proof -
  have "\<exists>es vs. fold_res (load_entry k) irs (es0, vs0) = Inr (es, vs) \<and> loaded_ok es \<and>
      length es + length vs = length irs + (length es0 + length vs0)"
    if "loaded_ok es0" for irs es0 vs0
    using that
  proof (induction irs arbitrary: es0 vs0)
    case (Cons ir irs)
    obtain i r where ir: "ir = (i, r)" by (cases ir)
    obtain es1 vs1 where s: "load_entry k (i, r) (es0, vs0) = Inr (es1, vs1)" "loaded_ok es1"
      "length es1 + length vs1 = Suc (length es0 + length vs0)"
      using load_entry_step [OF Cons.prems] by blast
    show ?case
      using Cons.IH [OF s(2), of vs1] s by (auto simp: ir)
  qed auto
  from this [of "[]" "enumerate 0 raws" "[]"] show ?thesis
    by (simp add: load_entries_strict_def loaded_ok_def)
qed

lemma load_ledger_total:
  assumes "read_yaml_document path y = Inr d"
  shows "\<exists>l. load_ledger path y k = Inr l \<and> loaded_ok (ll_entries l)"
proof -
  let ?raws = "case entry_sequence (dget_default d ''entries'' (PList [])) of None \<Rightarrow> [] | Some xs \<Rightarrow> xs"
  obtain es vs where "load_entries_strict ?raws k = Inr (es, vs)" "loaded_ok es"
    using load_entries_strict_total [of ?raws k] by blast
  with assms show ?thesis
    by (simp add: load_ledger_def Let_def)
qed

subsection \<open>Writing a ledger and loading it again\<close>

lemma opt_str_pstr_opt: "dget_none d k = pstr_opt s \<Longrightarrow> opt_str d k = s"
  by (cases s) (simp_all add: opt_str_def)

lemma build_baseline_entry:
  assumes "stable_baseline_entry e" "k \<noteq> ''test-quarantine''"
  shows "build_entry k (baseline_entry_to_dict e) = Inr (Scanner_Entry e)"
proof -
  note v = assms(1) [unfolded stable_baseline_entry_def valid_baseline_entry_def]
  have owner: "validate_owner (be_owner e) = Inr (be_owner e)"
    and issue: "validate_issue (be_issue e) = Inr (be_issue e)"
    and i: "checked_id (be_id e) = Inr (be_id e)"
    and fp: "checked_fingerprint (be_fingerprint e) = Inr (be_fingerprint e)"
    using v sha256_trimmed [of "be_fingerprint e"]
    by (auto simp: validate_owner_Inr validate_issue_Inr checked_id_Inr checked_fingerprint_Inr
        valid_owner_def valid_issue_def valid_id_def trimmed_def)
  have tp: "trimmed (be_path e)"
    using v by (auto simp: trimmed_def repository_relative_def dest: join_safe_head)
  have path: "normalize_repository_path (be_path e) = Inr (be_path e)"
    using v by (simp add: normalize_fixed_iff)
  have date: "parse_iso_date ''expires'' (PStr (isoformat (be_expires e))) = Inr (be_expires e)"
    using v by (simp add: isoformat_strip fromisoformat_isoformat)
  have ne: "be_owner e \<noteq> []" "be_issue e \<noteq> []"
    using v by (auto simp: valid_owner_def valid_issue_def trimmed_def)
  have removal: "removal_condition_from_value (PDict (removal_condition_to_dict (be_removal_condition e)))
      = Inr (be_removal_condition e)"
    using v by (intro removal_condition_roundtrip) blast
  have opts: "opt_str (baseline_entry_to_dict e) ''root_cause_group'' = be_root_cause_group e"
    "opt_str (baseline_entry_to_dict e) ''evidence'' = be_evidence e"
    "opt_str (baseline_entry_to_dict e) ''last_verified_commit'' = be_last_verified_commit e"
    using v by (auto intro!: opt_str_pstr_opt simp: baseline_entry_to_dict_def)
  have strs: "str_get (baseline_entry_to_dict e) ''id'' = be_id e"
    "str_get (baseline_entry_to_dict e) ''gate'' = be_gate e"
    "str_get (baseline_entry_to_dict e) ''rule'' = be_rule e"
    "str_get (baseline_entry_to_dict e) ''fingerprint'' = be_fingerprint e"
    "str_get (baseline_entry_to_dict e) ''path'' = be_path e"
    "str_or_empty (baseline_entry_to_dict e) ''owner'' = be_owner e"
    "str_or_empty (baseline_entry_to_dict e) ''issue'' = be_issue e"
    "str_get (baseline_entry_to_dict e) ''introduced_before'' = be_introduced_before e"
    "dget_default (baseline_entry_to_dict e) ''expires'' (PStr '''') = PStr (isoformat (be_expires e))"
    "dget_default (baseline_entry_to_dict e) ''removal_condition'' (PStr '''') =
       PDict (removal_condition_to_dict (be_removal_condition e))"
    by (simp_all add: str_get_def str_or_empty_def baseline_entry_to_dict_def ne)
  have t: "trimmed (be_gate e)" "trimmed (be_rule e)" "trimmed (be_introduced_before e)" "be_attributes e = []"
    using v by blast+
  show ?thesis
    unfolding build_entry_def strs opts BaselineEntry_def
    by (simp add: assms(2) owner issue i fp path date removal t tp del: parse_iso_date.simps
        removal_condition_from_value.simps)
qed

lemma load_stable_entries:
  assumes "list_all stable_baseline_entry es" "distinct (map be_id es)" "k \<noteq> ''test-quarantine''"
  shows "load_entries_strict (map (\<lambda>e. PDict (baseline_entry_to_dict e)) es) k =
    Inr (map Scanner_Entry es, [])"
proof -
  have "fold_res (load_entry k) (enumerate n (map (\<lambda>e. PDict (baseline_entry_to_dict e)) es))
      (map Scanner_Entry ds, []) = Inr (map Scanner_Entry (ds @ es), [])"
    if "distinct (map be_id (ds @ es))" for n ds
    using that assms(1)
  proof (induction es arbitrary: n ds)
    case (Cons e es)
    have "load_entry k (n, PDict (baseline_entry_to_dict e)) (map Scanner_Entry ds, []) =
        Inr (map Scanner_Entry (ds @ [e]), [])"
      using Cons.prems build_baseline_entry [OF _ assms(3)] by (simp add: load_entry_def Let_def image_image)
    with Cons.IH [of "ds @ [e]" "Suc n"] Cons.prems show ?case
      by simp
  qed simp
  from this [of "[]" 0] assms(2) show ?thesis
    by (simp add: load_entries_strict_def)
qed

subsection \<open>Waivers\<close>

definition valid_waiver :: "rule_waiver_entry \<Rightarrow> bool" where
  "valid_waiver w \<longleftrightarrow>
     valid_id (rw_id w) \<and> trimmed (rw_gate w) \<and> trimmed (rw_rule w) \<and>
     rw_rule w \<notin> {''*'', ''all'', ''ALL''} \<and> repository_relative (rw_path w) \<and>
     valid_owner (rw_owner w) \<and> valid_issue (rw_issue w) \<and> trimmed (rw_reason w) \<and>
     valid_removal_condition (rw_removal_condition w)"

lemma RuleWaiverEntry_valid:
  "RuleWaiverEntry a b c d e f x g r = Inr w \<Longrightarrow> valid_waiver w"
  by (auto simp: RuleWaiverEntry_def and_then_eq_Inr valid_waiver_def checked_id_Inr
      validate_owner_Inr validate_issue_Inr require_non_empty_Inr
      intro: normalize_repository_relative removal_condition_from_value_valid split: if_splits)

definition waivers_ok :: "rule_waiver_entry list \<Rightarrow> bool" where
  "waivers_ok ws \<longleftrightarrow> list_all valid_waiver ws \<and> distinct (map rw_id ws)"

lemma load_waiver_step:
  assumes "waivers_ok ws"
  shows "\<exists>ws' vs'. load_waiver (i, raw) (ws, vs) = Inr (ws', vs') \<and> waivers_ok ws' \<and>
    length ws' + length vs' = Suc (length ws + length vs)"
proof (cases "\<exists>d. raw = PDict d")
  case True
  then obtain d where raw: "raw = PDict d" by blast
  let ?w = "RuleWaiverEntry (str_get d ''id'') (str_get d ''gate'') (str_get d ''rule'')
    (str_get d ''path'') (str_or_empty d ''owner'') (str_or_empty d ''issue'')
    (dget_default d ''expires'' (PStr '''')) (str_get d ''reason'')
    (dget_default d ''removal_condition'' (PStr ''''))"
  show ?thesis
  proof (cases ?w)
    case (Inl e)
    then have "is_value_error e"
      using only_value_errors_Inl [OF only_value_errors_entries(3)] by blast
    with Inl assms show ?thesis
      by (simp add: load_waiver_def raw)
  next
    case (Inr w)
    then have "valid_waiver w" by (rule RuleWaiverEntry_valid)
    with Inr assms show ?thesis
      by (auto simp: load_waiver_def raw waivers_ok_def)
  qed
next
  case False
  with assms show ?thesis
    by (cases raw) (simp_all add: load_waiver_def)
qed

lemma load_waivers_total:
  assumes "waivers_ok ws"
  shows "\<exists>ws' vs'. fold_res load_waiver irs (ws, vs) = Inr (ws', vs') \<and> waivers_ok ws' \<and>
    length ws' + length vs' = length irs + (length ws + length vs)"
  using assms
proof (induction irs arbitrary: ws vs)
  case (Cons ir irs)
  obtain i r where ir: "ir = (i, r)" by (cases ir)
  obtain ws1 vs1 where s: "load_waiver (i, r) (ws, vs) = Inr (ws1, vs1)" "waivers_ok ws1"
    "length ws1 + length vs1 = Suc (length ws + length vs)"
    using load_waiver_step [OF Cons.prems] by blast
  show ?case
    using Cons.IH [OF s(2), of vs1] s by (auto simp: ir)
qed auto

subsection \<open>Properties\<close>

text \<open>
  C9: the ledger is fail-closed and complete. Whatever raw entries a ledger holds, parsing them
  returns: every raw entry becomes exactly one accepted entry or one violation, every accepted
  entry is fully owned, dated and well formed, and no two accepted entries share an id.
\<close>

theorem load_entries_fail_closed:
  "\<exists>entries violations. load_entries_strict raws entry_kind = Inr (entries, violations) \<and>
     list_all ledger_entry_ok entries \<and> distinct (map entry_id entries) \<and>
     length entries + length violations = length raws"
  using load_entries_strict_total [of raws entry_kind] by (auto simp: loaded_ok_def)

text \<open>
  A ledger file raises only when it cannot be read. Loading a ledger raises exactly when the
  file is unreadable, is no YAML or holds no mapping; every defect below the root becomes a
  violation instead.
\<close>

theorem load_ledger_error:
  "(\<exists>e. load_ledger path yaml entry_kind = Inl e) \<longleftrightarrow> (\<exists>e. read_yaml_document path yaml = Inl e)"
proof (cases "read_yaml_document path yaml")
  case (Inl e)
  then show ?thesis by (simp add: load_ledger_def)
next
  case (Inr d)
  from load_ledger_total [OF this, of entry_kind] Inr show ?thesis by auto
qed



text \<open>
  A waiver never waives a whole gate. Every waiver that loads names one rule that is no
  wildcard, a path inside the repository, an owner and an issue; ids are distinct; and each raw
  entry gives one waiver or one violation.
\<close>

theorem load_rule_waivers_scoped:
  assumes "read_yaml_document path yaml = Inr document"
    and "entry_sequence (dget_default document ''entries'' (PList [])) = Some raws"
  shows "\<exists>waivers violations. load_rule_waivers path (Some yaml) = Inr (waivers, violations) \<and>
    list_all valid_waiver waivers \<and> distinct (map rw_id waivers) \<and>
    length waivers + length violations = length raws"
  using load_waivers_total [of "[]" "enumerate 0 raws" "[]"] assms
  by (auto simp: load_rule_waivers_def waivers_ok_def)

theorem load_rule_waivers_scoped_witness:
  "\<exists>waivers violations. load_rule_waivers ''w.yml''
       (Some (Parsed (PDict [(PStr ''entries'', PList [PNone, PDict []])]))) = Inr (waivers, violations) \<and>
     list_all valid_waiver waivers \<and> length waivers + length violations = 2"
  using load_rule_waivers_scoped [of "''w.yml''" "Parsed (PDict [(PStr ''entries'', PList [PNone, PDict []])])"
      "[(PStr ''entries'', PList [PNone, PDict []])]" "[PNone, PDict []]"]
  by (simp add: numeral_2_eq_2 del: split_paired_Ex) blast

end
