(* ===== verification/Fingerprint.thy ===== *)
theory Fingerprint
  imports Py_Regex Sha256
begin

text \<open>
  \<open>l9_ci/baseline/fingerprint.py\<close>: the removal of volatile values from failure texts, as the
  sequence of regular-expression substitutions of the source, and the fingerprints.
\<close>

subsection \<open>\<open>re.sub\<close>\<close>

text \<open>
  \<open>pattern.sub(repl, text)\<close> for patterns that match no empty text: the leftmost match is replaced
  and the search goes on behind it. The replacement is a function of the position after the match
  and of the matched text.
\<close>

function sub_from :: "regex \<Rightarrow> (string \<Rightarrow> position \<Rightarrow> string) \<Rightarrow> char option \<Rightarrow> string \<Rightarrow> string" where
  "sub_from r repl p [] = []"
| "sub_from r repl p (x # xs) =
     (let start = \<lparr>pos_prev = p, pos_rest = x # xs, pos_groups = []\<rparr>
      in case first_of (matches r start) of
           Some c \<Rightarrow>
             if length (pos_rest c) < length (x # xs)
             then repl (consumed start c) c @ sub_from r repl (pos_prev c) (pos_rest c)
             else x # sub_from r repl (Some x) xs
         | None \<Rightarrow> x # sub_from r repl (Some x) xs)"
  by pat_completeness auto

termination by (relation "measure (\<lambda>(r, repl, p, s). length s)") auto

definition re_sub :: "regex \<Rightarrow> string \<Rightarrow> string \<Rightarrow> string" where
  "re_sub r text s = sub_from r (\<lambda>_ _. text) None s"

definition re_sub_fun :: "regex \<Rightarrow> (string \<Rightarrow> position \<Rightarrow> string) \<Rightarrow> string \<Rightarrow> string" where
  "re_sub_fun r repl s = sub_from r repl None s"

subsection \<open>Patterns\<close>

abbreviation Hexes :: regex where "Hexes \<equiv> Plus_re (Chars any_hex)"
abbreviation Digits :: regex where "Digits \<equiv> Plus_re (Chars re_digit)"
abbreviation Digit_times :: "nat \<Rightarrow> regex" where "Digit_times n \<equiv> Times_re n (Chars re_digit)"

definition path_char :: "char \<Rightarrow> bool" where
  "path_char c \<longleftrightarrow> re_word c \<or> c = CHR ''.'' \<or> c = CHR ''-''"

definition HEX_ADDRESS :: regex where "HEX_ADDRESS = Seqs [Lit ''0x'', Hexes]"

definition MEMORY_OBJECT :: regex where
  "MEMORY_OBJECT =
     Seqs [Lit ''<'', Group_re 1 (Plus_re (Chars (\<lambda>c. re_word c \<or> c = CHR ''.''))),
           Lit '' object at 0x'', Hexes, Lit ''>'']"

definition LINE_REFERENCE :: regex where
  "LINE_REFERENCE = Seqs [Alts [Lit '', line '', Lit '':''], Digits]"

definition TMP_PATH :: regex where
  "TMP_PATH =
     Seqs [Lit ''/'', Alts [Lit ''tmp'', Lit ''var/folders'', Lit ''private/tmp''], Lit ''/'',
           Plus_re (Chars (\<lambda>c. \<not> re_space c \<and> c \<noteq> CHR 0x27 \<and> c \<noteq> CHR 0x22))]"

definition HOME_PATH :: regex where
  "HOME_PATH =
     Seqs [Lit ''/'', Alts [Lit ''home'', Lit ''Users''], Lit ''/'', Plus_re (Chars path_char)]"

definition UUID_RE :: regex where
  "UUID_RE =
     Seqs [Times_re 8 (Chars any_hex), Lit ''-'', Times_re 4 (Chars any_hex), Lit ''-'',
           Times_re 4 (Chars any_hex), Lit ''-'', Times_re 4 (Chars any_hex), Lit ''-'',
           Times_re 12 (Chars any_hex)]"

definition TIMESTAMP_RE :: regex where
  "TIMESTAMP_RE =
     Seqs [Digit_times 4, Lit ''-'', Digit_times 2, Lit ''-'', Digit_times 2,
           Chars (\<lambda>c. c = CHR ''T'' \<or> c = CHR '' ''), Digit_times 2, Lit '':'', Digit_times 2,
           Lit '':'', Digit_times 2, Opt_re (Seqs [Lit ''.'', Digits]),
           Opt_re (Alts [Lit ''Z'',
             Seqs [Chars (\<lambda>c. c = CHR ''+'' \<or> c = CHR ''-''), Digit_times 2, Opt_re (Lit '':''),
                   Digit_times 2]])]"

definition DURATION_RE :: regex where
  "DURATION_RE =
     Seqs [Word_boundary, Digits, Opt_re (Seqs [Lit ''.'', Digits]), Star_re (Chars re_space),
           Alts [Lit ''s'', Lit ''ms'', Lit ''us'', Lit ''ns'',
                 Seqs [Lit ''second'', Opt_re (Lit ''s'')], Seqs [Lit ''minute'', Opt_re (Lit ''s'')]],
           Word_boundary]"

definition PORT_NUMBER :: regex where
  "PORT_NUMBER = Seqs [Alts [Lit ''localhost'', Lit ''127.0.0.1''], Lit '':'', Digits]"

definition WHITESPACE_RE :: regex where "WHITESPACE_RE = Plus_re (Chars re_space)"

definition LONG_NUMBER :: regex where
  "LONG_NUMBER =
     Seqs [Word_boundary, Times_re 5 (Chars re_digit), Star_re (Chars re_digit), Word_boundary]"

definition BARE_HEX_TOKEN :: regex where
  "BARE_HEX_TOKEN =
     Seqs [Not_behind any_hex, Range_re 16 64 (Chars any_hex), Not_ahead any_hex]"

definition SET_LITERAL :: regex where
  "SET_LITERAL =
     Seqs [Lit ''{'', Group_re 1 (Plus_re (Chars (\<lambda>c. c \<notin> {CHR 0x7B, CHR 0x7D, CHR '':''}))), Lit ''}'']"

subsection \<open>Normalisation\<close>

definition canonicalize_set_literal :: "string \<Rightarrow> position \<Rightarrow> string" where
  "canonicalize_set_literal matched c =
     (let parts = map py_strip (split_on CHR '','' (group_of 1 c))
      in if length parts < 2 \<or> list_ex (\<lambda>p. p = []) parts then matched
         else ''{'' @ join '', '' (sort parts) @ ''}'')"

definition memory_object_text :: "string \<Rightarrow> position \<Rightarrow> string" where
  "memory_object_text matched c = ''<'' @ group_of 1 c @ '' object at 0xADDR>''"

definition normalize_failure_text :: "string \<Rightarrow> string" where
  "normalize_failure_text text =
     (let v0 = py_strip text;
          v1 = re_sub_fun MEMORY_OBJECT memory_object_text v0;
          v2 = re_sub HEX_ADDRESS ''0xADDR'' v1;
          v3 = re_sub UUID_RE ''UUID'' v2;
          v4 = re_sub TIMESTAMP_RE ''TIMESTAMP'' v3;
          v5 = re_sub TMP_PATH ''/TMPPATH'' v4;
          v6 = re_sub HOME_PATH ''/HOMEPATH'' v5;
          v7 = re_sub PORT_NUMBER ''HOST:PORT'' v6;
          v8 = re_sub DURATION_RE ''DURATION'' v7;
          v9 = re_sub LINE_REFERENCE '':LINE'' v8;
          v10 = re_sub BARE_HEX_TOKEN ''HEX'' v9;
          v11 = re_sub LONG_NUMBER ''NUM'' v10;
          v12 = re_sub_fun SET_LITERAL canonicalize_set_literal v11;
          v13 = re_sub WHITESPACE_RE '' '' v12
      in py_strip v13)"

subsection \<open>Fingerprints\<close>

definition FIELD_SEPARATOR :: char where "FIELD_SEPARATOR = CHR 0x1F"

definition compute_fingerprint :: "string list \<Rightarrow> string result" where
  "compute_fingerprint components =
     (if components = [] then Inl (ValueError ''fingerprint requires at least one component'')
      else Inr (sha256_hexdigest (utf8_encode (join [FIELD_SEPARATOR] components))))"

definition fingerprint_for_test_failure :: "string \<Rightarrow> string \<Rightarrow> string \<Rightarrow> string result" where
  "fingerprint_for_test_failure node exception_type signature =
     (if blank node then Inl (ValueError ''test_node_id must not be empty'')
      else if blank exception_type then Inl (ValueError ''exception_type must not be empty'')
      else compute_fingerprint
             [''test'', py_strip node, py_strip exception_type, normalize_failure_text signature])"

definition scanner_finding_fingerprint :: "string \<Rightarrow> string \<Rightarrow> string \<Rightarrow> string result" where
  "scanner_finding_fingerprint rule_id path usage =
     (if blank rule_id then Inl (ValueError ''rule_id must not be empty'')
      else if blank path then Inl (ValueError ''repository_path must not be empty'')
      else if blank usage then Inl (ValueError ''normalized_usage must not be empty'')
      else compute_fingerprint
             [''scanner'', py_strip rule_id, py_strip path, normalize_failure_text usage])"

text \<open>The text a fingerprint is the digest of.\<close>

definition fingerprint_preimage :: "string list \<Rightarrow> string" where
  "fingerprint_preimage components = utf8_encode (join [FIELD_SEPARATOR] components)"

lemma compute_fingerprint_Inr:
  "components \<noteq> [] \<Longrightarrow>
     compute_fingerprint components = Inr (sha256_hexdigest (fingerprint_preimage components))"
  by (simp add: compute_fingerprint_def fingerprint_preimage_def)

lemma fingerprint_preimage_inj:
  assumes "xs \<noteq> []" "ys \<noteq> []"
    and "\<And>x. x \<in> set xs \<Longrightarrow> FIELD_SEPARATOR \<notin> set x" "\<And>y. y \<in> set ys \<Longrightarrow> FIELD_SEPARATOR \<notin> set y"
    and "fingerprint_preimage xs = fingerprint_preimage ys"
  shows "xs = ys"
proof -
  have "join [FIELD_SEPARATOR] xs = join [FIELD_SEPARATOR] ys"
    using assms(5) by (simp add: fingerprint_preimage_def utf8_encode_inj)
  then show ?thesis
    using split_join [of xs FIELD_SEPARATOR] split_join [of ys FIELD_SEPARATOR] assms(1-4) by metis
qed

lemma compute_fingerprint_shape:
  "compute_fingerprint cs = Inr f \<Longrightarrow> length f = 64 \<and> list_all lower_hex f"
  by (auto simp: compute_fingerprint_def length_sha256 list_all_iff lower_hex_def
      dest!: sha256_digits split: if_splits)

subsection \<open>Properties\<close>

text \<open>
  The text that is hashed determines the components. Two non-empty component lists that do not
  contain the unit separator are hashed from different bytes unless they are equal; the separator
  hypothesis is needed, since a component may itself contain the separator.
\<close>

theorem fingerprint_components_unambiguous:
  assumes "xs \<noteq> []" and "ys \<noteq> []"
    and "\<forall>x \<in> set (xs @ ys). FIELD_SEPARATOR \<notin> set x"
    and "fingerprint_preimage xs = fingerprint_preimage ys"
  shows "xs = ys"
  using assms by (intro fingerprint_preimage_inj [of xs ys]) auto

theorem fingerprint_components_unambiguous_witness:
  "fingerprint_preimage [''ab'', ''c''] \<noteq> fingerprint_preimage [''a'', ''bc'']"
  using fingerprint_components_unambiguous [of "[''ab'', ''c'']" "[''a'', ''bc'']"]
  by (auto simp: FIELD_SEPARATOR_def)

text \<open>
  A component that holds the separator collides. The doc string of \<open>compute_fingerprint\<close> says
  that joined components never collide; the single component \<open>a<US>b\<close> and the two components \<open>a\<close>,
  \<open>b\<close> have the same fingerprint.
\<close>

theorem fingerprint_separator_collision:
  "compute_fingerprint [''a'' @ [FIELD_SEPARATOR] @ ''b''] = compute_fingerprint [''a'', ''b'']"
  by (simp add: compute_fingerprint_Inr fingerprint_preimage_def FIELD_SEPARATOR_def)

text \<open>
  Every fingerprint has the shape the ledger demands: 64 lower-case hexadecimal digits.
\<close>

theorem compute_fingerprint_digits:
  assumes "compute_fingerprint components = Inr fp"
  shows "length fp = 64 \<and> list_all lower_hex fp"
  using assms by (rule compute_fingerprint_shape)

theorem compute_fingerprint_digits_witness:
  "\<exists>fp. compute_fingerprint [''scanner'', ''r''] = Inr fp \<and> length fp = 64 \<and> list_all lower_hex fp"
  using compute_fingerprint_digits [OF compute_fingerprint_Inr [of "[''scanner'', ''r'']"]]
  by (simp add: compute_fingerprint_Inr)

end
