(* ===== verification/Baseline_Adapters.thy ===== *)
theory Baseline_Adapters
  imports Baseline_Ledger Fingerprint
begin

text \<open>
  The two sources of observed findings: \<open>l9_ci/baseline/pytest_adapter.py\<close>, which reads a pytest
  report log, and \<open>l9_ci/baseline/packet_envelope.py\<close>, which walks Python syntax trees. A report
  log is the list of its non-blank lines, each the JSON value it holds or \<open>None\<close> when it is no
  JSON. The Python parser and \<open>ast.unparse\<close> are outside the model: a file is given with its
  syntax tree, in the node types the visitor of the source tells apart.
\<close>

subsection \<open>\<open>str.isalpha\<close>\<close>

definition is_alpha :: "char \<Rightarrow> bool" where
  "is_alpha c \<longleftrightarrow>
     ascii_lower c \<or> ascii_upper c \<or>
     (let n = of_char c :: nat in n \<in> {170, 181, 186} \<or> (192 \<le> n \<and> n \<noteq> 215 \<and> n \<noteq> 247))"

subsection \<open>The pytest report log\<close>

definition PYTEST_GATE :: string where "PYTEST_GATE = ''tests/pytest''"

definition rule_by_kind :: "string \<Rightarrow> string" where
  "rule_by_kind kind =
     (if kind = ''failure'' then ''pytest-failure''
      else if kind = ''error'' then ''pytest-error'' else ''pytest-collection-failure'')"

record pytest_run_result =
  pt_findings :: "observed_finding list"
  pt_passing_node_ids :: "string list"
  pt_skipped_node_ids :: "string list"
  pt_xfailed_node_ids :: "string list"
  pt_total_collected :: nat

text \<open>\<open>if crash and isinstance(crash.get("message"), str)\<close>\<close>

definition crash_message :: "pydict option \<Rightarrow> string option" where
  "crash_message crash =
     (case crash of
        None \<Rightarrow> None
      | Some d \<Rightarrow> (case dget_none d ''message'' of PStr m \<Rightarrow> Some m | _ \<Rightarrow> None))"

definition crash_head :: "pydict option \<Rightarrow> string option" where
  "crash_head crash =
     Option.bind (crash_message crash) (\<lambda>m.
       let head = py_strip (before_char CHR '':'' m)
       in if head \<noteq> [] \<and> CHR '' '' \<notin> set head \<and> is_alpha (hd head) then Some head else None)"

definition error_line :: "string \<Rightarrow> bool" where
  "error_line line \<longleftrightarrow> starts_with ''E '' (py_strip line)"

definition error_text :: "string \<Rightarrow> string" where
  "error_text line = py_strip (drop 2 (py_strip line))"

definition line_exception :: "string \<Rightarrow> string option" where
  "line_exception line =
     (if error_line line then
        (let candidate = py_strip (before_char CHR '':'' (error_text line))
         in if candidate \<noteq> [] \<and> CHR '' '' \<notin> set candidate then Some candidate else None)
      else None)"

definition extract_exception_type :: "string \<Rightarrow> pydict option \<Rightarrow> string" where
  "extract_exception_type longrepr crash =
     (case crash_head crash of
        Some head \<Rightarrow> head
      | None \<Rightarrow>
          (case first_of (List.map_filter line_exception (rev (splitlines longrepr))) of
             Some candidate \<Rightarrow> candidate
           | None \<Rightarrow> ''UnknownError''))"

definition extract_signature :: "string \<Rightarrow> pydict option \<Rightarrow> string" where
  "extract_signature longrepr crash =
     (case crash_message crash of
        Some m \<Rightarrow> m
      | None \<Rightarrow>
          (let error_lines = map error_text (filter error_line (splitlines longrepr));
               tail = splitlines (py_strip longrepr)
           in if error_lines \<noteq> [] then join '' | '' (take 3 error_lines)
              else if tail \<noteq> [] then py_strip (last tail)
              else ''no-failure-signature''))"

text \<open>\<open>node_id.split("::", 1)[0] or node_id\<close>\<close>

fun before_double_colon :: "string \<Rightarrow> string" where
  "before_double_colon [] = []"
| "before_double_colon (c # s) =
     (if starts_with ''::'' (c # s) then [] else c # before_double_colon s)"

definition node_path :: "string \<Rightarrow> string" where
  "node_path node_id =
     (let p = before_double_colon node_id in if p \<noteq> [] then p else node_id)"

definition finding_from_report :: "string \<Rightarrow> string \<Rightarrow> string \<Rightarrow> pydict option \<Rightarrow> observed_finding result" where
  "finding_from_report node_id kind longrepr crash =
     (let exception_type = extract_exception_type longrepr crash;
          signature = normalize_failure_text (extract_signature longrepr crash)
      in and_then (fingerprint_for_test_failure node_id exception_type signature) (\<lambda>fp.
         observed_finding_post_init
           \<lparr>ob_gate = PYTEST_GATE, ob_rule = rule_by_kind kind, ob_fingerprint = fp,
            ob_path = node_path node_id, ob_identity = node_id, ob_message = signature,
            ob_exception_type = Some exception_type,
            ob_attributes = [(PStr ''kind'', PStr kind)]\<rparr>))"

fun entry_lines :: "pyval \<Rightarrow> string list" where
  "entry_lines (PDict entry) =
     (case dget_none entry ''data'' of
        PDict data \<Rightarrow> (case dget_none data ''lines'' of PList lines \<Rightarrow> map py_str lines | _ \<Rightarrow> [])
      | _ \<Rightarrow> [])"
| "entry_lines _ = []"

definition flatten_longrepr :: "pyval \<Rightarrow> string result" where
  "flatten_longrepr v =
     (case v of
        PNone \<Rightarrow> Inr ''''
      | PStr s \<Rightarrow> Inr s
      | PList parts \<Rightarrow> Inr (join [CHR 0x0A] (map py_str parts))
      | PDict d \<Rightarrow>
          (let c1 = (case dget_none d ''reprcrash'' of
                       PDict crash \<Rightarrow>
                         (let m = dget_none crash ''message'' in if py_truthy m then [py_str m] else [])
                     | _ \<Rightarrow> [])
           in case dget_none d ''reprtraceback'' of
                PDict tb \<Rightarrow>
                  (let entries = dget_default tb ''reprentries'' (PList [])
                   in and_then (py_iter (if py_truthy entries then entries else PList [])) (\<lambda>es.
                      Inr (join [CHR 0x0A] (c1 @ concat (map entry_lines es)))))
              | _ \<Rightarrow> Inr (join [CHR 0x0A] c1))
      | _ \<Rightarrow> Inr (py_str v))"

definition extract_crash :: "pyval \<Rightarrow> pydict option" where
  "extract_crash v =
     (case v of
        PDict d \<Rightarrow> (case dget_none d ''reprcrash'' of PDict c \<Rightarrow> Some c | _ \<Rightarrow> None)
      | _ \<Rightarrow> None)"

definition is_xfail :: "pydict \<Rightarrow> bool" where
  "is_xfail rep \<longleftrightarrow>
     dget_none rep ''wasxfail'' \<noteq> PNone \<or>
     (case dget_none rep ''longrepr'' of
        PList [a, b, c] \<Rightarrow>
          starts_with ''xfail'' (py_lower (py_str c)) \<or> starts_with ''expected fail'' (py_lower (py_str c))
      | _ \<Rightarrow> False)"

record report_state =
  rs_findings :: "(string \<times> observed_finding) list"
  rs_passing :: "string list"
  rs_skipped :: "string list"
  rs_xfailed :: "string list"
  rs_collected :: nat

definition report_test :: "string \<Rightarrow> pydict \<Rightarrow> report_state \<Rightarrow> report_state result" where
  "report_test node_id rep st =
     (let when = dget_none rep ''when''; outcome = dget_none rep ''outcome'';
          call_or_setup = (when = PStr ''call'' \<or> when = PStr ''setup'')
      in if when = PStr ''call'' \<and> outcome = PStr ''passed'' then
           Inr (st\<lparr>rs_passing := (if node_id \<in> set (map fst (rs_findings st)) then rs_passing st
                                  else rs_passing st @ [node_id]),
                   rs_collected := rs_collected st + 1\<rparr>)
         else if outcome = PStr ''skipped'' then
           (let st1 = (if is_xfail rep then st\<lparr>rs_xfailed := rs_xfailed st @ [node_id]\<rparr>
                       else st\<lparr>rs_skipped := rs_skipped st @ [node_id]\<rparr>)
            in Inr (if call_or_setup then st1\<lparr>rs_collected := rs_collected st1 + 1\<rparr> else st1))
         else if outcome = PStr ''failed'' then
           and_then (flatten_longrepr (dget_none rep ''longrepr'')) (\<lambda>longrepr.
           and_then (finding_from_report node_id
                       (if when = PStr ''call'' then ''failure'' else ''error'') longrepr
                       (extract_crash (dget_none rep ''longrepr''))) (\<lambda>f.
           let st1 = st\<lparr>rs_findings := assoc_put node_id f (rs_findings st),
                        rs_passing := filter (\<lambda>i. i \<noteq> node_id) (rs_passing st)\<rparr>
           in Inr (if call_or_setup then st1\<lparr>rs_collected := rs_collected st1 + 1\<rparr> else st1)))
         else Inr st)"

definition report_record :: "pydict \<Rightarrow> report_state \<Rightarrow> report_state result" where
  "report_record rep st =
     (let report_type = dget_none rep ''$report_type''
      in if report_type = PStr ''CollectReport'' then
           (if dget_none rep ''outcome'' = PStr ''failed'' then
              (let raw = dget_none rep ''nodeid'';
                   node_id = (if py_truthy raw then py_str raw else ''collection-root'')
               in and_then (flatten_longrepr (dget_none rep ''longrepr'')) (\<lambda>longrepr.
                  and_then (finding_from_report node_id ''collection'' longrepr None) (\<lambda>f.
                  Inr (st\<lparr>rs_findings := assoc_put (ob_identity f) f (rs_findings st)\<rparr>))))
            else Inr st)
         else if report_type \<noteq> PStr ''TestReport'' then Inr st
         else
           (let node_id = py_str (dget_default rep ''nodeid'' (PStr ''''))
            in if node_id = [] then Inr st else report_test node_id rep st))"

text \<open>A line that is no JSON raises; a JSON value that is no object is skipped.\<close>

definition report_line :: "string \<Rightarrow> pyval option \<Rightarrow> report_state \<Rightarrow> report_state result" where
  "report_line path line st =
     (case line of
        None \<Rightarrow> Inl (ValueError (''report log '' @ path @ '' contains invalid JSON''))
      | Some (PDict d) \<Rightarrow> report_record d st
      | Some _ \<Rightarrow> Inr st)"

definition parse_report_log :: "string \<Rightarrow> pyval option list \<Rightarrow> pytest_run_result result" where
  "parse_report_log path lines =
     and_then (fold_res (report_line path) lines
        \<lparr>rs_findings = [], rs_passing = [], rs_skipped = [], rs_xfailed = [], rs_collected = 0\<rparr>) (\<lambda>st.
     Inr \<lparr>pt_findings = map snd (sort_key fst (rs_findings st)),
          pt_passing_node_ids =
            sorted_set (filter (\<lambda>i. i \<notin> set (map fst (rs_findings st))) (rs_passing st)),
          pt_skipped_node_ids = sorted_set (rs_skipped st),
          pt_xfailed_node_ids = sorted_set (rs_xfailed st),
          pt_total_collected = rs_collected st\<rparr>)"

subsection \<open>What a parsed report log satisfies\<close>

definition report_inv :: "report_state \<Rightarrow> bool" where
  "report_inv st \<longleftrightarrow>
     distinct (map fst (rs_findings st)) \<and>
     list_all (\<lambda>(i, f). ob_identity f = i \<and> ob_gate f = PYTEST_GATE \<and>
                        length (ob_fingerprint f) = 64 \<and> list_all lower_hex (ob_fingerprint f))
       (rs_findings st)"

lemma fingerprint_for_test_failure_shape:
  "fingerprint_for_test_failure n e s = Inr f \<Longrightarrow> length f = 64 \<and> list_all lower_hex f"
  by (auto simp: fingerprint_for_test_failure_def dest: compute_fingerprint_shape split: if_splits)

lemma finding_from_report_Inr:
  assumes "finding_from_report n k l c = Inr f"
  shows "ob_identity f = n \<and> ob_gate f = PYTEST_GATE \<and> length (ob_fingerprint f) = 64 \<and>
    list_all lower_hex (ob_fingerprint f)"
  using assms
  by (auto simp: finding_from_report_def observed_finding_post_init_def Let_def and_then_eq_Inr
      dest: fingerprint_for_test_failure_shape)

lemma report_inv_put:
  assumes "report_inv st" "finding_from_report n k l c = Inr f"
  shows "report_inv (st\<lparr>rs_findings := assoc_put n f (rs_findings st)\<rparr>)"
  using assms finding_from_report_Inr [OF assms(2)]
  by (auto simp: report_inv_def distinct_assoc_put intro!: list_all_assoc_put)

lemma report_inv_fields [simp]:
  "report_inv (st\<lparr>rs_passing := p\<rparr>) = report_inv st"
  "report_inv (st\<lparr>rs_skipped := p\<rparr>) = report_inv st"
  "report_inv (st\<lparr>rs_xfailed := p\<rparr>) = report_inv st"
  "report_inv (st\<lparr>rs_collected := n\<rparr>) = report_inv st"
  by (simp_all add: report_inv_def)

lemma report_test_inv: "report_test n r st = Inr st' \<Longrightarrow> report_inv st \<Longrightarrow> report_inv st'"
  using report_inv_put [of st n]
  by (auto simp: report_test_def Let_def and_then_eq_Inr split: if_splits)

lemma report_record_inv: "report_record r st = Inr st' \<Longrightarrow> report_inv st \<Longrightarrow> report_inv st'"
  using report_inv_put [of st] finding_from_report_Inr
  by (auto simp: report_record_def Let_def and_then_eq_Inr split: if_splits dest: report_test_inv)

lemma report_line_inv: "report_line p l st = Inr st' \<Longrightarrow> report_inv st \<Longrightarrow> report_inv st'"
  by (auto simp: report_line_def split: option.splits pyval.splits dest: report_record_inv)

lemma fold_res_inv:
  assumes "fold_res f xs s = Inr s'" "P s" and "\<And>x s s'. f x s = Inr s' \<Longrightarrow> P s \<Longrightarrow> P s'"
  shows "P s'"
  using assms(1,2)
proof (induction xs arbitrary: s)
  case (Cons x xs)
  obtain s1 where "f x s = Inr s1" "fold_res f xs s1 = Inr s'"
    using Cons.prems(1) by (auto simp: and_then_eq_Inr)
  then show ?case
    using Cons.IH assms(3) Cons.prems(2) by blast
qed simp

lemma parse_report_log_inv:
  assumes "parse_report_log path lines = Inr r"
  shows "sorted (map ob_identity (pt_findings r))" "distinct (map ob_identity (pt_findings r))"
    and "set (pt_passing_node_ids r) \<inter> set (map ob_identity (pt_findings r)) = {}"
    and "\<forall>f \<in> set (pt_findings r). ob_gate f = PYTEST_GATE \<and> length (ob_fingerprint f) = 64 \<and>
           list_all lower_hex (ob_fingerprint f)"
proof -
  obtain st where st: "fold_res (report_line path) lines
      \<lparr>rs_findings = [], rs_passing = [], rs_skipped = [], rs_xfailed = [], rs_collected = 0\<rparr> = Inr st"
    and r: "pt_findings r = map snd (sort_key fst (rs_findings st))"
      "pt_passing_node_ids r =
         sorted_set (filter (\<lambda>i. i \<notin> set (map fst (rs_findings st))) (rs_passing st))"
    using assms by (auto simp: parse_report_log_def and_then_eq_Inr)
  have inv: "report_inv st"
    by (rule fold_res_inv [OF st]) (auto simp: report_inv_def dest: report_line_inv [unfolded report_inv_def])
  have ids: "map ob_identity (pt_findings r) = map fst (sort_key fst (rs_findings st))"
    using inv by (auto simp: r report_inv_def list_all_iff)
  then show "sorted (map ob_identity (pt_findings r))"
    by simp
  have "mset (map fst (sort_key fst (rs_findings st))) = mset (map fst (rs_findings st))"
    by (simp only: mset_map mset_sort)
  then show "distinct (map ob_identity (pt_findings r))"
    using inv unfolding ids report_inv_def by (metis mset_eq_imp_distinct_iff)
  show "set (pt_passing_node_ids r) \<inter> set (map ob_identity (pt_findings r)) = {}"
    unfolding ids r(2) by auto
  show "\<forall>f \<in> set (pt_findings r). ob_gate f = PYTEST_GATE \<and> length (ob_fingerprint f) = 64 \<and>
           list_all lower_hex (ob_fingerprint f)"
    using inv by (auto simp: r report_inv_def list_all_iff)
qed

subsection \<open>Property\<close>

text \<open>
  What a parsed pytest report guarantees. The findings are in the strict order of their node
  ids, so no node is reported twice; no node is both failing and passing; and every finding
  belongs to the pytest gate and carries a fingerprint a ledger entry can name.
\<close>

theorem parse_report_log_sound:
  assumes "parse_report_log path lines = Inr r"
  shows "sorted (map ob_identity (pt_findings r)) \<and> distinct (map ob_identity (pt_findings r)) \<and>
    set (pt_passing_node_ids r) \<inter> set (map ob_identity (pt_findings r)) = {} \<and>
    (\<forall>f \<in> set (pt_findings r). ob_gate f = PYTEST_GATE \<and> length (ob_fingerprint f) = 64 \<and>
       list_all lower_hex (ob_fingerprint f))"
  using parse_report_log_inv [OF assms] by blast

definition sample_report :: "string \<Rightarrow> pyval option" where
  "sample_report node =
     Some (PDict [(PStr ''$report_type'', PStr ''TestReport''), (PStr ''nodeid'', PStr node),
                  (PStr ''when'', PStr ''call''), (PStr ''outcome'', PStr ''passed'')])"

theorem parse_report_log_sound_witness:
  "\<exists>r. parse_report_log ''log'' [sample_report ''b'', sample_report ''a''] = Inr r \<and>
     pt_passing_node_ids r = [''a'', ''b''] \<and>
     set (pt_passing_node_ids r) \<inter> set (map ob_identity (pt_findings r)) = {}"
proof -
  have r: "parse_report_log ''log'' [sample_report ''b'', sample_report ''a''] =
      Inr \<lparr>pt_findings = [], pt_passing_node_ids = [''a'', ''b''], pt_skipped_node_ids = [],
           pt_xfailed_node_ids = [], pt_total_collected = 2\<rparr>"
    by code_simp
  show ?thesis
    using parse_report_log_sound [OF r] r by simp
qed

end
