(* ===== verification/Packet_Envelope.thy ===== *)
theory Packet_Envelope
  imports Baseline_Adapters
begin

text \<open>
  \<open>l9_ci/baseline/packet_envelope.py\<close>: the scanner for references to the deprecated
  \<open>PacketEnvelope\<close>. The parser is outside the model: a file comes with its syntax tree, whose
  nodes are those the visitor tells apart, or with the fact that it does not parse. \<open>ast.unparse\<close>
  is the parameter \<open>unparse\<close>.
\<close>

definition TARGET :: string where "TARGET = ''PacketEnvelope''"

definition PACKET_ENVELOPE_GATE :: string where
  "PACKET_ENVELOPE_GATE = ''pre-commit/packet-envelope-prohibited''"

definition PACKET_ENVELOPE_RULE :: string where
  "PACKET_ENVELOPE_RULE = ''packet-envelope-prohibited''"

definition DEFAULT_EXCLUDED_DIRS :: "string list" where
  "DEFAULT_EXCLUDED_DIRS =
     [''.git'', ''.hypothesis'', ''.mypy_cache'', ''.pytest_cache'', ''.ruff_cache'', ''.venv'',
      ''venv'', ''node_modules'', ''__pycache__'', ''docs'']"

subsection \<open>Syntax trees\<close>

datatype py_node =
    Import_Node "string list"
  | Import_From_Node "string option" "string list"
  | Class_Node string "py_node list" "py_node list" \<comment> \<open>name, bases, every other child\<close>
  | Name_Node string
  | Attribute_Node py_node string
  | Subscript_Node py_node "py_node list"
  | Str_Node string
  | Other_Node "py_node list"

fun references_target :: "py_node \<Rightarrow> bool" where
  "references_target (Name_Node i) = (i = TARGET)"
| "references_target (Attribute_Node v attr) = (attr = TARGET \<or> references_target v)"
| "references_target (Subscript_Node v _) = references_target v"
| "references_target _ = False"

definition type_char :: "char \<Rightarrow> bool" where
  "type_char c \<longleftrightarrow>
     ascii_lower c \<or> ascii_upper c \<or> is_digit c \<or> c \<in> set ''_.[]| ,'' \<or> c = CHR 0x27 \<or> c = CHR 0x22"

definition looks_like_type_expression :: "string \<Rightarrow> bool" where
  "looks_like_type_expression text \<longleftrightarrow> contains TARGET text \<and> list_all type_char text"

definition string_annotation :: "string \<Rightarrow> bool" where
  "string_annotation s \<longleftrightarrow>
     contains TARGET s \<and> length (py_strip s) \<le> 120 \<and> looks_like_type_expression (py_strip s)"

type_synonym usage = "string \<times> string"

fun visit :: "(py_node \<Rightarrow> string) \<Rightarrow> py_node \<Rightarrow> usage list" where
  "visit unparse (Import_Node names) =
     map (\<lambda>n. (''import'', n)) (filter (\<lambda>n. TARGET \<in> set (split_on CHR ''.'' n)) names)"
| "visit unparse (Import_From_Node module names) =
     (let m = (case module of None \<Rightarrow> '''' | Some s \<Rightarrow> s)
      in map (\<lambda>n. (''import-from'', m @ ''.'' @ n))
           (filter (\<lambda>n. n = TARGET \<or> TARGET \<in> set (split_on CHR ''.'' m)) names))"
| "visit unparse (Class_Node name bases rest) =
     (if name = TARGET then [(''class-def'', name)] else []) @
     map (\<lambda>_. (''class-base'', name @ ''('' @ TARGET @ '')'')) (filter references_target bases) @
     concat (map (visit unparse) bases) @ concat (map (visit unparse) rest)"
| "visit unparse (Name_Node i) = (if i = TARGET then [(''name-ref'', TARGET)] else [])"
| "visit unparse (Attribute_Node v attr) =
     (if attr = TARGET then
        (''attr-ref'', unparse (Attribute_Node v attr)) #
        (if v = Name_Node TARGET then [] else visit unparse v)
      else visit unparse v)"
| "visit unparse (Subscript_Node v rest) = visit unparse v @ concat (map (visit unparse) rest)"
| "visit unparse (Str_Node s) =
     (if string_annotation s then [(''string-annotation'', py_strip s)] else [])"
| "visit unparse (Other_Node cs) = concat (map (visit unparse) cs)"

text \<open>Some node of the tree, at any depth, names the target.\<close>

fun mentions :: "py_node \<Rightarrow> bool" where
  "mentions (Import_Node names) \<longleftrightarrow> list_ex (\<lambda>n. TARGET \<in> set (split_on CHR ''.'' n)) names"
| "mentions (Import_From_Node module names) \<longleftrightarrow>
     list_ex (\<lambda>n. n = TARGET \<or>
       (case module of None \<Rightarrow> False | Some m \<Rightarrow> TARGET \<in> set (split_on CHR ''.'' m))) names"
| "mentions (Class_Node name bases rest) \<longleftrightarrow>
     name = TARGET \<or> list_ex mentions bases \<or> list_ex mentions rest"
| "mentions (Name_Node i) \<longleftrightarrow> i = TARGET"
| "mentions (Attribute_Node v attr) \<longleftrightarrow> attr = TARGET \<or> mentions v"
| "mentions (Subscript_Node v rest) \<longleftrightarrow> mentions v \<or> list_ex mentions rest"
| "mentions (Str_Node s) \<longleftrightarrow> string_annotation s"
| "mentions (Other_Node cs) \<longleftrightarrow> list_ex mentions cs"

lemma references_target_mentions: "references_target n \<Longrightarrow> mentions n"
  by (induction n rule: references_target.induct) auto

lemma split_on_Nil_TARGET: "TARGET \<notin> set (split_on CHR ''.'' [])"
  by (simp add: TARGET_def)

lemma visit_Nil: "visit unparse n = [] \<longleftrightarrow> \<not> mentions n"
proof (induction unparse n rule: visit.induct)
  case (2 unparse module names)
  then show ?case
    by (cases module) (auto simp: filter_empty_conv list_ex_iff TARGET_def)
next
  case (3 unparse name bases rest)
  then show ?case
    by (auto simp: filter_empty_conv list_ex_iff dest: references_target_mentions)
qed (auto simp: filter_empty_conv list_ex_iff)

subsection \<open>Files\<close>

record packet_envelope_usage =
  pu_path :: string
  pu_usage_kind :: string
  pu_context :: string

definition normalized_usage :: "packet_envelope_usage \<Rightarrow> string" where
  "normalized_usage u = pu_usage_kind u @ '':'' @ pu_context u"

text \<open>A file: unreadable, or its text with the tree of the parser (\<open>None\<close>: a syntax error).\<close>

datatype python_file = Unreadable | Python_Source string "py_node option"

fun scan_file :: "(py_node \<Rightarrow> string) \<Rightarrow> string \<Rightarrow> python_file \<Rightarrow> packet_envelope_usage list" where
  "scan_file unparse path Unreadable = []"
| "scan_file unparse path (Python_Source source tree) =
     (if \<not> contains TARGET source then []
      else case tree of
             None \<Rightarrow>
               [\<lparr>pu_path = path, pu_usage_kind = ''unparseable-file'',
                 pu_context = ''file mentions PacketEnvelope but failed to parse''\<rparr>]
           | Some t \<Rightarrow>
               map (\<lambda>(kind, context). \<lparr>pu_path = path, pu_usage_kind = kind, pu_context = context\<rparr>)
                 (visit unparse t))"

text \<open>The files below the root with the components of their relative paths.\<close>

definition included :: "string list \<Rightarrow> string list \<Rightarrow> bool" where
  "included excluded parts \<longleftrightarrow> \<not> list_ex (\<lambda>p. p \<in> set excluded) (butlast parts)"

definition path_string :: "string \<Rightarrow> string" where
  "path_string s =
     (if posix_absolute s then ''/'' @ join ''/'' (posix_parts s) else relative_as_posix s)"

definition declaration_usage :: "string list \<Rightarrow> packet_envelope_usage \<Rightarrow> bool" where
  "declaration_usage declared u \<longleftrightarrow>
     pu_path u \<in> set declared \<and>
     pu_usage_kind u \<in> {''class-def'', ''name-ref'', ''string-annotation''}"

definition scan_usages ::
  "(py_node \<Rightarrow> string) \<Rightarrow> (string list \<times> python_file) list \<Rightarrow> string list \<Rightarrow> string list \<Rightarrow>
   (string \<times> string \<times> string) list"
where
  "scan_usages unparse files declaration_paths excluded_dirs =
     (let declared = map path_string declaration_paths;
          excluded = DEFAULT_EXCLUDED_DIRS @ excluded_dirs;
          usages = concat (map (\<lambda>(parts, file). scan_file unparse (join ''/'' parts) file)
                     (filter (\<lambda>(parts, _). included excluded parts) files))
      in map (\<lambda>u. (pu_path u, pu_usage_kind u, pu_context u))
           (filter (\<lambda>u. \<not> declaration_usage declared u) usages))"

definition usage_finding :: "(string \<times> string \<times> string) \<Rightarrow> nat \<Rightarrow> observed_finding result" where
  "usage_finding key n_found =
     (case key of (path, kind, context) \<Rightarrow>
        (let normalized = kind @ '':'' @ context
         in and_then (scanner_finding_fingerprint PACKET_ENVELOPE_RULE path normalized) (\<lambda>fp.
            observed_finding_post_init
              \<lparr>ob_gate = PACKET_ENVELOPE_GATE, ob_rule = PACKET_ENVELOPE_RULE, ob_fingerprint = fp,
               ob_path = path, ob_identity = path @ ''::'' @ normalized,
               ob_message = ''PacketEnvelope '' @ kind @ '' in '' @ path @ '': '' @ context @ '' '' @
                 ''(deprecated; migrate to TransportPacket)'',
               ob_exception_type = None,
               ob_attributes = [(PStr ''occurrences'', PInt (int n_found)),
                                (PStr ''usage_kind'', PStr kind)]\<rparr>)))"

text \<open>The counter of the usages, read in the order of its keys.\<close>

definition scan_repository ::
  "(py_node \<Rightarrow> string) \<Rightarrow> (string list \<times> python_file) list \<Rightarrow> string list \<Rightarrow> string list \<Rightarrow>
   observed_finding list result"
where
  "scan_repository unparse files declaration_paths excluded_dirs =
     (let keys = scan_usages unparse files declaration_paths excluded_dirs
      in map_res (\<lambda>k. usage_finding k (count_list keys k)) (sorted_set keys))"

lemma usage_finding_total:
  assumes "\<not> blank path"
  shows "\<exists>f. usage_finding (path, kind, context) n = Inr f \<and> ob_path f = path"
proof -
  have nb: "\<not> blank (path @ ''::'' @ s)" "\<not> blank (kind @ '':'' @ s)" for s
    using assms by (simp_all add: blank_def py_isspace_def)
  have "scanner_finding_fingerprint PACKET_ENVELOPE_RULE path (kind @ '':'' @ context) \<noteq> Inl e" for e
    using assms nb
    by (simp add: scanner_finding_fingerprint_def PACKET_ENVELOPE_RULE_def compute_fingerprint_def
        blank_def py_isspace_def)
  then obtain fp where
    fp: "scanner_finding_fingerprint PACKET_ENVELOPE_RULE path (kind @ '':'' @ context) = Inr fp"
    by (cases "scanner_finding_fingerprint PACKET_ENVELOPE_RULE path (kind @ '':'' @ context)") auto
  then have "length fp = 64 \<and> list_all lower_hex fp"
    using compute_fingerprint_shape by (auto simp: scanner_finding_fingerprint_def split: if_splits)
  then have "\<not> blank fp"
    using sha256_trimmed [of fp] by (auto simp: sha256_hex_def trimmed_def simp flip: blank_iff_strip)
  with fp assms nb(1) [of "kind @ '':'' @ context"] show ?thesis
    by (simp add: usage_finding_def observed_finding_post_init_def PACKET_ENVELOPE_GATE_def
        PACKET_ENVELOPE_RULE_def blank_def py_isspace_def Let_def)
qed

text \<open>
  The scanner returns one finding per distinct usage, and a reference in a file that is scanned
  cannot be lost: it leads to a finding at the path of the file.
\<close>

lemma scan_repository_total:
  assumes "\<And>parts f. (parts, f) \<in> set files \<Longrightarrow> \<not> blank (join ''/'' parts)"
  shows "\<exists>fs. scan_repository unparse files ds xs = Inr fs \<and>
    map ob_path fs = map fst (sorted_set (scan_usages unparse files ds xs))"
proof -
  let ?keys = "scan_usages unparse files ds xs"
  have nb: "\<not> blank (fst k)" if k: "k \<in> set (sorted_set ?keys)" for k
  proof -
    obtain parts fl u where "(parts, fl) \<in> set files" "u \<in> set (scan_file unparse (join ''/'' parts) fl)"
      "fst k = pu_path u"
      using k by (fastforce simp: scan_usages_def Let_def)
    moreover from this have "pu_path u = join ''/'' parts"
      by (cases fl) (auto split: if_splits option.splits)
    ultimately show ?thesis
      using assms by simp
  qed
  have "\<exists>fs. map_res (\<lambda>k. usage_finding k (count_list ?keys k)) ks = Inr fs \<and> map ob_path fs = map fst ks"
    if "\<And>k. k \<in> set ks \<Longrightarrow> \<not> blank (fst k)" for ks
    using that
  proof (induction ks)
    case (Cons k ks)
    obtain p kd c where k: "k = (p, kd, c)" by (cases k)
    obtain f where "usage_finding k (count_list ?keys k) = Inr f" "ob_path f = p"
      using usage_finding_total [of p kd c "count_list ?keys k"] Cons.prems [of k]
      unfolding k by auto
    with Cons show ?case by (auto simp: k)
  qed simp
  from this [of "sorted_set ?keys", OF nb] show ?thesis
    unfolding scan_repository_def Let_def .
qed

lemma scan_finds_mention:
  assumes "(parts, Python_Source source (Some tree)) \<in> set files"
    and "included (DEFAULT_EXCLUDED_DIRS @ xs) parts" "contains TARGET source" "mentions tree"
    and "join ''/'' parts \<notin> set (map path_string ds)"
  shows "join ''/'' parts \<in> fst ` set (scan_usages unparse files ds xs)"
proof -
  obtain kd cx where u: "(kd, cx) \<in> set (visit unparse tree)"
    using visit_Nil [of unparse tree] assms(4) by (cases "visit unparse tree") auto
  let ?u = "\<lparr>pu_path = join ''/'' parts, pu_usage_kind = kd, pu_context = cx\<rparr>"
  have "?u \<in> set (scan_file unparse (join ''/'' parts) (Python_Source source (Some tree)))"
    using u assms(3) by force
  moreover have "\<not> declaration_usage (map path_string ds) ?u"
    using assms(5) by (simp add: declaration_usage_def)
  ultimately show ?thesis
    using assms(1,2) by (force simp: scan_usages_def Let_def)
qed

subsection \<open>Property\<close>

text \<open>
  C17: no reference escapes the scan. A file below the root that is not in an excluded directory and
  not a declared declaration site, whose syntax tree mentions \<open>PacketEnvelope\<close> in an import, a class,
  a base, a name, an attribute or a type-like string at any depth, yields a finding with its path.
\<close>

theorem scan_repository_complete:
  assumes "(parts, Python_Source source (Some tree)) \<in> set files"
    and "included (DEFAULT_EXCLUDED_DIRS @ excluded_dirs) parts"
    and "contains TARGET source" and "mentions tree"
    and "join ''/'' parts \<notin> set (map path_string declared)"
    and "\<forall>(ps, f) \<in> set files. \<not> blank (join ''/'' ps)"
  shows "\<exists>findings. scan_repository unparse files declared excluded_dirs = Inr findings \<and>
    join ''/'' parts \<in> set (map ob_path findings)"
proof -
  have "\<not> blank (join ''/'' ps)" if "(ps, f) \<in> set files" for ps f
    using assms(6) that by blast
  then obtain fs where s: "scan_repository unparse files declared excluded_dirs = Inr fs"
    and p: "map ob_path fs = map fst (sorted_set (scan_usages unparse files declared excluded_dirs))"
    using scan_repository_total by blast
  have "set (map ob_path fs) = fst ` set (scan_usages unparse files declared excluded_dirs)"
    unfolding p by simp
  then show ?thesis
    using s scan_finds_mention [OF assms(1-5), of unparse] by (intro exI [of _ fs]) simp
qed

theorem scan_repository_complete_witness:
  "\<exists>findings. scan_repository (\<lambda>_. '''')
      [([''src'', ''a.py''], Python_Source ''x: PacketEnvelope'' (Some (Other_Node [Name_Node TARGET])))] [] [] =
      Inr findings \<and> ''src/a.py'' \<in> set (map ob_path findings)"
proof -
  let ?f = "Python_Source ''x: PacketEnvelope'' (Some (Other_Node [Name_Node TARGET]))"
  have "contains TARGET ''x: PacketEnvelope''"
    "included (DEFAULT_EXCLUDED_DIRS @ []) [''src'', ''a.py'']"
    by (code_simp, code_simp)
  then show ?thesis
    using scan_repository_complete [of "[''src'', ''a.py'']" "''x: PacketEnvelope''"
        "Other_Node [Name_Node TARGET]" "[([''src'', ''a.py''], ?f)]" "[]" "[]" "\<lambda>_. ''''"]
    by (simp add: blank_def py_isspace_def)
qed

end
