(* ===== verification/Baseline_Commands.thy ===== *)
theory Baseline_Commands
  imports Command_Line Packet_Envelope
begin

text \<open>
  \<open>l9_ci/commands/baseline.py\<close>: the handlers of \<open>l9-ci baseline\<close>. What opening and parsing a report
  log, a ledger or a findings file gives is an argument, as are the tree below the repository root
  and the date of today. These handlers catch \<open>ValueError\<close> by themselves and do not use the common
  error envelope.
\<close>

subsection \<open>Output and errors\<close>

definition emit_to :: "file_writer \<Rightarrow> string option \<Rightarrow> pydict \<Rightarrow> exit_code \<Rightarrow> outcome result" where
  "emit_to writer output payload code =
     and_then (json_pretty False 0 (PDict payload)) (\<lambda>rendered.
     case output of
       None \<Rightarrow> Inr (printed code [rendered])
     | Some path \<Rightarrow>
         if path = [] then Inr (printed code [rendered])
         else and_then (written writer path (rendered @ [CHR 0x0A])) (\<lambda>f.
              Inr ((printed code [rendered])\<lparr>oc_files := [f]\<rparr>)))"

text \<open>\<open>try: ... except <caught> as exc: print("error: ..."); return code\<close>\<close>

definition or_report ::
  "(pyexc \<Rightarrow> bool) \<Rightarrow> exit_code \<Rightarrow> string \<Rightarrow> 'a result \<Rightarrow> ('a \<Rightarrow> outcome result) \<Rightarrow> outcome result"
where
  "or_report caught code prefix body rest =
     (case body of
        Inr a \<Rightarrow> rest a
      | Inl e \<Rightarrow> if caught e then Inr (complained code [prefix @ exc_message e]) else Inl e)"

definition parse_evaluated_on :: "date \<Rightarrow> string option \<Rightarrow> date result" where
  "parse_evaluated_on today v =
     (case v of
        None \<Rightarrow> Inr today
      | Some s \<Rightarrow>
          (case date_fromisoformat s of
             Some d \<Rightarrow> Inr d
           | None \<Rightarrow> Inl (ValueError (''Invalid isoformat string: '' @ repr_string s))))"

definition finish_comparison :: "file_writer \<Rightarrow> string option \<Rightarrow> baseline_comparison \<Rightarrow> outcome result" where
  "finish_comparison writer output c =
     emit_to writer output (baseline_comparison_to_dict c) (if bc_passed c then SUCCESS else GATE_FAILURE)"

text \<open>Violations found while loading the ledger join those of the comparison; the summary stays.\<close>

definition merge_ledger :: "violation list \<Rightarrow> baseline_comparison \<Rightarrow> baseline_comparison" where
  "merge_ledger vs c =
     (if vs \<noteq> [] then c\<lparr>bc_passed := False, bc_violations := sort_violations (bc_violations c @ vs)\<rparr> else c)"

subsection \<open>\<open>compare-tests\<close>\<close>

definition read_report_log :: "string \<Rightarrow> pyval option list result \<Rightarrow> pytest_run_result result" where
  "read_report_log path lines =
     (case lines of
        Inr ls \<Rightarrow> parse_report_log path ls
      | Inl e \<Rightarrow>
          if is_os_error e then
            Inl (ValueError (''cannot read pytest report log '' @ path @ '': '' @ exc_message e))
          else Inl e)"

definition handle_compare_tests ::
  "file_writer \<Rightarrow> date \<Rightarrow> string option \<Rightarrow> string \<Rightarrow> pyval option list result \<Rightarrow> string \<Rightarrow> yaml_read \<Rightarrow>
   string option \<Rightarrow> outcome result"
where
  "handle_compare_tests writer today evaluated_on report_path lines ledger_path yaml output =
     or_report is_value_error INVALID_ARGUMENTS ''error: invalid --evaluated-on: ''
       (parse_evaluated_on today evaluated_on) (\<lambda>on.
     or_report is_value_error PROVIDER_REPORT_FAILURE ''error: '' (read_report_log report_path lines) (\<lambda>run.
     or_report is_value_error INVALID_ARGUMENTS ''error: ''
       (load_ledger ledger_path yaml ''test-quarantine'') (\<lambda>ledger.
     finish_comparison writer output
       (merge_ledger (ll_violations ledger)
          (compare PYTEST_GATE (pt_findings run) (ll_entries ledger) on True ''pytest-failure''
             (pt_passing_node_ids run))))))"

subsection \<open>\<open>scan-packet-envelope\<close>\<close>

definition handle_scan_packet_envelope ::
  "file_writer \<Rightarrow> string \<Rightarrow> bool \<Rightarrow> (py_node \<Rightarrow> string) \<Rightarrow> (string list \<times> python_file) list \<Rightarrow> string list \<Rightarrow>
   string list \<Rightarrow> string option \<Rightarrow> outcome result"
where
  "handle_scan_packet_envelope writer root is_dir unparse files declaration_paths excluded_dirs output =
     (if \<not> is_dir then
        Inr (complained INVALID_ARGUMENTS [''error: repository root '' @ root @ '' is not a directory''])
      else
        and_then (scan_repository unparse files declaration_paths excluded_dirs) (\<lambda>findings.
        emit_to writer output
          [(PStr ''gate'', PStr PACKET_ENVELOPE_GATE),
           (PStr ''findings'', encode_items observed_finding_to_dict findings),
           (PStr ''total'', PInt (int (length findings)))] SUCCESS))"

subsection \<open>\<open>compare-scan\<close>\<close>

definition observed_of_raw :: "pyval \<Rightarrow> observed_finding result" where
  "observed_of_raw raw =
     and_then (mapping_or ''each observed finding must be a mapping'' raw) (\<lambda>d.
     let attributes = dget_default d ''attributes'' (PDict [])
     in and_then (py_dict (if py_truthy attributes then attributes else PDict [])) (\<lambda>attrs.
     observed_finding_post_init
       \<lparr>ob_gate = py_str (dget_default d ''gate'' (PStr [])), ob_rule = py_str (dget_default d ''rule'' (PStr [])),
        ob_fingerprint = py_str (dget_default d ''fingerprint'' (PStr [])),
        ob_path = py_str (dget_default d ''path'' (PStr [])),
        ob_identity = py_str (dget_default d ''identity'' (PStr [])),
        ob_message = py_str (dget_default d ''message'' (PStr [])),
        ob_exception_type =
          (if dget_none d ''exception_type'' \<noteq> PNone then Some (py_str (dget_none d ''exception_type'')) else None),
        ob_attributes = attrs\<rparr>))"

definition raw_findings :: "pyval \<Rightarrow> pyval list result" where
  "raw_findings document =
     (case document of
        PDict d \<Rightarrow> py_iter (dget_default d ''findings'' (PList []))
      | PList xs \<Rightarrow> Inr xs
      | _ \<Rightarrow> Inl (ValueError ''observed findings document must be a list or mapping''))"

definition load_observed :: "pyval result \<Rightarrow> observed_finding list result" where
  "load_observed source = and_then source (\<lambda>document. and_then (raw_findings document) (map_res observed_of_raw))"

definition handle_compare_scan ::
  "file_writer \<Rightarrow> date \<Rightarrow> string option \<Rightarrow> string \<Rightarrow> pyval result \<Rightarrow> string \<Rightarrow> yaml_read \<Rightarrow> string option \<Rightarrow>
   outcome result"
where
  "handle_compare_scan writer today evaluated_on gate source ledger_path yaml output =
     or_report is_value_error INVALID_ARGUMENTS ''error: invalid --evaluated-on: ''
       (parse_evaluated_on today evaluated_on) (\<lambda>on.
     or_report (\<lambda>e. is_os_error e \<or> is_value_error e) PROVIDER_REPORT_FAILURE
       ''error: cannot load observed findings: '' (load_observed source) (\<lambda>observed.
     or_report is_value_error INVALID_ARGUMENTS ''error: '' (load_ledger ledger_path yaml ''baseline'') (\<lambda>ledger.
     finish_comparison writer output
       (merge_ledger (ll_violations ledger)
          (compare gate observed (ll_entries ledger) on True ''pytest-failure'' [])))))"

subsection \<open>\<open>validate-ledger\<close>\<close>

definition handle_validate_ledger ::
  "file_writer \<Rightarrow> string \<Rightarrow> yaml_read \<Rightarrow> string \<Rightarrow> string option \<Rightarrow> outcome result"
where
  "handle_validate_ledger writer ledger_path yaml entry_kind output =
     or_report is_value_error INVALID_ARGUMENTS ''error: '' (load_ledger ledger_path yaml entry_kind) (\<lambda>ledger.
     emit_to writer output
       [(PStr ''ledger'', PStr ledger_path), (PStr ''schema_version'', PStr (ll_schema_version ledger)),
        (PStr ''gate'', PStr (ll_gate ledger)),
        (PStr ''entries_total'', PInt (int (length (ll_entries ledger)))),
        (PStr ''violations'', encode_items violation_to_dict (ll_violations ledger)),
        (PStr ''valid'', PBool (ll_violations ledger = []))]
       (if ll_violations ledger \<noteq> [] then GATE_FAILURE else SUCCESS))"

subsection \<open>What the exit codes promise\<close>

lemma emit_to_Inr:
  "emit_to writer output payload code = Inr r \<Longrightarrow> oc_exit r = code \<and> oc_stderr r = []"
  by (auto simp: emit_to_def and_then_eq_Inr printed_def split: option.splits if_splits)

lemma finish_comparison_exit:
  "finish_comparison writer output c = Inr r \<Longrightarrow> oc_exit r = (if bc_passed c then SUCCESS else GATE_FAILURE)"
  unfolding finish_comparison_def by (drule emit_to_Inr) simp

lemma merge_ledger_passed:
  "bc_passed (merge_ledger vs c) \<longleftrightarrow> vs = [] \<and> bc_passed c"
  by (simp add: merge_ledger_def)

lemma or_report_Inr:
  "or_report caught code prefix body rest = Inr r \<longleftrightarrow>
     (\<exists>a. body = Inr a \<and> rest a = Inr r) \<or>
     (\<exists>e. body = Inl e \<and> caught e \<and> r = complained code [prefix @ exc_message e])"
  by (auto simp: or_report_def split: sum.split)

lemma compared_exit:
  assumes "finish_comparison writer output (merge_ledger vs (compare gate observed entries on True rule passing)) = Inr r"
  shows "oc_exit r = (if vs = [] \<and> ledger_matches observed entries on True then SUCCESS else GATE_FAILURE)"
  using finish_comparison_exit [OF assms]
  by (simp add: merge_ledger_passed compare_passed)

text \<open>
  The test ratchet. A \<open>compare-tests\<close> that returns exits with success exactly when the date is
  one, the report log is readable, the ledger loads without a violation and matches the failures of
  the run; with a gate failure exactly when all of them were read and ledger or comparison has a
  violation; and otherwise with an error line and one of the two error codes.
\<close>

theorem compare_tests_exit:
  assumes "handle_compare_tests writer today evaluated_on report_path lines ledger_path yaml output = Inr r"
  shows "(oc_exit r = SUCCESS \<longleftrightarrow>
      (\<exists>on run ledger. parse_evaluated_on today evaluated_on = Inr on \<and>
         read_report_log report_path lines = Inr run \<and>
         load_ledger ledger_path yaml ''test-quarantine'' = Inr ledger \<and> ll_violations ledger = [] \<and>
         ledger_matches (pt_findings run) (ll_entries ledger) on True)) \<and>
    (oc_exit r \<notin> {SUCCESS, GATE_FAILURE} \<longrightarrow>
       oc_exit r \<in> {INVALID_ARGUMENTS, PROVIDER_REPORT_FAILURE} \<and> oc_files r = [] \<and> oc_stderr r \<noteq> [])"
  using assms unfolding handle_compare_tests_def or_report_Inr
  by (elim disjE exE conjE) (auto simp: complained_def dest!: compared_exit split: if_splits)

text \<open>
  The scan ratchet, in the same way over the findings file.
\<close>

theorem compare_scan_exit:
  assumes "handle_compare_scan writer today evaluated_on gate source ledger_path yaml output = Inr r"
  shows "(oc_exit r = SUCCESS \<longleftrightarrow>
      (\<exists>on observed ledger. parse_evaluated_on today evaluated_on = Inr on \<and>
         load_observed source = Inr observed \<and>
         load_ledger ledger_path yaml ''baseline'' = Inr ledger \<and> ll_violations ledger = [] \<and>
         ledger_matches observed (ll_entries ledger) on True)) \<and>
    (oc_exit r \<notin> {SUCCESS, GATE_FAILURE} \<longrightarrow>
       oc_exit r \<in> {INVALID_ARGUMENTS, PROVIDER_REPORT_FAILURE} \<and> oc_files r = [] \<and> oc_stderr r \<noteq> [])"
  using assms unfolding handle_compare_scan_def or_report_Inr
  by (elim disjE exE conjE) (auto simp: complained_def dest!: compared_exit split: if_splits)

text \<open>
  A merged comparison does not add up: its summary still counts the violations of the comparison
  alone.
\<close>

lemma merged_summary_stale:
  assumes "vs \<noteq> []"
  shows "bs_violations_total (bc_summary (merge_ledger vs (compare gate observed entries on rrr rule passing))) <
    length (bc_violations (merge_ledger vs (compare gate observed entries on rrr rule passing)))"
  using assms by (simp add: merge_ledger_def compare_def Let_def sort_violations_def)

subsection \<open>Witnesses\<close>

lemma emit_to_returns: "json_value (PDict payload) \<Longrightarrow> \<exists>r. emit_to writer None payload code = Inr r"
  using json_pretty_total [of "PDict payload" False 0] by (auto simp: emit_to_def)

definition empty_run :: pytest_run_result where
  "empty_run =
     \<lparr>pt_findings = [], pt_passing_node_ids = [], pt_skipped_node_ids = [], pt_xfailed_node_ids = [],
      pt_total_collected = 0\<rparr>"

definition empty_ledger :: loaded_ledger where
  "empty_ledger =
     \<lparr>ll_schema_version = ''1.0.0'', ll_gate = ''tests/pytest'', ll_entries = [], ll_violations = []\<rparr>"

definition empty_ledger_document :: pydict where
  "empty_ledger_document =
     [(PStr ''schema_version'', PStr ''1.0.0''), (PStr ''gate'', PStr ''tests/pytest'')]"

theorem compare_tests_exit_witness:
  "\<exists>r. handle_compare_tests (\<lambda>_ _. Inr ()) (Date 2025 6 15) None ''log'' (Inr []) ''ledger''
      (Parsed (PDict empty_ledger_document)) None = Inr r \<and> oc_exit r = SUCCESS"
proof -
  let ?h = "handle_compare_tests (\<lambda>_ _. Inr ()) (Date 2025 6 15) None ''log'' (Inr []) ''ledger''
      (Parsed (PDict empty_ledger_document)) None"
  let ?c = "compare PYTEST_GATE [] [] (Date 2025 6 15) True ''pytest-failure'' []"
  have reads: "parse_evaluated_on (Date 2025 6 15) None = Inr (Date 2025 6 15)"
    "read_report_log ''log'' (Inr []) = Inr empty_run"
    "load_ledger ''ledger'' (Parsed (PDict empty_ledger_document)) ''test-quarantine'' = Inr empty_ledger"
    by code_simp+
  have "json_value (PDict (baseline_comparison_to_dict ?c))" by code_simp
  then obtain r where "finish_comparison (\<lambda>_ _. Inr ()) None ?c = Inr r"
    using emit_to_returns unfolding finish_comparison_def by blast
  then have r: "?h = Inr r"
    by (simp add: handle_compare_tests_def or_report_def reads merge_ledger_def empty_run_def empty_ledger_def)
  have "ledger_matches [] [] (Date 2025 6 15) True" by (simp add: ledger_matches_def)
  then have "oc_exit r = SUCCESS"
    using compare_tests_exit [OF r] reads by (auto simp: empty_run_def empty_ledger_def)
  with r show ?thesis by blast
qed

end
