(* ===== verification/Rulesets.thy ===== *)
theory Rulesets
  imports Contracts_Source
begin

text \<open>
  \<open>l9_ci/rulesets/semgrep/__init__.py\<close>: the packaged rulesets and their profiles. Where the package
  data lie, which of them exist and what parsing \<open>profiles.yaml\<close> gives are the package \<open>k\<close>. The
  cache of the parsed registry holds what a second reading of the same file would give.
\<close>

definition SUPPORTED_LANGUAGES :: "string list" where
  "SUPPORTED_LANGUAGES = [''python'', ''typescript'']"

definition PROFILES_SCHEMA :: string where
  "PROFILES_SCHEMA = ''l9.semgrep-profiles/v1''"

record ruleset_package =
  rp_path :: "string \<Rightarrow> string"
  rp_is_dir :: "string \<Rightarrow> bool"
  rp_is_file :: "string \<Rightarrow> bool"
  rp_profiles :: "pyval result"

definition ruleset_dir :: "ruleset_package \<Rightarrow> string \<Rightarrow> string result" where
  "ruleset_dir k language =
     (if language \<notin> set SUPPORTED_LANGUAGES then
        Inl (ValueError (''unsupported ruleset language '' @ repr_string language @ ''; expected one of ('' @
          join '', '' (map repr_string SUPPORTED_LANGUAGES) @ '')''))
      else
        let resolved = rp_path k language
        in if rp_is_dir k resolved then Inr resolved
           else Inl (FileNotFoundError (''packaged Semgrep ruleset directory not found: '' @ resolved)))"

definition packaged_file :: "ruleset_package \<Rightarrow> string \<Rightarrow> string \<Rightarrow> string result" where
  "packaged_file k name what =
     (let resolved = rp_path k name
      in if rp_is_file k resolved then Inr resolved
         else Inl (FileNotFoundError (what @ resolved)))"

definition default_identity_map_path :: "ruleset_package \<Rightarrow> string result" where
  "default_identity_map_path k =
     packaged_file k ''identity-map.yaml'' ''packaged Semgrep identity map not found: ''"

definition profiles_path :: "ruleset_package \<Rightarrow> string result" where
  "profiles_path k = packaged_file k ''profiles.yaml'' ''packaged Semgrep profile registry not found: ''"

record semgrep_profile =
  sg_name :: pyval
  sg_description :: string
  sg_include_registry_ruleset :: bool
  sg_include_l9_ruleset :: bool

definition profile_mapping :: "string \<Rightarrow> pyval \<Rightarrow> pydict result" where
  "profile_mapping context v = mapping_or (''Semgrep profile registry: '' @ context @ '' must be a mapping'') v"

definition profile_bool :: "string \<Rightarrow> pyval \<Rightarrow> bool result" where
  "profile_bool context v =
     (case v of
        PBool b \<Rightarrow> Inr b
      | _ \<Rightarrow> Inl (ValueError (''Semgrep profile registry: '' @ context @ '' must be a boolean'')))"

text \<open>\<open>" ".join(description.split())\<close>\<close>

definition unspaced :: "string \<Rightarrow> string" where
  "unspaced s =
     join '' '' (filter (\<lambda>p. p \<noteq> []) (split_on CHR '' '' (map (\<lambda>c. if py_isspace c then CHR '' '' else c) s)))"

text \<open>One turn of the loop over the profiles.\<close>

definition read_profile :: "pyval \<times> pyval \<Rightarrow> semgrep_profile result" where
  "read_profile entry =
     (let name = fst entry; context = ''profile '' @ py_repr name
      in and_then (profile_mapping context (snd entry)) (\<lambda>body.
         if \<not> non_blank_str (dget_none body ''description'') then
           Inl (ValueError (''Semgrep profile registry: '' @ context @ '' must carry a non-empty '' @
             repr_string ''description''))
         else
           and_then (profile_bool (context @ '' '' @ repr_string ''include_registry_ruleset'')
                       (dget_none body ''include_registry_ruleset'')) (\<lambda>registry.
           and_then (profile_bool (context @ '' '' @ repr_string ''include_l9_ruleset'')
                       (dget_none body ''include_l9_ruleset'')) (\<lambda>l9.
           Inr \<lparr>sg_name = name, sg_description = unspaced (the_str (dget_none body ''description'')),
                sg_include_registry_ruleset = registry, sg_include_l9_ruleset = l9\<rparr>))))"

definition find_profile :: "semgrep_profile list \<Rightarrow> pyval \<Rightarrow> semgrep_profile option" where
  "find_profile profiles name = List.find (\<lambda>p. key_norm (sg_name p) = key_norm name) profiles"

definition profile_keys :: "semgrep_profile list \<Rightarrow> string result" where
  "profile_keys profiles = and_then (sorted_keys (map sg_name profiles)) (\<lambda>ks. Inr (py_repr (PList ks)))"

definition load_profile_registry :: "ruleset_package \<Rightarrow> (pyval \<times> semgrep_profile list) result" where
  "load_profile_registry k =
     and_then (profiles_path k) (\<lambda>_.
     and_then (rp_profiles k) (\<lambda>v.
     and_then (profile_mapping ''document root'' v) (\<lambda>document.
     if dget_none document ''schema'' \<noteq> PStr PROFILES_SCHEMA then
       Inl (ValueError (''Semgrep profile registry: unexpected schema '' @
         py_repr (dget_none document ''schema'') @ ''; expected '' @ repr_string PROFILES_SCHEMA))
     else
       and_then (profile_mapping (repr_string ''profiles'') (dget_none document ''profiles'')) (\<lambda>raw.
       if raw = [] then
         Inl (ValueError (''Semgrep profile registry: '' @ repr_string ''profiles'' @ '' must be non-empty''))
       else
         and_then (map_res read_profile raw) (\<lambda>profiles.
         let default_profile = dget_none document ''default_profile''
         in if \<not> hashable default_profile then
              Inl (TypeError (''unhashable type: '' @ repr_string (py_type_name default_profile)))
            else if find_profile profiles default_profile = None then
              and_then (profile_keys profiles) (\<lambda>names.
              Inl (ValueError (''Semgrep profile registry: default_profile '' @ py_repr default_profile @
                '' is not a defined profile ('' @ names @ '')'')))
            else Inr (default_profile, profiles))))))"

definition default_profile_name :: "ruleset_package \<Rightarrow> pyval result" where
  "default_profile_name k = and_then (load_profile_registry k) (\<lambda>(d, _). Inr d)"

definition profile_names :: "ruleset_package \<Rightarrow> pyval list result" where
  "profile_names k = and_then (load_profile_registry k) (\<lambda>(_, profiles). sorted_keys (map sg_name profiles))"

definition resolve_profile :: "ruleset_package \<Rightarrow> pyval \<Rightarrow> semgrep_profile result" where
  "resolve_profile k name =
     and_then (load_profile_registry k) (\<lambda>(_, profiles).
     case find_profile profiles name of
       Some p \<Rightarrow> Inr p
     | None \<Rightarrow>
         and_then (profile_keys profiles) (\<lambda>names.
         Inl (ValueError (''unknown Semgrep profile '' @ py_repr name @ ''; expected one of '' @ names))))"

subsection \<open>A registry that loads\<close>

lemma find_profile_Some: "find_profile ps n = Some p \<Longrightarrow> p \<in> set ps \<and> key_norm (sg_name p) = key_norm n"
  by (auto simp: find_profile_def find_Some_iff)

lemma find_profile_None: "find_profile ps n = None \<longleftrightarrow> (\<forall>p \<in> set ps. key_norm (sg_name p) \<noteq> key_norm n)"
  by (auto simp: find_profile_def find_None_iff image_iff)

lemma read_profile_Inr:
  "read_profile e = Inr p \<Longrightarrow>
   sg_name p = fst e \<and>
   (\<exists>body. snd e = PDict body \<and> non_blank_str (dget_none body ''description'') \<and>
      dget_none body ''include_registry_ruleset'' = PBool (sg_include_registry_ruleset p) \<and>
      dget_none body ''include_l9_ruleset'' = PBool (sg_include_l9_ruleset p))"
  by (auto simp: read_profile_def Let_def and_then_eq_Inr profile_mapping_def profile_bool_def
      split: if_splits pyval.splits)

lemma read_profiles_names: "map_res read_profile raw = Inr ps \<Longrightarrow> map sg_name ps = map fst raw"
  unfolding map_res_eq_Inr_iff
  by (induction raw arbitrary: ps) (auto simp: list_all2_Cons1 dest!: read_profile_Inr)

lemma load_profile_registry_Inr:
  assumes "load_profile_registry k = Inr (d, ps)"
  shows "\<exists>document raw. rp_profiles k = Inr (PDict document) \<and> dget_none document ''profiles'' = PDict raw \<and>
    dget_none document ''default_profile'' = d \<and> map_res read_profile raw = Inr ps \<and>
    hashable d \<and> find_profile ps d \<noteq> None"
  using assms
  by (auto simp: load_profile_registry_def and_then_eq_Inr profile_mapping_def Let_def split: if_splits)

text \<open>A registry that loads resolves its default profile.\<close>

lemma default_profile_resolves:
  assumes "default_profile_name k = Inr d"
  shows "\<exists>p. resolve_profile k d = Inr p \<and> key_norm (sg_name p) = key_norm d"
proof -
  obtain ps where ps: "load_profile_registry k = Inr (d, ps)"
    using assms by (auto simp: default_profile_name_def and_then_eq_Inr)
  then obtain p where "find_profile ps d = Some p"
    using load_profile_registry_Inr by blast
  with ps find_profile_Some show ?thesis by (fastforce simp: resolve_profile_def)
qed

end
