(* ===== verification/Contracts_Version.thy ===== *)
theory Contracts_Version
  imports Py_Value
begin

text \<open>
  \<open>l9_ci/contracts/version.py\<close>: the semantic version shared by artifact negotiation and the
  provider version policy. \<open>order=True\<close> compares the three components lexicographically, which is
  the \<open>linorder\<close> instance of the type.
\<close>

datatype semantic_version = SemanticVersion (sv_major: int) (sv_minor: int) (sv_patch: int)

instantiation semantic_version :: linorder
begin

definition less_eq_semantic_version :: "semantic_version \<Rightarrow> semantic_version \<Rightarrow> bool" where
  "less_eq_semantic_version a b \<longleftrightarrow>
     sv_major a < sv_major b \<or>
     (sv_major a = sv_major b \<and>
       (sv_minor a < sv_minor b \<or> (sv_minor a = sv_minor b \<and> sv_patch a \<le> sv_patch b)))"

definition less_semantic_version :: "semantic_version \<Rightarrow> semantic_version \<Rightarrow> bool" where
  "less_semantic_version a b \<longleftrightarrow>
     sv_major a < sv_major b \<or>
     (sv_major a = sv_major b \<and>
       (sv_minor a < sv_minor b \<or> (sv_minor a = sv_minor b \<and> sv_patch a < sv_patch b)))"

instance
  by intro_classes
    (auto simp: less_eq_semantic_version_def less_semantic_version_def intro: semantic_version.expand)

end

text \<open>\<open>SemanticVersion.parse\<close> on a string, its only caller type.\<close>

definition semantic_version_parse :: "string \<Rightarrow> semantic_version result" where
  "semantic_version_parse value =
     (if blank value then Inl (ValueError ''version must be a non-empty string'')
      else
        let normalized = before_char CHR ''-'' (before_char CHR ''+'' (py_strip value));
            parts = split_on CHR ''.'' normalized
        in if length parts \<noteq> 3 then
             Inl (ValueError (''version must use major.minor.patch format: '' @ repr_string value))
           else case map py_int_of_string parts of
                  [Some major, Some minor, Some patch] \<Rightarrow>
                    if min major (min minor patch) < 0
                    then Inl (ValueError ''semantic version components must be non-negative'')
                    else Inr (SemanticVersion major minor patch)
                | _ \<Rightarrow> Inl (ValueError (''invalid semantic version: '' @ repr_string value)))"

text \<open>\<open>f"{v.major}.{v.minor}.{v.patch}"\<close>, the rendering the version policy uses.\<close>

definition render_version :: "semantic_version \<Rightarrow> string" where
  "render_version v =
     string_of_int (sv_major v) @ ''.'' @ string_of_int (sv_minor v) @ ''.'' @ string_of_int (sv_patch v)"

definition version_components_natural :: "semantic_version \<Rightarrow> bool" where
  "version_components_natural v \<longleftrightarrow> 0 \<le> sv_major v \<and> 0 \<le> sv_minor v \<and> 0 \<le> sv_patch v"

lemma before_char_id: "c \<notin> set s \<Longrightarrow> before_char c s = s"
  by (auto simp: before_char_def takeWhile_eq_all_conv)

lemma not_in_before_char: "c \<notin> set (before_char c s)"
  by (auto simp: before_char_def dest: set_takeWhileD)

lemma string_of_nat_set: "c \<in> set (string_of_nat n) \<Longrightarrow> is_digit c"
  using string_of_nat_digits [of n] by (simp add: list_all_iff)

lemma set_render:
  assumes "version_components_natural v" "c \<in> set (render_version v)"
  shows "is_digit c \<or> c = CHR ''.''"
  using assms
  by (auto simp: render_version_def string_of_int_def version_components_natural_def
      dest: string_of_nat_set)

lemma parse_components_natural:
  "semantic_version_parse s = Inr v \<Longrightarrow> version_components_natural v"
  by (auto simp: semantic_version_parse_def Let_def version_components_natural_def
      split: if_splits list.splits option.splits)

lemma parse_render:
  assumes v: "version_components_natural v"
  shows "semantic_version_parse (render_version v) = Inr v"
proof -
  obtain a b c where v': "v = SemanticVersion (int a) (int b) (int c)"
    using v unfolding version_components_natural_def
    by (metis nonneg_int_cases semantic_version.collapse)
  let ?s = "render_version v"
  have s: "?s = string_of_nat a @ CHR ''.'' # string_of_nat b @ CHR ''.'' # string_of_nat c"
    by (simp add: render_version_def string_of_int_def v')
  have nsp: "list_all (\<lambda>x. \<not> py_isspace x) ?s"
    unfolding list_all_iff
  proof
    fix x assume "x \<in> set ?s"
    then have "is_digit x \<or> x = CHR ''.''" by (rule set_render [OF v])
    then show "\<not> py_isspace x"
      by (auto simp: is_digit_not_space) (simp add: py_isspace_def Let_def)
  qed
  then have "py_strip ?s = ?s" by (rule py_strip_nonspace)
  moreover have "\<not> blank ?s"
    using nsp s by (cases "string_of_nat a") (auto simp: blank_def)
  moreover have "CHR ''+'' \<notin> set ?s" "CHR ''-'' \<notin> set ?s"
    using set_render [OF v] by (fastforce simp: is_digit_def)+
  moreover have "CHR ''.'' \<notin> set (string_of_nat n)" for n
    using string_of_nat_set by (fastforce simp: is_digit_def)
  then have "split_on CHR ''.'' ?s = [string_of_nat a, string_of_nat b, string_of_nat c]"
    by (simp add: s split_on_append split_on_id)
  ultimately show ?thesis
    by (simp add: semantic_version_parse_def Let_def before_char_id v')
qed

end
