(* ===== verification/Projections.thy ===== *)
theory Projections
  imports Contracts_Version Serializer
begin

text \<open>
  \<open>l9_ci/integration\<close>: version negotiation (\<open>versioning.py\<close>), the agent review payload
  (\<open>agent_payload.py\<close>, \<open>projection.py\<close>) and the SARIF log (\<open>sarif.py\<close>), three projections of a
  canonical bundle. A canonical rule id, a policy key and a remediation class are values, as in the
  records; a lookup of an unhashable one raises.
\<close>

subsection \<open>Version negotiation\<close>

record version_negotiation_result =
  vn_compatible :: bool
  vn_SDK_version :: string
  vn_artifact_schema_version :: string
  vn_errors :: "string list"

definition require_compatible :: "version_negotiation_result \<Rightarrow> unit result" where
  "require_compatible r =
     (if vn_errors r \<noteq> [] then
        Inl (ValueError (''version negotiation failed:'' @ [CHR 0x0A] @
          join [CHR 0x0A] (map (\<lambda>e. ''- '' @ e) (vn_errors r))))
      else Inr ())"

text \<open>A version field: its text, with the error when it is no string.\<close>

fun version_text :: "string \<Rightarrow> pyval \<Rightarrow> string \<times> string list" where
  "version_text name (PStr s) = (s, [])"
| "version_text name v = (''0.0.0'', [name @ '' must be a string''])"

definition version_or_zero :: "string \<Rightarrow> semantic_version \<times> string list" where
  "version_or_zero s =
     (case semantic_version_parse s of
        Inl e \<Rightarrow> (SemanticVersion 0 0 0, [exc_message e])
      | Inr v \<Rightarrow> (v, []))"

definition minimum_errors :: "string \<Rightarrow> semantic_version \<Rightarrow> string option \<Rightarrow> string list result" where
  "minimum_errors raw actual minimum_SDK_version =
     (case minimum_SDK_version of
        None \<Rightarrow> Inr []
      | Some m \<Rightarrow>
          and_then (semantic_version_parse m) (\<lambda>minimum.
          Inr (if actual < minimum
               then [''SDK version '' @ raw @ '' is older than required '' @ m] else [])))"

definition negotiate_versions :: "pydict \<Rightarrow> int \<Rightarrow> string option \<Rightarrow> version_negotiation_result result" where
  "negotiate_versions payload supported_artifact_major minimum_SDK_version =
     (case version_text ''SDK_version'' (dget_none payload ''SDK_version'') of (sdk_raw, e1) \<Rightarrow>
      case version_text ''schema_version'' (dget_none payload ''schema_version'') of (schema_raw, e2) \<Rightarrow>
      case version_or_zero sdk_raw of (sdk, e3) \<Rightarrow>
      case version_or_zero schema_raw of (artifact, e4) \<Rightarrow>
        and_then (minimum_errors sdk_raw sdk minimum_SDK_version) (\<lambda>e6.
          let errors = e1 @ e2 @ e3 @ e4 @
                (if sv_major artifact \<noteq> supported_artifact_major then
                   [''unsupported artifact schema major version: '' @ string_of_int (sv_major artifact)]
                 else []) @ e6
          in Inr \<lparr>vn_compatible = (errors = []), vn_SDK_version = sdk_raw,
                  vn_artifact_schema_version = schema_raw, vn_errors = errors\<rparr>))"

subsection \<open>The agent review payload\<close>

definition AGENT_REVIEW_PAYLOAD_PROTOCOL :: string where
  "AGENT_REVIEW_PAYLOAD_PROTOCOL = ''l9.agent-review-projection/v1''"

definition AGENT_REVIEW_PAYLOAD_SCHEMA_VERSION :: string where
  "AGENT_REVIEW_PAYLOAD_SCHEMA_VERSION = ''1.0.0''"

record agent_finding =
  af_finding_id :: string
  af_provider_id :: string
  af_provider_rule_id :: string
  af_canonical_rule_id :: pyval
  af_policy_key :: pyval
  af_severity :: "string option"
  af_category :: string
  af_message :: string
  af_fingerprint :: string
  af_locations :: "pydict list"
  af_limitations :: "string list"

definition agent_finding_to_dict :: "agent_finding \<Rightarrow> pydict" where
  "agent_finding_to_dict a =
     [(PStr ''finding_id'', PStr (af_finding_id a)), (PStr ''provider_id'', PStr (af_provider_id a)),
      (PStr ''provider_rule_id'', PStr (af_provider_rule_id a)), (PStr ''category'', PStr (af_category a)),
      (PStr ''message'', PStr (af_message a)), (PStr ''fingerprint'', PStr (af_fingerprint a)),
      (PStr ''locations'', PList (map PDict (af_locations a))),
      (PStr ''limitations'', encode_strs (af_limitations a))] @
     opt_entry ''canonical_rule_id'' (af_canonical_rule_id a) @
     opt_entry ''policy_key'' (af_policy_key a) @
     (case af_severity a of None \<Rightarrow> [] | Some s \<Rightarrow> [(PStr ''severity'', PStr s)])"

record agent_review_payload =
  ap_SDK_version :: string
  ap_source_bundle_schema :: string
  ap_source_bundle_schema_version :: string
  ap_snapshot_id :: string
  ap_blocking :: "agent_finding list"
  ap_advisory :: "agent_finding list"
  ap_shadow :: "agent_finding list"
  ap_unresolved :: "agent_finding list"
  ap_disabled :: "agent_finding list"
  ap_autofix_candidates :: "agent_finding list"
  ap_provider_failures :: "pydict list"
  ap_coverage :: "pydict list"
  ap_limitations :: "string list"

definition agent_payload_summary :: "agent_review_payload \<Rightarrow> pydict" where
  "agent_payload_summary p =
     [(PStr ''blocking_count'', PInt (int (length (ap_blocking p)))),
      (PStr ''advisory_count'', PInt (int (length (ap_advisory p)))),
      (PStr ''shadow_count'', PInt (int (length (ap_shadow p)))),
      (PStr ''unresolved_count'', PInt (int (length (ap_unresolved p)))),
      (PStr ''disabled_count'', PInt (int (length (ap_disabled p)))),
      (PStr ''autofix_candidate_count'', PInt (int (length (ap_autofix_candidates p)))),
      (PStr ''provider_failure_count'', PInt (int (length (ap_provider_failures p))))]"

definition agent_payload_to_dict :: "agent_review_payload \<Rightarrow> pydict" where
  "agent_payload_to_dict p =
     [(PStr ''schema'', PStr AGENT_REVIEW_PAYLOAD_PROTOCOL),
      (PStr ''schema_version'', PStr AGENT_REVIEW_PAYLOAD_SCHEMA_VERSION),
      (PStr ''SDK_version'', PStr (ap_SDK_version p)),
      (PStr ''source_bundle_schema'', PStr (ap_source_bundle_schema p)),
      (PStr ''source_bundle_schema_version'', PStr (ap_source_bundle_schema_version p)),
      (PStr ''snapshot_id'', PStr (ap_snapshot_id p)),
      (PStr ''blocking_findings'', encode_items agent_finding_to_dict (ap_blocking p)),
      (PStr ''advisory_findings'', encode_items agent_finding_to_dict (ap_advisory p)),
      (PStr ''shadow_findings'', encode_items agent_finding_to_dict (ap_shadow p)),
      (PStr ''unresolved_findings'', encode_items agent_finding_to_dict (ap_unresolved p)),
      (PStr ''disabled_findings'', encode_items agent_finding_to_dict (ap_disabled p)),
      (PStr ''autofix_candidates'', encode_items agent_finding_to_dict (ap_autofix_candidates p)),
      (PStr ''provider_failures'', PList (map PDict (ap_provider_failures p))),
      (PStr ''coverage'', PList (map PDict (ap_coverage p))),
      (PStr ''limitations'', encode_strs (ap_limitations p)),
      (PStr ''summary'', PDict (agent_payload_summary p))]"

definition agent_finding_of :: "finding \<Rightarrow> classification \<Rightarrow> agent_finding" where
  "agent_finding_of f c =
     \<lparr>af_finding_id = fn_finding_id f, af_provider_id = fn_provider_id f,
      af_provider_rule_id = fn_provider_rule_id f, af_canonical_rule_id = fn_canonical_rule_id f,
      af_policy_key = fc_policy_key c, af_severity = map_option severity_value (fn_severity f),
      af_category = fn_category f, af_message = fn_message f, af_fingerprint = fn_fingerprint f,
      af_locations = map source_location_to_dict (fn_locations f), af_limitations = fn_limitations f\<rparr>"

definition is_autofix_candidate :: "finding \<Rightarrow> classification \<Rightarrow> bool result" where
  "is_autofix_candidate f c =
     (if fc_mode c \<in> {Disabled, Unresolved_Mode} then Inr False
      else if \<not> hashable (fn_remediation_class f) then
        Inl (TypeError (''unhashable type: '' @ repr_string (py_type_name (fn_remediation_class f))))
      else Inr (fn_remediation_class f \<in> {PStr ''safe-autofix'', PStr ''mechanical''}))"

text \<open>The classification of a finding, unresolved when the bundle has none.\<close>

definition classification_or_unresolved :: "finding_bundle \<Rightarrow> finding \<Rightarrow> classification result" where
  "classification_or_unresolved b f =
     (case dict_by fc_finding_id (fb_classifications b) (fn_finding_id f) of
        Some c \<Rightarrow> Inr c
      | None \<Rightarrow>
          classification_post_init
            \<lparr>fc_finding_id = fn_finding_id f, fc_mode = Unresolved_Mode,
             fc_resolution_status = Unresolved_Res, fc_used_default = False, fc_policy_key = PNone,
             fc_policy_version = PNone, fc_waiver_id = PNone\<rparr>)"

text \<open>One round of the loop: the bucket, the projected finding and whether it is a candidate.\<close>

definition agent_row :: "finding_bundle \<Rightarrow> finding \<Rightarrow> (rule_mode \<times> agent_finding \<times> bool) result" where
  "agent_row b f =
     and_then (classification_or_unresolved b f) (\<lambda>c.
     and_then (is_autofix_candidate f c) (\<lambda>auto.
     Inr (fc_mode c, agent_finding_of f c, auto)))"

definition bucket :: "(rule_mode \<times> agent_finding \<times> bool) list \<Rightarrow> rule_mode \<Rightarrow> agent_finding list" where
  "bucket rows mode = map (\<lambda>(_, a, _). a) (filter (\<lambda>(m, _). m = mode) rows)"

definition project_agent_review_payload :: "finding_bundle \<Rightarrow> bool \<Rightarrow> agent_review_payload result" where
  "project_agent_review_payload b strict =
     and_then (map_res (agent_row b) (sort_key fn_finding_id (fb_findings b))) (\<lambda>rows.
     let unresolved = bucket rows Unresolved_Mode
     in if strict \<and> unresolved \<noteq> [] then
          Inl (ValueError (''strict payload projection rejected unresolved findings: '' @
            join '', '' (map af_finding_id unresolved)))
        else
          Inr \<lparr>ap_SDK_version = fb_SDK_version b, ap_source_bundle_schema = fb_schema b,
               ap_source_bundle_schema_version = fb_schema_version b,
               ap_snapshot_id = sd_snapshot_id (fb_snapshot b),
               ap_blocking = bucket rows Blocking, ap_advisory = bucket rows Advisory,
               ap_shadow = bucket rows Shadow, ap_unresolved = unresolved,
               ap_disabled = bucket rows Disabled,
               ap_autofix_candidates =
                 sort_key af_finding_id (map (\<lambda>(_, a, _). a) (filter (\<lambda>(_, _, auto). auto) rows)),
               ap_provider_failures =
                 map provider_failure_to_dict
                   (sort_key (\<lambda>f. (pf_provider_id f, failure_type_value (pf_failure_type f), pf_message f))
                     (fb_provider_failures b)),
               ap_coverage = map coverage_to_dict (sort_key cv_provider_id (fb_coverage b)),
               ap_limitations = sort (fb_limitations b)\<rparr>)"

subsection \<open>The SARIF log\<close>

definition SARIF_VERSION :: string where "SARIF_VERSION = ''2.1.0''"

definition SARIF_SCHEMA_URI :: string where
  "SARIF_SCHEMA_URI = ''https://json.schemastore.org/sarif-2.1.0.json''"

definition TOOL_NAME :: string where "TOOL_NAME = ''l9-ci-sdk''"

definition TOOL_INFORMATION_URI :: string where
  "TOOL_INFORMATION_URI = ''https://github.com/Quantum-L9/l9-ci-sdk''"

definition SEVERITY_TO_LEVEL :: "(string \<times> string) list" where
  "SEVERITY_TO_LEVEL =
     [(''critical'', ''error''), (''high'', ''error''), (''medium'', ''warning''), (''low'', ''note''),
      (''informational'', ''note''), (''unknown'', ''warning'')]"

definition sarif_rule_id :: "finding \<Rightarrow> pyval" where
  "sarif_rule_id f =
     (if py_truthy (fn_canonical_rule_id f) then fn_canonical_rule_id f else PStr (fn_provider_rule_id f))"

definition sarif_level :: "finding \<Rightarrow> string" where
  "sarif_level f =
     (let severity = (case fn_severity f of None \<Rightarrow> [] | Some s \<Rightarrow> severity_value s)
      in case map_of SEVERITY_TO_LEVEL severity of None \<Rightarrow> ''warning'' | Some level \<Rightarrow> level)"

definition REGION_FIELDS :: "(string \<times> string) list" where
  "REGION_FIELDS =
     [(''start_line'', ''startLine''), (''start_column'', ''startColumn''), (''end_line'', ''endLine''),
      (''end_column'', ''endColumn'')]"

definition sarif_region :: "pydict \<Rightarrow> pydict" where
  "sarif_region location =
     concat (map (\<lambda>(source_key, sarif_key). opt_entry sarif_key (dget_none location source_key)) REGION_FIELDS)"

definition sarif_location :: "source_location \<Rightarrow> pyval" where
  "sarif_location l =
     (let region = sarif_region (source_location_to_dict l)
      in PDict [(PStr ''physicalLocation'', PDict
           ([(PStr ''artifactLocation'', PDict [(PStr ''uri'', PStr (sl_path l))])] @
            (if region \<noteq> [] then [(PStr ''region'', PDict region)] else [])))])"

definition sarif_result :: "finding \<Rightarrow> pydict" where
  "sarif_result f =
     [(PStr ''ruleId'', sarif_rule_id f), (PStr ''level'', PStr (sarif_level f)),
      (PStr ''message'', PDict [(PStr ''text'', PStr (fn_message f))]),
      (PStr ''locations'', PList (map sarif_location (fn_locations f))),
      (PStr ''partialFingerprints'', PDict [(PStr ''l9/fingerprint'', PStr (fn_fingerprint f))])]"

definition sarif_rules :: "finding list \<Rightarrow> pyval list result" where
  "sarif_rules findings =
     (let ids = map sarif_rule_id findings
      in case filter (\<lambda>v. \<not> hashable v) ids of
           v # _ \<Rightarrow> Inl (TypeError (''unhashable type: '' @ repr_string (py_type_name v)))
         | [] \<Rightarrow> sorted_keys (set_of_values ids))"

definition sarif_log :: "finding_bundle \<Rightarrow> pyval list \<Rightarrow> finding list \<Rightarrow> pydict" where
  "sarif_log b rules findings =
     [(PStr ''version'', PStr SARIF_VERSION), (PStr ''$schema'', PStr SARIF_SCHEMA_URI),
      (PStr ''runs'', PList [PDict
         [(PStr ''tool'', PDict [(PStr ''driver'', PDict
             [(PStr ''name'', PStr TOOL_NAME), (PStr ''informationUri'', PStr TOOL_INFORMATION_URI),
              (PStr ''version'', PStr (fb_SDK_version b)),
              (PStr ''rules'', PList (map (\<lambda>i. PDict [(PStr ''id'', i)]) rules))])]),
          (PStr ''results'', PList (map (\<lambda>f. PDict (sarif_result f)) findings))]])]"

definition project_sarif_log :: "finding_bundle \<Rightarrow> bool \<Rightarrow> pydict result" where
  "project_sarif_log b strict =
     (let findings = sort_key fn_finding_id (fb_findings b);
          unresolved = map fn_finding_id (filter (\<lambda>f. \<not> py_truthy (fn_canonical_rule_id f)) findings)
      in if strict \<and> unresolved \<noteq> [] then
           Inl (ValueError (''strict SARIF projection rejected findings without canonical identity: '' @
             join '', '' unresolved))
         else and_then (sarif_rules findings) (\<lambda>rules. Inr (sarif_log b rules findings)))"

subsection \<open>What the projections keep\<close>

lemma agent_row_Inr:
  assumes "agent_row b f = Inr row"
  obtains c auto where "classification_or_unresolved b f = Inr c" "is_autofix_candidate f c = Inr auto"
    "row = (fc_mode c, agent_finding_of f c, auto)"
  using assms by (auto simp: agent_row_def and_then_eq_Inr)

lemma agent_finding_of_id [simp]: "af_finding_id (agent_finding_of f c) = fn_finding_id f"
  by (simp add: agent_finding_of_def)

lemma agent_rows_ids:
  assumes "map_res (agent_row b) fs = Inr rows"
  shows "map (\<lambda>(_, a, _). af_finding_id a) rows = map fn_finding_id fs"
  using assms
proof (induction fs arbitrary: rows)
  case (Cons f fs)
  then obtain row rows' where r: "agent_row b f = Inr row" "map_res (agent_row b) fs = Inr rows'" "rows = row # rows'"
    by (auto simp: and_then_eq_Inr)
  with Cons.IH [OF r(2)] show ?case
    by (auto elim!: agent_row_Inr)
qed simp

lemma bucket_ids: "map af_finding_id (bucket rows m) = map (\<lambda>(_, a, _). af_finding_id a) (filter (\<lambda>(k, _). k = m) rows)"
  by (simp add: bucket_def case_prod_unfold comp_def)

lemma bucket_mem: "a \<in> set (bucket rows m) \<longleftrightarrow> (\<exists>x. (m, a, x) \<in> set rows)"
  by (force simp: bucket_def)

lemma buckets_partition:
  "mset (bucket rows Blocking @ bucket rows Advisory @ bucket rows Shadow @ bucket rows Unresolved_Mode @
     bucket rows Disabled) = mset (map (\<lambda>(_, a, _). a) rows)"
proof (induction rows)
  case (Cons row rows)
  obtain m a x where "row = (m, a, x)" by (cases row)
  with Cons show ?case by (cases m) (simp_all add: bucket_def)
qed (simp add: bucket_def)

lemma sorted_bucket:
  assumes "map_res (agent_row b) (sort_key fn_finding_id fs) = Inr rows"
  shows "sorted (map af_finding_id (bucket rows m))"
proof -
  have "sorted (map (\<lambda>(_, a, _). af_finding_id a) rows)"
    using agent_rows_ids [OF assms] by simp
  then show ?thesis
    unfolding bucket_ids by (rule sorted_filter)
qed

lemma autofix_not_disabled:
  assumes "map_res (agent_row b) fs = Inr rows" "(m, a, True) \<in> set rows"
  shows "m \<in> {Blocking, Advisory, Shadow}"
proof -
  obtain f where "agent_row b f = Inr (m, a, True)"
    using map_res_set [OF assms] by blast
  then show ?thesis
    by (cases m) (auto elim!: agent_row_Inr simp: is_autofix_candidate_def split: if_splits)
qed

lemma project_agent_review_payload_Inr:
  assumes "project_agent_review_payload b strict = Inr p"
  obtains rows where "map_res (agent_row b) (sort_key fn_finding_id (fb_findings b)) = Inr rows"
    "strict \<longrightarrow> bucket rows Unresolved_Mode = []"
    "ap_blocking p = bucket rows Blocking" "ap_advisory p = bucket rows Advisory"
    "ap_shadow p = bucket rows Shadow" "ap_unresolved p = bucket rows Unresolved_Mode"
    "ap_disabled p = bucket rows Disabled"
    "ap_autofix_candidates p = sort_key af_finding_id (map (\<lambda>(_, a, _). a) (filter (\<lambda>(_, _, auto). auto) rows))"
  using assms by (auto simp: project_agent_review_payload_def and_then_eq_Inr Let_def split: if_splits)

subsection \<open>Properties\<close>

text \<open>
  C31: the agent payload loses no finding and invents none. The five buckets together hold every
  finding of the bundle exactly once, each in the order of the identifiers; no autofix candidate
  comes from a disabled or unresolved finding; a strict payload has no unresolved finding.
\<close>

theorem agent_payload_partition:
  assumes "project_agent_review_payload b strict = Inr p"
  shows "mset (map af_finding_id (ap_blocking p @ ap_advisory p @ ap_shadow p @ ap_unresolved p @ ap_disabled p)) =
      mset (map fn_finding_id (fb_findings b)) \<and>
    list_all (\<lambda>as. sorted (map af_finding_id as))
      [ap_blocking p, ap_advisory p, ap_shadow p, ap_unresolved p, ap_disabled p] \<and>
    set (ap_autofix_candidates p) \<subseteq> set (ap_blocking p @ ap_advisory p @ ap_shadow p) \<and>
    (strict \<longrightarrow> ap_unresolved p = [])"
  using assms
proof (rule project_agent_review_payload_Inr, goal_cases)
  case (1 rows)
  note buckets = 1(3-8)
  have "mset (map af_finding_id (map (\<lambda>(_, a, _). a) rows)) = mset (map fn_finding_id (fb_findings b))"
    using agent_rows_ids [OF 1(1)] by (simp add: case_prod_unfold comp_def)
  moreover have "mset (ap_blocking p @ ap_advisory p @ ap_shadow p @ ap_unresolved p @ ap_disabled p) =
      mset (map (\<lambda>(_, a, _). a) rows)"
    unfolding buckets by (rule buckets_partition)
  ultimately have "mset (map af_finding_id (ap_blocking p @ ap_advisory p @ ap_shadow p @ ap_unresolved p @ ap_disabled p)) =
      mset (map fn_finding_id (fb_findings b))"
    by (simp only: mset_map)
  moreover have "set (ap_autofix_candidates p) \<subseteq> set (ap_blocking p @ ap_advisory p @ ap_shadow p)"
  proof
    fix a assume "a \<in> set (ap_autofix_candidates p)"
    then obtain m where m: "(m, a, True) \<in> set rows" by (auto simp: buckets)
    then have "a \<in> set (bucket rows m)" by (auto simp: bucket_mem)
    with autofix_not_disabled [OF 1(1) m] show "a \<in> set (ap_blocking p @ ap_advisory p @ ap_shadow p)"
      by (auto simp: buckets)
  qed
  ultimately show ?case
    using sorted_bucket [OF 1(1)] 1(2) by (simp add: buckets)
qed

text \<open>
  The SARIF log is complete. It has one result per finding, in the order of the identifiers;
  its rules are exactly the rule ids of the results, each once; and a strict log is made only from
  findings that all have a canonical rule id.
\<close>

theorem sarif_log_complete:
  assumes "project_sarif_log b strict = Inr log"
  shows "(\<exists>rules. log = sarif_log b rules (sort_key fn_finding_id (fb_findings b)) \<and>
       key_norm ` set rules = key_norm ` sarif_rule_id ` set (fb_findings b) \<and>
       distinct (map key_norm rules)) \<and>
     (strict \<longrightarrow> list_all (\<lambda>f. py_truthy (fn_canonical_rule_id f)) (fb_findings b))"
proof -
  obtain rules where rules: "sarif_rules (sort_key fn_finding_id (fb_findings b)) = Inr rules"
    and log: "log = sarif_log b rules (sort_key fn_finding_id (fb_findings b))"
    and strict: "strict \<longrightarrow> filter (\<lambda>f. \<not> py_truthy (fn_canonical_rule_id f)) (sort_key fn_finding_id (fb_findings b)) = []"
    using assms by (auto simp: project_sarif_log_def Let_def and_then_eq_Inr split: if_splits)
  have sorted: "sorted_keys (set_of_values (map sarif_rule_id (sort_key fn_finding_id (fb_findings b)))) = Inr rules"
    using rules by (auto simp: sarif_rules_def Let_def split: list.splits)
  have "key_norm ` set rules = key_norm ` sarif_rule_id ` set (fb_findings b)"
    using sorted_keys_set [OF sorted] set_of_values_set by simp
  moreover have "distinct (map key_norm rules)"
    using sorted_keys_distinct [OF sorted] set_of_values_distinct by blast
  ultimately show ?thesis
    using log strict by (auto simp: filter_empty_conv list_all_iff)
qed

definition negotiable :: "pydict \<Rightarrow> int \<Rightarrow> string option \<Rightarrow> bool" where
  "negotiable payload major minimum \<longleftrightarrow>
     (\<exists>s t v w. dget_none payload ''SDK_version'' = PStr s \<and> dget_none payload ''schema_version'' = PStr t \<and>
        semantic_version_parse s = Inr v \<and> semantic_version_parse t = Inr w \<and> sv_major w = major \<and>
        (\<forall>m. minimum = Some m \<longrightarrow> (\<exists>u. semantic_version_parse m = Inr u \<and> u \<le> v)))"

lemma version_text_errors: "snd (version_text n v) = [] \<longleftrightarrow> (\<exists>s. v = PStr s)"
  by (cases v) auto

lemma version_or_zero_errors: "snd (version_or_zero s) = [] \<longleftrightarrow> (\<exists>v. semantic_version_parse s = Inr v)"
  by (auto simp: version_or_zero_def split: sum.splits)

lemma minimum_errors_Inr:
  "minimum_errors raw v minimum = Inr e \<Longrightarrow>
     e = [] \<longleftrightarrow> (\<forall>m. minimum = Some m \<longrightarrow> (\<exists>u. semantic_version_parse m = Inr u \<and> u \<le> v))"
  by (auto simp: minimum_errors_def and_then_eq_Inr not_less split: option.splits if_splits)

lemma negotiation_errors:
  assumes "negotiate_versions payload major minimum = Inr r"
  shows "vn_compatible r \<longleftrightarrow> vn_errors r = []"
    and "vn_errors r = [] \<longleftrightarrow> negotiable payload major minimum"
proof -
  let ?a = "version_text ''SDK_version'' (dget_none payload ''SDK_version'')"
  let ?b = "version_text ''schema_version'' (dget_none payload ''schema_version'')"
  let ?v = "version_or_zero (fst ?a)" and ?w = "version_or_zero (fst ?b)"
  obtain e where e: "minimum_errors (fst ?a) (fst ?v) minimum = Inr e"
    and r: "vn_compatible r \<longleftrightarrow> vn_errors r = []"
    and errors: "vn_errors r = [] \<longleftrightarrow> snd ?a = [] \<and> snd ?b = [] \<and> snd ?v = [] \<and> snd ?w = [] \<and>
      sv_major (fst ?w) = major \<and> e = []"
    using assms
    by (auto simp: negotiate_versions_def case_prod_unfold and_then_eq_Inr Let_def split: if_splits)
  show "vn_compatible r \<longleftrightarrow> vn_errors r = []" by (rule r)
  show "vn_errors r = [] \<longleftrightarrow> negotiable payload major minimum"
  proof (cases "snd ?a = [] \<and> snd ?b = [] \<and> snd ?v = [] \<and> snd ?w = []")
    case True
    then obtain s t where st: "dget_none payload ''SDK_version'' = PStr s" "dget_none payload ''schema_version'' = PStr t"
      unfolding version_text_errors by blast
    with True obtain v w where "semantic_version_parse s = Inr v" "semantic_version_parse t = Inr w"
      by (auto simp: version_or_zero_errors)
    with st errors True minimum_errors_Inr [OF e] show ?thesis
      by (auto simp: negotiable_def version_or_zero_def)
  next
    case False
    with errors show ?thesis
      by (auto simp: negotiable_def version_or_zero_def)
  qed
qed

text \<open>
  Negotiation accepts exactly the supported versions. A negotiation that returns is compatible
  exactly when both versions are strings that parse, the artifact has the supported major version and
  the SDK is not older than the minimum; it raises exactly on a minimum that does not parse, and an
  incompatible result gives a reason.
\<close>

theorem negotiation_exact:
  "(\<forall>r. negotiate_versions payload major minimum = Inr r \<longrightarrow>
      (vn_compatible r \<longleftrightarrow> negotiable payload major minimum) \<and> (vn_compatible r \<longleftrightarrow> vn_errors r = [])) \<and>
   (isl (negotiate_versions payload major minimum) \<longleftrightarrow>
      (\<exists>m. minimum = Some m \<and> isl (semantic_version_parse m)))"
proof (intro conjI allI impI)
  show "isl (negotiate_versions payload major minimum) \<longleftrightarrow>
      (\<exists>m. minimum = Some m \<and> isl (semantic_version_parse m))"
    by (auto simp: negotiate_versions_def case_prod_unfold minimum_errors_def and_then_def Let_def
        split: option.splits sum.splits)
qed (use negotiation_errors in blast)+

theorem agent_payload_partition_witness:
  "\<exists>p. project_agent_review_payload sample_bundle True = Inr p \<and> ap_unresolved p = []"
proof -
  have "\<not> isl (project_agent_review_payload sample_bundle True)" by code_simp
  then obtain p where p: "project_agent_review_payload sample_bundle True = Inr p"
    by (cases "project_agent_review_payload sample_bundle True") auto
  with agent_payload_partition [OF p] show ?thesis by blast
qed

theorem sarif_log_complete_witness:
  "\<exists>log. project_sarif_log sample_bundle True = Inr log \<and>
     list_all (\<lambda>f. py_truthy (fn_canonical_rule_id f)) (fb_findings sample_bundle)"
proof -
  have "\<not> isl (project_sarif_log sample_bundle True)" by code_simp
  then obtain log where log: "project_sarif_log sample_bundle True = Inr log"
    by (cases "project_sarif_log sample_bundle True") auto
  with sarif_log_complete [OF log] show ?thesis by blast
qed

definition sample_versions :: pydict where
  "sample_versions = [(PStr ''SDK_version'', PStr ''1.2.3''), (PStr ''schema_version'', PStr ''1.0.0'')]"

theorem negotiation_exact_witness:
  "\<exists>r. negotiate_versions sample_versions 1 (Some ''1.2.0'') = Inr r \<and>
     (vn_compatible r \<longleftrightarrow> negotiable sample_versions 1 (Some ''1.2.0''))"
proof -
  have "\<not> isl (negotiate_versions sample_versions 1 (Some ''1.2.0''))" by code_simp
  then obtain r where "negotiate_versions sample_versions 1 (Some ''1.2.0'') = Inr r"
    by (cases "negotiate_versions sample_versions 1 (Some ''1.2.0'')") auto
  with negotiation_exact [of sample_versions 1 "Some ''1.2.0''"] show ?thesis by blast
qed

end
