(* ===== verification/Checked.thy ===== *)
theory Checked
  imports L9_Prelude
begin

text \<open>
  The contract of the result objects of the SDK that collect findings of a check and offer a
  \<open>require_...\<close> method: the method returns exactly when the result is good, and otherwise raises
  \<open>ValueError\<close>. Code that calls the method and goes on is characterised once, here.
\<close>

locale checked_result =
  fixes ok :: "'r \<Rightarrow> bool"
    and require :: "'r \<Rightarrow> unit result"
  assumes require_ok: "ok r \<Longrightarrow> require r = Inr ()"
    and require_raises: "\<not> ok r \<Longrightarrow> \<exists>m. require r = Inl (ValueError m)"
begin

lemma require_Inr [simp]: "require r = Inr u \<longleftrightarrow> ok r"
  using require_ok [of r] require_raises [of r] by (cases "ok r") auto

lemma after_require: "and_then (require r) k = Inr x \<longleftrightarrow> ok r \<and> k () = Inr x"
  by (auto simp: and_then_eq_Inr)

lemma require_stops: "\<not> ok r \<Longrightarrow> \<exists>m. and_then (require r) k = Inl (ValueError m)"
  using require_raises [of r] by auto

end

end
