(* ===== verification/Artifacts.thy ===== *)
theory Artifacts
  imports Contracts_Bundle Policy Checked
begin

text \<open>
  \<open>l9_ci/artifacts/compatibility.py\<close> and \<open>l9_ci/artifacts/validator.py\<close>: protocol compatibility,
  the embedded summary, the semantic checks of a bundle and the loader. The JSON schema validator
  is a third-party package: \<open>iter_errors\<close> stands for it, the function from a payload to the list
  of its errors, each with its path and its message. JSON parsing is outside the model:
  \<open>load_and_validate_bundle\<close> starts from the parsed file.
\<close>

type_synonym schema_validator = "pydict \<Rightarrow> (pyval list \<times> string) list"

subsection \<open>Compatibility\<close>

record compatibility_result =
  co_compatible :: bool
  co_errors :: "string list"

definition version_major :: "string \<Rightarrow> int result" where
  "version_major version =
     (case py_int_of_string (before_char CHR ''.'' version) of
        Some i \<Rightarrow> Inr i
      | None \<Rightarrow> Inl (ValueError (''invalid semantic version: '' @ repr_string version)))"

definition check_bundle_compatibility :: "pydict \<Rightarrow> compatibility_result" where
  "check_bundle_compatibility payload =
     (let protocol = dget_none payload ''schema'';
          e1 = (if protocol \<noteq> PStr FINDING_BUNDLE_PROTOCOL
                then [''unsupported artifact protocol: '' @ py_repr protocol @ ''; expected '' @
                        repr_string FINDING_BUNDLE_PROTOCOL]
                else []);
          e2 = (case dget_none payload ''schema_version'' of
                  PStr v \<Rightarrow>
                    (case and_then (version_major FINDING_BUNDLE_SCHEMA_VERSION) (\<lambda>current.
                            and_then (version_major v) (\<lambda>incoming. Inr (current, incoming))) of
                       Inl e \<Rightarrow> [exc_message e]
                     | Inr (current, incoming) \<Rightarrow>
                         if incoming \<noteq> current
                         then [''unsupported schema major version: '' @ repr_string v] else [])
                | _ \<Rightarrow> [''schema_version must be a string''])
      in \<lparr>co_compatible = (e1 @ e2 = []), co_errors = e1 @ e2\<rparr>)"

definition compatible_payload :: "pydict \<Rightarrow> bool" where
  "compatible_payload d \<longleftrightarrow>
     dget_none d ''schema'' = PStr FINDING_BUNDLE_PROTOCOL \<and>
     (\<exists>v. dget_none d ''schema_version'' = PStr v \<and> version_major v = Inr 1)"

lemma current_major: "version_major FINDING_BUNDLE_SCHEMA_VERSION = Inr 1"
  by code_simp

lemma check_bundle_compatibility_iff:
  "co_compatible (check_bundle_compatibility d) \<longleftrightarrow> compatible_payload d"
proof (cases "dget_none d ''schema_version''")
  case (PStr v)
  then show ?thesis
    by (cases "version_major v")
      (auto simp: check_bundle_compatibility_def compatible_payload_def current_major Let_def)
qed (simp_all add: check_bundle_compatibility_def compatible_payload_def Let_def)

lemma check_bundle_compatibility_errors:
  "co_compatible (check_bundle_compatibility d) \<longleftrightarrow> co_errors (check_bundle_compatibility d) = []"
  by (simp add: check_bundle_compatibility_def Let_def)

subsection \<open>Validation results\<close>

record validation_result =
  vr_valid :: bool
  vr_errors :: "string list"

definition require_valid :: "validation_result \<Rightarrow> unit result" where
  "require_valid r =
     (if \<not> vr_valid r then
        Inl (ValueError (''artifact validation failed:'' @ [CHR 0x0A] @
               join [CHR 0x0A] (map (\<lambda>e. ''- '' @ e) (vr_errors r))))
      else Inr ())"

interpretation validation: checked_result vr_valid require_valid
  by unfold_locales (simp_all add: require_valid_def)

interpretation resolved: checked_result "\<lambda>r. cr_unresolved_finding_ids r = []" require_resolved
  by unfold_locales (simp_all add: require_resolved_def)

subsection \<open>The schema\<close>

definition render_schema_error :: "pyval list \<times> string \<Rightarrow> string" where
  "render_schema_error e =
     (let path = join ''/'' (map py_str (fst e))
      in (if path = [] then ''<root>'' else path) @ '': '' @ snd e)"

definition validate_bundle_schema :: "schema_validator \<Rightarrow> pydict \<Rightarrow> validation_result" where
  "validate_bundle_schema iter_errors payload =
     (let errors = sort (map render_schema_error (iter_errors payload))
      in \<lparr>vr_valid = (errors = []), vr_errors = errors\<rparr>)"

lemma validate_bundle_schema_valid [simp]:
  "vr_valid (validate_bundle_schema s d) \<longleftrightarrow> s d = []"
  by (simp add: validate_bundle_schema_def Let_def)

subsection \<open>Semantic validation\<close>

definition evidence_errors :: "finding_bundle \<Rightarrow> evidence_record \<Rightarrow> string list" where
  "evidence_errors b e =
     (if ev_snapshot_id e \<noteq> sd_snapshot_id (fb_snapshot b)
      then [''evidence '' @ repr_string (ev_evidence_id e) @ '' has a different snapshot_id''] else []) @
     (if ev_provider_id e \<notin> set (map pr_provider_id (fb_providers b))
      then [''evidence '' @ repr_string (ev_evidence_id e) @ '' references unregistered provider '' @
              repr_string (ev_provider_id e)] else [])"

definition finding_errors :: "finding_bundle \<Rightarrow> finding \<Rightarrow> string list" where
  "finding_errors b f =
     (let missing = filter (\<lambda>i. i \<notin> set (map ev_evidence_id (fb_evidence b))) (fn_evidence_ids f)
      in (if fn_snapshot_id f \<noteq> sd_snapshot_id (fb_snapshot b)
          then [''finding '' @ repr_string (fn_finding_id f) @ '' has a different snapshot_id''] else []) @
         (if fn_provider_id f \<notin> set (map pr_provider_id (fb_providers b))
          then [''finding '' @ repr_string (fn_finding_id f) @ '' references unregistered provider '' @
                  repr_string (fn_provider_id f)] else []) @
         (if missing \<noteq> []
          then [''finding '' @ repr_string (fn_finding_id f) @ '' references missing evidence: '' @
                  repr_strs (sorted_set missing)] else []))"

definition coverage_set_errors :: "string list \<Rightarrow> string list \<Rightarrow> string list" where
  "coverage_set_errors requested covered =
     (if set requested \<noteq> set covered then
        (let missing = filter (\<lambda>p. p \<notin> set covered) requested;
             unexpected = filter (\<lambda>p. p \<notin> set requested) covered
         in (if missing \<noteq> []
             then [''missing coverage records for providers: '' @ repr_strs (sorted_set missing)] else []) @
            (if unexpected \<noteq> []
             then [''unexpected coverage records for providers: '' @ repr_strs (sorted_set unexpected)]
             else []))
      else [])"

definition semantic_errors :: "finding_bundle \<Rightarrow> string list" where
  "semantic_errors b =
     (let provider_ids = map pr_provider_id (fb_providers b);
          coverage_ids = map cv_provider_id (fb_coverage b);
          finding_ids = map fn_finding_id (fb_findings b);
          unique = (\<lambda>ids msg. if distinct ids then [] else [msg])
      in unique (map ev_evidence_id (fb_evidence b)) ''evidence IDs must be unique'' @
         unique finding_ids ''finding IDs must be unique'' @
         unique (map fc_finding_id (fb_classifications b))
           ''classifications must be unique by finding_id'' @
         unique provider_ids ''provider runs must be unique by provider_id'' @
         unique coverage_ids ''coverage records must be unique by provider_id'' @
         concat (map (evidence_errors b) (fb_evidence b)) @
         concat (map (finding_errors b) (fb_findings b)) @
         concat (map (\<lambda>c. if fc_finding_id c \<in> set finding_ids then []
           else [''classification references missing finding: '' @ repr_string (fc_finding_id c)])
           (fb_classifications b)) @
         concat (map (\<lambda>c. if cv_provider_id c \<in> set provider_ids then []
           else [''coverage references unregistered provider '' @ repr_string (cv_provider_id c)])
           (fb_coverage b)) @
         coverage_set_errors provider_ids coverage_ids)"

definition validate_bundle_semantics :: "finding_bundle \<Rightarrow> validation_result" where
  "validate_bundle_semantics b =
     \<lparr>vr_valid = (semantic_errors b = []), vr_errors = sort (semantic_errors b)\<rparr>"

text \<open>What semantic validity means: unique identifiers, no dangling reference, one snapshot, one
  coverage record for every provider run and for nothing else.\<close>

definition referential_integrity :: "finding_bundle \<Rightarrow> bool" where
  "referential_integrity b \<longleftrightarrow>
     (\<forall>e \<in> set (fb_evidence b). ev_snapshot_id e = sd_snapshot_id (fb_snapshot b) \<and>
        ev_provider_id e \<in> pr_provider_id ` set (fb_providers b)) \<and>
     (\<forall>f \<in> set (fb_findings b). fn_snapshot_id f = sd_snapshot_id (fb_snapshot b) \<and>
        fn_provider_id f \<in> pr_provider_id ` set (fb_providers b) \<and>
        set (fn_evidence_ids f) \<subseteq> ev_evidence_id ` set (fb_evidence b)) \<and>
     (\<forall>c \<in> set (fb_classifications b). fc_finding_id c \<in> fn_finding_id ` set (fb_findings b)) \<and>
     cv_provider_id ` set (fb_coverage b) = pr_provider_id ` set (fb_providers b)"

definition unique_records :: "finding_bundle \<Rightarrow> bool" where
  "unique_records b \<longleftrightarrow>
     unique_by ev_evidence_id (fb_evidence b) \<and> unique_by fn_finding_id (fb_findings b) \<and>
     unique_by fc_finding_id (fb_classifications b) \<and> unique_by pr_provider_id (fb_providers b) \<and>
     unique_by cv_provider_id (fb_coverage b)"

lemma evidence_errors_Nil:
  "evidence_errors b e = [] \<longleftrightarrow>
     ev_snapshot_id e = sd_snapshot_id (fb_snapshot b) \<and>
     ev_provider_id e \<in> pr_provider_id ` set (fb_providers b)"
  by (simp add: evidence_errors_def)

lemma finding_errors_Nil:
  "finding_errors b f = [] \<longleftrightarrow>
     fn_snapshot_id f = sd_snapshot_id (fb_snapshot b) \<and>
     fn_provider_id f \<in> pr_provider_id ` set (fb_providers b) \<and>
     set (fn_evidence_ids f) \<subseteq> ev_evidence_id ` set (fb_evidence b)"
  by (auto simp: finding_errors_def Let_def filter_empty_conv)

lemma coverage_set_errors_Nil: "coverage_set_errors r c = [] \<longleftrightarrow> set c = set r"
  by (auto simp: coverage_set_errors_def Let_def filter_empty_conv)

lemma semantic_errors_Nil:
  "semantic_errors b = [] \<longleftrightarrow> unique_records b \<and> referential_integrity b"
proof -
  have g: "(if P then [] else [m]) = ([] :: string list) \<longleftrightarrow> P" for P and m :: string
    by simp
  show ?thesis
    unfolding semantic_errors_def Let_def append_is_Nil_conv concat_eq_Nil_conv set_map ball_simps g
      evidence_errors_Nil finding_errors_Nil coverage_set_errors_Nil
      unique_records_def unique_by_def referential_integrity_def
    by blast
qed

lemma validate_bundle_semantics_valid [simp]:
  "vr_valid (validate_bundle_semantics b) \<longleftrightarrow> unique_records b \<and> referential_integrity b"
  by (simp add: validate_bundle_semantics_def semantic_errors_Nil)

subsection \<open>The embedded summary\<close>

abbreviation len_of :: "pydict \<Rightarrow> string \<Rightarrow> int result" where
  "len_of payload key \<equiv> py_len (dget_default payload key (PList []))"

definition validate_raw_summary :: "pydict \<Rightarrow> validation_result result" where
  "validate_raw_summary payload =
     and_then (len_of payload ''providers'') (\<lambda>p.
     and_then (len_of payload ''evidence'') (\<lambda>e.
     and_then (len_of payload ''findings'') (\<lambda>f.
     and_then (len_of payload ''classifications'') (\<lambda>c.
     and_then (len_of payload ''provider_failures'') (\<lambda>pf.
     and_then (len_of payload ''coverage'') (\<lambda>cv.
     Inr (if equals_int_dict (dget_none payload ''summary'')
               [(''provider_count'', p), (''evidence_count'', e), (''finding_count'', f),
                (''classification_count'', c), (''provider_failure_count'', pf),
                (''coverage_count'', cv)]
          then \<lparr>vr_valid = True, vr_errors = []\<rparr>
          else \<lparr>vr_valid = False,
                vr_errors = [''bundle summary does not match raw record counts'']\<rparr>)))))))"

lemma len_encode_items [simp]: "py_len (encode_items f xs) = Inr (int (length xs))"
  by (simp add: encode_items_def)

lemma validate_raw_summary_to_dict:
  "validate_raw_summary (bundle_to_dict b) = Inr \<lparr>vr_valid = True, vr_errors = []\<rparr>"
proof -
  have "length (bundle_summary b) = 6"
    by (simp add: bundle_summary_def)
  then show ?thesis
    by (simp add: validate_raw_summary_def bundle_to_dict_def)
qed

subsection \<open>Validation of a bundle and of a file\<close>

definition validate_bundle :: "schema_validator \<Rightarrow> finding_bundle \<Rightarrow> validation_result result" where
  "validate_bundle iter_errors b =
     (let payload = bundle_to_dict b
      in and_then (validate_raw_summary payload) (\<lambda>summary_result.
         and_then (require_valid summary_result) (\<lambda>_.
         let errors = co_errors (check_bundle_compatibility payload) @
                      vr_errors (validate_bundle_schema iter_errors payload) @
                      vr_errors (validate_bundle_semantics b)
         in Inr \<lparr>vr_valid = (errors = []), vr_errors = sorted_set errors\<rparr>)))"

definition load_and_validate_bundle :: "schema_validator \<Rightarrow> pyval \<Rightarrow> finding_bundle result" where
  "load_and_validate_bundle iter_errors parsed =
     and_then (mapping_attr ''get'' parsed) (\<lambda>payload.
     and_then (validate_raw_summary payload) (\<lambda>summary_result.
     and_then (require_valid summary_result) (\<lambda>_.
     let compatibility = check_bundle_compatibility payload
     in and_then (if co_compatible compatibility then Inr ()
                  else require_valid \<lparr>vr_valid = False, vr_errors = co_errors compatibility\<rparr>) (\<lambda>_.
        and_then (require_valid (validate_bundle_schema iter_errors payload)) (\<lambda>_.
        and_then (bundle_from_dict payload) (\<lambda>bundle.
        and_then (require_valid (validate_bundle_semantics bundle)) (\<lambda>_. Inr bundle)))))))"

lemma validate_bundle_iff:
  "\<exists>r. validate_bundle s b = Inr r \<and>
     (vr_valid r \<longleftrightarrow> compatible_payload (bundle_to_dict b) \<and> s (bundle_to_dict b) = [] \<and>
                     unique_records b \<and> referential_integrity b)"
proof -
  have "co_errors (check_bundle_compatibility d) = [] \<longleftrightarrow> compatible_payload d" for d
    using check_bundle_compatibility_errors check_bundle_compatibility_iff by blast
  moreover have "vr_errors (validate_bundle_schema s d) = [] \<longleftrightarrow> s d = []" for d
    by (simp add: validate_bundle_schema_def Let_def)
  moreover have "vr_errors (validate_bundle_semantics b) = [] \<longleftrightarrow> unique_records b \<and> referential_integrity b"
    by (simp add: validate_bundle_semantics_def semantic_errors_Nil)
  ultimately show ?thesis
    by (simp add: validate_bundle_def validate_raw_summary_to_dict require_valid_def Let_def)
qed

lemma load_and_validate_Inr:
  "load_and_validate_bundle s v = Inr b \<longleftrightarrow>
     (\<exists>d. v = PDict d \<and>
       (\<exists>r. validate_raw_summary d = Inr r \<and> vr_valid r) \<and>
       compatible_payload d \<and> s d = [] \<and> bundle_from_dict d = Inr b \<and>
       unique_records b \<and> referential_integrity b)"
proof (cases "\<exists>d. v = PDict d")
  case True
  then obtain d where v: "v = PDict d" by blast
  show ?thesis
    by (cases "compatible_payload d")
      (auto simp: v load_and_validate_bundle_def and_then_eq_Inr check_bundle_compatibility_iff
        Let_def)
next
  case False
  then show ?thesis
    by (cases v) (simp_all add: load_and_validate_bundle_def)
qed

subsection \<open>Properties\<close>

text \<open>
  C6: what loading an artifact guarantees. \<open>load_and_validate_bundle\<close> returns a bundle exactly when
  the file holds an object whose embedded summary matches, whose protocol and major version are
  supported, that the JSON schema accepts and \<open>from_dict\<close> parses, and whose records have unique
  ids, one snapshot, no dangling reference and one coverage record for every provider run.
\<close>

theorem load_and_validate_bundle_iff:
  "load_and_validate_bundle iter_errors document = Inr b \<longleftrightarrow>
     (\<exists>d. document = PDict d \<and> (\<exists>r. validate_raw_summary d = Inr r \<and> vr_valid r) \<and>
        compatible_payload d \<and> iter_errors d = [] \<and> bundle_from_dict d = Inr b \<and>
        unique_records b \<and> referential_integrity b)"
  by (rule load_and_validate_Inr)

text \<open>
  Validation and loading agree. A bundle of valid records with stripped paths validates if and
  only if the file holding its dictionary loads, and then loading returns that very bundle.
\<close>

theorem validate_bundle_load:
  assumes "stable_bundle b"
  shows "(\<exists>r. validate_bundle iter_errors b = Inr r \<and> vr_valid r) \<longleftrightarrow>
    load_and_validate_bundle iter_errors (PDict (bundle_to_dict b)) = Inr b"
proof -
  obtain r where "validate_bundle iter_errors b = Inr r" and
    "vr_valid r \<longleftrightarrow> compatible_payload (bundle_to_dict b) \<and> iter_errors (bundle_to_dict b) = [] \<and>
       unique_records b \<and> referential_integrity b"
    using validate_bundle_iff by blast
  then show ?thesis
    by (auto simp: load_and_validate_Inr validate_raw_summary_to_dict bundle_roundtripI [OF assms])
qed

theorem validate_bundle_load_witness:
  "(\<exists>r. validate_bundle (\<lambda>_. []) sample_bundle = Inr r \<and> vr_valid r) \<and>
   load_and_validate_bundle (\<lambda>_. []) (PDict (bundle_to_dict sample_bundle)) = Inr sample_bundle"
proof -
  have "compatible_payload (bundle_to_dict sample_bundle)" "unique_records sample_bundle"
    "referential_integrity sample_bundle"
    by (simp add: compatible_payload_def bundle_to_dict_def sample_bundle_def current_major,
        code_simp, simp add: referential_integrity_def sample_defs)
  then have "\<exists>r. validate_bundle (\<lambda>_. []) sample_bundle = Inr r \<and> vr_valid r"
    using validate_bundle_iff [of "\<lambda>_. []" sample_bundle] by auto
  then show ?thesis
    using validate_bundle_load [OF sample_bundle_stable, of "\<lambda>_. []"] by blast
qed

end
