(* ===== verification/Gates.thy ===== *)
theory Gates
  imports Contracts_Bundle
begin

text \<open>
  \<open>l9_ci/gates\<close>: the gate result (\<open>model.py\<close>) and the gate evaluation (\<open>evaluator.py\<close>). A Python set
  that the code only tests, subtracts and sorts is the list it is built from; every set reaches
  the result through \<open>sorted(set(...))\<close>, here \<^const>\<open>sorted_set\<close>.
\<close>

subsection \<open>Gate results\<close>

datatype gate_status = Gate_Pass | Gate_Fail | Gate_Incomplete | Gate_Invalid

fun gate_status_value :: "gate_status \<Rightarrow> string" where
  "gate_status_value Gate_Pass = ''pass''"
| "gate_status_value Gate_Fail = ''fail''"
| "gate_status_value Gate_Incomplete = ''incomplete''"
| "gate_status_value Gate_Invalid = ''invalid''"

definition parse_gate_status :: "pyval \<Rightarrow> gate_status result" where
  "parse_gate_status = enum_lookup ''GateStatus'' gate_status_value
     [Gate_Pass, Gate_Fail, Gate_Incomplete, Gate_Invalid]"

lemma parse_gate_status_value [simp]: "parse_gate_status (PStr (gate_status_value s)) = Inr s"
  unfolding parse_gate_status_def by (cases s) (simp_all add: enum_lookup_def)

definition GATE_RESULT_PROTOCOL :: string where
  "GATE_RESULT_PROTOCOL = ''l9.gate-result/v1''"

definition GATE_RESULT_SCHEMA_VERSION :: string where
  "GATE_RESULT_SCHEMA_VERSION = ''1.0.0''"

record gate_result =
  gr_status :: gate_status
  gr_blocking_finding_ids :: "string list"
  gr_unresolved_finding_ids :: "string list"
  gr_fatal_provider_ids :: "string list"
  gr_incomplete_provider_ids :: "string list"
  gr_reasons :: "string list"
  gr_schema :: string
  gr_schema_version :: string

definition gate_result_post_init :: "gate_result \<Rightarrow> gate_result" where
  "gate_result_post_init r =
     r\<lparr>gr_blocking_finding_ids := sorted_set (gr_blocking_finding_ids r),
       gr_unresolved_finding_ids := sorted_set (gr_unresolved_finding_ids r),
       gr_fatal_provider_ids := sorted_set (gr_fatal_provider_ids r),
       gr_incomplete_provider_ids := sorted_set (gr_incomplete_provider_ids r),
       gr_reasons := sorted_set (gr_reasons r)\<rparr>"

definition GateResult ::
  "gate_status \<Rightarrow> string list \<Rightarrow> string list \<Rightarrow> string list \<Rightarrow> string list \<Rightarrow> string list \<Rightarrow> gate_result"
where
  "GateResult status blocking unresolved fatal incomplete reasons =
     gate_result_post_init
       \<lparr>gr_status = status, gr_blocking_finding_ids = blocking,
        gr_unresolved_finding_ids = unresolved, gr_fatal_provider_ids = fatal,
        gr_incomplete_provider_ids = incomplete, gr_reasons = reasons,
        gr_schema = GATE_RESULT_PROTOCOL, gr_schema_version = GATE_RESULT_SCHEMA_VERSION\<rparr>"

definition gate_successful :: "gate_result \<Rightarrow> bool" where
  "gate_successful r \<longleftrightarrow> gr_status r = Gate_Pass"

definition gate_result_to_dict :: "gate_result \<Rightarrow> pydict" where
  "gate_result_to_dict r =
     [(PStr ''schema'', PStr (gr_schema r)),
      (PStr ''schema_version'', PStr (gr_schema_version r)),
      (PStr ''status'', PStr (gate_status_value (gr_status r))),
      (PStr ''blocking_finding_ids'', encode_strs (gr_blocking_finding_ids r)),
      (PStr ''unresolved_finding_ids'', encode_strs (gr_unresolved_finding_ids r)),
      (PStr ''fatal_provider_ids'', encode_strs (gr_fatal_provider_ids r)),
      (PStr ''incomplete_provider_ids'', encode_strs (gr_incomplete_provider_ids r)),
      (PStr ''reasons'', encode_strs (gr_reasons r)),
      (PStr ''summary'', PDict
        [(PStr ''blocking_count'', PInt (int (length (gr_blocking_finding_ids r)))),
         (PStr ''unresolved_count'', PInt (int (length (gr_unresolved_finding_ids r)))),
         (PStr ''fatal_provider_count'', PInt (int (length (gr_fatal_provider_ids r)))),
         (PStr ''incomplete_provider_count'',
            PInt (int (length (gr_incomplete_provider_ids r))))])]"

definition gate_result_from_dict :: "pydict \<Rightarrow> gate_result result" where
  "gate_result_from_dict payload =
     and_then (and_then (sub_str payload ''status'') (\<lambda>s. parse_gate_status (PStr s))) (\<lambda>status.
     and_then (str_items (dget_default payload ''blocking_finding_ids'' (PList []))) (\<lambda>blocking.
     and_then (str_items (dget_default payload ''unresolved_finding_ids'' (PList []))) (\<lambda>unresolved.
     and_then (str_items (dget_default payload ''fatal_provider_ids'' (PList []))) (\<lambda>fatal.
     and_then (str_items (dget_default payload ''incomplete_provider_ids'' (PList []))) (\<lambda>incomplete.
     and_then (str_items (dget_default payload ''reasons'' (PList []))) (\<lambda>reasons.
     Inr (gate_result_post_init
       \<lparr>gr_status = status, gr_blocking_finding_ids = blocking,
        gr_unresolved_finding_ids = unresolved, gr_fatal_provider_ids = fatal,
        gr_incomplete_provider_ids = incomplete, gr_reasons = reasons,
        gr_schema = py_str (dget_default payload ''schema'' (PStr GATE_RESULT_PROTOCOL)),
        gr_schema_version =
          py_str (dget_default payload ''schema_version'' (PStr GATE_RESULT_SCHEMA_VERSION))\<rparr>)))))))"

lemma gate_result_post_init_idem [simp]:
  "gate_result_post_init (gate_result_post_init r) = gate_result_post_init r"
  by (simp add: gate_result_post_init_def)

definition canonical_gate_result :: "gate_result \<Rightarrow> bool" where
  "canonical_gate_result r \<longleftrightarrow> gate_result_post_init r = r"

lemma gate_result_roundtrip:
  assumes "canonical_gate_result r"
  shows "gate_result_from_dict (gate_result_to_dict r) = Inr r"
proof -
  have "gate_result_from_dict (gate_result_to_dict r) = Inr (gate_result_post_init r)"
    by (cases r) (simp add: gate_result_from_dict_def gate_result_to_dict_def)
  then show ?thesis
    using assms by (simp add: canonical_gate_result_def)
qed

interpretation gate_codec: codec gate_result_to_dict gate_result_from_dict canonical_gate_result
  by unfold_locales (rule gate_result_roundtrip)

lemma GateResult_canonical [simp]: "canonical_gate_result (GateResult s b u f i r)"
  by (simp add: GateResult_def canonical_gate_result_def)

lemma GateResult_fields [simp]:
  "gr_status (GateResult s b u f i r) = s"
  "gr_blocking_finding_ids (GateResult s b u f i r) = sorted_set b"
  "gr_unresolved_finding_ids (GateResult s b u f i r) = sorted_set u"
  "gr_fatal_provider_ids (GateResult s b u f i r) = sorted_set f"
  "gr_incomplete_provider_ids (GateResult s b u f i r) = sorted_set i"
  "gr_reasons (GateResult s b u f i r) = sorted_set r"
  by (simp_all add: GateResult_def gate_result_post_init_def)

lemma GateResult_cong:
  assumes "set b = set b'" "set u = set u'" "set f = set f'" "set i = set i'" "set r = set r'"
  shows "GateResult s b u f i r = GateResult s b' u' f' i' r'"
  using assms [THEN sorted_set_cong]
  by (simp add: GateResult_def gate_result_post_init_def)

subsection \<open>Evaluation\<close>

text \<open>The sets \<open>evaluate_gate\<close> computes from the bundle, in the order of the code.\<close>

definition missing_classifications :: "finding_bundle \<Rightarrow> string list" where
  "missing_classifications b =
     filter (\<lambda>i. i \<notin> set (map fc_finding_id (fb_classifications b)))
       (map fn_finding_id (fb_findings b))"

definition fatal_provider_ids :: "finding_bundle \<Rightarrow> string list" where
  "fatal_provider_ids b =
     map pf_provider_id (filter (\<lambda>f. pf_required f \<and> pf_fatal f) (fb_provider_failures b))"

definition nonfatal_required_failure_ids :: "finding_bundle \<Rightarrow> string list" where
  "nonfatal_required_failure_ids b =
     filter (\<lambda>i. i \<notin> set (fatal_provider_ids b))
       (map pf_provider_id (filter (\<lambda>f. pf_required f \<and> \<not> pf_fatal f) (fb_provider_failures b)))"

definition required_provider_ids :: "finding_bundle \<Rightarrow> string list" where
  "required_provider_ids b = map pr_provider_id (filter pr_required (fb_providers b))"

definition coverage_incomplete :: "finding_bundle \<Rightarrow> string \<Rightarrow> bool" where
  "coverage_incomplete b i =
     (case dict_by cv_provider_id (fb_coverage b) i of
        None \<Rightarrow> True
      | Some c \<Rightarrow> cv_status c \<in> {Cov_Failed, Cov_Partial, Cov_Skipped, Cov_Unsupported})"

definition coverage_incomplete_ids :: "finding_bundle \<Rightarrow> string list" where
  "coverage_incomplete_ids b = filter (coverage_incomplete b) (required_provider_ids b)"

definition ids_in_mode :: "rule_mode \<Rightarrow> finding_bundle \<Rightarrow> string list" where
  "ids_in_mode m b =
     sort (map fc_finding_id (filter (\<lambda>c. fc_mode c = m) (fb_classifications b)))"

definition evaluate_gate :: "finding_bundle \<Rightarrow> bool \<Rightarrow> gate_result" where
  "evaluate_gate b strict_unresolved =
     (let missing = missing_classifications b;
          fatal = fatal_provider_ids b;
          nonfatal = nonfatal_required_failure_ids b;
          uncovered = coverage_incomplete_ids b;
          incomplete = uncovered @ nonfatal;
          blocking = ids_in_mode Blocking b;
          unresolved = ids_in_mode Unresolved_Mode b
      in if missing \<noteq> [] then
           GateResult Gate_Invalid [] missing [] []
             [''findings are missing classifications: '' @ join '', '' (sorted_set missing)]
         else if fatal \<noteq> [] \<or> incomplete \<noteq> [] then
           GateResult Gate_Incomplete [] [] fatal incomplete
             ((if fatal \<noteq> []
               then [''required providers failed: '' @ join '', '' (sorted_set fatal)] else []) @
              (if nonfatal \<noteq> []
               then [''required providers reported non-fatal failures: '' @
                       join '', '' (sorted_set nonfatal)] else []) @
              (if uncovered \<noteq> []
               then [''required provider coverage is incomplete: '' @
                       join '', '' (sorted_set uncovered)] else []))
         else if blocking \<noteq> [] then
           GateResult Gate_Fail blocking unresolved [] []
             [''blocking findings exist: '' @ join '', '' blocking]
         else if strict_unresolved \<and> unresolved \<noteq> [] then
           GateResult Gate_Incomplete [] unresolved [] []
             [''unresolved findings exist under strict evaluation: '' @ join '', '' unresolved]
         else GateResult Gate_Pass [] unresolved [] [] [])"

subsection \<open>Declarative reading of the gate\<close>

text \<open>What the bundle says, without the order of evaluation and without tables.\<close>

definition every_finding_classified :: "finding_bundle \<Rightarrow> bool" where
  "every_finding_classified b \<longleftrightarrow>
     (\<forall>f \<in> set (fb_findings b). \<exists>c \<in> set (fb_classifications b). fc_finding_id c = fn_finding_id f)"

definition required_failure_free :: "finding_bundle \<Rightarrow> bool" where
  "required_failure_free b \<longleftrightarrow> (\<forall>f \<in> set (fb_provider_failures b). \<not> pf_required f)"

definition required_coverage_complete :: "finding_bundle \<Rightarrow> bool" where
  "required_coverage_complete b \<longleftrightarrow>
     (\<forall>p \<in> set (fb_providers b). pr_required p \<longrightarrow>
        (\<exists>c. dict_by cv_provider_id (fb_coverage b) (pr_provider_id p) = Some c \<and>
             cv_status c = Cov_Complete))"

definition has_mode :: "rule_mode \<Rightarrow> finding_bundle \<Rightarrow> bool" where
  "has_mode m b \<longleftrightarrow> (\<exists>c \<in> set (fb_classifications b). fc_mode c = m)"

definition gate_verdict :: "finding_bundle \<Rightarrow> bool \<Rightarrow> gate_status" where
  "gate_verdict b strict =
     (if \<not> every_finding_classified b then Gate_Invalid
      else if \<not> (required_failure_free b \<and> required_coverage_complete b) then Gate_Incomplete
      else if has_mode Blocking b then Gate_Fail
      else if strict \<and> has_mode Unresolved_Mode b then Gate_Incomplete
      else Gate_Pass)"

lemma missing_classifications_Nil [simp]:
  "missing_classifications b = [] \<longleftrightarrow> every_finding_classified b"
  unfolding missing_classifications_def every_finding_classified_def
  by (simp add: filter_empty_conv image_iff) (metis (lifting))

lemma fatal_provider_ids_Nil:
  "fatal_provider_ids b = [] \<longleftrightarrow> (\<forall>f \<in> set (fb_provider_failures b). \<not> (pf_required f \<and> pf_fatal f))"
  by (auto simp: fatal_provider_ids_def filter_empty_conv)

lemma failure_ids_Nil:
  "fatal_provider_ids b = [] \<and> nonfatal_required_failure_ids b = [] \<longleftrightarrow> required_failure_free b"
proof (cases "fatal_provider_ids b = []")
  case True
  then have "nonfatal_required_failure_ids b =
      map pf_provider_id (filter (\<lambda>f. pf_required f \<and> \<not> pf_fatal f) (fb_provider_failures b))"
    by (simp add: nonfatal_required_failure_ids_def)
  with True show ?thesis
    by (auto simp: required_failure_free_def fatal_provider_ids_Nil filter_empty_conv)
next
  case False
  then show ?thesis
    by (auto simp: required_failure_free_def fatal_provider_ids_Nil)
qed

lemma coverage_incomplete_iff:
  "coverage_incomplete b i \<longleftrightarrow>
     \<not> (\<exists>c. dict_by cv_provider_id (fb_coverage b) i = Some c \<and> cv_status c = Cov_Complete)"
proof -
  have "cv_status c \<in> {Cov_Failed, Cov_Partial, Cov_Skipped, Cov_Unsupported} \<longleftrightarrow>
        cv_status c \<noteq> Cov_Complete" for c :: coverage
    by (cases "cv_status c") simp_all
  then show ?thesis
    by (cases "dict_by cv_provider_id (fb_coverage b) i") (simp_all add: coverage_incomplete_def)
qed

lemma coverage_incomplete_ids_Nil [simp]:
  "coverage_incomplete_ids b = [] \<longleftrightarrow> required_coverage_complete b"
  by (auto simp: coverage_incomplete_ids_def required_coverage_complete_def required_provider_ids_def
      filter_empty_conv coverage_incomplete_iff)

lemma ids_in_mode_Nil [simp]: "ids_in_mode m b = [] \<longleftrightarrow> \<not> has_mode m b"
  by (auto simp: ids_in_mode_def has_mode_def filter_empty_conv)

lemma set_ids_in_mode:
  "set (ids_in_mode m b) = {fc_finding_id c |c. c \<in> set (fb_classifications b) \<and> fc_mode c = m}"
  by (auto simp: ids_in_mode_def)

lemma gate_providers_ok:
  "fatal_provider_ids b \<noteq> [] \<or> coverage_incomplete_ids b @ nonfatal_required_failure_ids b \<noteq> []
     \<longleftrightarrow> \<not> (required_failure_free b \<and> required_coverage_complete b)"
  using failure_ids_Nil [of b] coverage_incomplete_ids_Nil [of b] by (simp only: append_is_Nil_conv) blast

lemma evaluate_gate_status: "gr_status (evaluate_gate b strict) = gate_verdict b strict"
  unfolding evaluate_gate_def Let_def gate_providers_ok gate_verdict_def by simp

lemma evaluate_gate_canonical: "canonical_gate_result (evaluate_gate b strict)"
  by (simp add: evaluate_gate_def Let_def)

subsection \<open>The order of the records does not matter\<close>

definition same_records :: "finding_bundle \<Rightarrow> finding_bundle \<Rightarrow> bool" where
  "same_records b b' \<longleftrightarrow>
     mset (fb_findings b) = mset (fb_findings b') \<and>
     mset (fb_classifications b) = mset (fb_classifications b') \<and>
     mset (fb_provider_failures b) = mset (fb_provider_failures b') \<and>
     mset (fb_providers b) = mset (fb_providers b') \<and>
     mset (fb_coverage b) = mset (fb_coverage b') \<and> unique_by cv_provider_id (fb_coverage b)"

lemma ids_in_mode_mset:
  "mset (fb_classifications b) = mset (fb_classifications b') \<Longrightarrow> ids_in_mode m b = ids_in_mode m b'"
  unfolding ids_in_mode_def by (rule sort_mset_cong) simp

lemma same_records_sets:
  assumes "same_records b b'"
  shows "set (missing_classifications b) = set (missing_classifications b')"
    and "set (fatal_provider_ids b) = set (fatal_provider_ids b')"
    and "set (nonfatal_required_failure_ids b) = set (nonfatal_required_failure_ids b')"
    and "set (coverage_incomplete_ids b) = set (coverage_incomplete_ids b')"
    and "ids_in_mode m b = ids_in_mode m b'"
proof -
  have s: "set (fb_findings b) = set (fb_findings b')"
    "set (fb_classifications b) = set (fb_classifications b')"
    "set (fb_provider_failures b) = set (fb_provider_failures b')"
    "set (fb_providers b) = set (fb_providers b')"
    using assms by (auto simp: same_records_def dest: mset_eq_setD)
  show 1: "set (missing_classifications b) = set (missing_classifications b')"
    by (simp add: missing_classifications_def s)
  show 2: "set (fatal_provider_ids b) = set (fatal_provider_ids b')"
    by (simp add: fatal_provider_ids_def s)
  show "set (nonfatal_required_failure_ids b) = set (nonfatal_required_failure_ids b')"
    by (simp add: nonfatal_required_failure_ids_def 2) (simp add: s)
  have "coverage_incomplete b = coverage_incomplete b'"
    using assms dict_by_mset [of cv_provider_id "fb_coverage b" "fb_coverage b'"]
    by (simp add: same_records_def coverage_incomplete_def fun_eq_iff)
  then show "set (coverage_incomplete_ids b) = set (coverage_incomplete_ids b')"
    by (simp add: coverage_incomplete_ids_def required_provider_ids_def s)
  show "ids_in_mode m b = ids_in_mode m b'"
    using assms by (intro ids_in_mode_mset) (simp add: same_records_def)
qed

lemma evaluate_gate_perm:
  assumes "same_records b b'"
  shows "evaluate_gate b strict = evaluate_gate b' strict"
proof -
  note s = same_records_sets [OF assms]
  have n: "missing_classifications b = [] \<longleftrightarrow> missing_classifications b' = []"
    "fatal_provider_ids b = [] \<longleftrightarrow> fatal_provider_ids b' = []"
    "nonfatal_required_failure_ids b = [] \<longleftrightarrow> nonfatal_required_failure_ids b' = []"
    "coverage_incomplete_ids b = [] \<longleftrightarrow> coverage_incomplete_ids b' = []"
    using s(1-4) by (metis set_empty)+
  note ss = s(1-4) [THEN sorted_set_cong]
  have g: "GateResult st xs u f i r = GateResult st xs u' f' i' r"
    if "set u = set u'" "set f = set f'" "set i = set i'" for st xs u u' f f' i i' r
    using that by (intro GateResult_cong) simp_all
  show ?thesis
    unfolding evaluate_gate_def Let_def s(5) n append_is_Nil_conv ss
    by (intro if_cong refl g) (simp_all only: s set_append)
qed

subsection \<open>Optional providers\<close>

definition drop_optional :: "finding_bundle \<Rightarrow> finding_bundle" where
  "drop_optional b =
     b\<lparr>fb_providers := filter pr_required (fb_providers b),
       fb_provider_failures := filter pf_required (fb_provider_failures b)\<rparr>"

lemma evaluate_gate_drop_optional: "evaluate_gate (drop_optional b) strict = evaluate_gate b strict"
proof -
  have 1: "missing_classifications (drop_optional b) = missing_classifications b"
    "ids_in_mode m (drop_optional b) = ids_in_mode m b" for m
    by (simp_all add: missing_classifications_def ids_in_mode_def drop_optional_def)
  have 2: "fatal_provider_ids (drop_optional b) = fatal_provider_ids b"
    by (simp add: fatal_provider_ids_def drop_optional_def conj_ac)
  have 3: "nonfatal_required_failure_ids (drop_optional b) = nonfatal_required_failure_ids b"
    unfolding nonfatal_required_failure_ids_def 2 by (simp add: drop_optional_def conj_ac)
  have 4: "coverage_incomplete_ids (drop_optional b) = coverage_incomplete_ids b"
    by (simp add: coverage_incomplete_ids_def required_provider_ids_def coverage_incomplete_def [abs_def]
        drop_optional_def)
  show ?thesis
    unfolding evaluate_gate_def 1 2 3 4 ..
qed

subsection \<open>Failing closed\<close>

definition add_failure :: "provider_failure \<Rightarrow> finding_bundle \<Rightarrow> finding_bundle" where
  "add_failure f b = b\<lparr>fb_provider_failures := fb_provider_failures b @ [f]\<rparr>"

lemma gate_verdict_add_failure:
  "pf_required f \<Longrightarrow>
     gate_verdict (add_failure f b) strict =
       (if every_finding_classified b then Gate_Incomplete else Gate_Invalid)"
  by (simp add: gate_verdict_def add_failure_def every_finding_classified_def
      required_failure_free_def)

subsection \<open>Properties\<close>

text \<open>
  The verdict of the gate. \<open>evaluate_gate\<close> answers \<open>invalid\<close> exactly when a finding has no
  classification; otherwise \<open>incomplete\<close> when a required provider failed, fatally or not, or has no
  complete coverage record; otherwise \<open>fail\<close> when a classification is blocking; otherwise
  \<open>incomplete\<close> under strict evaluation when a classification is unresolved; and \<open>pass\<close> in the
  remaining case only.
\<close>

theorem evaluate_gate_verdict: "gr_status (evaluate_gate b strict) = gate_verdict b strict"
  by (rule evaluate_gate_status)

text \<open>
  C3: a passing gate. The result is successful exactly when every finding is classified, no
  required provider failed, every required provider has complete coverage, nothing is blocking
  and, under strict evaluation, nothing is unresolved; and then the result names no blocking
  finding and no provider and carries no reason.
\<close>

theorem evaluate_gate_pass:
  "gate_successful (evaluate_gate b strict) =
     (every_finding_classified b \<and> required_failure_free b \<and> required_coverage_complete b \<and>
      \<not> has_mode Blocking b \<and> \<not> (strict \<and> has_mode Unresolved_Mode b)) \<and>
   (gate_successful (evaluate_gate b strict) =
      (gr_reasons (evaluate_gate b strict) = []))"
proof
  show 1: "gate_successful (evaluate_gate b strict) =
     (every_finding_classified b \<and> required_failure_free b \<and> required_coverage_complete b \<and>
      \<not> has_mode Blocking b \<and> \<not> (strict \<and> has_mode Unresolved_Mode b))"
    by (auto simp: gate_successful_def evaluate_gate_status gate_verdict_def)
  show "gate_successful (evaluate_gate b strict) = (gr_reasons (evaluate_gate b strict) = [])"
    using failure_ids_Nil [of b]
    by (auto simp: gate_successful_def evaluate_gate_def Let_def)
qed

text \<open>
  C4: the gate reads sets. Two bundles with the same findings, classifications, failures, provider
  runs and coverage records in any order, with one coverage record per provider, get the same gate
  result: the same status, the same identifiers in the same order and the same reasons.
\<close>

theorem evaluate_gate_order_independent:
  assumes "same_records b b'"
  shows "evaluate_gate b strict = evaluate_gate b' strict"
  using assms by (rule evaluate_gate_perm)

theorem evaluate_gate_order_independent_witness:
  "(let b = sample_bundle\<lparr>fb_classifications :=
        [sample_classification ''f1'' Blocking, sample_classification ''f0'' Blocking]\<rparr>;
      b' = b\<lparr>fb_classifications := rev (fb_classifications b)\<rparr>
    in same_records b b' \<and> evaluate_gate b True = evaluate_gate b' True)"
proof -
  let ?b = "sample_bundle\<lparr>fb_classifications :=
        [sample_classification ''f1'' Blocking, sample_classification ''f0'' Blocking]\<rparr>"
  let ?b' = "?b\<lparr>fb_classifications := rev (fb_classifications ?b)\<rparr>"
  have "same_records ?b ?b'"
    by (simp add: same_records_def sample_bundle_def unique_by_def add_mset_commute)
  then show ?thesis
    using evaluate_gate_order_independent [of ?b ?b' True] by (simp only: Let_def)
qed

text \<open>
  Optional providers cannot change the gate. Removing every optional provider run and every
  failure of an optional provider from the bundle leaves the gate result as it was.
\<close>

theorem evaluate_gate_ignores_optional:
  "evaluate_gate (drop_optional b) strict = evaluate_gate b strict"
  by (rule evaluate_gate_drop_optional)

text \<open>
  The gate fails closed. Adding one failure of a required provider to any bundle, fatal or
  not, makes the result incomplete, or leaves it invalid when a finding is unclassified; it never
  passes and never reports a plain failure.
\<close>

theorem evaluate_gate_required_failure:
  assumes "pf_required f"
  shows "gr_status (evaluate_gate (add_failure f b) strict) =
    (if every_finding_classified b then Gate_Incomplete else Gate_Invalid)"
  using gate_verdict_add_failure [OF assms] by (simp only: evaluate_gate_status)

definition sample_failure :: provider_failure where
  "sample_failure =
     \<lparr>pf_provider_id = ''semgrep'', pf_failure_type = Timeout, pf_message = ''m'', pf_required = True,
      pf_fatal = False, pf_provider_version = PNone, pf_report_path = PNone, pf_exit_code = PNone,
      pf_diagnostics = []\<rparr>"

theorem evaluate_gate_required_failure_witness:
  "pf_required sample_failure \<and>
   gr_status (evaluate_gate sample_bundle True) = Gate_Pass \<and>
   gr_status (evaluate_gate (add_failure sample_failure sample_bundle) True) = Gate_Incomplete"
proof -
  have 1: "pf_required sample_failure"
    by (simp add: sample_failure_def)
  have "every_finding_classified sample_bundle"
    by code_simp
  then have "gr_status (evaluate_gate (add_failure sample_failure sample_bundle) True) = Gate_Incomplete"
    using evaluate_gate_required_failure [OF 1, of sample_bundle True] by simp
  moreover have "gr_status (evaluate_gate sample_bundle True) = Gate_Pass"
    by code_simp
  ultimately show ?thesis
    using 1 by blast
qed

end
