(* ===== verification/Integration_Checks.thy ===== *)
theory Integration_Checks
  imports Py_Value Py_Regex Checked
begin

text \<open>
  \<open>l9_ci/integration\<close>: the operational limits (\<open>limits.py\<close>) and the redaction check every published
  artifact passes (\<open>redaction.py\<close>).
\<close>

subsection \<open>Limits\<close>

record operational_limits =
  ol_timeout_seconds :: int
  ol_process_output_limit_bytes :: int
  ol_report_size_limit_bytes :: int
  ol_finding_count_limit :: int
  ol_evidence_count_limit :: int

definition default_limits :: operational_limits where
  "default_limits =
     \<lparr>ol_timeout_seconds = 900, ol_process_output_limit_bytes = 10 * 1024 * 1024,
      ol_report_size_limit_bytes = 100 * 1024 * 1024, ol_finding_count_limit = 100000,
      ol_evidence_count_limit = 200000\<rparr>"

fun require_positive :: "(string \<times> int) list \<Rightarrow> unit result" where
  "require_positive [] = Inr ()"
| "require_positive ((name, v) # fs) =
     (if v \<le> 0 then Inl (ValueError (name @ '' must be positive'')) else require_positive fs)"

definition operational_limits_post_init :: "operational_limits \<Rightarrow> operational_limits result" where
  "operational_limits_post_init l =
     and_then (require_positive
       [(''timeout_seconds'', ol_timeout_seconds l),
        (''process_output_limit_bytes'', ol_process_output_limit_bytes l),
        (''report_size_limit_bytes'', ol_report_size_limit_bytes l),
        (''finding_count_limit'', ol_finding_count_limit l),
        (''evidence_count_limit'', ol_evidence_count_limit l)]) (\<lambda>_. Inr l)"

text \<open>\<open>None\<close> for the size: \<open>stat\<close> raises \<open>FileNotFoundError\<close>.\<close>

definition validate_report_size :: "string \<Rightarrow> int option \<Rightarrow> operational_limits \<Rightarrow> unit result" where
  "validate_report_size path size_of limits =
     (case size_of of
        None \<Rightarrow> Inl (ValueError (''report not found: '' @ path))
      | Some n \<Rightarrow>
          if ol_report_size_limit_bytes limits < n then
            Inl (ValueError (''report exceeds size limit: '' @ string_of_int n @ '' > '' @
              string_of_int (ol_report_size_limit_bytes limits)))
          else Inr ())"

definition validate_record_counts :: "int \<Rightarrow> int \<Rightarrow> operational_limits \<Rightarrow> unit result" where
  "validate_record_counts finding_count evidence_count limits =
     (if ol_finding_count_limit limits < finding_count then
        Inl (ValueError (''finding count exceeds limit: '' @ string_of_int finding_count @ '' > '' @
          string_of_int (ol_finding_count_limit limits)))
      else if ol_evidence_count_limit limits < evidence_count then
        Inl (ValueError (''evidence count exceeds limit: '' @ string_of_int evidence_count @ '' > '' @
          string_of_int (ol_evidence_count_limit limits)))
      else Inr ())"

lemma validate_record_counts_Inr [simp]:
  "validate_record_counts f e l = Inr u \<longleftrightarrow>
     f \<le> ol_finding_count_limit l \<and> e \<le> ol_evidence_count_limit l"
  by (auto simp: validate_record_counts_def)

subsection \<open>Redaction\<close>

definition SECRET_KEY_PATTERN :: regex where
  "SECRET_KEY_PATTERN =
     (let sep = Opt_re (Chars (\<lambda>c. c = CHR ''_'' \<or> c = CHR ''-''))
      in Alts [Lit_nocase ''secret'', Lit_nocase ''token'', Lit_nocase ''password'',
               Lit_nocase ''passwd'', Seqs [Lit_nocase ''private'', sep, Lit_nocase ''key''],
               Seqs [Lit_nocase ''api'', sep, Lit_nocase ''key'']])"

definition secret_key :: "string \<Rightarrow> bool" where
  "secret_key k \<longleftrightarrow> re_search SECRET_KEY_PATTERN k \<noteq> None"

definition absolute_unix_path :: "string \<Rightarrow> bool" where
  "absolute_unix_path s \<longleftrightarrow> starts_with ''/'' s"

fun windows_drive_path :: "string \<Rightarrow> bool" where
  "windows_drive_path (d # c # s # _) \<longleftrightarrow>
     (ascii_lower d \<or> ascii_upper d) \<and> c = CHR '':'' \<and> (s = CHR 0x5C \<or> s = CHR ''/'')"
| "windows_drive_path _ \<longleftrightarrow> False"

definition key_errors :: "string \<Rightarrow> string \<Rightarrow> string list" where
  "key_errors child_path key =
     (if secret_key key then [child_path @ '': secret-like property name is forbidden''] else []) @
     (if key \<in> {''lines'', ''matched_source'', ''metavars''}
      then [child_path @ '': raw source material is forbidden''] else [])"

lemma size_enumerate [termination_simp]:
  "(i, x) \<in> set (enumerate n xs) \<Longrightarrow> size x < Suc (size_list size xs)"
proof (induction xs arbitrary: n)
  case (Cons y ys)
  show ?case
  proof (cases "(i, x) \<in> set (enumerate (Suc n) ys)")
    case True
    from Cons.IH [OF this] show ?thesis by simp
  next
    case False
    with Cons.prems show ?thesis by simp
  qed
qed simp

fun redaction_walk :: "string \<Rightarrow> pyval \<Rightarrow> string list" where
  "redaction_walk path (PDict kvs) =
     concat (map (\<lambda>(k, v).
       let child_path = path @ ''.'' @ py_str k
       in key_errors child_path (py_str k) @ redaction_walk child_path v) kvs)"
| "redaction_walk path (PList xs) =
     concat (map (\<lambda>(i, x). redaction_walk (path @ ''['' @ string_of_nat i @ '']'') x) (enumerate 0 xs))"
| "redaction_walk path (PStr s) =
     (if absolute_unix_path s then [path @ '': absolute Unix path is forbidden''] else []) @
     (if windows_drive_path s then [path @ '': absolute Windows path is forbidden''] else [])"
| "redaction_walk path _ = []"

record redaction_result =
  rd_valid :: bool
  rd_errors :: "string list"

definition redaction_require_valid :: "redaction_result \<Rightarrow> unit result" where
  "redaction_require_valid r =
     (if rd_errors r \<noteq> [] then
        Inl (ValueError (''redaction validation failed:'' @ [CHR 0x0A] @
          join [CHR 0x0A] (map (\<lambda>e. ''- '' @ e) (rd_errors r))))
      else Inr ())"

interpretation redaction: checked_result "\<lambda>r. rd_errors r = []" redaction_require_valid
  by unfold_locales (auto simp: redaction_require_valid_def)

definition validate_redaction :: "pydict \<Rightarrow> redaction_result" where
  "validate_redaction payload =
     (let errors = redaction_walk ''<root>'' (PDict payload)
      in \<lparr>rd_valid = (errors = []), rd_errors = sorted_set errors\<rparr>)"

text \<open>What a redacted value is, without the paths of the messages.\<close>

definition clean_key :: "string \<Rightarrow> bool" where
  "clean_key k \<longleftrightarrow> \<not> secret_key k \<and> k \<notin> {''lines'', ''matched_source'', ''metavars''}"

fun redacted :: "pyval \<Rightarrow> bool" where
  "redacted (PDict kvs) \<longleftrightarrow> list_all (\<lambda>(k, v). clean_key (py_str k) \<and> redacted v) kvs"
| "redacted (PList xs) \<longleftrightarrow> list_all redacted xs"
| "redacted (PStr s) \<longleftrightarrow> \<not> absolute_unix_path s \<and> \<not> windows_drive_path s"
| "redacted _ \<longleftrightarrow> True"

lemma enumerate_all: "(\<forall>x \<in> set (enumerate n xs). P (snd x)) \<longleftrightarrow> list_all P xs"
  by (induction xs arbitrary: n) auto

lemma redaction_walk_Nil: "redaction_walk path v = [] \<longleftrightarrow> redacted v"
proof (induction path v rule: redaction_walk.induct)
  case (1 path kvs)
  then show ?case
    by (fastforce simp: key_errors_def clean_key_def list_all_iff Let_def)
next
  case (2 path xs)
  then have "(\<forall>(i, x) \<in> set (enumerate 0 xs). redaction_walk (path @ ''['' @ string_of_nat i @ '']'') x = []) \<longleftrightarrow>
      (\<forall>(i, x) \<in> set (enumerate 0 xs). redacted x)"
    by (intro ball_cong) auto
  then show ?case
    by (simp add: enumerate_all split_def)
qed simp_all

lemma validate_redaction_valid: "rd_valid (validate_redaction d) \<longleftrightarrow> redacted (PDict d)"
  by (simp add: validate_redaction_def Let_def redaction_walk_Nil del: redaction_walk.simps redacted.simps)

lemma validate_redaction_errors: "rd_errors (validate_redaction d) = [] \<longleftrightarrow> redacted (PDict d)"
  by (simp add: validate_redaction_def Let_def redaction_walk_Nil del: redaction_walk.simps redacted.simps)

text \<open>
  The pattern of secret-like names is a search for one of ten words in the lower-cased name. What
  is left after each match is all that counts, so alternatives are unions and sequences compose.
\<close>

definition SECRET_WORDS :: "string list" where
  "SECRET_WORDS =
     [''secret'', ''token'', ''password'', ''passwd'', ''private_key'', ''private-key'', ''privatekey'',
      ''api_key'', ''api-key'', ''apikey'']"

abbreviation rests :: "regex \<Rightarrow> position \<Rightarrow> string set" where
  "rests r c \<equiv> pos_rest ` set (matches r c)"

lemma rests_Seqs_Cons: "rests (Seqs (r # rs)) c = (\<Union>d \<in> set (matches r c). rests (Seqs rs) d)"
  by (cases rs) auto

lemma starts_with_Cons [simp]: "starts_with (x # p) (y # s) \<longleftrightarrow> x = y \<and> starts_with p s"
  by (auto simp: starts_with_def)

lemma starts_with_Nil [simp]: "starts_with [] s" "starts_with (x # p) [] \<longleftrightarrow> False"
  by (simp_all add: starts_with_def)

lemma rests_Lit_nocase:
  "rests (Lit_nocase w) c =
     (if starts_with (py_lower w) (py_lower (pos_rest c)) then {drop (length w) (pos_rest c)} else {})"
proof (induction w arbitrary: c)
  case Nil
  then show ?case by (simp add: Lit_nocase_def py_lower_def)
next
  case (Cons x w)
  have "rests (Lit_nocase (x # w)) c =
      (\<Union>d \<in> set (step_char (\<lambda>y. py_lower_char y = py_lower_char x) c). rests (Lit_nocase w) d)"
    unfolding Lit_nocase_def list.map rests_Seqs_Cons by simp
  then show ?case
    by (cases "pos_rest c") (auto simp: step_char_def Cons.IH py_lower_def)
qed

lemma starts_with_trans_append:
  "starts_with (p @ q) s \<longleftrightarrow> starts_with p s \<and> starts_with q (drop (length p) s)"
  by (induction p arbitrary: s) (simp, case_tac s, simp_all)

lemma contains_map_suffix:
  "contains (c # p) s \<longleftrightarrow> (\<exists>t u. s = t @ u \<and> starts_with (c # p) u)"
proof (induction s)
  case (Cons x xs)
  have "(\<exists>t u. x # xs = t @ u \<and> P u) \<longleftrightarrow> P (x # xs) \<or> (\<exists>t u. xs = t @ u \<and> P u)" for P :: "string \<Rightarrow> bool"
    by (auto simp: Cons_eq_append_conv)
  then show ?case
    using Cons.IH by simp
qed simp

lemma search_from_iff:
  assumes "\<And>q s. matches r \<lparr>pos_prev = q, pos_rest = s, pos_groups = []\<rparr> \<noteq> [] \<longleftrightarrow> P s"
  shows "search_from r q s \<noteq> None \<longleftrightarrow> (\<exists>t u. s = t @ u \<and> P u)"
proof (induction s arbitrary: q)
  case Nil
  then show ?case using assms [of q "[]"] by (simp del: not_None_eq)
next
  case (Cons x xs)
  then show ?case
    using assms [of q "x # xs"] by (auto simp: Cons_eq_append_conv split: option.splits)
qed

lemma of_char_iff: "x = c \<longleftrightarrow> (of_char x :: nat) = of_char c"
  by simp

lemma py_lower_char_sep:
  "py_lower_char x = CHR ''_'' \<longleftrightarrow> x = CHR ''_''" "py_lower_char x = CHR ''-'' \<longleftrightarrow> x = CHR ''-''"
proof -
  have "(of_char x :: nat) < 256"
    by (metis of_char_mod_256 mod_less_divisor zero_less_numeral)
  then show "py_lower_char x = CHR ''_'' \<longleftrightarrow> x = CHR ''_''" "py_lower_char x = CHR ''-'' \<longleftrightarrow> x = CHR ''-''"
    unfolding of_char_iff [of _ "CHR ''_''"] of_char_iff [of _ "CHR ''-''"]
    by (auto simp: py_lower_char_def Let_def simp del: of_char_eq_iff)
qed

lemma secret_pattern_reads:
  "matches SECRET_KEY_PATTERN c \<noteq> [] \<longleftrightarrow> list_ex (\<lambda>w. starts_with w (py_lower (pos_rest c))) SECRET_WORDS"
proof -
  let ?s = "py_lower (pos_rest c)"
  let ?sep = "Opt_re (Chars (\<lambda>c. c = CHR ''_'' \<or> c = CHR ''-''))"
  have low: "py_lower ''secret'' = ''secret'' \<and> py_lower ''token'' = ''token'' \<and>
    py_lower ''password'' = ''password'' \<and> py_lower ''passwd'' = ''passwd'' \<and>
    py_lower ''private'' = ''private'' \<and> py_lower ''api'' = ''api'' \<and> py_lower ''key'' = ''key''"
    by code_simp
  have drop_lower: "py_lower (drop n s) = drop n (py_lower s)" for n s
    by (simp add: py_lower_def drop_map)
  have sep_low: "py_lower_char x = CHR ''_'' \<longleftrightarrow> x = CHR ''_''" "py_lower_char x = CHR ''-'' \<longleftrightarrow> x = CHR ''-''" for x
    by (rule py_lower_char_sep)+
  have lit: "matches (Lit_nocase w) d \<noteq> [] \<longleftrightarrow> starts_with (py_lower w) (py_lower (pos_rest d))" for w d
    using rests_Lit_nocase [of w d] by (auto split: if_splits)
  have three: "matches (Seqs [Lit_nocase a, ?sep, Lit_nocase b]) c \<noteq> [] \<longleftrightarrow>
     starts_with (py_lower a @ ''_'' @ py_lower b) ?s \<or> starts_with (py_lower a @ ''-'' @ py_lower b) ?s \<or>
     starts_with (py_lower a @ py_lower b) ?s" for a b
  proof -
    have la: "length (py_lower a) = length a"
      by (simp add: py_lower_def)
    have one: "(\<exists>e \<in> set (matches ?sep d). starts_with (py_lower b) (py_lower (pos_rest e))) \<longleftrightarrow>
        starts_with (''_'' @ py_lower b) (py_lower (pos_rest d)) \<or>
        starts_with (''-'' @ py_lower b) (py_lower (pos_rest d)) \<or>
        starts_with (py_lower b) (py_lower (pos_rest d))" for d
      by (cases "pos_rest d") (auto simp: Opt_re_def step_char_def py_lower_def sep_low eq_commute)
    have "matches (Seqs [Lit_nocase a, ?sep, Lit_nocase b]) c \<noteq> [] \<longleftrightarrow>
        (\<exists>r \<in> rests (Lit_nocase a) c. starts_with (''_'' @ py_lower b) (py_lower r) \<or>
          starts_with (''-'' @ py_lower b) (py_lower r) \<or> starts_with (py_lower b) (py_lower r))"
      using one lit by (fastforce simp: concat_eq_Nil_conv)
    then show ?thesis
      by (auto simp: rests_Lit_nocase drop_lower starts_with_trans_append [of "py_lower a"] la
          simp del: append.simps split: if_splits)
  qed
  show ?thesis
    by (simp add: SECRET_KEY_PATTERN_def SECRET_WORDS_def Let_def three lit low del: Seqs.simps)
qed

lemma secret_key_words [code]: "secret_key k \<longleftrightarrow> list_ex (\<lambda>w. contains w (py_lower k)) SECRET_WORDS"
proof -
  have "secret_key k \<longleftrightarrow> (\<exists>t u. k = t @ u \<and> list_ex (\<lambda>w. starts_with w (py_lower u)) SECRET_WORDS)"
    unfolding secret_key_def re_search_def
    by (rule search_from_iff) (simp add: secret_pattern_reads)
  also have "\<dots> \<longleftrightarrow> list_ex (\<lambda>w. \<exists>t u. k = t @ u \<and> starts_with w (py_lower u)) SECRET_WORDS"
    unfolding list_ex_iff by blast
  also have "\<dots> \<longleftrightarrow> list_ex (\<lambda>w. contains w (py_lower k)) SECRET_WORDS"
  proof -
    have split: "(\<exists>t u. k = t @ u \<and> P (py_lower u)) \<longleftrightarrow> (\<exists>t u. py_lower k = t @ u \<and> P u)" for P
      unfolding py_lower_def map_eq_append_conv by metis
    have "(\<exists>t u. k = t @ u \<and> starts_with w (py_lower u)) \<longleftrightarrow> contains w (py_lower k)"
      if "w \<in> set SECRET_WORDS" for w
    proof -
      obtain c p where "w = c # p"
        using \<open>w \<in> set SECRET_WORDS\<close> by (auto simp: SECRET_WORDS_def)
      then show ?thesis
        unfolding split by (simp only: contains_map_suffix)
    qed
    then show ?thesis
      unfolding list_ex_iff by blast
  qed
  finally show ?thesis .
qed

subsection \<open>Property\<close>

text \<open>What may be published: no secret word in a property name, no raw source, no absolute path.\<close>

fun leak_free :: "pyval \<Rightarrow> bool" where
  "leak_free (PDict kvs) \<longleftrightarrow>
     list_all (\<lambda>(k, v). list_all (\<lambda>w. \<not> contains w (py_lower (py_str k))) SECRET_WORDS \<and>
       py_str k \<notin> {''lines'', ''matched_source'', ''metavars''} \<and> leak_free v) kvs"
| "leak_free (PList xs) \<longleftrightarrow> list_all leak_free xs"
| "leak_free (PStr s) \<longleftrightarrow> \<not> absolute_unix_path s \<and> \<not> windows_drive_path s"
| "leak_free _ \<longleftrightarrow> True"

lemma redacted_leak_free: "redacted v \<longleftrightarrow> leak_free v"
proof (induction v rule: leak_free.induct)
  case (1 kvs)
  have "clean_key k \<longleftrightarrow> list_all (\<lambda>w. \<not> contains w (py_lower k)) SECRET_WORDS \<and>
       k \<notin> {''lines'', ''matched_source'', ''metavars''}" for k
    by (simp add: clean_key_def secret_key_words list_ex_iff list_all_iff)
  with 1 show ?case
    by (fastforce simp: list_all_iff)
qed (auto simp: list_all_iff)

text \<open>
  C21: redaction is exact. The recursive walk with its case-insensitive pattern accepts a payload if
  and only if, at every depth, no property name contains one of the ten secret words in any case,
  none is a raw-source property, and no string is an absolute Unix or Windows path; and requiring
  validity raises exactly otherwise.
\<close>

theorem redaction_exact:
  "(rd_valid (validate_redaction d) \<longleftrightarrow> leak_free (PDict d)) \<and>
   (redaction_require_valid (validate_redaction d) = Inr () \<longleftrightarrow> leak_free (PDict d))"
  by (simp add: validate_redaction_valid validate_redaction_errors redacted_leak_free
      del: leak_free.simps redacted.simps)

end
