(* ===== verification/Repository.thy ===== *)
theory Repository
  imports Serializer
begin

text \<open>
  \<open>l9_ci/repository\<close> (\<open>git.py\<close>, \<open>enumerator.py\<close>, \<open>snapshot.py\<close>) and \<open>l9_ci/capabilities\<close>. Git is a
  function from an argument vector to return code, stdout and stderr; the file system below the
  root is the list of paths \<open>rglob\<close> yields, each with the answer of \<open>is_file\<close>. The resolved root is
  the same for every call and is left out of the arguments.
\<close>

subsection \<open>Git\<close>

definition GIT_ENV_OVERRIDE_KEYS :: "string list" where
  "GIT_ENV_OVERRIDE_KEYS =
     [''GIT_DIR'', ''GIT_WORK_TREE'', ''GIT_COMMON_DIR'', ''GIT_INDEX_FILE'', ''GIT_OBJECT_DIRECTORY'',
      ''GIT_ALTERNATE_OBJECT_DIRECTORIES'']"

definition git_subprocess_env :: "(string \<times> string) list \<Rightarrow> (string \<times> string) list" where
  "git_subprocess_env env = filter (\<lambda>(k, _). k \<notin> set GIT_ENV_OVERRIDE_KEYS) env"

type_synonym git_run = "string list \<Rightarrow> (string \<times> string) list \<Rightarrow> int \<times> string \<times> string"

record git_state =
  gs_revision :: string
  gs_dirty :: bool
  gs_tracked_files :: "string list"
  gs_untracked_files :: "string list"

definition git_all_files :: "git_state \<Rightarrow> string list" where
  "git_all_files s = sorted_set (gs_tracked_files s @ gs_untracked_files s)"

definition run_git :: "git_run \<Rightarrow> (string \<times> string) list \<Rightarrow> string list \<Rightarrow> string result" where
  "run_git git env arguments =
     (case git arguments (git_subprocess_env env) of
        (code, out, err) \<Rightarrow>
          if code \<noteq> 0 then
            (let message = (if py_strip err \<noteq> [] then py_strip err else py_strip out)
             in Inl (ValueError (''git command failed: '' @ join '' '' arguments @ '': '' @ message)))
          else Inr out)"

definition is_git_repository :: "git_run \<Rightarrow> (string \<times> string) list \<Rightarrow> bool" where
  "is_git_repository git env \<longleftrightarrow>
     (case git [''rev-parse'', ''--is-inside-work-tree''] (git_subprocess_env env) of
        (code, out, err) \<Rightarrow> code = 0 \<and> py_strip out = ''true'')"

definition untracked_of_status :: "string \<Rightarrow> string list" where
  "untracked_of_status status = map (drop 3) (filter (starts_with ''?? '') (splitlines status))"

definition inspect_git_repository ::
  "git_run \<Rightarrow> (string \<times> string) list \<Rightarrow> bool \<Rightarrow> git_state result"
where
  "inspect_git_repository git env include_untracked =
     and_then (run_git git env [''rev-parse'', ''HEAD'']) (\<lambda>revision.
     and_then (run_git git env [''status'', ''--porcelain=v1'', ''--untracked-files=all'']) (\<lambda>status.
     and_then (run_git git env [''ls-files'', ''-z'']) (\<lambda>tracked.
     Inr \<lparr>gs_revision = py_strip revision, gs_dirty = (py_strip status \<noteq> []),
          gs_tracked_files = sort (filter (\<lambda>i. i \<noteq> []) (split_on CHR 0x00 tracked)),
          gs_untracked_files = (if include_untracked then sort (untracked_of_status status) else [])\<rparr>)))"

subsection \<open>Enumeration without git\<close>

definition REPOSITORY_EXCLUDED :: "string list" where
  "REPOSITORY_EXCLUDED =
     [''.git'', ''.l9'', ''.mypy_cache'', ''.pytest_cache'', ''.ruff_cache'', ''.tox'', ''.venv'',
      ''__pycache__'', ''node_modules'']"

record repository_tree =
  rt_root :: string
  rt_exists :: bool
  rt_is_dir :: bool
  rt_paths :: "(string list \<times> bool) list"

definition enumerate_repository_files :: "repository_tree \<Rightarrow> string list \<Rightarrow> string list result" where
  "enumerate_repository_files t excluded_directories =
     (if \<not> rt_exists t then Inl (ValueError (''repository root does not exist: '' @ rt_root t))
      else if \<not> rt_is_dir t then Inl (ValueError (''repository root is not a directory: '' @ rt_root t))
      else
        let excluded = REPOSITORY_EXCLUDED @ excluded_directories
        in Inr (sort (map (\<lambda>(parts, _). join ''/'' parts)
             (filter (\<lambda>(parts, is_file). is_file \<and> \<not> list_ex (\<lambda>p. p \<in> set excluded) parts)
               (rt_paths t)))))"

subsection \<open>Snapshots\<close>

record repository_snapshot =
  sn_snapshot_id :: string
  sn_revision :: "string option"
  sn_dirty :: bool
  sn_files :: "string list"
  sn_file_count :: nat
  sn_source :: string

definition repository_snapshot_to_dict :: "repository_snapshot \<Rightarrow> pydict" where
  "repository_snapshot_to_dict s =
     [(PStr ''snapshot_id'', PStr (sn_snapshot_id s)), (PStr ''revision'', pstr_opt (sn_revision s)),
      (PStr ''dirty'', PBool (sn_dirty s)), (PStr ''files'', PList (map PStr (sn_files s))),
      (PStr ''file_count'', PInt (int (sn_file_count s))), (PStr ''source'', PStr (sn_source s))]"

definition snapshot_payload :: "string option \<Rightarrow> bool \<Rightarrow> string list \<Rightarrow> pyval" where
  "snapshot_payload revision dirty files =
     PDict [(PStr ''revision'', pstr_opt revision), (PStr ''dirty'', PBool dirty),
            (PStr ''files'', PList (map PStr files))]"

definition snapshot_digest :: "string option \<Rightarrow> bool \<Rightarrow> string list \<Rightarrow> string result" where
  "snapshot_digest revision dirty files =
     and_then (json_dumps False (snapshot_payload revision dirty files)) (\<lambda>encoded.
     Inr (sha256_hexdigest (utf8_encode encoded)))"

definition build_repository_snapshot ::
  "git_run \<Rightarrow> (string \<times> string) list \<Rightarrow> repository_tree \<Rightarrow> bool \<Rightarrow> repository_snapshot result"
where
  "build_repository_snapshot git env t include_untracked =
     and_then
       (if is_git_repository git env then
          and_then (inspect_git_repository git env include_untracked) (\<lambda>s.
          Inr (git_all_files s, Some (gs_revision s), gs_dirty s, ''git''))
        else
          and_then (enumerate_repository_files t []) (\<lambda>fs. Inr (fs, None, False, ''filesystem'')))
       (\<lambda>(files, revision, dirty, source).
          and_then (snapshot_digest revision dirty files) (\<lambda>digest.
          Inr \<lparr>sn_snapshot_id = ''snapshot_'' @ digest, sn_revision = revision, sn_dirty = dirty,
               sn_files = files, sn_file_count = length files, sn_source = source\<rparr>))"

lemma enumerate_repository_files_mset:
  assumes "mset (rt_paths t') = mset (rt_paths t)" "rt_exists t' = rt_exists t"
    "rt_is_dir t' = rt_is_dir t" "rt_root t' = rt_root t"
  shows "enumerate_repository_files t' ex = enumerate_repository_files t ex"
proof -
  have "sort (map g (filter P (rt_paths t'))) = sort (map g (filter P (rt_paths t)))"
    for g :: "string list \<times> bool \<Rightarrow> string" and P
    by (rule properties_for_sort) (simp_all add: assms(1) mset_map [symmetric] del: mset_map
        flip: mset_filter mset_map, simp add: mset_map mset_filter assms(1))
  then show ?thesis
    using assms(2-4) by (simp add: enumerate_repository_files_def Let_def)
qed

lemma json_dumps_strs: "\<exists>s. json_dumps False (PList (map PStr fs)) = Inr s"
proof -
  have "\<exists>ys. map_res (json_dumps False) (map PStr fs) = Inr ys"
    by (simp add: map_res_ex)
  then show ?thesis by auto
qed

lemma snapshot_digest_total: "\<exists>d. snapshot_digest r dirty fs = Inr d \<and> length d = 64"
proof -
  have "json_value (snapshot_payload r dirty fs)"
    by (cases r) (simp_all add: snapshot_payload_def list_all_iff)
  obtain s where "json_dumps False (PList (map PStr fs)) = Inr s"
    using json_dumps_strs by blast
  then have "\<exists>t. json_dumps False (snapshot_payload r dirty fs) = Inr t"
    by (cases r) (simp_all add: snapshot_payload_def)
  then show ?thesis
    by (auto simp: snapshot_digest_def length_sha256)
qed

lemma sorted_git_all_files: "sorted (git_all_files s) \<and> distinct (git_all_files s)"
  by (simp add: git_all_files_def)

lemma enumerate_sorted: "enumerate_repository_files t ex = Inr fs \<Longrightarrow> sorted fs"
  by (auto simp: enumerate_repository_files_def Let_def split: if_splits)

lemma build_repository_snapshot_Inr:
  assumes "build_repository_snapshot git env t u = Inr s"
  shows "sorted (sn_files s) \<and> sn_file_count s = length (sn_files s) \<and>
    (\<exists>d. snapshot_digest (sn_revision s) (sn_dirty s) (sn_files s) = Inr d \<and>
       sn_snapshot_id s = ''snapshot_'' @ d \<and> length d = 64)"
proof -
  obtain files revision dirty source d where f: "sorted files"
    and d: "snapshot_digest revision dirty files = Inr d"
    and s: "s = \<lparr>sn_snapshot_id = ''snapshot_'' @ d, sn_revision = revision, sn_dirty = dirty,
               sn_files = files, sn_file_count = length files, sn_source = source\<rparr>"
    using assms sorted_git_all_files
    by (auto simp: build_repository_snapshot_def and_then_eq_Inr split: if_split_asm
        dest: enumerate_sorted)
  show ?thesis
    using snapshot_digest_total [of revision dirty files] d f by (simp add: s)
qed

subsection \<open>Capabilities\<close>

record repository_capabilities =
  ca_root :: string
  ca_languages :: "string list"
  ca_package_managers :: "string list"
  ca_configuration_files :: "string list"
  ca_provider_candidates :: "string list"

definition repository_capabilities_to_dict :: "repository_capabilities \<Rightarrow> pydict" where
  "repository_capabilities_to_dict c =
     [(PStr ''root'', PStr (ca_root c)), (PStr ''languages'', encode_strs (ca_languages c)),
      (PStr ''package_managers'', encode_strs (ca_package_managers c)),
      (PStr ''configuration_files'', encode_strs (ca_configuration_files c)),
      (PStr ''provider_candidates'', encode_strs (ca_provider_candidates c))]"

definition LANGUAGE_SUFFIXES :: "(string \<times> string) list" where
  "LANGUAGE_SUFFIXES =
     [(''.py'', ''python''), (''.js'', ''javascript''), (''.jsx'', ''javascript''),
      (''.ts'', ''typescript''), (''.tsx'', ''typescript''), (''.go'', ''go''), (''.java'', ''java''),
      (''.rb'', ''ruby''), (''.rs'', ''rust'')]"

definition PACKAGE_FILES :: "(string \<times> string) list" where
  "PACKAGE_FILES =
     [(''pyproject.toml'', ''python''), (''requirements.txt'', ''python''), (''package.json'', ''node''),
      (''go.mod'', ''go''), (''Cargo.toml'', ''cargo''), (''pom.xml'', ''maven''),
      (''build.gradle'', ''gradle'')]"

definition CONFIGURATION_FILES :: "string list" where
  "CONFIGURATION_FILES = [''.semgrep.yml'', ''.semgrep.yaml'', ''semgrep.yml'', ''semgrep.yaml'']"

text \<open>\<open>Path(s).name\<close> and \<open>Path(s).suffix\<close> of a relative path: a leading or a final dot is no suffix.\<close>

definition path_name :: "string \<Rightarrow> string" where
  "path_name s = (let ps = posix_parts s in if ps = [] then [] else last ps)"

definition path_suffix :: "string \<Rightarrow> string" where
  "path_suffix s =
     (let name = path_name s;
          tail = rev (takeWhile (\<lambda>c. c \<noteq> CHR ''.'') (rev name))
      in if CHR ''.'' \<in> set name \<and> tail \<noteq> [] \<and> length tail + 1 < length name then CHR ''.'' # tail else [])"

definition file_languages :: "string list \<Rightarrow> string list" where
  "file_languages files =
     List.map_filter (\<lambda>f. map_of LANGUAGE_SUFFIXES (py_lower (path_suffix f))) files"

definition detect_repository_capabilities :: "repository_tree \<Rightarrow> repository_capabilities result" where
  "detect_repository_capabilities t =
     and_then (enumerate_repository_files t []) (\<lambda>files.
     let languages = file_languages files
     in Inr \<lparr>ca_root = ''.'', ca_languages = sorted_set languages,
             ca_package_managers =
               sorted_set (List.map_filter (\<lambda>f. map_of PACKAGE_FILES (path_name f)) files),
             ca_configuration_files =
               sorted_set (filter (\<lambda>f. path_name f \<in> set CONFIGURATION_FILES) files),
             ca_provider_candidates = (if languages \<noteq> [] then [''semgrep''] else [])\<rparr>)"

lemma path_suffix_cases: "path_suffix ''src/a.PY'' = ''.PY'' \<and> path_suffix ''.bashrc'' = [] \<and> path_suffix ''a.'' = []"
  by code_simp

subsection \<open>Property\<close>

text \<open>
  C22: a snapshot names its file set and nothing else. The snapshot of a directory that is no git
  work tree does not depend on the order in which the file system lists it; its files are sorted,
  their number is recorded, and its identifier is the prefix with the 64 hexadecimal digits of the
  digest of the canonical JSON of revision, dirtiness and files.
\<close>

theorem snapshot_order_independent:
  assumes "build_repository_snapshot git env t u = Inr s"
    and "mset (rt_paths t') = mset (rt_paths t)" "rt_exists t' = rt_exists t"
      "rt_is_dir t' = rt_is_dir t" "rt_root t' = rt_root t"
  shows "build_repository_snapshot git env t' u = Inr s \<and> sorted (sn_files s) \<and>
    sn_file_count s = length (sn_files s) \<and>
    (\<exists>d. snapshot_digest (sn_revision s) (sn_dirty s) (sn_files s) = Inr d \<and>
       sn_snapshot_id s = ''snapshot_'' @ d \<and> length d = 64)"
proof -
  have "build_repository_snapshot git env t' u = build_repository_snapshot git env t u"
    by (simp only: build_repository_snapshot_def enumerate_repository_files_mset [OF assms(2-5)])
  then show ?thesis
    using build_repository_snapshot_Inr [OF assms(1)] assms(1) by simp
qed

theorem snapshot_order_independent_witness:
  "let t = \<lparr>rt_root = ''/r'', rt_exists = True, rt_is_dir = True,
            rt_paths = [([''b.py''], True), ([''a.py''], True), ([''.git'', ''x''], True)]\<rparr>;
       git = (\<lambda>_ _. (128, [], ''no repository''))
   in \<exists>s. build_repository_snapshot git [] t True = Inr s \<and> sn_files s = [''a.py'', ''b.py''] \<and>
        build_repository_snapshot git [] (t\<lparr>rt_paths := rev (rt_paths t)\<rparr>) True = Inr s"
proof -
  let ?t = "\<lparr>rt_root = ''/r'', rt_exists = True, rt_is_dir = True,
            rt_paths = [([''b.py''], True), ([''a.py''], True), ([''.git'', ''x''], True)]\<rparr>"
  let ?git = "\<lambda>_ _. (128, [], ''no repository'') :: int \<times> string \<times> string"
  obtain d where d: "snapshot_digest None False [''a.py'', ''b.py''] = Inr d"
    using snapshot_digest_total by blast
  have f: "enumerate_repository_files ?t [] = Inr [''a.py'', ''b.py'']"
    by code_simp
  obtain s where s: "build_repository_snapshot ?git [] ?t True = Inr s" "sn_files s = [''a.py'', ''b.py'']"
    using d f by (simp add: build_repository_snapshot_def is_git_repository_def run_git_def)
  then show ?thesis
    using snapshot_order_independent [OF s(1), of "?t\<lparr>rt_paths := rev (rt_paths ?t)\<rparr>"] by auto
qed

end
