(* ===== verification/Providers.thy ===== *)
theory Providers
  imports Contracts_Bundle
begin

text \<open>
  \<open>l9_ci/providers\<close>: the metadata of a provider adapter (\<open>metadata.py\<close>), the records that pass
  through the provider interface and the interface itself (\<open>spi.py\<close>), the registry (\<open>registry.py\<close>),
  and the selection of providers by an execution profile (\<open>l9_ci/execution\<close>). A provider is the
  record of its methods, so that the code that takes any \<open>Provider\<close> is a function of that record.
\<close>

subsection \<open>Metadata\<close>

datatype provider_state = Unsupported | Proposed | Experimental | Shadow | Supported | Deprecated

fun provider_state_value :: "provider_state \<Rightarrow> string" where
  "provider_state_value Unsupported = ''unsupported''"
| "provider_state_value Proposed = ''proposed''"
| "provider_state_value Experimental = ''experimental''"
| "provider_state_value Shadow = ''shadow''"
| "provider_state_value Supported = ''supported''"
| "provider_state_value Deprecated = ''deprecated''"

datatype network_requirement = Net_Never | Net_Optional | Net_Required

fun network_requirement_value :: "network_requirement \<Rightarrow> string" where
  "network_requirement_value Net_Never = ''never''"
| "network_requirement_value Net_Optional = ''optional''"
| "network_requirement_value Net_Required = ''required''"

record provider_metadata =
  pm_provider_id :: string
  pm_display_name :: string
  pm_adapter_version :: string
  pm_state :: provider_state
  pm_supported_report_formats :: "string list"
  pm_execution_support :: bool
  pm_import_support :: bool
  pm_network_requirement :: network_requirement
  pm_default_required :: bool

definition provider_metadata_post_init :: "provider_metadata \<Rightarrow> provider_metadata result" where
  "provider_metadata_post_init m =
     and_then (require_non_blank '' must be non-empty''
       [(''provider_id'', pm_provider_id m), (''display_name'', pm_display_name m),
        (''adapter_version'', pm_adapter_version m)]) (\<lambda>_.
     if \<not> pm_execution_support m \<and> \<not> pm_import_support m then
       Inl (ValueError ''provider must support execution, import, or both'')
     else Inr m)"

definition provider_metadata_to_dict :: "provider_metadata \<Rightarrow> pydict" where
  "provider_metadata_to_dict m =
     [(PStr ''provider_id'', PStr (pm_provider_id m)),
      (PStr ''display_name'', PStr (pm_display_name m)),
      (PStr ''adapter_version'', PStr (pm_adapter_version m)),
      (PStr ''state'', PStr (provider_state_value (pm_state m))),
      (PStr ''supported_report_formats'', encode_strs (pm_supported_report_formats m)),
      (PStr ''execution_support'', PBool (pm_execution_support m)),
      (PStr ''import_support'', PBool (pm_import_support m)),
      (PStr ''network_requirement'', PStr (network_requirement_value (pm_network_requirement m))),
      (PStr ''default_required'', PBool (pm_default_required m))]"

subsection \<open>The records of the interface\<close>

record execution_request =
  er_repository_root :: string
  er_output_path :: string
  er_timeout_seconds :: int
  er_output_size_limit_bytes :: int
  er_environment :: "(string \<times> string) list"
  er_arguments :: "string list"

definition execution_request_post_init :: "execution_request \<Rightarrow> execution_request result" where
  "execution_request_post_init r =
     (if er_timeout_seconds r \<le> 0 then Inl (ValueError ''timeout_seconds must be positive'')
      else if er_output_size_limit_bytes r \<le> 0 then
        Inl (ValueError ''output_size_limit_bytes must be positive'')
      else Inr r)"

record execution_result =
  xr_exit_code :: int
  xr_report_path :: "string option"
  xr_stdout :: string
  xr_stderr :: string
  xr_timed_out :: bool
  xr_output_limit_exceeded :: bool

record normalization_context =
  nc_snapshot_id :: string
  nc_repository_root :: string
  nc_provider_version :: "string option"
  nc_required :: bool

record normalization_result =
  nr_evidence :: "evidence_record list"
  nr_findings :: "finding list"
  nr_coverage :: coverage
  nr_failures :: "provider_failure list"
  nr_limitations :: "string list"

subsection \<open>The provider interface\<close>

text \<open>The methods of the protocol; the result type marks those whose implementation may raise.\<close>

record provider =
  pv_metadata :: provider_metadata
  pv_detect :: "string \<Rightarrow> bool"
  pv_detect_version :: "string option result"
  pv_validate_configuration :: "string \<Rightarrow> string list result"
  pv_execute :: "execution_request \<Rightarrow> execution_result result"
  pv_execution_failure :: "execution_result \<Rightarrow> bool \<Rightarrow> string option \<Rightarrow> provider_failure option"
  pv_import_report :: "string \<Rightarrow> pydict result"
  pv_validate_report_shape :: "pydict \<Rightarrow> string list"
  pv_normalize :: "pydict \<Rightarrow> normalization_context \<Rightarrow> normalization_result result"

abbreviation provider_id :: "provider \<Rightarrow> string" where
  "provider_id p \<equiv> pm_provider_id (pv_metadata p)"

subsection \<open>The registry\<close>

type_synonym registry = "(string \<times> provider) list"

definition registry_register :: "provider \<Rightarrow> registry \<Rightarrow> registry result" where
  "registry_register p reg =
     (if provider_id p \<in> fst ` set reg then
        Inl (ValueError (''provider already registered: '' @ provider_id p))
      else Inr (reg @ [(provider_id p, p)]))"

definition registry_unregister :: "string \<Rightarrow> registry \<Rightarrow> registry result" where
  "registry_unregister i reg =
     (if i \<in> fst ` set reg then Inr (filter (\<lambda>(k, _). k \<noteq> i) reg)
      else Inl (KeyError (repr_string (''provider is not registered: '' @ i))))"

definition registry_get :: "string \<Rightarrow> registry \<Rightarrow> provider result" where
  "registry_get i reg =
     (case map_of reg i of
        Some p \<Rightarrow> Inr p
      | None \<Rightarrow> Inl (KeyError (repr_string (''provider is not registered: '' @ i))))"

definition registry_contains :: "string \<Rightarrow> registry \<Rightarrow> bool" where
  "registry_contains i reg \<longleftrightarrow> i \<in> fst ` set reg"

definition registry_provider_ids :: "registry \<Rightarrow> string list" where
  "registry_provider_ids reg = sort (map fst reg)"

definition registry_providers :: "registry \<Rightarrow> provider list" where
  "registry_providers reg = map (\<lambda>i. the (map_of reg i)) (registry_provider_ids reg)"

definition registry_len :: "registry \<Rightarrow> nat" where
  "registry_len reg = length reg"

text \<open>Every provider is filed under its own id, and no id is filed twice.\<close>

definition registry_ok :: "registry \<Rightarrow> bool" where
  "registry_ok reg \<longleftrightarrow> distinct (map fst reg) \<and> list_all (\<lambda>(i, p). provider_id p = i) reg"

text \<open>
  The contract of a store of named objects: an object is found exactly under its own name from the
  moment it is added until it is removed, and a name is never taken twice.
\<close>

locale named_store =
  fixes name :: "'o \<Rightarrow> string"
    and ok :: "'s \<Rightarrow> bool"
    and add :: "'o \<Rightarrow> 's \<Rightarrow> 's result"
    and remove :: "string \<Rightarrow> 's \<Rightarrow> 's result"
    and lookup :: "string \<Rightarrow> 's \<Rightarrow> 'o result"
    and member :: "string \<Rightarrow> 's \<Rightarrow> bool"
  assumes add_Inr: "ok s \<Longrightarrow> (\<exists>s'. add x s = Inr s') \<longleftrightarrow> \<not> member (name x) s"
    and add_ok: "ok s \<Longrightarrow> add x s = Inr s' \<Longrightarrow> ok s'"
    and add_lookup: "ok s \<Longrightarrow> add x s = Inr s' \<Longrightarrow> lookup i s' = (if i = name x then Inr x else lookup i s)"
    and remove_ok: "ok s \<Longrightarrow> remove i s = Inr s' \<Longrightarrow> ok s'"
    and remove_lookup:
      "ok s \<Longrightarrow> remove i s = Inr s' \<Longrightarrow> j \<noteq> i \<Longrightarrow> lookup j s' = lookup j s"
    and remove_member: "ok s \<Longrightarrow> remove i s = Inr s' \<Longrightarrow> member j s' \<longleftrightarrow> member j s \<and> j \<noteq> i"
    and lookup_Inr: "ok s \<Longrightarrow> (\<exists>x. lookup i s = Inr x) \<longleftrightarrow> member i s"
    and lookup_name: "ok s \<Longrightarrow> lookup i s = Inr x \<Longrightarrow> name x = i"
begin

lemma add_member: "ok s \<Longrightarrow> add x s = Inr s' \<Longrightarrow> member j s' \<longleftrightarrow> member j s \<or> j = name x"
  using add_lookup [of s x s' j] lookup_Inr [of s j] lookup_Inr [of s' j] add_ok [of s x s']
  by (cases "j = name x") simp_all

lemma add_twice: "ok s \<Longrightarrow> add x s = Inr s' \<Longrightarrow> name y = name x \<Longrightarrow> \<exists>e. add y s' = Inl e"
  using add_Inr [of s' y] add_member [of s x s' "name y"] add_ok [of s x s']
  by (cases "add y s'") auto

lemma add_remove_lookup:
  "ok s \<Longrightarrow> add x s = Inr s' \<Longrightarrow> remove (name x) s' = Inr s'' \<Longrightarrow> j \<noteq> name x \<Longrightarrow>
     lookup j s'' = lookup j s"
  using remove_lookup [of s' "name x" s'' j] add_lookup [of s x s' j] add_ok [of s x s'] by simp

end

lemma map_of_snoc:
  "k \<notin> fst ` set xs \<Longrightarrow> map_of (xs @ [(k, v)]) i = (if i = k then Some v else map_of xs i)"
  by (induction xs) auto

lemma map_of_filter_other: "j \<noteq> i \<Longrightarrow> map_of (filter (\<lambda>(k, _). k \<noteq> i) xs) j = map_of xs j"
  by (induction xs) auto

lemma registry_register_ok:
  "registry_ok reg \<Longrightarrow> registry_register p reg = Inr reg' \<Longrightarrow> registry_ok reg'"
  by (auto simp: registry_ok_def registry_register_def split: if_splits)

interpretation registry: named_store provider_id registry_ok registry_register registry_unregister
  registry_get registry_contains
proof
  fix reg :: registry and p i
  assume ok: "registry_ok reg"
  show "(\<exists>reg'. registry_register p reg = Inr reg') \<longleftrightarrow> \<not> registry_contains (provider_id p) reg"
    by (simp add: registry_register_def registry_contains_def)
  show "(\<exists>p. registry_get i reg = Inr p) \<longleftrightarrow> registry_contains i reg"
    by (auto simp: registry_get_def registry_contains_def map_of_eq_None_iff split: option.splits)
      (metis image_eqI fst_conv map_of_SomeD)
next
  fix reg reg' :: registry and p i
  assume ok: "registry_ok reg" and r: "registry_register p reg = Inr reg'"
  show "registry_ok reg'"
    using ok r by (rule registry_register_ok)
  show "registry_get i reg' = (if i = provider_id p then Inr p else registry_get i reg)"
    using r by (auto simp: registry_register_def registry_get_def map_of_snoc
        simp del: map_of_append split: if_splits)
next
  fix reg reg' :: registry and i j
  assume ok: "registry_ok reg" and r: "registry_unregister i reg = Inr reg'"
  then have reg': "reg' = filter (\<lambda>(k, _). k \<noteq> i) reg"
    by (simp add: registry_unregister_def split: if_splits)
  show "registry_ok reg'"
    using ok by (auto simp: registry_ok_def reg' list_all_iff distinct_map_filter)
  show "registry_contains j reg' \<longleftrightarrow> registry_contains j reg \<and> j \<noteq> i"
    by (force simp: registry_contains_def reg')
  show "registry_get j reg' = registry_get j reg" if "j \<noteq> i"
    using that unfolding registry_get_def reg' by (simp add: map_of_filter_other)
next
  fix reg :: registry and i x
  assume "registry_ok reg" "registry_get i reg = Inr x"
  then show "provider_id x = i"
    by (auto simp: registry_ok_def registry_get_def list_all_iff split: option.splits dest: map_of_SomeD)
qed

lemma registry_providers_member:
  assumes "registry_ok reg" "p \<in> set (registry_providers reg)"
  shows "registry_get (provider_id p) reg = Inr p"
proof -
  obtain i where i: "i \<in> fst ` set reg" "p = the (map_of reg i)"
    using assms(2) by (auto simp: registry_providers_def registry_provider_ids_def)
  then obtain q where q: "map_of reg i = Some q"
    by (metis map_of_eq_None_iff not_None_eq)
  then have "provider_id q = i"
    using assms(1) by (auto simp: registry_ok_def list_all_iff dest: map_of_SomeD)
  then show ?thesis
    using i q by (simp add: registry_get_def)
qed

lemma registry_providers_ids:
  assumes "registry_ok reg"
  shows "map provider_id (registry_providers reg) = registry_provider_ids reg"
proof -
  have "provider_id (the (map_of reg i)) = i" if "i \<in> fst ` set reg" for i
  proof -
    obtain q where "map_of reg i = Some q"
      using \<open>i \<in> fst ` set reg\<close> by (metis map_of_eq_None_iff not_None_eq)
    then show ?thesis
      using assms by (auto simp: registry_ok_def list_all_iff dest: map_of_SomeD)
  qed
  then show ?thesis
    unfolding registry_providers_def registry_provider_ids_def map_map by (intro map_idI) simp
qed

subsection \<open>Execution profiles and selection\<close>

datatype execution_profile_name = Native | Import_Only | All_Supported

fun execution_profile_name_value :: "execution_profile_name \<Rightarrow> string" where
  "execution_profile_name_value Native = ''native''"
| "execution_profile_name_value Import_Only = ''import_only''"
| "execution_profile_name_value All_Supported = ''all_supported''"

record execution_profile =
  ep_name :: execution_profile_name
  ep_execute_providers :: bool
  ep_import_reports :: bool
  ep_supported_only :: bool

definition execution_profile_to_dict :: "execution_profile \<Rightarrow> pydict" where
  "execution_profile_to_dict p =
     [(PStr ''name'', PStr (execution_profile_name_value (ep_name p))),
      (PStr ''execute_providers'', PBool (ep_execute_providers p)),
      (PStr ''import_reports'', PBool (ep_import_reports p)),
      (PStr ''supported_only'', PBool (ep_supported_only p))]"

fun profiles :: "execution_profile_name \<Rightarrow> execution_profile" where
  "profiles Native =
     \<lparr>ep_name = Native, ep_execute_providers = False, ep_import_reports = False,
      ep_supported_only = True\<rparr>"
| "profiles Import_Only =
     \<lparr>ep_name = Import_Only, ep_execute_providers = False, ep_import_reports = True,
      ep_supported_only = False\<rparr>"
| "profiles All_Supported =
     \<lparr>ep_name = All_Supported, ep_execute_providers = True, ep_import_reports = True,
      ep_supported_only = True\<rparr>"

definition get_execution_profile :: "pyval \<Rightarrow> execution_profile result" where
  "get_execution_profile name =
     and_then (enum_lookup ''ExecutionProfileName'' execution_profile_name_value
                 [Native, Import_Only, All_Supported] name) (\<lambda>n. Inr (profiles n))"

text \<open>The tests of the loop over the registry that end in \<open>continue\<close>, and the loop.\<close>

definition eligible :: "string list \<Rightarrow> execution_profile \<Rightarrow> string \<Rightarrow> provider \<Rightarrow> bool" where
  "eligible candidates profile root p \<longleftrightarrow>
     (let m = pv_metadata p
      in pm_provider_id m \<in> set candidates \<and>
         (ep_supported_only profile \<longrightarrow> pm_state m = Supported) \<and>
         (if ep_execute_providers profile then pm_execution_support m \<and> pv_detect p root
          else if ep_import_reports profile then pm_import_support m
          else False))"

definition select_providers ::
  "registry \<Rightarrow> string list \<Rightarrow> execution_profile \<Rightarrow> string \<Rightarrow> provider list"
where
  "select_providers reg candidates profile root =
     sort_key provider_id (filter (eligible candidates profile root) (registry_providers reg))"

lemma select_providers_native [simp]: "select_providers reg cs (profiles Native) root = []"
  by (simp add: select_providers_def eligible_def Let_def)

lemma set_select_providers:
  "set (select_providers reg cs pr root) =
     {p \<in> set (registry_providers reg). eligible cs pr root p}"
  by (simp add: select_providers_def)

lemma sorted_select_providers: "sorted (map provider_id (select_providers reg cs pr root))"
  by (simp add: select_providers_def)

subsection \<open>The contract of a provider\<close>

text \<open>
  The abstract contract of a normalised report: its records belong to the snapshot and the provider
  of the context, every finding rests on evidence that is there, and coverage is complete only on a
  non-empty scanned inventory without a fatal error.
\<close>

definition normalization_sound :: "string \<Rightarrow> normalization_context \<Rightarrow> normalization_result \<Rightarrow> bool" where
  "normalization_sound pid c n \<longleftrightarrow>
     list_all (\<lambda>e. valid_evidence e \<and> ev_snapshot_id e = nc_snapshot_id c \<and> ev_provider_id e = pid)
       (nr_evidence n) \<and>
     list_all (\<lambda>f. valid_finding f \<and> fn_snapshot_id f = nc_snapshot_id c \<and> fn_provider_id f = pid \<and>
         set (fn_evidence_ids f) \<subseteq> set (map ev_evidence_id (nr_evidence n)) \<and>
         hashable (fn_canonical_rule_id f)) (nr_findings n) \<and>
     list_all (\<lambda>f. valid_provider_failure f \<and> pf_provider_id f = pid \<and>
         pf_required f = nc_required c \<and> pf_fatal f = nc_required c) (nr_failures n) \<and>
     valid_coverage (nr_coverage n) \<and> cv_provider_id (nr_coverage n) = pid \<and>
     (cv_status (nr_coverage n) = Cov_Complete \<longrightarrow> nr_failures n = [])"

locale sound_provider =
  fixes p :: provider
  assumes id_named: "\<not> blank (provider_id p)"
    and display_named: "\<not> blank (pm_display_name (pv_metadata p))"
    and normalize_sound: "pv_normalize p d c = Inr n \<Longrightarrow> normalization_sound (provider_id p) c n"
    and failure_sound: "pv_execution_failure p r required v = Some f \<Longrightarrow>
      valid_provider_failure f \<and> pf_provider_id f = provider_id p \<and> pf_required f = required \<and>
      pf_fatal f = required"

lemma registry_get_member: "registry_get i reg = Inr p \<Longrightarrow> p \<in> set (registry_providers reg)"
proof -
  assume "registry_get i reg = Inr p"
  then have m: "map_of reg i = Some p"
    by (simp add: registry_get_def split: option.splits)
  then have "i \<in> set (registry_provider_ids reg)"
    by (simp add: registry_provider_ids_def) (metis map_of_SomeD fst_conv image_eqI)
  then show ?thesis
    using m by (auto simp: registry_providers_def image_iff intro!: bexI [of _ i])
qed

lemma distinct_select_providers:
  assumes "registry_ok reg"
  shows "distinct (map provider_id (select_providers reg cs profile root))"
proof -
  have "distinct (map provider_id (registry_providers reg))"
    using assms by (simp add: registry_providers_ids registry_provider_ids_def registry_ok_def)
  then have "distinct (map provider_id (filter (eligible cs profile root) (registry_providers reg)))"
    by (rule distinct_map_filter)
  then show ?thesis
    unfolding select_providers_def
    by (metis mset_map mset_sort mset_eq_imp_distinct_iff)
qed

subsection \<open>Property\<close>

definition sample_provider :: "string \<Rightarrow> provider_state \<Rightarrow> provider" where
  "sample_provider i st =
     \<lparr>pv_metadata = \<lparr>pm_provider_id = i, pm_display_name = i, pm_adapter_version = ''1'', pm_state = st,
        pm_supported_report_formats = [], pm_execution_support = True, pm_import_support = True,
        pm_network_requirement = Net_Never, pm_default_required = False\<rparr>,
      pv_detect = (\<lambda>_. True), pv_detect_version = Inr None, pv_validate_configuration = (\<lambda>_. Inr []),
      pv_execute = (\<lambda>_. Inl (OSError [])), pv_execution_failure = (\<lambda>_ _ _. None),
      pv_import_report = (\<lambda>_. Inl (OSError [])), pv_validate_report_shape = (\<lambda>_. []),
      pv_normalize = (\<lambda>_ _. Inl (ValueError []))\<rparr>"

text \<open>
  Provider selection is exact. From a registry the SDK can build, the selected providers are
  those that the registry returns under their own identifiers and that the candidates, the profile
  and, for execution, their own detection admit; each is selected once, in the order of the
  identifiers.
\<close>

theorem select_providers_exact:
  assumes "registry_ok reg"
  shows "set (select_providers reg candidates profile root) =
      {p. registry_get (provider_id p) reg = Inr p \<and> eligible candidates profile root p} \<and>
    sorted_wrt (<) (map provider_id (select_providers reg candidates profile root))"
proof
  show "set (select_providers reg candidates profile root) =
      {p. registry_get (provider_id p) reg = Inr p \<and> eligible candidates profile root p}"
    using registry_providers_member [OF assms] registry_get_member
    unfolding set_select_providers by blast
  show "sorted_wrt (<) (map provider_id (select_providers reg candidates profile root))"
    using sorted_select_providers distinct_select_providers [OF assms]
    by (simp add: strict_sorted_iff)
qed

theorem select_providers_exact_witness:
  "\<exists>reg. registry_register (sample_provider ''a'' Experimental) [] = Inr reg \<and>
     select_providers reg [''a''] (profiles All_Supported) ''/r'' = [] \<and>
     set (select_providers reg [''a''] (profiles Import_Only) ''/r'') = {sample_provider ''a'' Experimental}"
proof -
  obtain p where p: "p = sample_provider ''a'' Experimental"
    by blast
  have pid: "provider_id p = ''a''"
    by (simp add: p sample_provider_def)
  have e: "eligible [''a''] (profiles Import_Only) ''/r'' p"
    "\<not> eligible [''a''] (profiles All_Supported) ''/r'' p"
    by (simp_all add: p eligible_def sample_provider_def)
  have r: "registry_register p [] = Inr [(''a'', p)]"
    by (simp add: registry_register_def pid)
  have "registry_ok []"
    by (simp add: registry_ok_def)
  then have ok: "registry_ok [(''a'', p)]"
    using r by (rule registry_register_ok)
  have got: "registry_get (provider_id x) [(''a'', p)] = Inr x \<longleftrightarrow> x = p" for x
    by (auto simp: registry_get_def pid split: if_splits)
  have "set (select_providers [(''a'', p)] [''a''] (profiles Import_Only) ''/r'') = {p}"
    "set (select_providers [(''a'', p)] [''a''] (profiles All_Supported) ''/r'') = {}"
    using e select_providers_exact [OF ok, of "[''a'']" "profiles Import_Only" "''/r''", unfolded got]
      select_providers_exact [OF ok, of "[''a'']" "profiles All_Supported" "''/r''", unfolded got]
    by auto
  then show ?thesis
    using r by (simp add: p)
qed

end
