(* ===== verification/Identity.thy ===== *)
theory Identity
  imports Contracts_Records
begin

text \<open>
  \<open>l9_ci/identity\<close>: the versioned map from provider rules to canonical rules and the resolution
  of one rule (\<open>resolver.py\<close>), and the message of a strict identity failure (\<open>diagnostics.py\<close>).
  The YAML parser is outside the model: \<open>rule_identity_map_load\<close> starts from the parsed file.
\<close>

subsection \<open>The identity map\<close>

record rule_identity_map =
  im_provider_id :: string
  im_version :: string
  im_rules :: "(string \<times> string) list"

definition identity_map_entry :: "pyval \<times> pyval \<Rightarrow> (string \<times> string) result" where
  "identity_map_entry kv =
     and_then (nonempty_or ''identity-map rule IDs must be strings'' (fst kv)) (\<lambda>rule_id.
     and_then (mapping_or (''identity-map entry '' @ repr_string rule_id @ '' must be an object'')
                 (snd kv)) (\<lambda>entry.
     and_then (nonempty_or (''identity-map entry '' @ repr_string rule_id @
                  '' requires canonical_rule_id'') (dget_none entry ''canonical_rule_id'')) (\<lambda>canonical.
     Inr (rule_id, canonical))))"

definition rule_identity_map_from_dict :: "pydict \<Rightarrow> rule_identity_map result" where
  "rule_identity_map_from_dict payload =
     (if dget_none payload ''schema'' \<noteq> PStr ''l9.identity-map/v1'' then
        Inl (ValueError ''unsupported identity map schema'')
      else
        and_then (mapping_or ''identity map metadata must be an object''
                    (dget_none payload ''metadata'')) (\<lambda>metadata.
        and_then (non_blank_or ''identity map provider_id must be non-empty''
                    (dget_none metadata ''provider_id'')) (\<lambda>provider_id.
        and_then (non_blank_or ''identity map version must be non-empty''
                    (dget_none metadata ''version'')) (\<lambda>version.
        and_then (mapping_or ''identity map rules must be an object''
                    (dget_default payload ''rules'' (PDict []))) (\<lambda>raw_rules.
        and_then (map_res identity_map_entry raw_rules) (\<lambda>rules.
        Inr \<lparr>im_provider_id = provider_id, im_version = version, im_rules = rules\<rparr>))))))"

definition rule_identity_map_load :: "pyval \<Rightarrow> rule_identity_map result" where
  "rule_identity_map_load payload =
     and_then (mapping_or ''identity map root must be an object'' payload) rule_identity_map_from_dict"

definition valid_identity_map :: "rule_identity_map \<Rightarrow> bool" where
  "valid_identity_map m \<longleftrightarrow>
     \<not> blank (im_provider_id m) \<and> \<not> blank (im_version m) \<and>
     list_all (\<lambda>(r, c). r \<noteq> [] \<and> c \<noteq> []) (im_rules m)"

lemma identity_map_entry_Inr:
  "identity_map_entry kv = Inr (r, c) \<Longrightarrow> r \<noteq> [] \<and> c \<noteq> [] \<and> fst kv = PStr r"
  by (auto simp: identity_map_entry_def and_then_eq_Inr)

lemma rule_identity_map_load_valid: "rule_identity_map_load v = Inr m \<Longrightarrow> valid_identity_map m"
  by (auto simp: rule_identity_map_load_def rule_identity_map_from_dict_def valid_identity_map_def
      and_then_eq_Inr split: if_splits elim!: map_res_list_all dest: identity_map_entry_Inr)

subsection \<open>Resolution\<close>

datatype identity_status = Trusted_Metadata | Explicit_Mapping | Unresolved_Identity

fun identity_status_value :: "identity_status \<Rightarrow> string" where
  "identity_status_value Trusted_Metadata = ''trusted_metadata''"
| "identity_status_value Explicit_Mapping = ''explicit_mapping''"
| "identity_status_value Unresolved_Identity = ''unresolved''"

record identity_resolution =
  ir_provider_id :: string
  ir_provider_rule_id :: string
  ir_canonical_rule_id :: "string option"
  ir_status :: identity_status
  ir_mapping_version :: "string option"

definition identity_resolved :: "identity_resolution \<Rightarrow> bool" where
  "identity_resolved r \<longleftrightarrow> ir_canonical_rule_id r \<noteq> None"

text \<open>An optional string that is tested for truth.\<close>

fun truthy_str :: "string option \<Rightarrow> bool" where
  "truthy_str None = False"
| "truthy_str (Some s) = (s \<noteq> [])"

definition resolve_rule_identity ::
  "string \<Rightarrow> string \<Rightarrow> string option \<Rightarrow> rule_identity_map option \<Rightarrow> identity_resolution result"
where
  "resolve_rule_identity provider_id rule_id trusted identity_map =
     (let unresolved =
            \<lparr>ir_provider_id = provider_id, ir_provider_rule_id = rule_id, ir_canonical_rule_id = None,
             ir_status = Unresolved_Identity, ir_mapping_version = None\<rparr>
      in if truthy_str trusted then
           Inr \<lparr>ir_provider_id = provider_id, ir_provider_rule_id = rule_id,
                ir_canonical_rule_id = trusted, ir_status = Trusted_Metadata,
                ir_mapping_version = None\<rparr>
         else case identity_map of
                None \<Rightarrow> Inr unresolved
              | Some m \<Rightarrow>
                  if im_provider_id m \<noteq> provider_id then
                    Inl (ValueError ''identity map provider does not match finding provider'')
                  else let mapped = map_of (im_rules m) rule_id
                       in if truthy_str mapped then
                            Inr \<lparr>ir_provider_id = provider_id, ir_provider_rule_id = rule_id,
                                 ir_canonical_rule_id = mapped, ir_status = Explicit_Mapping,
                                 ir_mapping_version = Some (im_version m)\<rparr>
                          else Inr unresolved)"

text \<open>Where a canonical rule id may come from, in order of priority.\<close>

definition canonical_source :: "string \<Rightarrow> string option \<Rightarrow> rule_identity_map option \<Rightarrow> string option" where
  "canonical_source rule_id trusted identity_map =
     (if truthy_str trusted then trusted
      else case identity_map of
             None \<Rightarrow> None
           | Some m \<Rightarrow> (case map_of (im_rules m) rule_id of
                          None \<Rightarrow> None
                        | Some c \<Rightarrow> if c = [] then None else Some c))"

lemma resolve_rule_identity_canonical:
  "resolve_rule_identity p r t m = Inr res \<Longrightarrow>
     ir_canonical_rule_id res = canonical_source r t m \<and> ir_provider_id res = p \<and>
     ir_provider_rule_id res = r"
  by (auto simp: resolve_rule_identity_def canonical_source_def Let_def split: if_splits option.splits)

lemma resolve_rule_identity_status:
  "resolve_rule_identity p r t m = Inr res \<Longrightarrow>
     (ir_status res = Trusted_Metadata \<longleftrightarrow> truthy_str t) \<and>
     (ir_status res = Unresolved_Identity \<longleftrightarrow> \<not> identity_resolved res)"
  by (auto simp: resolve_rule_identity_def identity_resolved_def Let_def
      split: if_splits option.splits)

lemma resolve_rule_identity_Inl:
  "(\<exists>e. resolve_rule_identity p r t m = Inl e) \<longleftrightarrow>
     \<not> truthy_str t \<and> (\<exists>im. m = Some im \<and> im_provider_id im \<noteq> p)"
  by (auto simp: resolve_rule_identity_def Let_def split: option.splits)

subsection \<open>Strict-identity diagnostics\<close>

definition MAX_REPORTED_RULES :: nat where
  "MAX_REPORTED_RULES = 20"

definition example_location :: "finding \<Rightarrow> string" where
  "example_location f =
     (case fn_locations f of
        [] \<Rightarrow> ''''
      | l # _ \<Rightarrow>
          if sl_path l = [] then ''''
          else if py_truthy (sl_start_line l) then sl_path l @ '':'' @ py_str (sl_start_line l)
          else sl_path l)"

text \<open>\<open>grouped.setdefault(key, []).append(finding)\<close>, keys in order of first occurrence.\<close>

fun group_add :: "string \<Rightarrow> finding \<Rightarrow> (string \<times> finding list) list \<Rightarrow> (string \<times> finding list) list" where
  "group_add k f [] = [(k, [f])]"
| "group_add k f ((k', fs) # gs) = (if k = k' then (k', fs @ [f]) # gs else (k', fs) # group_add k f gs)"

definition group_by_rule :: "finding list \<Rightarrow> (string \<times> finding list) list" where
  "group_by_rule fs = foldl (\<lambda>gs f. group_add (fn_provider_rule_id f) f gs) [] fs"

definition rule_line :: "string \<times> finding list \<Rightarrow> string" where
  "rule_line g =
     (let example = example_location (hd (sort_key fn_finding_id (snd g)));
          suffix = (if example \<noteq> [] then '' (e.g. '' @ example @ '')'' else '''')
      in ''  - '' @ fst g @ '': '' @ string_of_nat (length (snd g)) @ '' finding(s)'' @ suffix)"

definition ordered_groups :: "finding list \<Rightarrow> (string \<times> finding list) list" where
  "ordered_groups fs = sort_key (\<lambda>g. (- int (length (snd g)), fst g)) (group_by_rule fs)"

definition unresolved_identity_lines :: "finding list \<Rightarrow> string list" where
  "unresolved_identity_lines fs =
     (let ordered = ordered_groups fs;
          total = sum_list (map (\<lambda>g. length (snd g)) ordered)
      in [''strict identity resolution failed for '' @ string_of_nat total @
            '' finding(s) across '' @ string_of_nat (length ordered) @
            '' provider rule(s); every finding needs a '' @
            ''canonical_rule_id. Add metadata.l9.canonical_rule_id to an L9-authored '' @
            ''rule, or an identity-map entry for a third-party registry rule:''] @
         map rule_line (take MAX_REPORTED_RULES ordered) @
         (if length ordered > MAX_REPORTED_RULES
          then [''  ... and '' @ string_of_nat (length ordered - MAX_REPORTED_RULES) @
                  '' more provider rule(s)'']
          else []))"

definition describe_unresolved_identity :: "finding list \<Rightarrow> string" where
  "describe_unresolved_identity fs =
     (if group_by_rule fs = [] then ''strict identity resolution failed for 0 findings''
      else join [CHR 0x0A] (unresolved_identity_lines fs))"

text \<open>The groups partition the findings: one group per rule, every finding in the group of its rule.\<close>

definition grouping :: "(string \<times> finding list) list \<Rightarrow> finding list \<Rightarrow> bool" where
  "grouping gs fs \<longleftrightarrow>
     distinct (map fst gs) \<and>
     (\<forall>k. map_of gs k =
        (let xs = filter (\<lambda>f. fn_provider_rule_id f = k) fs in if xs = [] then None else Some xs))"

lemma group_add_keys: "set (map fst (group_add k f gs)) = insert k (set (map fst gs))"
  by (induction k f gs rule: group_add.induct) auto

lemma group_add_distinct: "distinct (map fst gs) \<Longrightarrow> distinct (map fst (group_add k f gs))"
proof (induction gs)
  case (Cons g gs)
  then show ?case
    by (cases g) (simp del: set_map add: group_add_keys)
qed simp

lemma map_of_group_add:
  "map_of (group_add k f gs) j =
     (if j = k then Some ((case map_of gs k of None \<Rightarrow> [] | Some xs \<Rightarrow> xs) @ [f]) else map_of gs j)"
  by (induction k f gs rule: group_add.induct) auto

lemma grouping_snoc:
  "grouping gs fs \<Longrightarrow> grouping (group_add (fn_provider_rule_id f) f gs) (fs @ [f])"
  by (auto simp: grouping_def group_add_distinct map_of_group_add Let_def)

lemma grouping_keys: "grouping gs fs \<Longrightarrow> set (map fst gs) = fn_provider_rule_id ` set fs"
proof -
  assume g: "grouping gs fs"
  have "k \<in> set (map fst gs) \<longleftrightarrow> k \<in> fn_provider_rule_id ` set fs" for k
  proof -
    have "k \<in> set (map fst gs) \<longleftrightarrow> map_of gs k \<noteq> None"
      by (simp add: map_of_eq_None_iff)
    also have "\<dots> \<longleftrightarrow> k \<in> fn_provider_rule_id ` set fs"
      using g by (auto simp: grouping_def Let_def filter_empty_conv)
    finally show ?thesis .
  qed
  then show ?thesis by blast
qed

lemma grouping_group_by_rule: "grouping (group_by_rule fs) fs"
proof (induction fs rule: rev_induct)
  case Nil
  then show ?case by (simp add: group_by_rule_def grouping_def)
next
  case (snoc f fs)
  then show ?case
    using grouping_snoc [of "group_by_rule fs" fs f] by (simp add: group_by_rule_def)
qed

lemma group_by_rule_Nil [simp]: "group_by_rule fs = [] \<longleftrightarrow> fs = []"
  using grouping_keys [OF grouping_group_by_rule [of fs]] by auto

lemma group_add_total:
  "sum_list (map (\<lambda>g. length (snd g)) (group_add k f gs)) =
     Suc (sum_list (map (\<lambda>g. length (snd g)) gs))"
  by (induction gs) auto

lemma group_by_rule_total: "sum_list (map (\<lambda>g. length (snd g)) (group_by_rule fs)) = length fs"
  by (induction fs rule: rev_induct) (simp_all add: group_by_rule_def group_add_total)

lemma ordered_groups_total: "sum_list (map (\<lambda>g. length (snd g)) (ordered_groups fs)) = length fs"
proof -
  have "mset (map (\<lambda>g. length (snd g)) (ordered_groups fs)) =
        mset (map (\<lambda>g. length (snd g)) (group_by_rule fs))"
    by (simp add: ordered_groups_def)
  then show ?thesis
    by (metis sum_mset_sum_list group_by_rule_total)
qed

lemma length_ordered_groups: "length (ordered_groups fs) = card (fn_provider_rule_id ` set fs)"
proof -
  have "card (set (map fst (group_by_rule fs))) = length (map fst (group_by_rule fs))"
    using grouping_group_by_rule [of fs] by (intro distinct_card) (simp add: grouping_def)
  then have "length (ordered_groups fs) = card (set (map fst (group_by_rule fs)))"
    by (simp add: ordered_groups_def)
  then show ?thesis
    by (simp only: grouping_keys [OF grouping_group_by_rule])
qed

lemma length_unresolved_identity_lines:
  "length (unresolved_identity_lines fs) \<le> MAX_REPORTED_RULES + 2"
  by (simp add: unresolved_identity_lines_def Let_def)

lemma describe_prefix:
  "\<exists>rest. describe_unresolved_identity fs = ''strict identity resolution failed for '' @ rest"
proof (cases "fs = []")
  case True
  then show ?thesis by (simp add: describe_unresolved_identity_def)
next
  case False
  then show ?thesis
    by (simp add: describe_unresolved_identity_def unresolved_identity_lines_def Let_def join_Cons)
qed

subsection \<open>Properties\<close>


definition sample_identity_map :: rule_identity_map where
  "sample_identity_map = \<lparr>im_provider_id = ''semgrep'', im_version = ''1'', im_rules = [(''r1'', ''L9-1'')]\<rparr>"


text \<open>
  Identity resolution fails exactly on a foreign map. The call raises if and only if there is
  no trusted canonical id and the map it was given was written for another provider.
\<close>

theorem resolve_rule_identity_error:
  "(\<exists>e. resolve_rule_identity provider_id rule_id trusted identity_map = Inl e) \<longleftrightarrow>
     \<not> truthy_str trusted \<and> (\<exists>m. identity_map = Some m \<and> im_provider_id m \<noteq> provider_id)"
  by (rule resolve_rule_identity_Inl)

text \<open>
  The strict-identity message stays bounded and counts every finding. Whatever the number of
  unresolved findings, the message has at most 22 lines, and the groups it is printed from hold
  every finding once and every provider rule once.
\<close>

theorem unresolved_identity_bounded:
  "length (unresolved_identity_lines fs) \<le> 22 \<and>
   sum_list (map (\<lambda>g. length (snd g)) (ordered_groups fs)) = length fs \<and>
   length (ordered_groups fs) = card (fn_provider_rule_id ` set fs)"
  using length_unresolved_identity_lines [of fs]
  by (simp add: MAX_REPORTED_RULES_def ordered_groups_total length_ordered_groups)

end
