(* ===== verification/Semgrep_Report.thy ===== *)
theory Semgrep_Report
  imports Contracts_Version Identity Serializer Checked Py_Regex
begin

text \<open>
  \<open>l9_ci/providers/semgrep\<close>, the parts below the adapter: the version gate (\<open>versioning.py\<close>), the
  structural validation of a report (\<open>report.py\<close>) and the digests that name evidence and findings
  (\<open>identities.py\<close>).
\<close>

subsection \<open>Version gate\<close>

record version_policy =
  vp_minimum :: semantic_version
  vp_maximum_exclusive :: "semantic_version option"

definition version_supported :: "version_policy \<Rightarrow> semantic_version \<Rightarrow> bool" where
  "version_supported policy v =
     (if v < vp_minimum policy then False
      else case vp_maximum_exclusive policy of
             Some m \<Rightarrow> if m \<le> v then False else True
           | None \<Rightarrow> True)"

definition DEFAULT_SEMGREP_VERSION_POLICY :: version_policy where
  "DEFAULT_SEMGREP_VERSION_POLICY =
     \<lparr>vp_minimum = SemanticVersion 1 100 0, vp_maximum_exclusive = Some (SemanticVersion 2 0 0)\<rparr>"

definition VERSION_PATTERN :: regex where
  "VERSION_PATTERN =
     (let digits = Plus_re (Chars is_digit)
      in Group_re 1 (Seqs [digits, Lit ''.'', digits, Lit ''.'', digits]))"

definition parse_semgrep_version :: "string \<Rightarrow> semantic_version result" where
  "parse_semgrep_version raw =
     (case re_search VERSION_PATTERN raw of
        None \<Rightarrow> Inl (ValueError (''unable to parse Semgrep version from '' @ repr_string raw))
      | Some (_, m) \<Rightarrow> semantic_version_parse (group_of 1 m))"

definition require_supported_semgrep_version :: "version_policy \<Rightarrow> string \<Rightarrow> semantic_version result" where
  "require_supported_semgrep_version policy raw =
     and_then (parse_semgrep_version raw) (\<lambda>v.
     if \<not> version_supported policy v then
       (let minimum = render_version (vp_minimum policy);
            supported = (case vp_maximum_exclusive policy of
                           Some bound \<Rightarrow> ''>='' @ minimum @ '',<'' @ render_version bound
                         | None \<Rightarrow> ''>='' @ minimum)
        in Inl (ValueError (''unsupported Semgrep version: '' @ repr_string raw @
                  ''; supported range is '' @ supported)))
     else Inr v)"

lemma version_supported_default:
  "version_supported DEFAULT_SEMGREP_VERSION_POLICY v \<longleftrightarrow>
     SemanticVersion 1 100 0 \<le> v \<and> v < SemanticVersion 2 0 0"
  by (auto simp: version_supported_def DEFAULT_SEMGREP_VERSION_POLICY_def not_less not_le)

lemma require_supported_Inr:
  "require_supported_semgrep_version policy raw = Inr v \<longleftrightarrow>
     parse_semgrep_version raw = Inr v \<and> version_supported policy v"
  by (auto simp: require_supported_semgrep_version_def and_then_eq_Inr Let_def)

subsection \<open>Structural validation\<close>

record report_validation =
  rv_valid :: bool
  rv_errors :: "string list"

definition report_require_valid :: "report_validation \<Rightarrow> unit result" where
  "report_require_valid r =
     (if rv_errors r \<noteq> [] then
        Inl (ValueError (''invalid Semgrep report:'' @ [CHR 0x0A] @
          join [CHR 0x0A] (map (\<lambda>e. ''- '' @ e) (rv_errors r))))
      else Inr ())"

interpretation semgrep_report: checked_result "\<lambda>r. rv_errors r = []" report_require_valid
  by unfold_locales (auto simp: report_require_valid_def)

definition positive_int :: "pyval \<Rightarrow> bool" where
  "positive_int v \<longleftrightarrow> (case as_int v of Some i \<Rightarrow> 1 \<le> i | None \<Rightarrow> False)"

fun validate_position :: "string \<Rightarrow> pyval \<Rightarrow> string list" where
  "validate_position path (PDict d) =
     (if positive_int (dget_none d ''line'') then [] else [path @ ''.line must be a positive integer'']) @
     (if positive_int (dget_none d ''col'') then [] else [path @ ''.col must be a positive integer''])"
| "validate_position path _ = [path @ '' must be an object'']"

fun validate_extra :: "string \<Rightarrow> pyval \<Rightarrow> string list" where
  "validate_extra prefix (PDict extra) =
     (if non_blank_str (dget_none extra ''message'') then []
      else [prefix @ ''.extra.message must be non-empty'']) @
     (let severity = dget_none extra ''severity''
      in if severity \<noteq> PNone \<and> \<not> is_str severity
         then [prefix @ ''.extra.severity must be a string''] else []) @
     (let metadata = dget_none extra ''metadata''
      in if metadata \<noteq> PNone \<and> \<not> is_mapping metadata
         then [prefix @ ''.extra.metadata must be an object''] else [])"
| "validate_extra prefix _ = [prefix @ ''.extra must be an object'']"

fun validate_result :: "string \<Rightarrow> pyval \<Rightarrow> string list" where
  "validate_result prefix (PDict r) =
     (if non_blank_str (dget_none r ''check_id'') then []
      else [prefix @ ''.check_id must be a non-empty string'']) @
     (if non_blank_str (dget_none r ''path'') then []
      else [prefix @ ''.path must be a non-empty string'']) @
     validate_position (prefix @ ''.start'') (dget_none r ''start'') @
     validate_position (prefix @ ''.end'') (dget_none r ''end'') @
     validate_extra prefix (dget_none r ''extra'')"
| "validate_result prefix _ = [prefix @ '' must be an object'']"

fun list_or_empty :: "pyval \<Rightarrow> pyval list" where
  "list_or_empty (PList xs) = xs"
| "list_or_empty _ = []"

definition validate_semgrep_report :: "pydict \<Rightarrow> report_validation" where
  "validate_semgrep_report payload =
     (let results = dget_none payload ''results'';
          report_errors = dget_default payload ''errors'' (PList []);
          errors =
            (if is_list results then [] else [''results must be an array'']) @
            (if is_list report_errors then [] else [''errors must be an array when present'']) @
            concat (map (\<lambda>(i, r). validate_result (''results['' @ string_of_nat i @ '']'') r)
              (enumerate 0 (list_or_empty results)))
      in \<lparr>rv_valid = (errors = []), rv_errors = errors\<rparr>)"

text \<open>What a structurally valid result is.\<close>

fun position_ok :: "pyval \<Rightarrow> bool" where
  "position_ok (PDict d) \<longleftrightarrow> positive_int (dget_none d ''line'') \<and> positive_int (dget_none d ''col'')"
| "position_ok _ \<longleftrightarrow> False"

fun extra_ok :: "pyval \<Rightarrow> bool" where
  "extra_ok (PDict e) \<longleftrightarrow>
     non_blank_str (dget_none e ''message'') \<and>
     (dget_none e ''severity'' = PNone \<or> is_str (dget_none e ''severity'')) \<and>
     (dget_none e ''metadata'' = PNone \<or> is_mapping (dget_none e ''metadata''))"
| "extra_ok _ \<longleftrightarrow> False"

fun result_ok :: "pyval \<Rightarrow> bool" where
  "result_ok (PDict r) \<longleftrightarrow>
     non_blank_str (dget_none r ''check_id'') \<and> non_blank_str (dget_none r ''path'') \<and>
     position_ok (dget_none r ''start'') \<and> position_ok (dget_none r ''end'') \<and>
     extra_ok (dget_none r ''extra'')"
| "result_ok _ \<longleftrightarrow> False"

lemma validate_position_Nil: "validate_position p v = [] \<longleftrightarrow> position_ok v"
  by (cases v) simp_all

lemma validate_extra_Nil: "validate_extra p v = [] \<longleftrightarrow> extra_ok v"
  by (cases v) (simp_all add: Let_def)

lemma validate_result_Nil: "validate_result p v = [] \<longleftrightarrow> result_ok v"
  by (cases v) (simp_all add: validate_position_Nil validate_extra_Nil)

lemma validate_semgrep_report_valid:
  "rv_valid (validate_semgrep_report d) \<longleftrightarrow>
     (\<exists>rs. dget_none d ''results'' = PList rs \<and> list_all result_ok rs) \<and>
     is_list (dget_default d ''errors'' (PList []))"
proof (cases "dget_none d ''results''")
  case (PList rs)
  have "snd ` set (enumerate 0 rs) = set rs"
    by (metis map_snd_enumerate set_map)
  then have e: "(\<forall>x \<in> set (enumerate 0 rs). result_ok (snd x)) \<longleftrightarrow> list_all result_ok rs"
    unfolding list_all_iff by (metis (no_types, lifting) image_iff)
  show ?thesis
    by (simp add: validate_semgrep_report_def Let_def PList validate_result_Nil split_def e)
qed (simp_all add: validate_semgrep_report_def Let_def)

lemma validate_semgrep_report_errors:
  "rv_errors (validate_semgrep_report d) = [] \<longleftrightarrow> rv_valid (validate_semgrep_report d)"
  by (simp add: validate_semgrep_report_def Let_def)

subsection \<open>Identities\<close>

definition semgrep_digest :: "pydict \<Rightarrow> string result" where
  "semgrep_digest payload =
     and_then (json_dumps False (PDict payload)) (\<lambda>encoded.
     Inr (sha256_hexdigest (utf8_encode encoded)))"

definition location_entries :: "source_location \<Rightarrow> pydict" where
  "location_entries l =
     [(PStr ''path'', PStr (sl_path l)), (PStr ''start_line'', sl_start_line l),
      (PStr ''start_column'', sl_start_column l), (PStr ''end_line'', sl_end_line l),
      (PStr ''end_column'', sl_end_column l)]"

definition discriminator :: "string option \<Rightarrow> string \<Rightarrow> string" where
  "discriminator fp message = (case fp of Some f \<Rightarrow> if f = [] then message else f | None \<Rightarrow> message)"

definition build_evidence_id ::
  "string \<Rightarrow> string \<Rightarrow> source_location \<Rightarrow> string option \<Rightarrow> string \<Rightarrow> string result"
where
  "build_evidence_id snapshot_id rule_id location fp message =
     and_then (semgrep_digest
       ([(PStr ''snapshot_id'', PStr snapshot_id), (PStr ''provider_id'', PStr ''semgrep''),
         (PStr ''provider_rule_id'', PStr rule_id)] @ location_entries location @
        [(PStr ''discriminator'', PStr (discriminator fp message))])) (\<lambda>digest.
     Inr (''ev_semgrep_'' @ digest))"

definition build_finding_fingerprint ::
  "string \<Rightarrow> source_location \<Rightarrow> string option \<Rightarrow> string \<Rightarrow> string result"
where
  "build_finding_fingerprint rule_id location fp message =
     semgrep_digest
       ([(PStr ''provider_id'', PStr ''semgrep''), (PStr ''provider_rule_id'', PStr rule_id)] @
        location_entries location @ [(PStr ''discriminator'', PStr (discriminator fp message))])"

definition build_finding_id :: "string \<Rightarrow> string \<Rightarrow> string result" where
  "build_finding_id snapshot_id fingerprint =
     and_then (semgrep_digest
       [(PStr ''snapshot_id'', PStr snapshot_id), (PStr ''fingerprint'', PStr fingerprint)]) (\<lambda>digest.
     Inr (''fn_semgrep_'' @ digest))"

end
