(* ===== verification/Semgrep_Provider.thy ===== *)
theory Semgrep_Provider
  imports Providers Semgrep_Report
begin

text \<open>
  \<open>SemgrepProvider\<close> of \<open>l9_ci/providers/semgrep/provider.py\<close>. The operating system is the record
  \<open>semgrep_host\<close>: what \<open>shutil.which\<close>, \<open>subprocess.run\<close> and the file system answer. \<open>normalize\<close> is a
  function of the report alone; it is split the way its body is: one function for a result, one for
  an error entry of the report, and the coverage computation.
\<close>

subsection \<open>Field normalisation\<close>

fun severity_map :: "string \<Rightarrow> severity option" where
  "severity_map s =
     map_of [(''ERROR'', Sev_High), (''WARNING'', Sev_Medium), (''INFO'', Sev_Informational),
             (''INVENTORY'', Sev_Informational), (''EXPERIMENT'', Sev_Unknown),
             (''CRITICAL'', Sev_Critical), (''HIGH'', Sev_High), (''MEDIUM'', Sev_Medium),
             (''LOW'', Sev_Low)] s"

fun normalize_severity :: "pyval \<Rightarrow> severity \<times> string option" where
  "normalize_severity (PStr raw) =
     (if blank raw then (Sev_Unknown, Some ''Semgrep severity was missing'')
      else case severity_map (py_upper raw) of
             None \<Rightarrow> (Sev_Unknown, Some (''Unmapped Semgrep severity: '' @ raw))
           | Some s \<Rightarrow> (s, None))"
| "normalize_severity _ = (Sev_Unknown, Some ''Semgrep severity was missing'')"

fun optional_string :: "pyval \<Rightarrow> string option" where
  "optional_string (PStr s) = (if blank s then None else Some (py_strip s))"
| "optional_string _ = None"

fun trusted_canonical_rule_id :: "pydict \<Rightarrow> string option" where
  "trusted_canonical_rule_id metadata =
     (case dget_none metadata ''l9'' of
        PDict l9 \<Rightarrow> optional_string (dget_none l9 ''canonical_rule_id'')
      | _ \<Rightarrow> None)"

definition SAFE_METADATA_KEYS :: "string list" where
  "SAFE_METADATA_KEYS =
     [''category'', ''confidence'', ''cwe'', ''impact'', ''likelihood'', ''owasp'', ''references'',
      ''technology'', ''vulnerability_class'']"

definition safe_metadata :: "pydict \<Rightarrow> pydict" where
  "safe_metadata metadata =
     concat (map (\<lambda>k. case dget metadata k of None \<Rightarrow> [] | Some v \<Rightarrow> [(PStr k, v)]) SAFE_METADATA_KEYS)"

definition category_slug :: "string \<Rightarrow> string" where
  "category_slug s = replace_char CHR '' '' CHR ''-'' (py_lower (py_strip s))"

definition finding_category :: "pydict \<Rightarrow> string" where
  "finding_category metadata =
     (case optional_string (dget_none metadata ''category'') of
        Some c \<Rightarrow> category_slug c
      | None \<Rightarrow>
          (case first_of (filter non_blank_str (list_or_empty (dget_none metadata ''vulnerability_class''))) of
             Some v \<Rightarrow> category_slug (py_str v)
           | None \<Rightarrow> ''static-analysis''))"

fun semgrep_error_level :: "pyval \<Rightarrow> string option" where
  "semgrep_error_level (PDict e) = map_option py_lower (optional_string (dget_none e ''level''))"
| "semgrep_error_level _ = None"

definition semgrep_error_is_fatal :: "pyval \<Rightarrow> bool" where
  "semgrep_error_is_fatal e \<longleftrightarrow> semgrep_error_level e \<noteq> Some ''warn''"

fun semgrep_error_message :: "pyval \<Rightarrow> nat \<Rightarrow> string" where
  "semgrep_error_message (PDict e) index =
     (case optional_string (dget_none e ''message'') of
        Some m \<Rightarrow> ''Semgrep report error: '' @ m
      | None \<Rightarrow>
          (case optional_string (dget_none e ''type'') of
             Some t \<Rightarrow> ''Semgrep report error: '' @ t
           | None \<Rightarrow> ''Semgrep report contained error entry '' @ string_of_nat index))"
| "semgrep_error_message _ index = ''Semgrep report contained error entry '' @ string_of_nat index"

definition or_else :: "pyval \<Rightarrow> pyval \<Rightarrow> pyval" where
  "or_else a b = (if py_truthy a then a else b)"

text \<open>\<open>assert isinstance(value, Mapping)\<close>\<close>

fun assert_mapping :: "pyval \<Rightarrow> pydict result" where
  "assert_mapping (PDict d) = Inr d"
| "assert_mapping _ = Inl (AssertionError '''')"

definition result_location :: "pydict \<Rightarrow> source_location result" where
  "result_location r =
     and_then (dsub r ''start'') (\<lambda>start_raw.
     and_then (dsub r ''end'') (\<lambda>end_raw.
     and_then (assert_mapping start_raw) (\<lambda>start.
     and_then (assert_mapping end_raw) (\<lambda>stop.
     and_then (dsub r ''path'') (\<lambda>path.
     and_then (and_then (dsub start ''line'') py_int) (\<lambda>sl.
     and_then (and_then (dsub start ''col'') py_int) (\<lambda>sc.
     and_then (and_then (dsub stop ''line'') py_int) (\<lambda>el.
     and_then (and_then (dsub stop ''col'') py_int) (\<lambda>ec.
     SourceLocation (py_str path) (PInt sl) (PInt sc) (PInt el) (PInt ec) PNone PNone)))))))))"

subsection \<open>One result\<close>

text \<open>The records made of one result and the limitations they add.\<close>

definition normalize_result ::
  "rule_identity_map option \<Rightarrow> normalization_context \<Rightarrow> pyval \<Rightarrow>
   (evidence_record \<times> finding \<times> string list) result"
where
  "normalize_result identity_map context result =
     and_then (assert_mapping result) (\<lambda>r.
     and_then (dsub r ''check_id'') (\<lambda>check_id.
     and_then (dsub r ''extra'') (\<lambda>extra_raw.
     and_then (assert_mapping extra_raw) (\<lambda>extra.
     and_then (dsub extra ''message'') (\<lambda>message_raw.
     and_then (result_location r) (\<lambda>location.
     let rule_id = py_str check_id; message = py_str message_raw;
         fp = optional_string (or_else (dget_none extra ''fingerprint'') (dget_none r ''fingerprint''));
         metadata = (case dget_default extra ''metadata'' (PDict []) of PDict m \<Rightarrow> m | _ \<Rightarrow> []);
         severity_raw = dget_none extra ''severity'';
         severity = fst (normalize_severity severity_raw)
     in and_then (resolve_rule_identity ''semgrep'' rule_id (trusted_canonical_rule_id metadata)
                    identity_map) (\<lambda>identity.
        let limitations =
              (case snd (normalize_severity severity_raw) of None \<Rightarrow> [] | Some l \<Rightarrow> [l]) @
              (if identity_resolved identity then []
               else [''canonical rule identity unresolved for '' @ rule_id]);
            version = pstr_opt (nc_provider_version context);
            canonical = pstr_opt (ir_canonical_rule_id identity);
            status = PStr (identity_status_value (ir_status identity))
        in and_then (build_evidence_id (nc_snapshot_id context) rule_id location fp message) (\<lambda>evidence_id.
           and_then (build_finding_fingerprint rule_id location fp message) (\<lambda>fingerprint.
           and_then (build_finding_id (nc_snapshot_id context) fingerprint) (\<lambda>finding_id.
           and_then (evidence_post_init
             \<lparr>ev_evidence_id = evidence_id, ev_snapshot_id = nc_snapshot_id context,
              ev_provider_id = ''semgrep'', ev_provider_rule_id = rule_id,
              ev_evidence_type = ''static-analysis-match'', ev_message = message,
              ev_locations = [location],
              ev_attributes =
                [(PStr ''provider_severity'', severity_raw),
                 (PStr ''metadata'', PDict (safe_metadata metadata)),
                 (PStr ''identity_resolution_status'', status),
                 (PStr ''identity_mapping_version'', pstr_opt (ir_mapping_version identity))],
              ev_limitations = limitations, ev_provider_version = version,
              ev_canonical_rule_id = canonical, ev_severity = Some severity,
              ev_confidence = Some Conf_Unknown, ev_provider_fingerprint = pstr_opt fp,
              ev_identifiers = [(PStr ''semgrep_check_id'', PStr rule_id)]\<rparr>) (\<lambda>evidence.
           and_then (finding_post_init
             \<lparr>fn_finding_id = finding_id, fn_snapshot_id = nc_snapshot_id context,
              fn_provider_id = ''semgrep'', fn_provider_rule_id = rule_id,
              fn_category = finding_category metadata, fn_message = message,
              fn_evidence_ids = [evidence_id], fn_locations = [location], fn_fingerprint = fingerprint,
              fn_attributes = [(PStr ''semgrep_check_id'', PStr rule_id),
                               (PStr ''identity_resolution_status'', status)],
              fn_limitations = limitations, fn_canonical_rule_id = canonical,
              fn_severity = Some severity, fn_confidence = Some Conf_Unknown,
              fn_remediation_class = PNone\<rparr>) (\<lambda>finding.
           Inr (evidence, finding, limitations)))))))))))))"

subsection \<open>Coverage\<close>

definition SCANNED_MISSING :: string where
  "SCANNED_MISSING =
     ''Semgrep report paths did not include a verified, non-empty '' @
     ''scanned inventory; coverage cannot be confirmed complete.''"

definition PATHS_MISSING :: string where
  "PATHS_MISSING =
     ''Semgrep report did not expose verified paths.scanned coverage; '' @
     ''coverage was derived from finding paths only.''"

definition location_path :: "string \<Rightarrow> string result" where
  "location_path path =
     and_then (SourceLocation path PNone PNone PNone PNone PNone PNone) (\<lambda>l. Inr (sl_path l))"

definition scanned_paths :: "pyval \<Rightarrow> string list result" where
  "scanned_paths raw = map_res location_path (map py_str (filter is_str (list_or_empty raw)))"

text \<open>An entry of \<open>paths.skipped\<close> is a path or an object with one; anything else is passed over.\<close>

fun skipped_item :: "pyval \<Rightarrow> string list" where
  "skipped_item (PStr s) = [s]"
| "skipped_item (PDict d) = (case dget_none d ''path'' of PStr s \<Rightarrow> [s] | _ \<Rightarrow> [])"
| "skipped_item _ = []"

definition skipped_paths :: "pyval \<Rightarrow> string list result" where
  "skipped_paths raw = map_res location_path (concat (map skipped_item (list_or_empty raw)))"

record coverage_paths =
  cp_considered :: "string list"
  cp_analyzed :: "string list"
  cp_limitations :: "string list"
  cp_verified :: bool

definition coverage_paths_of :: "pydict \<Rightarrow> finding list \<Rightarrow> coverage_paths result" where
  "coverage_paths_of report findings =
     (case dget_none report ''paths'' of
        PDict paths \<Rightarrow>
          and_then (scanned_paths (dget_default paths ''scanned'' (PList []))) (\<lambda>scanned.
          and_then (skipped_paths (dget_default paths ''skipped'' (PList []))) (\<lambda>skipped.
          Inr \<lparr>cp_considered = sorted_set (scanned @ skipped), cp_analyzed = sorted_set scanned,
               cp_limitations = (if scanned = [] then [SCANNED_MISSING] else []),
               cp_verified = (scanned \<noteq> [])\<rparr>))
      | _ \<Rightarrow>
          (let finding_paths =
                 sorted_set (concat (map (\<lambda>f. map sl_path (fn_locations f)) findings))
           in Inr \<lparr>cp_considered = finding_paths, cp_analyzed = finding_paths,
                   cp_limitations = [PATHS_MISSING], cp_verified = False\<rparr>))"

subsection \<open>Normalisation of a report\<close>

definition error_failure :: "normalization_context \<Rightarrow> nat \<times> pyval \<Rightarrow> provider_failure" where
  "error_failure context ie =
     \<lparr>pf_provider_id = ''semgrep'', pf_failure_type = Execution_Error,
      pf_message = semgrep_error_message (snd ie) (fst ie),
      pf_required = nc_required context, pf_fatal = nc_required context,
      pf_provider_version = pstr_opt (nc_provider_version context), pf_report_path = PNone,
      pf_exit_code = PNone,
      pf_diagnostics = [(PStr ''report_error_index'', PInt (int (fst ie))),
                        (PStr ''semgrep_level'', pstr_opt (semgrep_error_level (snd ie)))]\<rparr>"

definition malformed_normalization :: "normalization_context \<Rightarrow> string list \<Rightarrow> normalization_result" where
  "malformed_normalization context errors =
     \<lparr>nr_evidence = [], nr_findings = [],
      nr_coverage = \<lparr>cv_provider_id = ''semgrep'', cv_status = Cov_Failed, cv_files_considered = 0,
                     cv_files_analyzed = 0, cv_limitations = errors\<rparr>,
      nr_failures =
        [\<lparr>pf_provider_id = ''semgrep'', pf_failure_type = Report_Malformed,
          pf_message = ''Semgrep report failed structural validation'',
          pf_required = nc_required context, pf_fatal = nc_required context,
          pf_provider_version = pstr_opt (nc_provider_version context), pf_report_path = PNone,
          pf_exit_code = PNone, pf_diagnostics = [(PStr ''errors'', encode_strs errors)]\<rparr>],
      nr_limitations = errors\<rparr>"

definition semgrep_normalize ::
  "rule_identity_map option \<Rightarrow> pydict \<Rightarrow> normalization_context \<Rightarrow> normalization_result result"
where
  "semgrep_normalize identity_map report context =
     (let validation = validate_semgrep_report report
      in if \<not> rv_valid validation then Inr (malformed_normalization context (rv_errors validation))
         else
           and_then (map_res (normalize_result identity_map context)
                       (list_or_empty (dget_default report ''results'' (PList [])))) (\<lambda>rows.
           let findings = map (\<lambda>(e, f, l). f) rows;
               errors = enumerate 0 (list_or_empty (dget_default report ''errors'' (PList [])));
               failures = map (error_failure context) (filter (\<lambda>(i, e). semgrep_error_is_fatal e) errors)
           in and_then (coverage_paths_of report findings) (\<lambda>paths.
              let limitations = sorted_set (concat (map (\<lambda>(e, f, l). l) rows) @
                    map (\<lambda>(i, e). semgrep_error_message e i) errors @ cp_limitations paths)
              in and_then (coverage_post_init
                   \<lparr>cv_provider_id = ''semgrep'',
                    cv_status = (if failures \<noteq> [] \<or> \<not> cp_verified paths then Cov_Partial else Cov_Complete),
                    cv_files_considered = int (length (cp_considered paths)),
                    cv_files_analyzed = int (length (cp_analyzed paths)),
                    cv_limitations = limitations\<rparr>) (\<lambda>coverage.
                 Inr \<lparr>nr_evidence = sort_key ev_evidence_id (map fst rows),
                      nr_findings = sort_key fn_finding_id findings,
                      nr_coverage = coverage, nr_failures = failures,
                      nr_limitations = limitations\<rparr>))))"

subsection \<open>Execution\<close>

text \<open>What the operating system answers.\<close>

datatype process_outcome =
    Completed (po_returncode: int) (po_stdout: string) (po_stderr: string) (po_report_size: "int option")
  | Process_Timeout "string option" "string option" bool
  | Launch_Failed string
  | Output_Dir_Failed string

datatype report_read = Report_Not_Found | Report_Bad_Json string | Report_Unreadable pyexc | Report_Json pyval

record semgrep_host =
  sh_which :: "string option"
  sh_version_run :: "(int \<times> string \<times> string) result"
  sh_exists :: "string \<Rightarrow> bool"
  sh_is_dir :: "string \<Rightarrow> bool"
  sh_environ :: "(string \<times> string) list"
  sh_run :: "string list \<Rightarrow> string \<Rightarrow> (string \<times> string) list \<Rightarrow> int \<Rightarrow> process_outcome"
  sh_read :: "string \<Rightarrow> report_read"

definition semgrep_metadata :: provider_metadata where
  "semgrep_metadata =
     \<lparr>pm_provider_id = ''semgrep'', pm_display_name = ''Semgrep'', pm_adapter_version = ''1.0.0'',
      pm_state = Experimental, pm_supported_report_formats = [''semgrep-json''],
      pm_execution_support = True, pm_import_support = True, pm_network_requirement = Net_Optional,
      pm_default_required = False\<rparr>"

definition semgrep_detect_version :: "semgrep_host \<Rightarrow> string option result" where
  "semgrep_detect_version h =
     (case sh_which h of
        None \<Rightarrow> Inr None
      | Some _ \<Rightarrow>
          and_then (sh_version_run h) (\<lambda>(code, out, err).
          if code \<noteq> 0 then Inr None
          else let version = (if py_strip out \<noteq> [] then py_strip out else py_strip err)
               in Inr (if version = [] then None else Some version)))"

definition semgrep_validate_configuration :: "semgrep_host \<Rightarrow> string \<Rightarrow> string list result" where
  "semgrep_validate_configuration h root =
     (let e1 = (if \<not> sh_exists h root then [''repository root does not exist'']
                else if \<not> sh_is_dir h root then [''repository root is not a directory''] else [])
      in and_then (semgrep_detect_version h) (\<lambda>version.
         case version of
           None \<Rightarrow> Inr e1
         | Some v \<Rightarrow>
             (case require_supported_semgrep_version DEFAULT_SEMGREP_VERSION_POLICY v of
                Inr _ \<Rightarrow> Inr e1
              | Inl e \<Rightarrow> if is_value_error e then Inr (e1 @ [exc_message e]) else Inl e)))"

definition build_execution_plan :: "semgrep_host \<Rightarrow> execution_request \<Rightarrow> string list" where
  "build_execution_plan h req =
     [case sh_which h of None \<Rightarrow> ''semgrep'' | Some e \<Rightarrow> if e = [] then ''semgrep'' else e,
      ''scan'', ''--json-output'', er_output_path req] @ er_arguments req @ [''.'']"

definition execution_environment ::
  "semgrep_host \<Rightarrow> execution_request \<Rightarrow> (string \<times> string) list"
where
  "execution_environment h req =
     fold (\<lambda>(k, v). assoc_put k v) (er_environment req)
       (filter (\<lambda>(k, _). k \<in> {''PATH'', ''HOME'', ''TMPDIR'', ''TEMP'', ''TMP''}) (sh_environ h))"

definition semgrep_execute :: "semgrep_host \<Rightarrow> execution_request \<Rightarrow> execution_result result" where
  "semgrep_execute h req =
     (case sh_run h (build_execution_plan h req) (er_repository_root req)
             (execution_environment h req) (er_timeout_seconds req) of
        Process_Timeout out err report_exists \<Rightarrow>
          Inr \<lparr>xr_exit_code = -1,
               xr_report_path = (if report_exists then Some (er_output_path req) else None),
               xr_stdout = (case out of Some s \<Rightarrow> s | None \<Rightarrow> []),
               xr_stderr = (case err of Some s \<Rightarrow> s | None \<Rightarrow> []),
               xr_timed_out = True, xr_output_limit_exceeded = False\<rparr>
      | Output_Dir_Failed m \<Rightarrow> Inl (OSError m)
      | Launch_Failed m \<Rightarrow>
          Inr \<lparr>xr_exit_code = -1, xr_report_path = None, xr_stdout = [],
               xr_stderr = ''failed to launch semgrep: '' @ m,
               xr_timed_out = False, xr_output_limit_exceeded = False\<rparr>
      | Completed code out err report_size \<Rightarrow>
          (let path = (case report_size of None \<Rightarrow> None | Some _ \<Rightarrow> Some (er_output_path req));
               size = int (length (utf8_encode out)) + int (length (utf8_encode err)) +
                      (case report_size of None \<Rightarrow> 0 | Some n \<Rightarrow> n)
           in if er_output_size_limit_bytes req < size then
                Inr \<lparr>xr_exit_code = code, xr_report_path = path, xr_stdout = take 4096 out,
                     xr_stderr = take 4096 err, xr_timed_out = False,
                     xr_output_limit_exceeded = True\<rparr>
              else
                Inr \<lparr>xr_exit_code = code, xr_report_path = path, xr_stdout = out, xr_stderr = err,
                     xr_timed_out = False, xr_output_limit_exceeded = False\<rparr>))"

definition semgrep_failure ::
  "failure_type \<Rightarrow> string \<Rightarrow> bool \<Rightarrow> string option \<Rightarrow> pyval \<Rightarrow> provider_failure"
where
  "semgrep_failure ftype message required version code =
     \<lparr>pf_provider_id = ''semgrep'', pf_failure_type = ftype, pf_message = message,
      pf_required = required, pf_fatal = required, pf_provider_version = pstr_opt version,
      pf_report_path = PNone, pf_exit_code = code, pf_diagnostics = []\<rparr>"

definition semgrep_execution_failure ::
  "execution_result \<Rightarrow> bool \<Rightarrow> string option \<Rightarrow> provider_failure option"
where
  "semgrep_execution_failure r required version =
     (if xr_timed_out r then
        Some (semgrep_failure Timeout ''Semgrep execution timed out'' required version PNone)
      else if xr_output_limit_exceeded r then
        Some (semgrep_failure Output_Limit_Exceeded ''Semgrep output exceeded the configured limit''
                required version (PInt (xr_exit_code r)))
      else if xr_report_path r = None then
        Some (semgrep_failure Report_Missing ''Semgrep did not produce a report'' required version
                (PInt (xr_exit_code r)))
      else if xr_exit_code r \<notin> {0, 1} then
        Some (semgrep_failure Execution_Error ''Semgrep exited unsuccessfully'' required version
                (PInt (xr_exit_code r)))
      else None)"

definition semgrep_import_report :: "semgrep_host \<Rightarrow> string \<Rightarrow> pydict result" where
  "semgrep_import_report h path =
     (case sh_read h path of
        Report_Not_Found \<Rightarrow> Inl (ValueError (''Semgrep report not found: '' @ path))
      | Report_Bad_Json m \<Rightarrow> Inl (ValueError (''Semgrep report is not valid JSON: '' @ m))
      | Report_Unreadable e \<Rightarrow> Inl e
      | Report_Json (PDict d) \<Rightarrow> Inr d
      | Report_Json _ \<Rightarrow> Inl (ValueError ''Semgrep report root must be an object''))"

definition semgrep_provider :: "semgrep_host \<Rightarrow> rule_identity_map option \<Rightarrow> provider" where
  "semgrep_provider h identity_map =
     \<lparr>pv_metadata = semgrep_metadata, pv_detect = (\<lambda>_. sh_which h \<noteq> None),
      pv_detect_version = semgrep_detect_version h,
      pv_validate_configuration = semgrep_validate_configuration h,
      pv_execute = semgrep_execute h, pv_execution_failure = semgrep_execution_failure,
      pv_import_report = semgrep_import_report h,
      pv_validate_report_shape = (\<lambda>d. rv_errors (validate_semgrep_report d)),
      pv_normalize = semgrep_normalize identity_map\<rparr>"

definition build_default_registry :: "semgrep_host \<Rightarrow> registry result" where
  "build_default_registry h = registry_register (semgrep_provider h None) []"

subsection \<open>What normalisation produces\<close>

lemma normalize_result_Inr:
  assumes "normalize_result m c v = Inr (e, f, l)"
  shows "fn_evidence_ids f = [ev_evidence_id e]"
    and "ev_snapshot_id e = nc_snapshot_id c" "fn_snapshot_id f = nc_snapshot_id c"
    and "ev_provider_id e = ''semgrep''" "fn_provider_id f = ''semgrep''"
    and "valid_evidence e" "valid_finding f"
    and "fn_canonical_rule_id f = ev_canonical_rule_id e" "fn_limitations f = l"
    and "\<exists>loc. fn_locations f = [loc] \<and> ev_locations e = [loc] \<and> valid_location loc"
    and "fn_canonical_rule_id f = PNone \<or> is_str (fn_canonical_rule_id f)"
proof -
  have opt: "is_str (pstr_opt x) \<longleftrightarrow> x \<noteq> None" for x
    by (cases x) simp_all
  show "fn_evidence_ids f = [ev_evidence_id e]"
    "ev_snapshot_id e = nc_snapshot_id c" "fn_snapshot_id f = nc_snapshot_id c"
    "ev_provider_id e = ''semgrep''" "fn_provider_id f = ''semgrep''"
    "valid_evidence e" "valid_finding f"
    "fn_canonical_rule_id f = ev_canonical_rule_id e" "fn_limitations f = l"
    "\<exists>loc. fn_locations f = [loc] \<and> ev_locations e = [loc] \<and> valid_location loc"
    "fn_canonical_rule_id f = PNone \<or> is_str (fn_canonical_rule_id f)"
    using assms
    by (auto simp: normalize_result_def and_then_eq_Inr Let_def evidence_post_init_Inr
        finding_post_init_Inr result_location_def opt dest: SourceLocation_valid)
qed

lemma location_path_Inr: "location_path p = Inr q \<Longrightarrow> repository_relative q"
  by (auto simp: location_path_def and_then_eq_Inr valid_location_def dest!: SourceLocation_valid)

lemma length_sorted_set_mono: "set xs \<subseteq> set ys \<Longrightarrow> length (sorted_set xs) \<le> length (sorted_set ys)"
  by (simp add: sorted_set_def length_remdups_card_conv card_mono)

lemma coverage_paths_of_Inr:
  assumes "coverage_paths_of report fs = Inr p"
  shows "length (cp_analyzed p) \<le> length (cp_considered p)"
    and "cp_verified p \<longleftrightarrow>
      (\<exists>paths. dget_none report ''paths'' = PDict paths \<and>
         filter is_str (list_or_empty (dget_default paths ''scanned'' (PList []))) \<noteq> [])"
proof -
  show "length (cp_analyzed p) \<le> length (cp_considered p)"
    using assms
    by (auto simp: coverage_paths_of_def and_then_eq_Inr Let_def intro!: length_sorted_set_mono
        split: pyval.splits)
  have m: "map_res location_path xs = Inr ys \<Longrightarrow> ys = [] \<longleftrightarrow> xs = []" for xs ys
    by (metis length_0_conv map_res_length)
  show "cp_verified p \<longleftrightarrow>
      (\<exists>paths. dget_none report ''paths'' = PDict paths \<and>
         filter is_str (list_or_empty (dget_default paths ''scanned'' (PList []))) \<noteq> [])"
    using assms
    by (cases "dget_none report ''paths''")
      (auto simp: coverage_paths_of_def and_then_eq_Inr Let_def scanned_paths_def dest!: m)
qed

lemma semgrep_error_message_nonblank: "\<not> blank (semgrep_error_message e i)"
  by (cases e) (simp_all add: blank_def py_isspace_def split: option.splits)

lemma error_failure_valid: "valid_provider_failure (error_failure c ie)"
  by (simp add: error_failure_def valid_provider_failure_def semgrep_error_message_nonblank
      blank_def [of "''semgrep''"] py_isspace_def)

lemma malformed_sound:
  "normalization_sound ''semgrep'' c (malformed_normalization c errors)"
  by (simp add: normalization_sound_def malformed_normalization_def valid_provider_failure_def
      valid_coverage_def blank_def py_isspace_def)

lemma rows_sound:
  assumes "map_res (normalize_result m c) rs = Inr rows"
  shows "list_all (\<lambda>e. valid_evidence e \<and> ev_snapshot_id e = nc_snapshot_id c \<and>
      ev_provider_id e = ''semgrep'') (map fst rows)"
    and "list_all (\<lambda>f. valid_finding f \<and> fn_snapshot_id f = nc_snapshot_id c \<and>
      fn_provider_id f = ''semgrep'' \<and> set (fn_evidence_ids f) \<subseteq> ev_evidence_id ` set (map fst rows) \<and>
      hashable (fn_canonical_rule_id f)) (map (\<lambda>(e, f, l). f) rows)"
proof -
  have row: "\<exists>v. normalize_result m c v = Inr (e, f, l)" if "(e, f, l) \<in> set rows" for e f l
    using map_res_set [OF assms that] by blast
  have h: "v = PNone \<or> is_str v \<Longrightarrow> hashable v" for v
    by (cases v) simp_all
  show "list_all (\<lambda>e. valid_evidence e \<and> ev_snapshot_id e = nc_snapshot_id c \<and>
      ev_provider_id e = ''semgrep'') (map fst rows)"
    using row normalize_result_Inr by (fastforce simp: list_all_iff)
  show "list_all (\<lambda>f. valid_finding f \<and> fn_snapshot_id f = nc_snapshot_id c \<and>
      fn_provider_id f = ''semgrep'' \<and> set (fn_evidence_ids f) \<subseteq> ev_evidence_id ` set (map fst rows) \<and>
      hashable (fn_canonical_rule_id f)) (map (\<lambda>(e, f, l). f) rows)"
    unfolding list_all_iff
  proof
    fix f assume "f \<in> set (map (\<lambda>(e, f, l). f) rows)"
    then obtain e l where efl: "(e, f, l) \<in> set rows"
      by auto
    with row obtain v where "normalize_result m c v = Inr (e, f, l)"
      by blast
    note facts = normalize_result_Inr [OF this]
    have "ev_evidence_id e \<in> ev_evidence_id ` set (map fst rows)"
      using efl by force
    then show "valid_finding f \<and> fn_snapshot_id f = nc_snapshot_id c \<and>
        fn_provider_id f = ''semgrep'' \<and> set (fn_evidence_ids f) \<subseteq> ev_evidence_id ` set (map fst rows) \<and>
        hashable (fn_canonical_rule_id f)"
      using facts(1,3,5,7,11) h by simp
  qed
qed

lemma semgrep_normalize_rows:
  assumes "semgrep_normalize m report c = Inr n" and "rv_valid (validate_semgrep_report report)"
  shows "\<exists>rows es paths.
    map_res (normalize_result m c) (list_or_empty (dget_default report ''results'' (PList []))) = Inr rows \<and>
    coverage_paths_of report (map (\<lambda>(e, f, l). f) rows) = Inr paths \<and>
    nr_evidence n = sort_key ev_evidence_id (map fst rows) \<and>
    nr_findings n = sort_key fn_finding_id (map (\<lambda>(e, f, l). f) rows) \<and>
    nr_failures n = map (error_failure c) es \<and>
    cv_provider_id (nr_coverage n) = ''semgrep'' \<and> valid_coverage (nr_coverage n) \<and>
    (cv_status (nr_coverage n) = Cov_Complete \<longleftrightarrow> es = [] \<and> cp_verified paths) \<and>
    es = filter (\<lambda>(i, e). semgrep_error_is_fatal e)
           (enumerate 0 (list_or_empty (dget_default report ''errors'' (PList []))))"
proof -
  let ?es = "filter (\<lambda>(i, e). semgrep_error_is_fatal e)
           (enumerate 0 (list_or_empty (dget_default report ''errors'' (PList []))))"
  obtain rows where rows:
    "map_res (normalize_result m c) (list_or_empty (dget_default report ''results'' (PList []))) = Inr rows"
    using assms by (auto simp: semgrep_normalize_def Let_def and_then_eq_Inr)
  obtain paths where paths: "coverage_paths_of report (map (\<lambda>(e, f, l). f) rows) = Inr paths"
    using assms rows by (auto simp: semgrep_normalize_def Let_def and_then_eq_Inr)
  show ?thesis
    using assms rows paths
    by (intro exI [of _ rows] exI [of _ ?es] exI [of _ paths])
      (auto simp: semgrep_normalize_def Let_def and_then_eq_Inr coverage_post_init_Inr
        simp del: filter_empty_conv split: if_splits)
qed

lemma list_all_sort_key: "list_all P (sort_key k xs) = list_all P xs"
  by (simp add: list_all_iff)

lemma semgrep_normalize_sound:
  assumes "semgrep_normalize m report c = Inr n"
  shows "normalization_sound ''semgrep'' c n"
proof (cases "rv_valid (validate_semgrep_report report)")
  case False
  then show ?thesis
    using assms malformed_sound by (auto simp: semgrep_normalize_def Let_def)
next
  case True
  obtain rows es where
    rows: "map_res (normalize_result m c)
        (list_or_empty (dget_default report ''results'' (PList []))) = Inr rows"
    and n: "nr_evidence n = sort_key ev_evidence_id (map fst rows)"
      "nr_findings n = sort_key fn_finding_id (map (\<lambda>(e, f, l). f) rows)"
      "nr_failures n = map (error_failure c) es"
    and cov: "valid_coverage (nr_coverage n)" "cv_provider_id (nr_coverage n) = ''semgrep''"
    and st: "cv_status (nr_coverage n) = Cov_Complete \<Longrightarrow> es = []"
    using semgrep_normalize_rows [OF assms True] by blast
  have "list_all (\<lambda>f. valid_provider_failure f \<and> pf_provider_id f = ''semgrep'' \<and>
         pf_required f = nc_required c \<and> pf_fatal f = nc_required c) (nr_failures n)"
    using error_failure_valid by (simp add: n(3) list_all_iff) (simp add: error_failure_def)
  then show ?thesis
    using rows_sound [OF rows] cov st by (simp add: normalization_sound_def n list_all_sort_key)
qed

lemma semgrep_execution_failure_sound:
  assumes "semgrep_execution_failure r required v = Some f"
  shows "valid_provider_failure f \<and> pf_provider_id f = ''semgrep'' \<and> pf_required f = required \<and>
    pf_fatal f = required"
  using assms
  by (auto simp: semgrep_execution_failure_def semgrep_failure_def valid_provider_failure_def
      blank_def py_isspace_def split: if_splits)

interpretation semgrep: sound_provider "semgrep_provider h m" for h m
proof
  show "\<not> blank (provider_id (semgrep_provider h m))"
    "\<not> blank (pm_display_name (pv_metadata (semgrep_provider h m)))"
    by (simp_all add: semgrep_provider_def semgrep_metadata_def blank_def py_isspace_def)
next
  fix d c n
  assume "pv_normalize (semgrep_provider h m) d c = Inr n"
  then show "normalization_sound (provider_id (semgrep_provider h m)) c n"
    by (simp add: semgrep_provider_def semgrep_metadata_def semgrep_normalize_sound)
next
  fix r required v f
  assume "pv_execution_failure (semgrep_provider h m) r required v = Some f"
  then show "valid_provider_failure f \<and> pf_provider_id f = provider_id (semgrep_provider h m) \<and>
      pf_required f = required \<and> pf_fatal f = required"
    by (simp add: semgrep_provider_def semgrep_metadata_def semgrep_execution_failure_sound)
qed

subsection \<open>Property\<close>

text \<open>
  Coverage is never claimed without proof. A normalised report counts as completely covered
  exactly when it has the expected shape, none of its error entries is above warning level, and it
  lists at least one scanned path; and then there is no provider failure and no more files are
  counted as analysed than as considered.
\<close>

theorem semgrep_coverage_complete:
  assumes "semgrep_normalize m report c = Inr n"
  shows "(cv_status (nr_coverage n) = Cov_Complete \<longleftrightarrow>
      rv_valid (validate_semgrep_report report) \<and>
      list_all (\<lambda>e. \<not> semgrep_error_is_fatal e) (list_or_empty (dget_default report ''errors'' (PList []))) \<and>
      (\<exists>paths. dget_none report ''paths'' = PDict paths \<and>
         list_ex is_str (list_or_empty (dget_default paths ''scanned'' (PList []))))) \<and>
    (cv_status (nr_coverage n) = Cov_Complete \<longrightarrow> nr_failures n = []) \<and>
    cv_files_analyzed (nr_coverage n) \<le> cv_files_considered (nr_coverage n)"
proof (cases "rv_valid (validate_semgrep_report report)")
  case False
  then show ?thesis
    using assms by (auto simp: semgrep_normalize_def Let_def malformed_normalization_def)
next
  case True
  obtain rows :: "(evidence_record \<times> finding \<times> string list) list" and es paths where
    paths: "coverage_paths_of report (map (\<lambda>(e, f, l). f) rows) = Inr paths"
    and f: "nr_failures n = map (error_failure c) es" and v: "valid_coverage (nr_coverage n)"
    and st: "cv_status (nr_coverage n) = Cov_Complete \<longleftrightarrow> es = [] \<and> cp_verified paths"
    and es: "es = filter (\<lambda>(i, e). semgrep_error_is_fatal e)
           (enumerate 0 (list_or_empty (dget_default report ''errors'' (PList []))))"
    using semgrep_normalize_rows [OF assms True] by (elim exE conjE) (rule that, assumption+)
  have "filter (\<lambda>(i, e). P e) (enumerate k xs) = [] \<longleftrightarrow> list_all (\<lambda>e. \<not> P e) xs" for P k and xs :: "pyval list"
    by (induction xs arbitrary: k) auto
  moreover have "filter is_str xs \<noteq> [] \<longleftrightarrow> list_ex is_str xs" for xs
    by (simp add: filter_empty_conv list_ex_iff)
  moreover have "cv_files_analyzed (nr_coverage n) \<le> cv_files_considered (nr_coverage n)"
    using v by (simp add: valid_coverage_def)
  ultimately show ?thesis
    using True f st es coverage_paths_of_Inr(2) [OF paths] by auto
qed

theorem semgrep_coverage_complete_witness:
  "\<exists>n. semgrep_normalize None [(PStr ''results'', PList []),
         (PStr ''paths'', PDict [(PStr ''scanned'', PList [])])]
       \<lparr>nc_snapshot_id = ''s'', nc_repository_root = ''/r'', nc_provider_version = None, nc_required = True\<rparr>
     = Inr n \<and> cv_status (nr_coverage n) \<noteq> Cov_Complete"
proof -
  let ?r = "[(PStr ''results'', PList []), (PStr ''paths'', PDict [(PStr ''scanned'', PList [])])]"
  let ?c = "\<lparr>nc_snapshot_id = ''s'', nc_repository_root = ''/r'', nc_provider_version = None, nc_required = True\<rparr>"
  have "\<not> isl (semgrep_normalize None ?r ?c)"
    by code_simp
  then obtain n where n: "semgrep_normalize None ?r ?c = Inr n"
    by (cases "semgrep_normalize None ?r ?c") simp_all
  then show ?thesis
    using semgrep_coverage_complete [OF n] by auto
qed

end
