(* ===== verification/Artifact_Commands.thy ===== *)
theory Artifact_Commands
  imports Command_Line Projections Artifacts Gates Integration_Checks Repository Semgrep_Provider
begin

text \<open>
  The command handlers of \<open>l9_ci/commands/artifacts.py\<close>, \<open>gates.py\<close>, \<open>integration.py\<close> and
  \<open>providers.py\<close>. What reading and parsing the input file gives is the argument \<open>source\<close>, the schemas
  are validators as before, and the writer is what the file system answers. The argument parsers are
  \<open>argparse\<close>; the arguments of a handler are the values it produces.
\<close>

subsection \<open>Bundles and their projections\<close>

definition validate_against_schema :: "schema_validator \<Rightarrow> string \<Rightarrow> pydict \<Rightarrow> unit result" where
  "validate_against_schema iter_errors schema_filename payload =
     (let errors = iter_errors payload
      in if errors \<noteq> [] then
           Inl (ValueError (schema_filename @ '' schema validation failed:'' @ [CHR 0x0A] @
             join [CHR 0x0A] (map (\<lambda>e. ''- '' @ render_schema_error e) errors)))
         else Inr ())"

definition load_bundle :: "schema_validator \<Rightarrow> pyval result \<Rightarrow> finding_bundle result" where
  "load_bundle iter_errors source = and_then source (load_and_validate_bundle iter_errors)"

definition handle_bundle_validate ::
  "schema_validator \<Rightarrow> pyval result \<Rightarrow> string \<Rightarrow> output_format \<Rightarrow> outcome result"
where
  "handle_bundle_validate iter_errors source path format =
     guarded format ARTIFACT_VALIDATION_FAILURE
       (and_then (load_bundle iter_errors source) (\<lambda>b.
        redaction_require_valid (validate_redaction (bundle_to_dict b))))
       (\<lambda>_. Inr (printed SUCCESS [path]))"

text \<open>The common end of a projection: redaction, schema, canonical bytes, file.\<close>

definition publish_projection ::
  "schema_validator \<Rightarrow> string \<Rightarrow> file_writer \<Rightarrow> string \<Rightarrow> pydict \<Rightarrow> (string \<times> string) result"
where
  "publish_projection iter_errors schema_filename writer output payload =
     and_then (redaction_require_valid (validate_redaction payload)) (\<lambda>_.
     and_then (validate_against_schema iter_errors schema_filename payload) (\<lambda>_.
     and_then (canonical_json_bytes (PDict payload)) (\<lambda>content.
     written writer output content)))"

definition handle_projection ::
  "(finding_bundle \<Rightarrow> pydict result) \<Rightarrow> schema_validator \<Rightarrow> schema_validator \<Rightarrow> string \<Rightarrow> file_writer \<Rightarrow>
   pyval result \<Rightarrow> string \<Rightarrow> output_format \<Rightarrow> outcome result"
where
  "handle_projection project bundle_schema iter_errors schema_filename writer source output format =
     guarded format ARTIFACT_VALIDATION_FAILURE
       (and_then (load_bundle bundle_schema source) (\<lambda>b.
        and_then (project b) (publish_projection iter_errors schema_filename writer output)))
       (\<lambda>f. Inr ((printed SUCCESS [output])\<lparr>oc_files := [f]\<rparr>))"

definition handle_project_agent_payload ::
  "schema_validator \<Rightarrow> schema_validator \<Rightarrow> file_writer \<Rightarrow> pyval result \<Rightarrow> string \<Rightarrow> bool \<Rightarrow> output_format \<Rightarrow>
   outcome result"
where
  "handle_project_agent_payload bundle_schema payload_schema writer source output strict format =
     handle_projection
       (\<lambda>b. and_then (project_agent_review_payload b strict) (\<lambda>p. Inr (agent_payload_to_dict p)))
       bundle_schema payload_schema ''agent-review-payload.schema.json'' writer source output format"

definition handle_project_sarif ::
  "schema_validator \<Rightarrow> schema_validator \<Rightarrow> file_writer \<Rightarrow> pyval result \<Rightarrow> string \<Rightarrow> bool \<Rightarrow> output_format \<Rightarrow>
   outcome result"
where
  "handle_project_sarif bundle_schema sarif_schema writer source output strict format =
     handle_projection (\<lambda>b. project_sarif_log b strict) bundle_schema sarif_schema
       ''sarif-log.schema.json'' writer source output format"

subsection \<open>The gate\<close>

fun gate_exit :: "gate_status \<Rightarrow> exit_code" where
  "gate_exit Gate_Pass = SUCCESS"
| "gate_exit Gate_Fail = GATE_FAILURE"
| "gate_exit Gate_Incomplete = UNRESOLVED_STRICT_CONTRACT"
| "gate_exit Gate_Invalid = ARTIFACT_VALIDATION_FAILURE"

text \<open>The result is written outside the \<open>try\<close>: a failing write leaves the handler as an exception.\<close>

definition handle_gate_evaluate ::
  "schema_validator \<Rightarrow> file_writer \<Rightarrow> pyval result \<Rightarrow> string option \<Rightarrow> bool \<Rightarrow> output_format \<Rightarrow> outcome result"
where
  "handle_gate_evaluate bundle_schema writer source output strict_unresolved format =
     guarded format ARTIFACT_VALIDATION_FAILURE
       (and_then (load_bundle bundle_schema source) (\<lambda>b. Inr (evaluate_gate b strict_unresolved)))
       (\<lambda>r. and_then (canonical_json_bytes (PDict (gate_result_to_dict r))) (\<lambda>content.
             case output of
               None \<Rightarrow> Inr (printed (gate_exit (gr_status r)) [content])
             | Some path \<Rightarrow>
                 and_then (written writer path content) (\<lambda>f.
                 Inr ((printed (gate_exit (gr_status r)) [])\<lparr>oc_files := [f]\<rparr>))))"

subsection \<open>Compatibility\<close>

fun bundle_root :: "pyval \<Rightarrow> pydict result" where
  "bundle_root (PDict d) = Inr d"
| "bundle_root _ = Inl (ValueError ''bundle root must be an object'')"

definition handle_compatibility_check ::
  "pyval result \<Rightarrow> string option \<Rightarrow> output_format \<Rightarrow> outcome result"
where
  "handle_compatibility_check source minimum_SDK_version format =
     guarded format ARTIFACT_VALIDATION_FAILURE
       (and_then source (\<lambda>v. and_then (bundle_root v) (\<lambda>payload.
        negotiate_versions payload 1 minimum_SDK_version)))
       (\<lambda>r. if \<not> vn_compatible r then
              and_then (cli_render \<lparr>cd_code = ''incompatible_version'',
                  cd_message = join ''; '' (vn_errors r),
                  cd_details = [(PStr ''errors'', encode_strs (vn_errors r))]\<rparr> format) (\<lambda>line.
              Inr (complained INCOMPATIBLE_VERSION [line]))
            else
              and_then (render_success
                  [(PStr ''SDK_version'', PStr (vn_SDK_version r)),
                   (PStr ''schema_version'', PStr (vn_artifact_schema_version r)),
                   (PStr ''compatible'', PBool True)] format) (\<lambda>line.
              Inr (printed SUCCESS [line])))"

subsection \<open>Providers\<close>

definition handle_providers_list :: "semgrep_host \<Rightarrow> output_format \<Rightarrow> outcome result" where
  "handle_providers_list h format =
     guarded format ARTIFACT_VALIDATION_FAILURE
       (and_then (build_default_registry h) (\<lambda>registry.
        Inr [(PStr ''providers'',
              encode_items provider_metadata_to_dict (map pv_metadata (registry_providers registry)))]))
       (\<lambda>payload. and_then (render_success payload format) (\<lambda>line. Inr (printed SUCCESS [line])))"

definition detected_provider :: "repository_capabilities \<Rightarrow> string \<Rightarrow> provider \<Rightarrow> pydict result" where
  "detected_provider capabilities root p =
     and_then (pv_detect_version p) (\<lambda>version.
     Inr [(PStr ''provider_id'', PStr (provider_id p)), (PStr ''installed'', PBool (pv_detect p root)),
          (PStr ''version'', (case version of None \<Rightarrow> PNone | Some v \<Rightarrow> PStr v)),
          (PStr ''candidate'', PBool (provider_id p \<in> set (ca_provider_candidates capabilities)))])"

definition handle_providers_detect ::
  "semgrep_host \<Rightarrow> repository_tree \<Rightarrow> string \<Rightarrow> output_format \<Rightarrow> outcome result"
where
  "handle_providers_detect h tree root format =
     guarded format ARTIFACT_VALIDATION_FAILURE
       (and_then (build_default_registry h) (\<lambda>registry.
        and_then (detect_repository_capabilities tree) (\<lambda>capabilities.
        and_then (map_res (detected_provider capabilities root) (registry_providers registry)) (\<lambda>providers.
        Inr [(PStr ''capabilities'', PDict (repository_capabilities_to_dict capabilities)),
             (PStr ''providers'', PList (map PDict providers))]))))
       (\<lambda>payload. and_then (render_success payload format) (\<lambda>line. Inr (printed SUCCESS [line])))"

subsection \<open>What the exit codes promise\<close>

lemma redaction_require_valid_iff:
  "redaction_require_valid (validate_redaction p) = Inr () \<longleftrightarrow> rd_errors (validate_redaction p) = []"
  by (simp add: redaction_require_valid_def)

lemma publish_projection_Inr:
  "publish_projection iter_errors name writer output payload = Inr f \<longleftrightarrow>
     rd_errors (validate_redaction payload) = [] \<and> iter_errors payload = [] \<and>
     (\<exists>content. canonical_json_bytes (PDict payload) = Inr content \<and> writer output content = Inr () \<and>
        f = (output, content))"
  by (auto simp: publish_projection_def and_then_eq_Inr redaction_require_valid_iff validate_against_schema_def
      written_def Let_def)

text \<open>
  A projection command leaves the output file either untouched or complete. It exits with
  success exactly when the input loads as a valid bundle, the projection succeeds, its payload is
  redacted and has no schema error, and the write returns; the file then holds the canonical bytes
  of the payload. With any other exit code it has written nothing and says why on one line.
\<close>

theorem projection_command_publishes:
  assumes "handle_projection project bundle_schema iter_errors name writer source output format = Inr r"
  shows "(oc_exit r = SUCCESS \<longleftrightarrow>
      (\<exists>b payload content. load_bundle bundle_schema source = Inr b \<and> project b = Inr payload \<and>
         rd_errors (validate_redaction payload) = [] \<and> iter_errors payload = [] \<and>
         canonical_json_bytes (PDict payload) = Inr content \<and> writer output content = Inr () \<and>
         oc_files r = [(output, content)])) \<and>
    (oc_exit r \<noteq> SUCCESS \<longrightarrow> oc_files r = [] \<and> length (oc_stderr r) = 1)"
proof (cases "and_then (load_bundle bundle_schema source) (\<lambda>b.
        and_then (project b) (publish_projection iter_errors name writer output))")
  case (Inl e)
  then have r: "emit_error e format ARTIFACT_VALIDATION_FAILURE = Inr r"
    using assms by (simp add: handle_projection_def guarded_def)
  moreover have "\<not> (\<exists>b payload f. load_bundle bundle_schema source = Inr b \<and> project b = Inr payload \<and>
      publish_projection iter_errors name writer output payload = Inr f)"
    using Inl by auto
  ultimately show ?thesis
    using emit_error_Inr [OF r] unfolding publish_projection_Inr by fastforce
next
  case (Inr f)
  then obtain b payload where "load_bundle bundle_schema source = Inr b" "project b = Inr payload"
    "publish_projection iter_errors name writer output payload = Inr f"
    by (auto simp: and_then_eq_Inr)
  moreover have "r = (printed SUCCESS [output])\<lparr>oc_files := [f]\<rparr>"
    using assms Inr by (simp add: handle_projection_def guarded_def)
  ultimately show ?thesis
    unfolding publish_projection_Inr by (auto simp: printed_def)
qed

text \<open>
  C33: the exit code of the gate command. A call that returns exits with success exactly when the
  input loads as a valid bundle whose gate passes, and with the gate failure code exactly when the
  gate of a loaded bundle fails.
\<close>

theorem gate_command_exit:
  assumes "handle_gate_evaluate bundle_schema writer source output strict_unresolved format = Inr r"
  shows "(oc_exit r = SUCCESS \<longleftrightarrow>
      (\<exists>b. load_bundle bundle_schema source = Inr b \<and> gr_status (evaluate_gate b strict_unresolved) = Gate_Pass)) \<and>
    (oc_exit r = GATE_FAILURE \<longleftrightarrow>
      (\<exists>b. load_bundle bundle_schema source = Inr b \<and> gr_status (evaluate_gate b strict_unresolved) = Gate_Fail))"
proof (cases "load_bundle bundle_schema source")
  case (Inl e)
  then have "emit_error e format ARTIFACT_VALIDATION_FAILURE = Inr r"
    using assms by (simp add: handle_gate_evaluate_def guarded_def)
  then have "oc_exit r = snd (classify_exception e ARTIFACT_VALIDATION_FAILURE)"
    using emit_error_returns [of e format ARTIFACT_VALIDATION_FAILURE] by (auto simp: complained_def)
  moreover have "snd (classify_exception e ARTIFACT_VALIDATION_FAILURE) \<notin> {SUCCESS, GATE_FAILURE}"
    by (auto simp: classify_exception_def Let_def split: pyexc.splits)
  ultimately show ?thesis
    using Inl by auto
next
  case (Inr b)
  then have "oc_exit r = gate_exit (gr_status (evaluate_gate b strict_unresolved))"
    using assms
    by (auto simp: handle_gate_evaluate_def guarded_def and_then_eq_Inr printed_def split: option.splits)
  then show ?thesis
    using Inr by (cases "gr_status (evaluate_gate b strict_unresolved)") auto
qed

text \<open>
  A gate result that cannot be written is not reported: the exception leaves the handler, and the
  interpreter ends with status 1, the code of a gate failure.
\<close>

lemma gate_write_unreported:
  assumes "load_bundle bundle_schema source = Inr b"
    and "\<And>content. writer path content = Inl e"
    and "canonical_json_bytes (PDict (gate_result_to_dict (evaluate_gate b strict))) = Inr content"
  shows "handle_gate_evaluate bundle_schema writer source (Some path) strict format = Inl e"
  using assms by (simp add: handle_gate_evaluate_def guarded_def written_def)

lemma sample_bundle_loads: "load_bundle (\<lambda>_. []) (Inr (PDict (bundle_to_dict sample_bundle))) = Inr sample_bundle"
proof -
  have "compatible_payload (bundle_to_dict sample_bundle)" "unique_records sample_bundle"
    "referential_integrity sample_bundle"
    by (simp add: compatible_payload_def bundle_to_dict_def sample_bundle_def current_major,
        code_simp, simp add: referential_integrity_def sample_defs)
  then show ?thesis
    by (simp add: load_bundle_def load_and_validate_Inr validate_raw_summary_to_dict
        bundle_roundtripI [OF sample_bundle_stable])
qed

abbreviation sample_gate_command :: "outcome result" where
  "sample_gate_command \<equiv>
     handle_gate_evaluate (\<lambda>_. []) (\<lambda>_ _. Inr ()) (Inr (PDict (bundle_to_dict sample_bundle))) None True Text_Format"

theorem gate_command_exit_witness:
  "\<exists>r. sample_gate_command = Inr r \<and> oc_exit r = SUCCESS"
proof -
  have "gr_status (evaluate_gate sample_bundle True) = Gate_Pass" by code_simp
  moreover have "\<not> isl (canonical_json_bytes (PDict (gate_result_to_dict (evaluate_gate sample_bundle True))))"
    by code_simp
  then have "\<exists>r. sample_gate_command = Inr r"
    unfolding not_isl_ex by (auto simp: handle_gate_evaluate_def sample_bundle_loads guarded_def)
  then obtain r where r: "sample_gate_command = Inr r" by blast
  ultimately show ?thesis
    using gate_command_exit [OF r] sample_bundle_loads by blast
qed

abbreviation sample_sarif_command :: "outcome result" where
  "sample_sarif_command \<equiv>
     handle_projection (\<lambda>b. project_sarif_log b True) (\<lambda>_. []) (\<lambda>_. []) ''sarif-log.schema.json''
       (\<lambda>_ _. Inr ()) (Inr (PDict (bundle_to_dict sample_bundle))) ''out.sarif'' Text_Format"

theorem projection_command_publishes_witness:
  "\<exists>r content. sample_sarif_command = Inr r \<and> oc_files r = [(''out.sarif'', content)]"
proof -
  obtain r where r: "sample_sarif_command = Inr r"
    using guarded_returns [of _ "\<lambda>f. Inr ((printed SUCCESS [''out.sarif''])\<lparr>oc_files := [f]\<rparr>)"]
    unfolding handle_projection_def by simp blast
  have "(case project_sarif_log sample_bundle True of
      Inl _ \<Rightarrow> False
    | Inr p \<Rightarrow> rd_errors (validate_redaction p) = [] \<and> \<not> isl (canonical_json_bytes (PDict p)))"
    by code_simp
  then obtain p content where p: "project_sarif_log sample_bundle True = Inr p"
    "rd_errors (validate_redaction p) = []" "canonical_json_bytes (PDict p) = Inr content"
    by (auto simp: not_isl_ex split: sum.splits)
  have redacted: "redaction_require_valid (validate_redaction p) = Inr ()"
    using p(2) unfolding redaction_require_valid_iff .
  have "r = (printed SUCCESS [''out.sarif''])\<lparr>oc_files := [(''out.sarif'', content)]\<rparr>"
    using r p redacted
    by (simp add: handle_projection_def sample_bundle_loads guarded_def publish_projection_def
        validate_against_schema_def written_def)
  then have "oc_exit r = SUCCESS" by (simp add: printed_def)
  with projection_command_publishes [OF r] r show ?thesis by blast
qed

end
