(* ===== verification/Pipeline_Runner.thy ===== *)
theory Pipeline_Runner
  imports Semgrep_Provider
begin

text \<open>
  \<open>l9_ci/pipeline/runner.py\<close>: detect, configure, execute, import, validate and normalise with any
  provider, every stage failing closed into a structured failure. The lemmas are proved once for
  every provider that keeps the contract \<open>sound_provider\<close>.
\<close>

subsection \<open>The runner\<close>

definition runner_failed :: "provider \<Rightarrow> provider_failure list \<Rightarrow> normalization_result result" where
  "runner_failed p failures =
     (let limitations = map pf_message failures
      in and_then (coverage_post_init
           \<lparr>cv_provider_id = provider_id p, cv_status = Cov_Failed, cv_files_considered = 0,
            cv_files_analyzed = 0, cv_limitations = limitations\<rparr>) (\<lambda>coverage.
         Inr \<lparr>nr_evidence = [], nr_findings = [], nr_coverage = coverage, nr_failures = failures,
              nr_limitations = limitations\<rparr>))"

definition runner_failure ::
  "provider \<Rightarrow> normalization_context \<Rightarrow> failure_type \<Rightarrow> string \<Rightarrow> pydict \<Rightarrow> normalization_result result"
where
  "runner_failure p context ftype message diagnostics =
     and_then (provider_failure_post_init
       \<lparr>pf_provider_id = provider_id p, pf_failure_type = ftype, pf_message = message,
        pf_required = nc_required context, pf_fatal = nc_required context,
        pf_provider_version = pstr_opt (nc_provider_version context), pf_report_path = PNone,
        pf_exit_code = PNone, pf_diagnostics = diagnostics\<rparr>) (\<lambda>f.
     runner_failed p [f])"

definition import_and_normalize ::
  "provider \<Rightarrow> normalization_context \<Rightarrow> string \<Rightarrow> normalization_result result"
where
  "import_and_normalize p context path =
     (case pv_import_report p path of
        Inl e \<Rightarrow>
          if is_value_error e then runner_failure p context Report_Malformed (exc_message e) []
          else Inl e
      | Inr report \<Rightarrow>
          (let shape_errors = pv_validate_report_shape p report
           in if shape_errors \<noteq> [] then
                runner_failure p context Report_Malformed ''provider report failed structural validation''
                  [(PStr ''errors'', encode_strs shape_errors)]
              else case pv_normalize p report context of
                     Inr n \<Rightarrow> Inr n
                   | Inl e \<Rightarrow>
                       runner_failure p context Normalization_Error
                         (''normalization raised '' @ exc_type_name e @ '': '' @ exc_message e) []))"

definition execute_and_normalize ::
  "provider \<Rightarrow> execution_request \<Rightarrow> normalization_context \<Rightarrow> normalization_result result"
where
  "execute_and_normalize p req context =
     (let name = pm_display_name (pv_metadata p)
      in if \<not> pv_detect p (er_repository_root req) then
           runner_failure p context Not_Installed (name @ '' is not installed'') []
         else if nc_provider_version context = None then
           runner_failure p context Configuration_Error (name @ '' version could not be detected'') []
         else
           and_then (pv_validate_configuration p (er_repository_root req)) (\<lambda>configuration_errors.
           if configuration_errors \<noteq> [] then
             runner_failure p context Configuration_Error (name @ '' configuration is invalid'')
               [(PStr ''errors'', encode_strs configuration_errors)]
           else
             case pv_execute p req of
               Inl e \<Rightarrow>
                 runner_failure p context Execution_Error
                   (''provider execution raised '' @ exc_type_name e @ '': '' @ exc_message e) []
             | Inr r \<Rightarrow>
                 (case pv_execution_failure p r (nc_required context) (nc_provider_version context) of
                    Some f \<Rightarrow> runner_failed p [f]
                  | None \<Rightarrow>
                      (case xr_report_path r of
                         None \<Rightarrow>
                           runner_failure p context Report_Missing ''provider produced no report'' []
                       | Some path \<Rightarrow> import_and_normalize p context path))))"

subsection \<open>What holds for every sound provider\<close>

text \<open>A failed run: no record, failed coverage, and a failure that is fatal when the run is required.\<close>

definition failed_closed :: "normalization_context \<Rightarrow> normalization_result \<Rightarrow> bool" where
  "failed_closed c n \<longleftrightarrow>
     nr_evidence n = [] \<and> nr_findings n = [] \<and> cv_status (nr_coverage n) = Cov_Failed \<and>
     (\<exists>f. nr_failures n = [f] \<and> pf_required f = nc_required c \<and> pf_fatal f = nc_required c \<and>
          nr_limitations n = [pf_message f])"

context sound_provider
begin

lemma runner_failed_Inr:
  assumes "valid_provider_failure f" "pf_provider_id f = provider_id p" "pf_required f = nc_required c"
    "pf_fatal f = nc_required c"
  shows "\<exists>n. runner_failed p [f] = Inr n \<and> normalization_sound (provider_id p) c n \<and>
    failed_closed c n"
  using assms id_named
  by (simp add: runner_failed_def Let_def coverage_post_init_def normalization_sound_def failed_closed_def
      valid_coverage_def)

lemma runner_failure_Inr:
  assumes "\<not> blank message"
  shows "\<exists>n. runner_failure p c t message d = Inr n \<and> normalization_sound (provider_id p) c n \<and>
    failed_closed c n"
proof -
  let ?f = "\<lparr>pf_provider_id = provider_id p, pf_failure_type = t, pf_message = message,
        pf_required = nc_required c, pf_fatal = nc_required c,
        pf_provider_version = pstr_opt (nc_provider_version c), pf_report_path = PNone,
        pf_exit_code = PNone, pf_diagnostics = d\<rparr>"
  have "runner_failure p c t message d = runner_failed p [?f]"
    using assms id_named by (simp add: runner_failure_def provider_failure_post_init_def)
  then show ?thesis
    using assms id_named runner_failed_Inr [of ?f c] by (simp add: valid_provider_failure_def)
qed

lemma runner_failure_sound:
  "runner_failure p c t message d = Inr n \<Longrightarrow>
     normalization_sound (provider_id p) c n \<and> failed_closed c n"
  using runner_failure_Inr [of message c t d]
  by (cases "blank message")
    (auto simp: runner_failure_def provider_failure_post_init_Inr valid_provider_failure_def and_then_eq_Inr)

lemma import_and_normalize_sound:
  assumes "import_and_normalize p c path = Inr n"
  shows "normalization_sound (provider_id p) c n \<and>
    (failed_closed c n \<or>
      (\<exists>report. pv_import_report p path = Inr report \<and> pv_validate_report_shape p report = [] \<and>
         pv_normalize p report c = Inr n))"
  using assms
  by (auto simp: import_and_normalize_def Let_def normalize_sound dest: runner_failure_sound
      split: sum.splits if_splits)

lemma execute_and_normalize_sound:
  assumes "execute_and_normalize p req c = Inr n"
  shows "normalization_sound (provider_id p) c n \<and>
    (failed_closed c n \<or>
      (\<exists>r path report. pv_detect p (er_repository_root req) \<and> nc_provider_version c \<noteq> None \<and>
         pv_execute p req = Inr r \<and>
         pv_execution_failure p r (nc_required c) (nc_provider_version c) = None \<and>
         xr_report_path r = Some path \<and> pv_import_report p path = Inr report \<and>
         pv_validate_report_shape p report = [] \<and> pv_normalize p report c = Inr n))"
proof (cases "\<exists>r path. pv_execute p req = Inr r \<and> xr_report_path r = Some path \<and>
    pv_execution_failure p r (nc_required c) (nc_provider_version c) = None \<and>
    pv_detect p (er_repository_root req) \<and> nc_provider_version c \<noteq> None \<and>
    execute_and_normalize p req c = import_and_normalize p c path")
  case True
  then show ?thesis
    using assms import_and_normalize_sound by metis
next
  case False
  then have "normalization_sound (provider_id p) c n \<and> failed_closed c n"
    using assms
    by (auto simp: execute_and_normalize_def Let_def and_then_eq_Inr dest: runner_failure_sound
        dest!: failure_sound runner_failed_Inr [rotated 1] split: if_splits sum.splits option.splits)
  then show ?thesis by blast
qed

end

subsection \<open>Property\<close>

text \<open>
  C20: running the Semgrep adapter fails closed. A run that returns gives records that belong to the
  snapshot and the provider of its context, with evidence for every finding; and unless the
  adapter was detected with a known version, ran, left a report that imports and has the expected
  shape and normalised it, the result is one failure, fatal when the provider is required, with
  failed coverage and no finding.
\<close>

theorem runner_fails_closed:
  assumes "execute_and_normalize (semgrep_provider h m) req c = Inr n"
  shows "normalization_sound ''semgrep'' c n \<and>
    (failed_closed c n \<or>
      (\<exists>r path report. sh_which h \<noteq> None \<and> nc_provider_version c \<noteq> None \<and>
         semgrep_execute h req = Inr r \<and> \<not> xr_timed_out r \<and> \<not> xr_output_limit_exceeded r \<and>
         xr_exit_code r \<in> {0, 1} \<and> xr_report_path r = Some path \<and>
         semgrep_import_report h path = Inr report \<and>
         rv_errors (validate_semgrep_report report) = [] \<and> semgrep_normalize m report c = Inr n))"
  using semgrep.execute_and_normalize_sound [OF assms]
  by (auto simp: semgrep_provider_def semgrep_metadata_def semgrep_execution_failure_def
      split: if_splits)

definition absent_host :: semgrep_host where
  "absent_host =
     \<lparr>sh_which = None, sh_version_run = Inr (0, [], []), sh_exists = (\<lambda>_. True), sh_is_dir = (\<lambda>_. True),
      sh_environ = [], sh_run = (\<lambda>_ _ _ _. Launch_Failed []), sh_read = (\<lambda>_. Report_Not_Found)\<rparr>"

theorem runner_fails_closed_witness:
  "let c = \<lparr>nc_snapshot_id = ''s'', nc_repository_root = ''/r'', nc_provider_version = None,
            nc_required = True\<rparr>;
       req = \<lparr>er_repository_root = ''/r'', er_output_path = ''o'', er_timeout_seconds = 1,
              er_output_size_limit_bytes = 1, er_environment = [], er_arguments = []\<rparr>
   in \<exists>n. execute_and_normalize (semgrep_provider absent_host None) req c = Inr n \<and> failed_closed c n"
proof -
  let ?c = "\<lparr>nc_snapshot_id = ''s'', nc_repository_root = ''/r'', nc_provider_version = None,
            nc_required = True\<rparr>"
  let ?req = "\<lparr>er_repository_root = ''/r'', er_output_path = ''o'', er_timeout_seconds = 1,
              er_output_size_limit_bytes = 1, er_environment = [], er_arguments = []\<rparr>"
  have "\<not> isl (execute_and_normalize (semgrep_provider absent_host None) ?req ?c)"
    by code_simp
  then obtain n where n: "execute_and_normalize (semgrep_provider absent_host None) ?req ?c = Inr n"
    by (cases "execute_and_normalize (semgrep_provider absent_host None) ?req ?c") simp_all
  then show ?thesis
    using runner_fails_closed [OF n] by (auto simp: absent_host_def)
qed

end
