(* ===== verification/Pipeline.thy ===== *)
theory Pipeline
  imports Pipeline_Runner Integration_Checks Repository Artifacts Gates Identity Policy Serializer
begin

text \<open>
  \<open>l9_ci/pipeline/lifecycle.py\<close> and \<open>l9_ci/pipeline/semgrep.py\<close>: the choice of the provider, and
  the whole Semgrep pipeline from a report or a bounded execution to the published artifact. The
  surroundings of a call are the record \<open>pipeline_world\<close>: git, the file tree, the Semgrep process,
  the parsed YAML documents, the clock and the JSON-schema validator.
\<close>

subsection \<open>Provider lifecycle\<close>

datatype acquisition_mode = Acquire_Import | Acquire_Execute

fun acquisition_mode_value :: "acquisition_mode \<Rightarrow> string" where
  "acquisition_mode_value Acquire_Import = ''import''"
| "acquisition_mode_value Acquire_Execute = ''execute''"

definition build_provider :: "semgrep_host \<Rightarrow> string \<Rightarrow> rule_identity_map option \<Rightarrow> provider result" where
  "build_provider h pid identity_map =
     (if pid = ''semgrep'' then Inr (semgrep_provider h identity_map)
      else Inl (ValueError (''unknown provider_id: '' @ repr_string pid)))"

definition lifecycle_profile :: "acquisition_mode \<Rightarrow> execution_profile result" where
  "lifecycle_profile mode =
     (if mode = Acquire_Import then
        get_execution_profile (PStr (execution_profile_name_value Import_Only))
      else Inr \<lparr>ep_name = All_Supported, ep_execute_providers = True, ep_import_reports = True,
                ep_supported_only = False\<rparr>)"

definition resolve_provider ::
  "semgrep_host \<Rightarrow> repository_tree \<Rightarrow> string \<Rightarrow> acquisition_mode \<Rightarrow> string \<Rightarrow> rule_identity_map option
     \<Rightarrow> provider result"
where
  "resolve_provider h tree pid mode root identity_map =
     and_then (build_provider h pid identity_map) (\<lambda>p.
     and_then (registry_register p []) (\<lambda>reg.
     and_then (detect_repository_capabilities tree) (\<lambda>capabilities.
     and_then (lifecycle_profile mode) (\<lambda>profile.
     case filter (\<lambda>c. provider_id c = pid)
            (select_providers reg (ca_provider_candidates capabilities) profile root) of
       candidate # _ \<Rightarrow> Inr candidate
     | [] \<Rightarrow> Inr p))))"

definition resolve_import_provider ::
  "semgrep_host \<Rightarrow> repository_tree \<Rightarrow> string \<Rightarrow> string \<Rightarrow> rule_identity_map option \<Rightarrow> provider result"
where
  "resolve_import_provider h tree pid root identity_map =
     resolve_provider h tree pid Acquire_Import root identity_map"

subsection \<open>The pipeline\<close>

record pipeline_request =
  pq_report_path :: string
  pq_repository_root :: string
  pq_SDK_version :: string
  pq_output_path :: string
  pq_snapshot_id :: "string option"
  pq_provider_version :: "string option"
  pq_identity_map_path :: "string option"
  pq_policy_path :: "string option"
  pq_strict :: bool
  pq_required :: bool
  pq_generated_at :: "string option"
  pq_revision :: "string option"
  pq_dirty :: "bool option"
  pq_derive_snapshot :: bool
  pq_limits :: operational_limits
  pq_execute :: bool
  pq_timeout_seconds :: int
  pq_output_size_limit_bytes :: int
  pq_execution_arguments :: "string list"
  pq_remediation_map_path :: "string option"

record pipeline_result =
  pu_bundle :: finding_bundle
  pu_output_path :: string

record pipeline_world =
  pw_host :: semgrep_host
  pw_git :: git_run
  pw_environ :: "(string \<times> string) list"
  pw_tree :: repository_tree
  pw_yaml :: "string \<Rightarrow> pyval result"
  pw_report_size :: "string \<Rightarrow> int option"
  pw_now :: string
  pw_schema :: schema_validator

definition supported_version :: "string \<Rightarrow> string result" where
  "supported_version raw =
     (case require_supported_semgrep_version DEFAULT_SEMGREP_VERSION_POLICY raw of
        Inr _ \<Rightarrow> Inr (py_strip raw)
      | Inl e \<Rightarrow>
          if is_value_error e then Inl (UnsupportedProviderVersionError (exc_message e)) else Inl e)"

text \<open>A document that is loaded when its path is given.\<close>

definition load_optional ::
  "pipeline_world \<Rightarrow> (pyval \<Rightarrow> 'a result) \<Rightarrow> string option \<Rightarrow> 'a option result"
where
  "load_optional w f path =
     (case path of
        None \<Rightarrow> Inr None
      | Some p \<Rightarrow> and_then (pw_yaml w p) (\<lambda>v. and_then (f v) (\<lambda>x. Inr (Some x))))"

definition pipeline_mode :: "pipeline_request \<Rightarrow> acquisition_mode" where
  "pipeline_mode q = (if pq_execute q then Acquire_Execute else Acquire_Import)"

definition pipeline_snapshot_id :: "pipeline_world \<Rightarrow> pipeline_request \<Rightarrow> string result" where
  "pipeline_snapshot_id w q =
     and_then
       (if pq_derive_snapshot q then
          and_then (build_repository_snapshot (pw_git w) (pw_environ w) (pw_tree w) True)
            (\<lambda>s. Inr (Some (sn_snapshot_id s)))
        else Inr (pq_snapshot_id q)) (\<lambda>snapshot_id.
     case snapshot_id of
       Some (c # cs) \<Rightarrow> Inr (c # cs)
     | _ \<Rightarrow> Inl (ValueError ''snapshot_id is required unless derive_snapshot is enabled''))"

definition pipeline_version :: "provider \<Rightarrow> pipeline_request \<Rightarrow> string option result" where
  "pipeline_version p q =
     (if pq_execute q then
        and_then (pv_detect_version p) (\<lambda>detected.
        case detected of
          Some v \<Rightarrow> and_then (supported_version v) (\<lambda>s. Inr (Some s))
        | None \<Rightarrow> Inr None)
      else
        case pq_provider_version q of
          Some v \<Rightarrow>
            if blank v then
              Inl (ValueError ''provider_version is required when importing a Semgrep report'')
            else and_then (supported_version v) (\<lambda>s. Inr (Some s))
        | None \<Rightarrow>
            Inl (ValueError ''provider_version is required when importing a Semgrep report''))"

definition pipeline_normalization ::
  "pipeline_world \<Rightarrow> provider \<Rightarrow> pipeline_request \<Rightarrow> normalization_context \<Rightarrow> normalization_result result"
where
  "pipeline_normalization w p q context =
     (if pq_execute q then
        and_then (execution_request_post_init
          \<lparr>er_repository_root = pq_repository_root q, er_output_path = pq_report_path q,
           er_timeout_seconds = pq_timeout_seconds q,
           er_output_size_limit_bytes = pq_output_size_limit_bytes q, er_environment = [],
           er_arguments = pq_execution_arguments q\<rparr>) (\<lambda>req.
        execute_and_normalize p req context)
      else
        and_then (validate_report_size (pq_report_path q) (pw_report_size w (pq_report_path q))
                    (pq_limits q)) (\<lambda>_.
        and_then (pv_import_report p (pq_report_path q)) (\<lambda>report.
        let shape_errors = pv_validate_report_shape p report
        in if shape_errors \<noteq> [] then
             Inl (ValueError (''Semgrep report failed structural validation: '' @
                    join ''; '' shape_errors))
           else pv_normalize p report context)))"

definition unresolved_findings :: "finding list \<Rightarrow> finding list" where
  "unresolved_findings fs = filter (\<lambda>f. fn_canonical_rule_id f = PNone) fs"

definition pipeline_classifications ::
  "pipeline_world \<Rightarrow> pipeline_request \<Rightarrow> finding list \<Rightarrow> classification list result"
where
  "pipeline_classifications w q fs =
     and_then
       (if pq_strict q \<and> unresolved_findings fs \<noteq> [] then
          Inl (ValueError (describe_unresolved_identity (unresolved_findings fs)))
        else Inr ()) (\<lambda>_.
     and_then (load_optional w finding_policy_load (pq_policy_path q)) (\<lambda>policy.
     case policy of
       Some p \<Rightarrow>
         and_then (classify_findings fs p (pq_strict q)) (\<lambda>r. Inr (cr_classifications r))
     | None \<Rightarrow>
         if pq_strict q \<and> fs \<noteq> [] then
           Inl (ValueError ''strict mode requires a policy for non-empty findings'')
         else Inr []))"

definition pipeline_findings ::
  "pipeline_world \<Rightarrow> pipeline_request \<Rightarrow> finding list \<Rightarrow> finding list result"
where
  "pipeline_findings w q fs =
     and_then (load_optional w remediation_map_load (pq_remediation_map_path q)) (\<lambda>m.
     case m of
       Some rm \<Rightarrow> apply_remediation_classes fs rm
     | None \<Rightarrow> Inr fs)"

definition assemble_bundle ::
  "pipeline_world \<Rightarrow> pipeline_request \<Rightarrow> provider \<Rightarrow> string \<Rightarrow> string option \<Rightarrow> normalization_result
     \<Rightarrow> finding list \<Rightarrow> classification list \<Rightarrow> finding_bundle result"
where
  "assemble_bundle w q p snapshot_id version n findings classifications =
     and_then (snapshot_descriptor_post_init
       \<lparr>sd_snapshot_id = snapshot_id, sd_repository_root = ''.'', sd_revision = pstr_opt (pq_revision q),
        sd_dirty = (case pq_dirty q of None \<Rightarrow> PNone | Some d \<Rightarrow> PBool d)\<rparr>) (\<lambda>snapshot.
     and_then (provider_run_post_init
       \<lparr>pr_provider_id = ''semgrep'', pr_adapter_version = pm_adapter_version (pv_metadata p),
        pr_provider_version = pstr_opt version,
        pr_mode = acquisition_mode_value (pipeline_mode q), pr_required = pq_required q\<rparr>) (\<lambda>run.
     and_then (finding_bundle_post_init
       \<lparr>fb_SDK_version = pq_SDK_version q, fb_snapshot = snapshot, fb_providers = [run],
        fb_evidence = nr_evidence n, fb_findings = findings, fb_classifications = classifications,
        fb_provider_failures = nr_failures n, fb_coverage = [nr_coverage n],
        fb_limitations = nr_limitations n, fb_generated_at = pw_now w,
        fb_schema = FINDING_BUNDLE_PROTOCOL,
        fb_schema_version = FINDING_BUNDLE_SCHEMA_VERSION\<rparr>) (\<lambda>bundle.
     case pq_generated_at q of
       Some t \<Rightarrow> finding_bundle_post_init (bundle\<lparr>fb_generated_at := t\<rparr>)
     | None \<Rightarrow> Inr bundle)))"

text \<open>Everything before the artifact is written: the bundle that passed every check.\<close>

definition pipeline_bundle :: "pipeline_world \<Rightarrow> pipeline_request \<Rightarrow> finding_bundle result" where
  "pipeline_bundle w q =
     and_then (load_optional w rule_identity_map_load (pq_identity_map_path q)) (\<lambda>identity_map.
     and_then (resolve_provider (pw_host w) (pw_tree w) ''semgrep'' (pipeline_mode q)
                 (pq_repository_root q) identity_map) (\<lambda>p.
     and_then (pipeline_snapshot_id w q) (\<lambda>snapshot_id.
     and_then (pipeline_version p q) (\<lambda>version.
     and_then (pipeline_normalization w p q
                 \<lparr>nc_snapshot_id = snapshot_id, nc_repository_root = pq_repository_root q,
                  nc_provider_version = version, nc_required = pq_required q\<rparr>) (\<lambda>n.
     and_then (validate_record_counts (int (length (nr_findings n))) (int (length (nr_evidence n)))
                 (pq_limits q)) (\<lambda>_.
     and_then (pipeline_classifications w q (nr_findings n)) (\<lambda>classifications.
     and_then (pipeline_findings w q (nr_findings n)) (\<lambda>findings.
     and_then (assemble_bundle w q p snapshot_id version n findings classifications) (\<lambda>bundle.
     and_then (validate_bundle (pw_schema w) bundle) (\<lambda>validation.
     and_then (require_valid validation) (\<lambda>_.
     and_then (redaction_require_valid (validate_redaction (bundle_to_dict bundle))) (\<lambda>_.
     Inr bundle))))))))))))"

text \<open>
  The call with its write: \<open>run_semgrep_pipeline\<close> takes the files to the files after it, and ends
  with a result or an exception; the write is \<open>write_step\<close>, which can be stopped anywhere.
\<close>

inductive run_semgrep_pipeline ::
  "pipeline_world \<Rightarrow> pipeline_request \<Rightarrow> string \<Rightarrow> file_system \<Rightarrow> pipeline_result result \<Rightarrow> file_system \<Rightarrow> bool"
  for w q tmp
where
  pipeline_fails:
    "pipeline_bundle w q = Inl e \<Longrightarrow> run_semgrep_pipeline w q tmp files (Inl e) files"
| pipeline_encoding_fails:
    "pipeline_bundle w q = Inr b \<Longrightarrow> bundle_bytes b = Inl e \<Longrightarrow>
     run_semgrep_pipeline w q tmp files (Inl e) files"
| pipeline_writes:
    "pipeline_bundle w q = Inr b \<Longrightarrow> bundle_bytes b = Inr content \<Longrightarrow>
     (write_step content tmp (pq_output_path q))\<^sup>*\<^sup>* (Ready, files) (Returned, files') \<Longrightarrow>
     run_semgrep_pipeline w q tmp files
       (Inr \<lparr>pu_bundle = b, pu_output_path = pq_output_path q\<rparr>) files'"
| pipeline_write_raises:
    "pipeline_bundle w q = Inr b \<Longrightarrow> bundle_bytes b = Inr content \<Longrightarrow>
     (write_step content tmp (pq_output_path q))\<^sup>*\<^sup>* (Ready, files) (Raised, files') \<Longrightarrow>
     run_semgrep_pipeline w q tmp files (Inl e) files'"

subsection \<open>What a successful call went through\<close>

lemma resolve_provider_Inr:
  assumes "resolve_provider h t pid mode root m = Inr p"
  shows "p = semgrep_provider h m" and "pid = ''semgrep''"
    and "\<exists>c. detect_repository_capabilities t = Inr c"
  using assms
  by (auto simp: resolve_provider_def build_provider_def registry_register_def and_then_eq_Inr
      registry_providers_def registry_provider_ids_def select_providers_def Cons_eq_filter_iff
      split: list.splits if_splits)

lemma resolve_provider_semgrep:
  "resolve_provider h t ''semgrep'' mode root m =
     and_then (detect_repository_capabilities t) (\<lambda>_. Inr (semgrep_provider h m))"
proof -
  have prof: "\<exists>pr. lifecycle_profile mode = Inr pr"
    by (simp add: lifecycle_profile_def get_execution_profile_def enum_lookup_def)
  show ?thesis
  proof (cases "detect_repository_capabilities t")
    case (Inr c)
    have case_ex: "\<exists>p. (case xs of [] \<Rightarrow> Inr a | x # _ \<Rightarrow> Inr x) = Inr p" for xs and a :: provider
      by (cases xs) simp_all
    obtain pr where "lifecycle_profile mode = Inr pr"
      using prof by blast
    then obtain p where p: "resolve_provider h t ''semgrep'' mode root m = Inr p"
      using Inr case_ex that by (simp add: resolve_provider_def build_provider_def registry_register_def) blast
    then show ?thesis
      using resolve_provider_Inr(1) [OF p] Inr by simp
  qed (simp add: resolve_provider_def build_provider_def registry_register_def)
qed

lemma load_optional_Inr:
  "load_optional w f path = Inr x \<longleftrightarrow>
     (path = None \<and> x = None \<or>
      (\<exists>p v y. path = Some p \<and> pw_yaml w p = Inr v \<and> f v = Inr y \<and> x = Some y))"
  by (auto simp: load_optional_def and_then_eq_Inr split: option.splits)

lemma supported_version_Inr:
  "supported_version raw = Inr s \<longleftrightarrow>
     s = py_strip raw \<and>
     (\<exists>v. parse_semgrep_version raw = Inr v \<and> SemanticVersion 1 100 0 \<le> v \<and> v < SemanticVersion 2 0 0)"
proof (cases "require_supported_semgrep_version DEFAULT_SEMGREP_VERSION_POLICY raw")
  case (Inl e)
  then show ?thesis
    using require_supported_Inr [of DEFAULT_SEMGREP_VERSION_POLICY raw]
    by (auto simp: supported_version_def version_supported_default split: if_splits)
next
  case (Inr v)
  then have "parse_semgrep_version raw = Inr v" "SemanticVersion 1 100 0 \<le> v" "v < SemanticVersion 2 0 0"
    unfolding require_supported_Inr version_supported_default by blast+
  with Inr show ?thesis
    by (simp add: supported_version_def) blast
qed

lemma pipeline_snapshot_id_Inr: "pipeline_snapshot_id w q = Inr s \<Longrightarrow> s \<noteq> []"
proof -
  have "(case x of Some (c # cs) \<Rightarrow> Inr (c # cs) | _ \<Rightarrow> Inl e) = Inr s \<Longrightarrow> s \<noteq> []" for x e
    by (cases x rule: option.exhaust; auto split: list.splits)
  then show "pipeline_snapshot_id w q = Inr s \<Longrightarrow> s \<noteq> []"
    by (auto simp: pipeline_snapshot_id_def and_then_eq_Inr)
qed

lemma pipeline_normalization_sound:
  assumes "pipeline_normalization w (semgrep_provider h m) q c = Inr n"
  shows "normalization_sound ''semgrep'' c n"
  using assms semgrep.execute_and_normalize_sound semgrep.normalize_sound
  by (fastforce simp: pipeline_normalization_def and_then_eq_Inr Let_def semgrep_provider_def
      semgrep_metadata_def split: if_splits)

lemma assemble_bundle_Inr:
  "assemble_bundle w q p sid v n fs cs = Inr b \<longleftrightarrow>
     valid_snapshot (fb_snapshot b) \<and> list_all valid_provider_run (fb_providers b) \<and>
     \<not> blank (pq_SDK_version q) \<and>
     b = \<lparr>fb_SDK_version = pq_SDK_version q,
          fb_snapshot = \<lparr>sd_snapshot_id = sid, sd_repository_root = ''.'',
            sd_revision = pstr_opt (pq_revision q),
            sd_dirty = (case pq_dirty q of None \<Rightarrow> PNone | Some d \<Rightarrow> PBool d)\<rparr>,
          fb_providers = [\<lparr>pr_provider_id = ''semgrep'',
            pr_adapter_version = pm_adapter_version (pv_metadata p),
            pr_provider_version = pstr_opt v,
            pr_mode = acquisition_mode_value (pipeline_mode q), pr_required = pq_required q\<rparr>],
          fb_evidence = nr_evidence n, fb_findings = fs, fb_classifications = cs,
          fb_provider_failures = nr_failures n, fb_coverage = [nr_coverage n],
          fb_limitations = nr_limitations n,
          fb_generated_at = (case pq_generated_at q of Some t \<Rightarrow> t | None \<Rightarrow> pw_now w),
          fb_schema = FINDING_BUNDLE_PROTOCOL, fb_schema_version = FINDING_BUNDLE_SCHEMA_VERSION\<rparr>"
  by (cases "pq_generated_at q")
    (auto simp: assemble_bundle_def and_then_eq_Inr snapshot_post_init_Inr provider_run_post_init_Inr
      bundle_post_init_Inr)

text \<open>An artifact that may be published.\<close>

definition publishable :: "schema_validator \<Rightarrow> finding_bundle \<Rightarrow> bool" where
  "publishable iter_errors b \<longleftrightarrow>
     unique_records b \<and> referential_integrity b \<and> compatible_payload (bundle_to_dict b) \<and>
     iter_errors (bundle_to_dict b) = [] \<and> redacted (PDict (bundle_to_dict b))"

lemma publication_checks:
  "(\<exists>v. validate_bundle s b = Inr v \<and> require_valid v = Inr ()) \<and>
     redaction_require_valid (validate_redaction (bundle_to_dict b)) = Inr () \<longleftrightarrow> publishable s b"
proof -
  obtain r where "validate_bundle s b = Inr r"
    "vr_valid r \<longleftrightarrow> compatible_payload (bundle_to_dict b) \<and> s (bundle_to_dict b) = [] \<and>
                     unique_records b \<and> referential_integrity b"
    using validate_bundle_iff by blast
  then show ?thesis
    by (auto simp: publishable_def validate_redaction_errors simp del: redacted.simps)
qed

lemma pipeline_bundle_Inr:
  assumes "pipeline_bundle w q = Inr b"
  obtains m sid v n cs fs where
    "pipeline_snapshot_id w q = Inr sid"
    "pipeline_version (semgrep_provider (pw_host w) m) q = Inr v"
    "pipeline_normalization w (semgrep_provider (pw_host w) m) q
       \<lparr>nc_snapshot_id = sid, nc_repository_root = pq_repository_root q,
        nc_provider_version = v, nc_required = pq_required q\<rparr> = Inr n"
    "validate_record_counts (int (length (nr_findings n))) (int (length (nr_evidence n)))
       (pq_limits q) = Inr ()"
    "pipeline_classifications w q (nr_findings n) = Inr cs"
    "pipeline_findings w q (nr_findings n) = Inr fs"
    "assemble_bundle w q (semgrep_provider (pw_host w) m) sid v n fs cs = Inr b"
    "publishable (pw_schema w) b"
proof -
  obtain m p sid v n cs fs r where
    p: "resolve_provider (pw_host w) (pw_tree w) ''semgrep'' (pipeline_mode q)
          (pq_repository_root q) m = Inr p"
    and s: "pipeline_snapshot_id w q = Inr sid" "pipeline_version p q = Inr v"
    "pipeline_normalization w p q
       \<lparr>nc_snapshot_id = sid, nc_repository_root = pq_repository_root q,
        nc_provider_version = v, nc_required = pq_required q\<rparr> = Inr n"
    "validate_record_counts (int (length (nr_findings n))) (int (length (nr_evidence n)))
       (pq_limits q) = Inr ()"
    "pipeline_classifications w q (nr_findings n) = Inr cs"
    "pipeline_findings w q (nr_findings n) = Inr fs"
    "assemble_bundle w q p sid v n fs cs = Inr b"
    and r: "validate_bundle (pw_schema w) b = Inr r" "require_valid r = Inr ()"
      "redaction_require_valid (validate_redaction (bundle_to_dict b)) = Inr ()"
    using assms unfolding pipeline_bundle_def and_then_eq_Inr by auto
  have "publishable (pw_schema w) b"
    using r publication_checks by blast
  with s resolve_provider_Inr(1) [OF p] show thesis
    by (intro that) simp_all
qed

subsection \<open>Findings and classifications of a published bundle\<close>

text \<open>Remediation changes at most the remediation class of a finding.\<close>

definition same_finding :: "finding \<Rightarrow> finding \<Rightarrow> bool" where
  "same_finding f f' \<longleftrightarrow> (\<exists>v. f' = f\<lparr>fn_remediation_class := v\<rparr>)"

lemma same_finding_fields:
  assumes "list_all2 same_finding fs fs'"
  shows "map fn_finding_id fs' = map fn_finding_id fs"
    and "map fn_canonical_rule_id fs' = map fn_canonical_rule_id fs"
    and "list_all valid_finding fs' \<longleftrightarrow> list_all valid_finding fs"
  using assms
  by (induction rule: list_all2_induct) (auto simp: same_finding_def valid_finding_def)

lemma pipeline_findings_Inr:
  assumes "pipeline_findings w q fs = Inr fs'"
  shows "list_all2 same_finding fs fs'"
proof -
  have same: "same_finding f f'" if "apply_remediation m f = Inr f'" for m f f'
    using apply_remediation_Inr [OF that]
    by (auto simp: same_finding_def intro: exI [of _ "fn_remediation_class f"])
  have refl: "same_finding f f" for f
    by (simp add: same_finding_def exI [of _ "fn_remediation_class f"])
  from assms show ?thesis
    by (auto simp: pipeline_findings_def and_then_eq_Inr apply_remediation_classes_def
        map_res_eq_Inr_iff refl list_all2_same same intro: list_all2_mono split: option.splits)
qed

lemma pipeline_classifications_Inr:
  assumes "pipeline_classifications w q fs = Inr cs"
  shows "list_all valid_classification cs"
    and "pq_policy_path q \<noteq> None \<Longrightarrow> map fc_finding_id cs = sort (map fn_finding_id fs)"
    and "pq_strict q \<Longrightarrow> unresolved_findings fs = []"
    and "pq_strict q \<Longrightarrow> map fc_finding_id cs = sort (map fn_finding_id fs)"
    and "pq_strict q \<Longrightarrow> c \<in> set cs \<Longrightarrow> fc_mode c \<noteq> Unresolved_Mode"
proof -
  obtain u policy where u: "pq_strict q \<Longrightarrow> unresolved_findings fs = []"
    and p: "load_optional w finding_policy_load (pq_policy_path q) = Inr policy"
    and cs: "(case policy of
       Some p \<Rightarrow>
         and_then (classify_findings fs p (pq_strict q)) (\<lambda>r. Inr (cr_classifications r))
     | None \<Rightarrow>
         if pq_strict q \<and> fs \<noteq> [] then
           Inl (ValueError ''strict mode requires a policy for non-empty findings'')
         else Inr []) = Inr cs"
    using assms by (auto simp: pipeline_classifications_def and_then_eq_Inr split: if_splits)
  show "pq_strict q \<Longrightarrow> unresolved_findings fs = []"
    by (rule u)
  show "list_all valid_classification cs"
    using cs by (auto simp: and_then_eq_Inr classify_findings_shape split: option.splits if_splits)
  show "pq_policy_path q \<noteq> None \<Longrightarrow> map fc_finding_id cs = sort (map fn_finding_id fs)"
    using cs p by (auto simp: load_optional_Inr and_then_eq_Inr classify_findings_shape
        split: option.splits)
  show "pq_strict q \<Longrightarrow> map fc_finding_id cs = sort (map fn_finding_id fs)"
    using cs by (auto simp: and_then_eq_Inr classify_findings_shape split: option.splits if_splits)
  show "fc_mode c \<noteq> Unresolved_Mode" if st: "pq_strict q" and c: "c \<in> set cs"
  proof (cases policy)
    case None
    with cs c show ?thesis by (simp split: if_splits)
  next
    case (Some p)
    then obtain r where r: "classify_findings fs p True = Inr r" "cs = cr_classifications r"
      using cs st by (auto simp: and_then_eq_Inr)
    have "cr_unresolved_finding_ids r = []"
      using classify_findings_shape(5) [OF r(1)] by simp
    then have "{fc_finding_id c |c. c \<in> set (cr_classifications r) \<and> fc_mode c = Unresolved_Mode} = {}"
      using classify_findings_shape(4) [OF r(1)] by simp
    then show ?thesis
      using c r(2) by auto
  qed
qed

lemma pipeline_bundle_facts:
  assumes "pipeline_bundle w q = Inr b"
  shows "valid_bundle b" and "publishable (pw_schema w) b"
    and "\<exists>c. fb_coverage b = [c] \<and> cv_provider_id c = ''semgrep'' \<and>
           (cv_status c = Cov_Complete \<longrightarrow> fb_provider_failures b = [])"
    and "\<exists>p. fb_providers b = [p] \<and> pr_provider_id p = ''semgrep'' \<and> pr_required p = pq_required q"
    and "list_all (\<lambda>f. pf_required f = pq_required q \<and> pf_fatal f = pq_required q) (fb_provider_failures b)"
    and "pq_policy_path q \<noteq> None \<or> pq_strict q \<Longrightarrow>
           map fc_finding_id (fb_classifications b) = sort (map fn_finding_id (fb_findings b))"
    and "pq_strict q \<Longrightarrow> \<not> has_mode Unresolved_Mode b"
    and "pq_strict q \<Longrightarrow> list_all (\<lambda>f. fn_canonical_rule_id f \<noteq> PNone) (fb_findings b)"
    and "int (length (fb_findings b)) \<le> ol_finding_count_limit (pq_limits q)"
    and "int (length (fb_evidence b)) \<le> ol_evidence_count_limit (pq_limits q)"
proof -
  obtain m sid v n cs fs where
    n: "pipeline_normalization w (semgrep_provider (pw_host w) m) q
       \<lparr>nc_snapshot_id = sid, nc_repository_root = pq_repository_root q,
        nc_provider_version = v, nc_required = pq_required q\<rparr> = Inr n"
    and counts: "validate_record_counts (int (length (nr_findings n))) (int (length (nr_evidence n)))
       (pq_limits q) = Inr ()"
    and cs: "pipeline_classifications w q (nr_findings n) = Inr cs"
    and fs: "pipeline_findings w q (nr_findings n) = Inr fs"
    and b: "assemble_bundle w q (semgrep_provider (pw_host w) m) sid v n fs cs = Inr b"
    and pub: "publishable (pw_schema w) b"
    using pipeline_bundle_Inr [OF assms] by metis
  note b = b [unfolded assemble_bundle_Inr]
  note sound = pipeline_normalization_sound [OF n, unfolded normalization_sound_def]
  note same = pipeline_findings_Inr [OF fs]
  note sf = same_finding_fields [OF same]
  have len: "length fs = length (nr_findings n)"
    using same by (simp add: list_all2_lengthD)
  show "publishable (pw_schema w) b" by (rule pub)
  show "valid_bundle b"
    using b sound pipeline_classifications_Inr(1) [OF cs] sf(3)
    by (auto simp: valid_bundle_def list_all_iff)
  show "\<exists>c. fb_coverage b = [c] \<and> cv_provider_id c = ''semgrep'' \<and>
           (cv_status c = Cov_Complete \<longrightarrow> fb_provider_failures b = [])"
    using b sound by auto
  show "\<exists>p. fb_providers b = [p] \<and> pr_provider_id p = ''semgrep'' \<and> pr_required p = pq_required q"
    using b by auto
  show "list_all (\<lambda>f. pf_required f = pq_required q \<and> pf_fatal f = pq_required q) (fb_provider_failures b)"
    using b sound by (auto simp: list_all_iff)
  show "map fc_finding_id (fb_classifications b) = sort (map fn_finding_id (fb_findings b))"
    if "pq_policy_path q \<noteq> None \<or> pq_strict q"
    using b that pipeline_classifications_Inr(2,4) [OF cs] sf(1) by auto
  show "\<not> has_mode Unresolved_Mode b" if "pq_strict q"
    using b pipeline_classifications_Inr(5) [OF cs that] by (auto simp: has_mode_def)
  show "list_all (\<lambda>f. fn_canonical_rule_id f \<noteq> PNone) (fb_findings b)" if "pq_strict q"
  proof -
    have "PNone \<notin> fn_canonical_rule_id ` set (nr_findings n)"
      using pipeline_classifications_Inr(3) [OF cs that]
      by (auto simp: unresolved_findings_def filter_empty_conv)
    then have "PNone \<notin> set (map fn_canonical_rule_id fs)"
      using sf(2) by (metis list.set_map)
    then show ?thesis
      using b by (auto simp: list_all_iff image_iff)
  qed
  show "int (length (fb_findings b)) \<le> ol_finding_count_limit (pq_limits q)"
    "int (length (fb_evidence b)) \<le> ol_evidence_count_limit (pq_limits q)"
    using b counts len by auto
qed

subsection \<open>A concrete call\<close>

definition sample_host :: semgrep_host where
  "sample_host =
     \<lparr>sh_which = Some ''/bin/semgrep'', sh_version_run = Inr (0, ''1.120.0'', []),
      sh_exists = (\<lambda>_. True), sh_is_dir = (\<lambda>_. True), sh_environ = [],
      sh_run = (\<lambda>_ _ _ _. Completed 0 [] [] (Some 2)),
      sh_read = (\<lambda>_. Report_Json (PDict
        [(PStr ''results'', PList []), (PStr ''errors'', PList []),
         (PStr ''paths'', PDict [(PStr ''scanned'', PList [PStr ''a.py''])])]))\<rparr>"

definition sample_world :: pipeline_world where
  "sample_world =
     \<lparr>pw_host = sample_host, pw_git = (\<lambda>_ _. (1, [], [])), pw_environ = [],
      pw_tree = \<lparr>rt_root = ''/r'', rt_exists = True, rt_is_dir = True, rt_paths = [([''a.py''], True)]\<rparr>,
      pw_yaml = (\<lambda>_. Inl (FileNotFoundError ''no such file'')), pw_report_size = (\<lambda>_. Some 2),
      pw_now = ''2026-01-01T00:00:00Z'', pw_schema = (\<lambda>_. [])\<rparr>"

definition sample_request :: pipeline_request where
  "sample_request =
     \<lparr>pq_report_path = ''report.json'', pq_repository_root = ''/r'', pq_SDK_version = ''1.0.0'',
      pq_output_path = ''out.json'', pq_snapshot_id = Some ''s1'', pq_provider_version = None,
      pq_identity_map_path = None, pq_policy_path = None, pq_strict = True, pq_required = True,
      pq_generated_at = None, pq_revision = None, pq_dirty = None, pq_derive_snapshot = False,
      pq_limits = default_limits, pq_execute = True, pq_timeout_seconds = 300,
      pq_output_size_limit_bytes = 50000000, pq_execution_arguments = [],
      pq_remediation_map_path = None\<rparr>"

definition sample_published :: finding_bundle where
  "sample_published =
     \<lparr>fb_SDK_version = ''1.0.0'',
      fb_snapshot = \<lparr>sd_snapshot_id = ''s1'', sd_repository_root = ''.'', sd_revision = PNone, sd_dirty = PNone\<rparr>,
      fb_providers = [\<lparr>pr_provider_id = ''semgrep'', pr_adapter_version = ''1.0.0'',
        pr_provider_version = PStr ''1.120.0'', pr_mode = ''execute'', pr_required = True\<rparr>],
      fb_evidence = [], fb_findings = [], fb_classifications = [], fb_provider_failures = [],
      fb_coverage = [\<lparr>cv_provider_id = ''semgrep'', cv_status = Cov_Complete, cv_files_considered = 1,
        cv_files_analyzed = 1, cv_limitations = []\<rparr>],
      fb_limitations = [], fb_generated_at = ''2026-01-01T00:00:00Z'',
      fb_schema = FINDING_BUNDLE_PROTOCOL, fb_schema_version = FINDING_BUNDLE_SCHEMA_VERSION\<rparr>"

definition sample_context :: normalization_context where
  "sample_context =
     \<lparr>nc_snapshot_id = ''s1'', nc_repository_root = ''/r'',
      nc_provider_version = Some ''1.120.0'', nc_required = True\<rparr>"

definition sample_normalization :: normalization_result where
  "sample_normalization =
     \<lparr>nr_evidence = [], nr_findings = [], nr_coverage = hd (fb_coverage sample_published),
      nr_failures = [], nr_limitations = []\<rparr>"

lemma sample_resolved: "\<exists>c. detect_repository_capabilities (pw_tree sample_world) = Inr c"
  by (simp add: detect_repository_capabilities_def enumerate_repository_files_def sample_world_def Let_def)

lemma sample_version: "supported_version ''1.120.0'' = Inr ''1.120.0''"
  by code_simp

lemma sample_config: "require_supported_semgrep_version DEFAULT_SEMGREP_VERSION_POLICY ''1.120.0'' = Inr (SemanticVersion 1 120 0)"
  by code_simp

lemma sample_normalize:
  "semgrep_normalize None [(PStr ''results'', PList []), (PStr ''errors'', PList []),
         (PStr ''paths'', PDict [(PStr ''scanned'', PList [PStr ''a.py''])])] sample_context = Inr sample_normalization"
  by code_simp

lemma sample_validation: "validate_bundle (\<lambda>_. []) sample_published = Inr \<lparr>vr_valid = True, vr_errors = []\<rparr>"
  by code_simp

lemma sample_redaction: "redaction_walk ''<root>'' (PDict (bundle_to_dict sample_published)) = []"
  by code_simp

lemma sample_bytes: "\<exists>s. bundle_bytes sample_published = Inr s"
proof -
  have "\<not> isl (bundle_bytes sample_published)"
    by code_simp
  then show ?thesis
    by (cases "bundle_bytes sample_published") simp_all
qed

lemma sample_pipeline: "pipeline_bundle sample_world sample_request = Inr sample_published"
proof -
  have r: "resolve_provider (pw_host sample_world) (pw_tree sample_world) ''semgrep'' mode root None =
      Inr (semgrep_provider sample_host None)" for mode root
    using sample_resolved by (auto simp: resolve_provider_semgrep) (simp add: sample_world_def)
  have d: "pv_detect_version (semgrep_provider sample_host None) = Inr (Some ''1.120.0'')"
    by code_simp
  have e: "execute_and_normalize (semgrep_provider sample_host None)
      \<lparr>er_repository_root = ''/r'', er_output_path = ''report.json'', er_timeout_seconds = 300,
       er_output_size_limit_bytes = 50000000, er_environment = [], er_arguments = []\<rparr>
      sample_context = Inr sample_normalization"
    by code_simp
  have v: "validate_redaction (bundle_to_dict sample_published) = \<lparr>rd_valid = True, rd_errors = []\<rparr>"
    using sample_redaction by (simp add: validate_redaction_def sorted_set_def)
  have a: "assemble_bundle sample_world sample_request (semgrep_provider sample_host None) ''s1''
      (Some ''1.120.0'') sample_normalization [] [] = Inr sample_published"
    by code_simp
  have n: "pipeline_normalization sample_world (semgrep_provider sample_host None) sample_request
      sample_context = Inr sample_normalization"
    using e by (simp add: pipeline_normalization_def sample_request_def execution_request_post_init_def)
  have "pipeline_version (semgrep_provider sample_host None) sample_request = Inr (Some ''1.120.0'')"
    using d sample_version by (simp add: pipeline_version_def sample_request_def)
  moreover have "pq_identity_map_path sample_request = None" "pw_host sample_world = sample_host"
    "pw_schema sample_world = (\<lambda>_. [])"
    by (simp_all add: sample_request_def sample_world_def)
  moreover have "pipeline_snapshot_id sample_world sample_request = Inr ''s1''"
    by (simp add: pipeline_snapshot_id_def sample_request_def)
  moreover have "\<lparr>nc_snapshot_id = ''s1'', nc_repository_root = pq_repository_root sample_request,
      nc_provider_version = Some ''1.120.0'', nc_required = pq_required sample_request\<rparr> = sample_context"
    by (simp add: sample_context_def sample_request_def)
  moreover have "nr_findings sample_normalization = []" "nr_evidence sample_normalization = []"
    by (simp_all add: sample_normalization_def)
  moreover have "\<not> ol_finding_count_limit (pq_limits sample_request) < 0"
    "\<not> ol_evidence_count_limit (pq_limits sample_request) < 0"
    by (simp_all add: sample_request_def default_limits_def)
  moreover have "pipeline_classifications sample_world sample_request [] = Inr []"
    "pipeline_findings sample_world sample_request [] = Inr []"
    by (simp_all add: pipeline_classifications_def pipeline_findings_def load_optional_def
        unresolved_findings_def sample_request_def)
  moreover have "require_valid \<lparr>vr_valid = True, vr_errors = []\<rparr> = Inr ()"
    "redaction_require_valid \<lparr>rd_valid = True, rd_errors = []\<rparr> = Inr ()"
    by (simp_all add: require_valid_def redaction_require_valid_def)
  ultimately show ?thesis
    using r n a v sample_validation
    by (simp add: pipeline_bundle_def load_optional_def validate_record_counts_def require_valid_def
        redaction_require_valid_def)
qed

text \<open>Every call can end: from \<open>Ready\<close> the write can always run to \<open>Returned\<close>.\<close>

lemma write_can_return:
  assumes "files tmp = None" "tmp \<noteq> dest"
  shows "(write_step content tmp dest)\<^sup>*\<^sup>* (Ready, files) (Returned, files(dest \<mapsto> content))"
proof -
  have "write_step content tmp dest (Ready, files) (Temp_Open 0, files(tmp \<mapsto> []))"
    using assms by (rule make_temp)
  moreover have "write_step content tmp dest (Temp_Open 0, files(tmp \<mapsto> [])) (Synced, files(tmp \<mapsto> content))"
    using fsync [of content tmp dest 0 "files(tmp \<mapsto> [])"] by simp
  moreover have "write_step content tmp dest (Synced, files(tmp \<mapsto> content)) (Renamed, files(dest \<mapsto> content))"
    using replace_dest [of content tmp dest "files(tmp \<mapsto> content)"] assms
    by (simp add: fun_upd_twist temp_gone [of files tmp])
  moreover have "write_step content tmp dest (Renamed, files(dest \<mapsto> content)) (Returned, files(dest \<mapsto> content))"
    using cleanup [of content tmp dest "files(dest \<mapsto> content)"] assms temp_gone [of files tmp]
    by (simp add: fun_upd_twist)
  ultimately show ?thesis
    by (meson converse_rtranclp_into_rtranclp rtranclp.rtrancl_refl)
qed

subsection \<open>Properties\<close>



text \<open>
  C19: the gate over a published bundle. When a policy was given the gate is never invalid, and its
  status is read off the one coverage record and the classifications: a required provider without
  complete coverage makes it incomplete (so does every provider failure, since coverage with a
  failure is never complete), otherwise blocking findings fail it; strictly published bundles have
  no unresolved classification and no finding without a canonical rule id.
\<close>

theorem pipeline_gate:
  assumes "pipeline_bundle w q = Inr b" and "pq_policy_path q \<noteq> None \<or> pq_strict q"
  shows "\<exists>c. fb_coverage b = [c] \<and>
    gr_status (evaluate_gate b strict) =
      (if pq_required q \<and> cv_status c \<noteq> Cov_Complete then Gate_Incomplete
       else if has_mode Blocking b then Gate_Fail
       else if strict \<and> has_mode Unresolved_Mode b then Gate_Incomplete
       else Gate_Pass) \<and>
    (pq_strict q \<longrightarrow> \<not> has_mode Unresolved_Mode b \<and>
       list_all (\<lambda>f. fn_canonical_rule_id f \<noteq> PNone) (fb_findings b))"
proof -
  note facts = pipeline_bundle_facts [OF assms(1)]
  obtain c where c: "fb_coverage b = [c]" "cv_provider_id c = ''semgrep''"
    "cv_status c = Cov_Complete \<Longrightarrow> fb_provider_failures b = []"
    using facts(3) by blast
  obtain p where p: "fb_providers b = [p]" "pr_provider_id p = ''semgrep''" "pr_required p = pq_required q"
    using facts(4) by blast
  have "fc_finding_id ` set (fb_classifications b) = fn_finding_id ` set (fb_findings b)"
    using arg_cong [OF facts(6) [OF assms(2)], of set] by simp
  then have all: "every_finding_classified b"
    unfolding every_finding_classified_def by (metis image_iff)
  have cov: "required_coverage_complete b \<longleftrightarrow> (pq_required q \<longrightarrow> cv_status c = Cov_Complete)"
    using c p by (simp add: required_coverage_complete_def dict_by_def)
  have free: "required_failure_free b" if "pq_required q \<longrightarrow> cv_status c = Cov_Complete"
    using facts(5) c(3) that by (auto simp: required_failure_free_def list_all_iff)
  show ?thesis
    using all cov free c(1) facts(7,8) by (auto simp: evaluate_gate_status gate_verdict_def)
qed

theorem pipeline_gate_witness:
  "gr_status (evaluate_gate sample_published True) = Gate_Pass \<and>
   gr_status (evaluate_gate sample_published False) = Gate_Pass"
proof -
  have st: "pq_policy_path sample_request \<noteq> None \<or> pq_strict sample_request"
    by (simp add: sample_request_def)
  show ?thesis
    using pipeline_gate [OF sample_pipeline st, of True] pipeline_gate [OF sample_pipeline st, of False]
    by (auto simp: sample_published_def has_mode_def)
qed

text \<open>
  The version gate of the pipeline. A published bundle names either no Semgrep version, which
  only an execution whose version could not be detected can do and which then has failed coverage
  and no finding, or a version text that parses into the supported range from 1.100.0 up to but
  not including 2.0.0.
\<close>

theorem pipeline_version_supported:
  assumes "pipeline_bundle w q = Inr b"
  shows "\<exists>p c. fb_providers b = [p] \<and> fb_coverage b = [c] \<and>
    (pr_provider_version p = PNone \<and> pq_execute q \<and> cv_status c = Cov_Failed \<and> fb_findings b = [] \<or>
     (\<exists>raw v. pr_provider_version p = PStr (py_strip raw) \<and> parse_semgrep_version raw = Inr v \<and>
        SemanticVersion 1 100 0 \<le> v \<and> v < SemanticVersion 2 0 0))"
proof -
  obtain m sid v n cs fs where
    ver: "pipeline_version (semgrep_provider (pw_host w) m) q = Inr v"
    and n: "pipeline_normalization w (semgrep_provider (pw_host w) m) q
       \<lparr>nc_snapshot_id = sid, nc_repository_root = pq_repository_root q,
        nc_provider_version = v, nc_required = pq_required q\<rparr> = Inr n"
    and fs: "pipeline_findings w q (nr_findings n) = Inr fs"
    and b: "assemble_bundle w q (semgrep_provider (pw_host w) m) sid v n fs cs = Inr b"
    using pipeline_bundle_Inr [OF assms] by metis
  note b = b [unfolded assemble_bundle_Inr]
  show ?thesis
  proof (cases v)
    case None
    then have ex: "pq_execute q"
      using ver by (auto simp: pipeline_version_def and_then_eq_Inr split: if_splits option.splits)
    then obtain req where "execute_and_normalize (semgrep_provider (pw_host w) m) req
       \<lparr>nc_snapshot_id = sid, nc_repository_root = pq_repository_root q,
        nc_provider_version = None, nc_required = pq_required q\<rparr> = Inr n"
      using n None by (auto simp: pipeline_normalization_def and_then_eq_Inr)
    then have "cv_status (nr_coverage n) = Cov_Failed \<and> nr_findings n = []"
      using semgrep.execute_and_normalize_sound by (fastforce simp: failed_closed_def)
    then show ?thesis
      using b ex None pipeline_findings_Inr [OF fs] by auto
  next
    case (Some s)
    then obtain raw where "supported_version raw = Inr s"
      using ver by (auto simp: pipeline_version_def and_then_eq_Inr split: if_splits option.splits)
    then show ?thesis
      using b Some by (auto simp: supported_version_Inr)
  qed
qed

theorem pipeline_version_supported_witness:
  "\<exists>raw v. ''1.120.0'' = py_strip raw \<and> parse_semgrep_version raw = Inr v \<and> v < SemanticVersion 2 0 0"
  using pipeline_version_supported [OF sample_pipeline] by (auto simp: sample_published_def)

end
