(* ===== verification/Bundle_Digest.thy ===== *)
theory Bundle_Digest
  imports Serializer
begin

text \<open>
  \<open>FindingBundle.canonical_digest\<close> and \<open>_canonicalize\<close> of \<open>l9_ci/contracts/bundle.py\<close>: the content
  identity of a bundle. \<open>_canonicalize\<close> sorts every list by the JSON text of its canonical items;
  the digest leaves \<open>generated_at\<close> out.
\<close>

fun sort_lists :: "pyval \<Rightarrow> pyval result" where
  "sort_lists (PDict kvs) =
     and_then (map_res (\<lambda>(k, v). and_then (sort_lists v) (\<lambda>w. Inr (k, w))) kvs) (\<lambda>es.
     Inr (PDict es))"
| "sort_lists (PList xs) =
     and_then (map_res sort_lists xs) (\<lambda>items.
     and_then (map_res (json_dumps False) items) (\<lambda>texts.
     Inr (PList (map fst (sort_key snd (zip items texts))))))"
| "sort_lists v = Inr v"

definition canonical_text :: "pyval \<Rightarrow> string result" where
  "canonical_text v = and_then (sort_lists v) (json_dumps False)"

definition digest_payload :: "finding_bundle \<Rightarrow> pydict" where
  "digest_payload b = filter (\<lambda>(k, _). k \<noteq> PStr ''generated_at'') (bundle_to_dict b)"

definition canonical_digest :: "finding_bundle \<Rightarrow> string result" where
  "canonical_digest b =
     and_then (canonical_text (PDict (digest_payload b))) (\<lambda>text.
     Inr (sha256_hexdigest (utf8_encode text)))"

subsection \<open>The text depends on the items of a list, not on their order\<close>

lemma map_snd_sort_key_zip:
  "length xs = length ys \<Longrightarrow> map snd (sort_key snd (zip xs ys)) = sort ys"
proof (rule properties_for_sort [symmetric])
  assume "length xs = length ys"
  moreover have "mset (map snd (sort_key snd (zip xs ys))) = mset (map snd (zip xs ys))"
    by (simp only: mset_map mset_sort)
  ultimately show "mset (map snd (sort_key snd (zip xs ys))) = mset ys"
    by simp
qed simp

lemma canonical_text_PList:
  assumes "map_res canonical_text xs = Inr texts"
  shows "canonical_text (PList xs) = Inr ([CHR 0x5B] @ join '','' (sort texts) @ [CHR 0x5D])"
proof -
  have "\<exists>items. map_res sort_lists xs = Inr items \<and> map_res (json_dumps False) items = Inr texts"
    using assms by (simp only: canonical_text_def [abs_def] map_res_compose)
  then obtain items where i: "map_res sort_lists xs = Inr items"
    and t: "map_res (json_dumps False) items = Inr texts"
    by blast
  let ?s = "sort_key snd (zip items texts)"
  have "\<forall>(x, y) \<in> set ?s. json_dumps False x = Inr y"
    using map_res_zip [OF t] by simp
  then have "map_res (json_dumps False) (map fst ?s) = Inr (map snd ?s)"
    by (simp add: map_res_pairs)
  moreover have "map snd ?s = sort texts"
    using map_res_length [OF t] by (intro map_snd_sort_key_zip) simp
  ultimately show ?thesis
    by (simp add: canonical_text_def i t)
qed

lemma canonical_text_order:
  assumes "map_res canonical_text xs = Inr texts" "mset xs' = mset xs"
  shows "canonical_text (PList xs') = canonical_text (PList xs)"
proof -
  obtain texts' where t: "map_res canonical_text xs' = Inr texts'" "mset texts' = mset texts"
    using map_res_mset [OF assms] by blast
  have "sort texts' = sort texts"
    by (rule properties_for_sort) (simp_all add: t(2))
  then show ?thesis
    by (simp only: canonical_text_PList [OF assms(1)] canonical_text_PList [OF t(1)])
qed

lemma canonical_text_InrI:
  "canonical_text v = Inr t \<Longrightarrow> \<exists>w. sort_lists v = Inr w \<and> (\<exists>t. json_dumps False w = Inr t)"
  by (auto simp: canonical_text_def and_then_eq_Inr)

text \<open>The text of a dictionary with string keys.\<close>

definition entry_text :: "pyval \<times> pyval \<Rightarrow> (string \<times> string) result" where
  "entry_text e =
     and_then (json_key (fst e)) (\<lambda>k. and_then (canonical_text (snd e)) (\<lambda>t. Inr (k, t)))"

definition dict_text :: "(string \<times> string) list \<Rightarrow> string" where
  "dict_text entries =
     [CHR 0x7B] @
     join '','' (map (\<lambda>(k, t). json_string False k @ '':'' @ t) (sort_key fst entries)) @ [CHR 0x7D]"

lemma canonical_text_PDict:
  assumes "map_res entry_text kvs = Inr entries"
  shows "canonical_text (PDict kvs) = Inr (dict_text entries)"
proof -
  let ?f = "\<lambda>(k, v). and_then (sort_lists v) (\<lambda>w. Inr (k, w))"
  let ?g = "\<lambda>(k, v). and_then (json_key k) (\<lambda>key. and_then (json_dumps False v) (\<lambda>text. Inr (key, text)))"
  have "map_res (\<lambda>e. and_then (?f e) ?g) kvs = Inr entries"
    using assms
    by (subst map_res_Inr_cong [of _ _ entry_text])
      (auto simp: and_then_eq_Inr entry_text_def canonical_text_def)
  then obtain es where "map_res ?f kvs = Inr es" "map_res ?g es = Inr entries"
    unfolding map_res_compose by blast
  then show ?thesis
    by (auto simp: canonical_text_def dict_text_def)
qed

lemma sort_lists_total: "json_value v \<Longrightarrow> \<exists>w. sort_lists v = Inr w \<and> (\<exists>t. json_dumps False w = Inr t)"
proof (induction v)
  case (PList xs)
  then have "\<forall>x \<in> set xs. \<exists>t. canonical_text x = Inr t"
    by (fastforce simp: list_all_iff canonical_text_def)
  then obtain texts where "map_res canonical_text xs = Inr texts"
    by (metis map_res_ex)
  then show ?case
    by (rule canonical_text_InrI [OF canonical_text_PList])
next
  case (PDict kvs)
  have "\<exists>r. entry_text e = Inr r" if e: "e \<in> set kvs" for e
  proof -
    obtain k v where kv: "e = (k, v)" by (cases e)
    with PDict.prems e have "is_str k" "json_value v"
      by (auto simp: list_all_iff)
    moreover from this obtain w t where "sort_lists v = Inr w" "json_dumps False w = Inr t"
      using PDict.IH [of "(k, v)" v] e kv by fastforce
    ultimately show ?thesis
      by (cases k) (simp_all add: entry_text_def canonical_text_def kv)
  qed
  then obtain entries where "map_res entry_text kvs = Inr entries"
    by (metis map_res_ex)
  then show ?case
    by (rule canonical_text_InrI [OF canonical_text_PDict])
qed auto

lemma canonical_text_total: "json_value v \<Longrightarrow> \<exists>t. canonical_text v = Inr t"
  using sort_lists_total by (fastforce simp: canonical_text_def)

lemma canonical_text_json_list:
  assumes "json_value (PList xs)" "mset xs' = mset xs"
  shows "canonical_text (PList xs') = canonical_text (PList xs)"
proof -
  have "\<forall>x \<in> set xs. \<exists>t. canonical_text x = Inr t"
    using assms(1) canonical_text_total by (auto simp: list_all_iff)
  then obtain texts where "map_res canonical_text xs = Inr texts"
    by (metis map_res_ex)
  then show ?thesis
    using assms(2) by (rule canonical_text_order)
qed

text \<open>Entries with the same keys and the same texts give the same text.\<close>

lemma canonical_text_entries:
  assumes "json_value (PDict kvs)" and "map entry_text kvs' = map entry_text kvs"
  shows "canonical_text (PDict kvs') = canonical_text (PDict kvs)"
proof -
  have j: "list_all (\<lambda>(k, v). is_str k \<and> json_value v) kvs"
    using assms(1) by simp
  have "\<exists>r. entry_text e = Inr r" if "e \<in> set kvs" for e
  proof -
    obtain k v where e: "e = (k, v)" by (cases e)
    then have "is_str k" "json_value v"
      using j that by (auto simp: list_all_iff)
    then show ?thesis
      using canonical_text_total [of v] by (cases k) (auto simp: entry_text_def e)
  qed
  then obtain entries where e: "map_res entry_text kvs = Inr entries"
    by (metis map_res_ex)
  moreover have "map_res entry_text kvs' = Inr entries"
    using map_res_map_cong [OF assms(2)] e by simp
  ultimately show ?thesis
    by (simp only: canonical_text_PDict)
qed

subsection \<open>The digest\<close>

lemma digest_payload_entries:
  "digest_payload b =
     [(PStr ''schema'', PStr (fb_schema b)),
      (PStr ''schema_version'', PStr (fb_schema_version b)),
      (PStr ''SDK_version'', PStr (fb_SDK_version b)),
      (PStr ''snapshot'', PDict (snapshot_descriptor_to_dict (fb_snapshot b))),
      (PStr ''providers'', encode_items provider_run_to_dict (fb_providers b)),
      (PStr ''evidence'', encode_items evidence_to_dict (fb_evidence b)),
      (PStr ''findings'', encode_items finding_to_dict (fb_findings b)),
      (PStr ''classifications'', encode_items classification_to_dict (fb_classifications b)),
      (PStr ''provider_failures'', encode_items provider_failure_to_dict (fb_provider_failures b)),
      (PStr ''coverage'', encode_items coverage_to_dict (fb_coverage b)),
      (PStr ''limitations'', encode_strs (fb_limitations b)),
      (PStr ''summary'', PDict (bundle_summary b))]"
  by (simp add: digest_payload_def bundle_to_dict_def)

lemma canonical_text_items:
  assumes "json_value (encode_items f xs)" "mset xs' = mset xs"
  shows "canonical_text (encode_items f xs') = canonical_text (encode_items f xs)"
  using assms unfolding encode_items_def
  by (intro canonical_text_json_list) (simp_all only: mset_map)

lemma canonical_text_strs:
  assumes "mset ss' = mset ss"
  shows "canonical_text (encode_strs ss') = canonical_text (encode_strs ss)"
  using assms unfolding encode_strs_def
  by (intro canonical_text_json_list) (simp_all only: mset_map list_all_iff set_map json_value.simps, simp)

lemma bundle_summary_reordered: "reordered b b' \<Longrightarrow> bundle_summary b' = bundle_summary b"
  by (auto simp: reordered_def bundle_summary_def dest!: mset_eq_length)

lemma digest_payload_reordered:
  assumes "json_value (PDict (digest_payload b))" "reordered b b'"
  shows "canonical_text (PDict (digest_payload (b'\<lparr>fb_generated_at := t\<rparr>))) =
    canonical_text (PDict (digest_payload b))"
proof (rule canonical_text_entries [OF assms(1)])
  obtain ps es fs cs pfs cvs ls where
    b': "b' = b\<lparr>fb_providers := ps, fb_evidence := es, fb_findings := fs, fb_classifications := cs,
               fb_provider_failures := pfs, fb_coverage := cvs, fb_limitations := ls\<rparr>"
    and m: "mset ps = mset (fb_providers b)" "mset es = mset (fb_evidence b)"
      "mset fs = mset (fb_findings b)" "mset cs = mset (fb_classifications b)"
      "mset pfs = mset (fb_provider_failures b)" "mset cvs = mset (fb_coverage b)"
      "mset ls = mset (fb_limitations b)"
    using assms(2) unfolding reordered_def by metis
  have s: "bundle_summary (b'\<lparr>fb_generated_at := t\<rparr>) = bundle_summary b"
    using bundle_summary_reordered [OF assms(2)] by (simp add: bundle_summary_def)
  have j: "json_value (encode_items provider_run_to_dict (fb_providers b))"
    "json_value (encode_items evidence_to_dict (fb_evidence b))"
    "json_value (encode_items finding_to_dict (fb_findings b))"
    "json_value (encode_items classification_to_dict (fb_classifications b))"
    "json_value (encode_items provider_failure_to_dict (fb_provider_failures b))"
    "json_value (encode_items coverage_to_dict (fb_coverage b))"
    using assms(1) by (simp_all add: digest_payload_entries)
  show "map entry_text (digest_payload (b'\<lparr>fb_generated_at := t\<rparr>)) = map entry_text (digest_payload b)"
    by (simp add: digest_payload_entries entry_text_def s)
      (simp add: b' canonical_text_items [OF j(1) m(1)] canonical_text_items [OF j(2) m(2)]
        canonical_text_items [OF j(3) m(3)] canonical_text_items [OF j(4) m(4)]
        canonical_text_items [OF j(5) m(5)] canonical_text_items [OF j(6) m(6)]
        canonical_text_strs [OF m(7)])
qed

subsection \<open>Properties\<close>

text \<open>
  C8: the digest identifies the content of a bundle. For a bundle whose dictionary is a JSON value,
  the canonical digest exists, and any bundle with the same records in any order and any other
  generation time has the same digest.
\<close>

theorem canonical_digest_order_independent:
  assumes "json_value (PDict (digest_payload b))" and "reordered b b'"
  shows "\<exists>digest. canonical_digest b = Inr digest \<and>
    canonical_digest (b'\<lparr>fb_generated_at := t\<rparr>) = Inr digest"
proof -
  obtain out where "canonical_text (PDict (digest_payload b)) = Inr out"
    using canonical_text_total [OF assms(1)] by blast
  then show ?thesis
    using digest_payload_reordered [OF assms, of t] by (simp add: canonical_digest_def)
qed

theorem canonical_digest_order_independent_witness:
  "\<exists>digest. canonical_digest two_finding_bundle = Inr digest \<and>
     canonical_digest (two_finding_bundle\<lparr>fb_findings := rev (fb_findings two_finding_bundle),
       fb_generated_at := ''later''\<rparr>) = Inr digest"
proof -
  let ?b' = "two_finding_bundle\<lparr>fb_findings := rev (fb_findings two_finding_bundle)\<rparr>"
  have j: "json_value (PDict (digest_payload two_finding_bundle))"
    by code_simp
  have "reordered two_finding_bundle ?b'"
    unfolding reordered_def
    by (intro exI conjI) (auto simp: two_finding_bundle_def sample_bundle_def)
  from canonical_digest_order_independent [OF j this, of "''later''"] show ?thesis
    by simp
qed

end
