(* ===== verification/Observation.thy ===== *)
theory Observation
  imports Bundle_Digest Artifacts Integration_Checks
begin

text \<open>
  \<open>l9_ci/integration/observation.py\<close>: the observations the SDK hands to the assurance boundary. The
  errors of the JSON schema come from \<open>jsonschema\<close> and are a parameter, in the order of their paths;
  whether \<open>datetime.fromisoformat\<close> accepts a text is the parameter \<open>calendar\<close>. The counts and the
  attempt number are values, since the code tests their types.
\<close>

subsection \<open>Normalisation of the arguments\<close>

definition OBSERVATION_PROTOCOL :: string where
  "OBSERVATION_PROTOCOL = ''l9.observation''"

definition OBSERVATION_SCHEMA_VERSION :: string where
  "OBSERVATION_SCHEMA_VERSION = ''1.0.0''"

definition SUPPORTED_OBSERVATION_CHECKS :: "string list" where
  "SUPPORTED_OBSERVATION_CHECKS =
     [''l9.repository-metadata'', ''l9.transport-packet'', ''l9.sdk-validation'', ''l9.lint'',
      ''l9.tests'', ''l9.mandatory-findings'']"

definition EXECUTION_STATUSES :: "string list" where
  "EXECUTION_STATUSES = [''passed'', ''failed'', ''error'', ''skipped'']"

definition sha256_digest :: "string \<Rightarrow> pyval result" where
  "sha256_digest s =
     (let normalized = py_lower (py_strip s)
      in if length normalized \<noteq> 64 \<or> \<not> list_all lower_hex normalized then
           Inl (ValueError ''digest must be a lowercase 64-character sha256 hex value'')
         else Inr (PDict [(PStr ''algorithm'', PStr ''sha256''), (PStr ''value'', PStr normalized)]))"

definition parse_repository :: "string \<Rightarrow> (string \<times> string) result" where
  "parse_repository repository =
     (case split_on CHR ''/'' (py_strip repository) of
        [owner, name] \<Rightarrow>
          if owner \<noteq> [] \<and> name \<noteq> [] then Inr (owner, name)
          else Inl (ValueError ''repository must be owner/name'')
      | _ \<Rightarrow> Inl (ValueError ''repository must be owner/name''))"

text \<open>The revision of a bundle is a value; one that is no string has no \<open>strip\<close>.\<close>

fun validate_revision :: "pyval \<Rightarrow> string result" where
  "validate_revision (PStr revision) =
     (let v = py_lower (py_strip revision)
      in if length v \<notin> {40, 64} \<or> \<not> list_all lower_hex v then
           Inl (ValueError ''revision must be a full 40- or 64-character hex commit'')
         else Inr v)"
| "validate_revision v =
     Inl (AttributeError (repr_string (py_type_name v) @ '' object has no attribute '' @ repr_string ''strip''))"

subsection \<open>Validation\<close>

definition RFC3339_PATTERN :: regex where
  "RFC3339_PATTERN =
     (let d = Chars re_digit; dd = Times_re 2 d
      in Seqs [Times_re 4 d, Lit ''-'', dd, Lit ''-'', dd, Chars (\<lambda>c. c = CHR ''T'' \<or> c = CHR ''t''),
               dd, Lit '':'', dd, Lit '':'', dd, Opt_re (Seq_re (Lit ''.'') (Plus_re d)),
               Alt_re (Chars (\<lambda>c. c = CHR ''Z'' \<or> c = CHR ''z''))
                 (Seqs [Chars (\<lambda>c. c = CHR ''+'' \<or> c = CHR ''-''), dd, Lit '':'', dd]), At_end])"

definition observation_id :: "pydict \<Rightarrow> string result" where
  "observation_id payload =
     and_then (json_dumps False (PDict payload)) (\<lambda>text.
     Inr (''sha256:'' @ sha256_hexdigest (utf8_encode text)))"

type_synonym calendar = "string \<Rightarrow> bool"

definition timestamp_field_errors :: "calendar \<Rightarrow> pydict \<Rightarrow> string \<Rightarrow> string list" where
  "timestamp_field_errors calendar execution field =
     (let v = dget_none execution field;
          bad = [''execution/'' @ field @ '': '' @ py_repr v @ '' is not an RFC3339 date-time'']
      in case v of
           PStr s \<Rightarrow>
             if re_match RFC3339_PATTERN s = None then bad
             else if \<not> calendar s then
               [''execution/'' @ field @ '': '' @ py_repr v @ '' is not a valid calendar date-time'']
             else []
         | _ \<Rightarrow> bad)"

definition observation_timestamp_errors :: "calendar \<Rightarrow> pydict \<Rightarrow> string list" where
  "observation_timestamp_errors calendar payload =
     (case dget_none payload ''execution'' of
        PDict execution \<Rightarrow>
          concat (map (timestamp_field_errors calendar execution) [''startedAt'', ''completedAt''])
      | _ \<Rightarrow> [])"

definition bullet_list :: "string list \<Rightarrow> string" where
  "bullet_list items = join [CHR 0x0A] (map (\<lambda>i. ''- '' @ i) items)"

definition without_id :: "pydict \<Rightarrow> pydict" where
  "without_id payload = filter (\<lambda>(k, _). k \<noteq> PStr ''observationId'') payload"

definition validate_observation :: "schema_validator \<Rightarrow> calendar \<Rightarrow> pydict \<Rightarrow> unit result" where
  "validate_observation iter_errors calendar payload =
     (let errors = iter_errors payload
      in if errors \<noteq> [] then
           Inl (ValueError (''observation schema validation failed:'' @ [CHR 0x0A] @
             bullet_list (map render_schema_error errors)))
         else
           and_then (dsub payload ''observationId'') (\<lambda>declared_id.
           and_then (observation_id (without_id payload)) (\<lambda>expected_id.
             let integrity = observation_timestamp_errors calendar payload @
                   (if declared_id \<noteq> PStr expected_id then
                      [''observationId: '' @ py_repr declared_id @
                       '' does not match the content address of this payload ('' @
                       repr_string expected_id @
                       ''); the observation was modified after it was built'']
                    else [])
             in if integrity \<noteq> [] then
                  Inl (ValueError (''observation validation failed:'' @ [CHR 0x0A] @ bullet_list integrity))
                else Inr ())))"

subsection \<open>Building\<close>

record observation_request =
  oq_producer_version :: string
  oq_repository :: string
  oq_revision :: pyval
  oq_check_id :: string
  oq_configuration_digest :: string
  oq_run_id :: string
  oq_attempt :: pyval
  oq_status :: string
  oq_started_at :: string
  oq_completed_at :: string
  oq_finding_count :: pyval
  oq_error_count :: pyval
  oq_warning_count :: pyval
  oq_informational_count :: pyval
  oq_findings :: "pydict list"
  oq_artifacts :: "pydict list"
  oq_mode :: "string option"
  oq_producer_build_digest :: "string option"
  oq_execution_identity :: "string option"
  oq_environment_digest :: "string option"
  oq_invocation_digest :: "string option"
  oq_host :: string

fun count_at_least :: "int \<Rightarrow> pyval \<Rightarrow> bool" where
  "count_at_least n (PInt i) \<longleftrightarrow> n \<le> i"
| "count_at_least n _ \<longleftrightarrow> False"

fun the_int :: "pyval \<Rightarrow> int" where
  "the_int (PInt i) = i"
| "the_int _ = 0"

definition oq_counts :: "observation_request \<Rightarrow> pyval list" where
  "oq_counts q = [oq_finding_count q, oq_error_count q, oq_warning_count q, oq_informational_count q]"

definition check_request :: "observation_request \<Rightarrow> unit result" where
  "check_request q =
     (if oq_check_id q \<notin> set SUPPORTED_OBSERVATION_CHECKS then
        Inl (ValueError (''unsupported observation check: '' @ oq_check_id q))
      else if oq_status q \<notin> set EXECUTION_STATUSES then
        Inl (ValueError (''unsupported execution status: '' @ oq_status q))
      else if blank (oq_producer_version q) then Inl (ValueError ''producer_version must be non-empty'')
      else if blank (oq_run_id q) then Inl (ValueError ''run_id must be non-empty'')
      else if \<not> count_at_least 1 (oq_attempt q) then Inl (ValueError ''attempt must be an integer >= 1'')
      else if \<not> list_all (count_at_least 0) (oq_counts q) then
        Inl (ValueError ''observation summary counts must be non-negative integers'')
      else if oq_finding_count q \<noteq> PInt (int (length (oq_findings q))) then
        Inl (ValueError ''finding_count must equal the number of findings'')
      else
        let total = (\<Sum>v \<leftarrow> [oq_error_count q, oq_warning_count q, oq_informational_count q]. the_int v)
        in if the_int (oq_finding_count q) \<noteq> total then
             Inl (ValueError (''observation summary category counts must sum to finding_count (finding_count='' @
               py_str (oq_finding_count q) @ '', error_count='' @ py_str (oq_error_count q) @
               '', warning_count='' @ py_str (oq_warning_count q) @
               '', informational_count='' @ py_str (oq_informational_count q) @
               ''); supply the findings these counts describe, or report the outcome with the '' @
               ''execution status and zero counts''))
           else Inr ())"

text \<open>\<open>if digest: entry["k"] = _sha256_digest(digest)\<close> and \<open>if text: entry["k"] = text\<close>\<close>

definition digest_entry :: "string \<Rightarrow> string option \<Rightarrow> pydict result" where
  "digest_entry k v =
     (case v of
        None \<Rightarrow> Inr []
      | Some s \<Rightarrow> if s = [] then Inr [] else and_then (sha256_digest s) (\<lambda>d. Inr [(PStr k, d)]))"

definition text_entry :: "string \<Rightarrow> string option \<Rightarrow> pydict" where
  "text_entry k v = (case v of None \<Rightarrow> [] | Some s \<Rightarrow> if s = [] then [] else [(PStr k, PStr s)])"

definition observation_producer :: "observation_request \<Rightarrow> pyval result" where
  "observation_producer q =
     and_then (digest_entry ''buildDigest'' (oq_producer_build_digest q)) (\<lambda>d.
     Inr (PDict ([(PStr ''id'', PStr ''l9-ci-sdk''), (PStr ''version'', PStr (oq_producer_version q)),
                  (PStr ''repository'', PStr ''Quantum-L9/l9-ci-sdk'')] @ d @
                 text_entry ''executionIdentity'' (oq_execution_identity q))))"

definition observation_check :: "observation_request \<Rightarrow> pyval result" where
  "observation_check q =
     and_then (sha256_digest (oq_configuration_digest q)) (\<lambda>d.
     Inr (PDict ([(PStr ''id'', PStr (oq_check_id q)), (PStr ''version'', PStr ''1.0.0''),
                  (PStr ''configurationDigest'', d)] @ text_entry ''mode'' (oq_mode q))))"

definition observation_execution :: "observation_request \<Rightarrow> pyval result" where
  "observation_execution q =
     and_then (digest_entry ''environmentDigest'' (oq_environment_digest q)) (\<lambda>e.
     and_then (digest_entry ''invocationDigest'' (oq_invocation_digest q)) (\<lambda>i.
     Inr (PDict ([(PStr ''runId'', PStr (oq_run_id q)), (PStr ''attempt'', oq_attempt q),
                  (PStr ''status'', PStr (oq_status q)), (PStr ''startedAt'', PStr (oq_started_at q)),
                  (PStr ''completedAt'', PStr (oq_completed_at q))] @ e @ i))))"

definition observation_summary :: "observation_request \<Rightarrow> pyval" where
  "observation_summary q =
     PDict [(PStr ''findingCount'', oq_finding_count q), (PStr ''errorCount'', oq_error_count q),
            (PStr ''warningCount'', oq_warning_count q),
            (PStr ''informationalCount'', oq_informational_count q)]"

definition observation_payload :: "observation_request \<Rightarrow> pydict result" where
  "observation_payload q =
     and_then (parse_repository (oq_repository q)) (\<lambda>(owner, name).
     and_then (validate_revision (oq_revision q)) (\<lambda>revision.
     and_then (observation_producer q) (\<lambda>producer.
     and_then (observation_check q) (\<lambda>check.
     and_then (observation_execution q) (\<lambda>execution.
     Inr [(PStr ''schema'', PStr OBSERVATION_PROTOCOL),
          (PStr ''schemaVersion'', PStr OBSERVATION_SCHEMA_VERSION),
          (PStr ''producer'', producer),
          (PStr ''subject'', PDict
             [(PStr ''kind'', PStr ''git-revision''),
              (PStr ''repository'', PDict
                 [(PStr ''host'', PStr (oq_host q)), (PStr ''owner'', PStr owner), (PStr ''name'', PStr name)]),
              (PStr ''revision'', PDict [(PStr ''commit'', PStr revision)])]),
          (PStr ''check'', check), (PStr ''execution'', execution),
          (PStr ''summary'', observation_summary q),
          (PStr ''findings'', PList (map PDict (oq_findings q))),
          (PStr ''artifacts'', PList (map PDict (oq_artifacts q)))])))))"

definition build_observation :: "schema_validator \<Rightarrow> calendar \<Rightarrow> observation_request \<Rightarrow> pydict result" where
  "build_observation iter_errors calendar q =
     and_then (check_request q) (\<lambda>_.
     and_then (observation_payload q) (\<lambda>payload.
     and_then (observation_id payload) (\<lambda>i.
     let observation = payload @ [(PStr ''observationId'', PStr i)]
     in and_then (validate_observation iter_errors calendar observation) (\<lambda>_. Inr observation))))"

subsection \<open>Projection of a finding bundle\<close>

definition SDK_version :: string where
  "SDK_version = ''2.0.0''"

definition projected_location :: "source_location \<Rightarrow> pydict" where
  "projected_location l =
     [(PStr ''path'', PStr (sl_path l))] @
     opt_entry ''lineStart'' (sl_start_line l) @
     opt_entry ''columnStart'' (sl_start_column l) @
     opt_entry ''lineEnd'' (sl_end_line l) @
     opt_entry ''columnEnd'' (sl_end_column l)"

definition projected_metadata :: "finding_bundle \<Rightarrow> finding \<Rightarrow> pydict" where
  "projected_metadata b f =
     [(PStr ''providerId'', PStr (fn_provider_id f)), (PStr ''providerRuleId'', PStr (fn_provider_rule_id f)),
      (PStr ''category'', PStr (fn_category f)), (PStr ''limitations'', encode_strs (fn_limitations f)),
      (PStr ''sourceLocations'', encode_items source_location_to_dict (fn_locations f))] @
     (case dict_by fc_finding_id (fb_classifications b) (fn_finding_id f) of
        None \<Rightarrow> []
      | Some c \<Rightarrow> [(PStr ''classification'', PDict (classification_to_dict c))]) @
     (case fn_confidence f of
        None \<Rightarrow> []
      | Some c \<Rightarrow> [(PStr ''confidence'', PStr (confidence_value c))])"

definition project_finding :: "finding_bundle \<Rightarrow> finding \<Rightarrow> (severity \<times> pydict) result" where
  "project_finding b f =
     (case fn_severity f of
        None \<Rightarrow> Inl (ValueError (''finding '' @ fn_finding_id f @ '' has no Assurance-compatible severity''))
      | Some Sev_Unknown \<Rightarrow>
          Inl (ValueError (''finding '' @ fn_finding_id f @ '' has no Assurance-compatible severity''))
      | Some s \<Rightarrow>
          Inr (s,
            [(PStr ''findingId'', PStr (fn_finding_id f)),
             (PStr ''ruleId'',
                if py_truthy (fn_canonical_rule_id f) then fn_canonical_rule_id f
                else PStr (fn_provider_rule_id f)),
             (PStr ''severity'', PStr (severity_value s)), (PStr ''disposition'', PStr ''open''),
             (PStr ''message'', PStr (fn_message f)), (PStr ''fingerprint'', PStr (fn_fingerprint f)),
             (PStr ''metadata'', PDict (projected_metadata b f))] @
            (case fn_locations f of
               [] \<Rightarrow> []
             | primary # _ \<Rightarrow> [(PStr ''location'', PDict (projected_location primary))])))"

text \<open>\<open>Path(source_path)\<close> below the repository, or the error.\<close>

definition source_path_entry :: "string option \<Rightarrow> pydict result" where
  "source_path_entry source_path =
     (case source_path of
        None \<Rightarrow> Inr []
      | Some s \<Rightarrow>
          if s = [] then Inr []
          else if posix_absolute s \<or> ''..'' \<in> set (posix_parts s) then
            Inl (ValueError ''source_path must be repository-relative'')
          else Inr [(PStr ''path'', PStr (relative_as_posix s))])"

definition digest_value :: "string \<Rightarrow> pyval" where
  "digest_value d = PDict [(PStr ''algorithm'', PStr ''sha256''), (PStr ''value'', PStr d)]"

definition BUNDLE_MEDIA_TYPE :: string where
  "BUNDLE_MEDIA_TYPE = ''application/vnd.l9.finding-bundle+json''"

definition bundle_artifact :: "finding_bundle \<Rightarrow> string option \<Rightarrow> pydict result" where
  "bundle_artifact b source_path =
     and_then (canonical_digest b) (\<lambda>d.
     and_then (source_path_entry source_path) (\<lambda>path.
     Inr ([(PStr ''name'', PStr ''finding-bundle''), (PStr ''digest'', digest_value d),
           (PStr ''mediaType'', PStr BUNDLE_MEDIA_TYPE), (PStr ''sdkVersion'', PStr (fb_SDK_version b))] @ path)))"

text \<open>What every projection is told about the run.\<close>

record projection_context =
  pc_repository :: string
  pc_configuration_digest :: string
  pc_run_id :: string
  pc_attempt :: pyval
  pc_started_at :: string
  pc_completed_at :: string
  pc_mode :: "string option"

definition counted_request ::
  "projection_context \<Rightarrow> pyval \<Rightarrow> string \<Rightarrow> string \<Rightarrow> severity list \<Rightarrow> int \<Rightarrow> pydict list \<Rightarrow> pydict list \<Rightarrow>
   observation_request"
where
  "counted_request c revision check_id status severities errors findings artifacts =
     \<lparr>oq_producer_version = SDK_version, oq_repository = pc_repository c, oq_revision = revision,
      oq_check_id = check_id, oq_configuration_digest = pc_configuration_digest c,
      oq_run_id = pc_run_id c, oq_attempt = pc_attempt c, oq_status = status,
      oq_started_at = pc_started_at c, oq_completed_at = pc_completed_at c,
      oq_finding_count = PInt (int (length findings)),
      oq_error_count = PInt (errors + int (length (filter (\<lambda>s. s \<in> {Sev_Critical, Sev_High}) severities))),
      oq_warning_count = PInt (int (length (filter (\<lambda>s. s \<in> {Sev_Medium, Sev_Low}) severities))),
      oq_informational_count = PInt (int (length (filter (\<lambda>s. s = Sev_Informational) severities))),
      oq_findings = findings, oq_artifacts = artifacts, oq_mode = pc_mode c,
      oq_producer_build_digest = None, oq_execution_identity = None, oq_environment_digest = None,
      oq_invocation_digest = None, oq_host = ''github.com''\<rparr>"

definition project_mandatory_findings_observation ::
  "schema_validator \<Rightarrow> calendar \<Rightarrow> finding_bundle \<Rightarrow> projection_context \<Rightarrow> string option \<Rightarrow> pydict result"
where
  "project_mandatory_findings_observation iter_errors calendar b c source_path =
     (if \<not> py_truthy (sd_revision (fb_snapshot b)) then
        Inl (ValueError ''FindingBundle must carry an exact revision for Assurance'')
      else
        and_then (map_res (project_finding b) (sort_key fn_finding_id (fb_findings b))) (\<lambda>projected.
        and_then (bundle_artifact b source_path) (\<lambda>artifact.
        build_observation iter_errors calendar
          (counted_request c (sd_revision (fb_snapshot b)) ''l9.mandatory-findings''
             (if fb_provider_failures b \<noteq> [] then ''error'' else ''passed'')
             (map fst projected) (int (length (fb_provider_failures b))) (map snd projected) [artifact]))))"

subsection \<open>Acceptance\<close>

lemma validate_observation_iff:
  "validate_observation iter_errors calendar p = Inr () \<longleftrightarrow>
     iter_errors p = [] \<and> observation_timestamp_errors calendar p = [] \<and>
     (\<exists>i. observation_id (without_id p) = Inr i \<and> dget p ''observationId'' = Some (PStr i))"
  by (auto simp: validate_observation_def Let_def and_then_eq_Inr dsub_def split: option.splits)

lemma check_request_iff:
  "check_request q = Inr () \<longleftrightarrow>
     oq_check_id q \<in> set SUPPORTED_OBSERVATION_CHECKS \<and> oq_status q \<in> set EXECUTION_STATUSES \<and>
     \<not> blank (oq_producer_version q) \<and> \<not> blank (oq_run_id q) \<and> count_at_least 1 (oq_attempt q) \<and>
     list_all (count_at_least 0) (oq_counts q) \<and> oq_finding_count q = PInt (int (length (oq_findings q))) \<and>
     int (length (oq_findings q)) =
       the_int (oq_error_count q) + the_int (oq_warning_count q) + the_int (oq_informational_count q)"
  by (auto simp: check_request_def Let_def)

lemma build_observation_iff:
  "build_observation iter_errors calendar q = Inr p \<longleftrightarrow>
     check_request q = Inr () \<and>
     (\<exists>payload i. observation_payload q = Inr payload \<and> observation_id payload = Inr i \<and>
        p = payload @ [(PStr ''observationId'', PStr i)] \<and>
        validate_observation iter_errors calendar p = Inr ())"
  by (auto simp: build_observation_def and_then_eq_Inr Let_def)

lemma hex_normalized:
  "sha256_digest s = Inr d \<Longrightarrow> \<exists>h. d = digest_value h \<and> length h = 64 \<and> list_all lower_hex h"
  by (auto simp: sha256_digest_def digest_value_def Let_def split: if_splits)

lemma validate_revision_hex:
  "validate_revision v = Inr r \<Longrightarrow> length r \<in> {40, 64} \<and> list_all lower_hex r"
  by (cases v) (auto simp: Let_def split: if_splits)

lemma observation_payload_Inr:
  assumes "observation_payload q = Inr payload"
  obtains producer owner name revision check execution where
    "parse_repository (oq_repository q) = Inr (owner, name)" "validate_revision (oq_revision q) = Inr revision"
    "observation_producer q = Inr producer" "observation_check q = Inr check"
    "observation_execution q = Inr execution"
    "payload =
       [(PStr ''schema'', PStr OBSERVATION_PROTOCOL), (PStr ''schemaVersion'', PStr OBSERVATION_SCHEMA_VERSION),
        (PStr ''producer'', producer),
        (PStr ''subject'', PDict
           [(PStr ''kind'', PStr ''git-revision''),
            (PStr ''repository'', PDict
               [(PStr ''host'', PStr (oq_host q)), (PStr ''owner'', PStr owner), (PStr ''name'', PStr name)]),
            (PStr ''revision'', PDict [(PStr ''commit'', PStr revision)])]),
        (PStr ''check'', check), (PStr ''execution'', execution),
        (PStr ''summary'', observation_summary q),
        (PStr ''findings'', PList (map PDict (oq_findings q))),
        (PStr ''artifacts'', PList (map PDict (oq_artifacts q)))]"
  using assms by (auto simp: observation_payload_def and_then_eq_Inr)

lemma project_finding_Inr:
  assumes "project_finding b f = Inr r"
  shows "fn_severity f = Some (fst r) \<and> fst r \<noteq> Sev_Unknown \<and>
    dget (snd r) ''findingId'' = Some (PStr (fn_finding_id f)) \<and>
    dget (snd r) ''severity'' = Some (PStr (severity_value (fst r)))"
  using assms by (auto simp: project_finding_def dget_def split: option.splits severity.splits)

lemma severities_partition:
  "Sev_Unknown \<notin> set ss \<Longrightarrow>
     length (filter (\<lambda>s. s \<in> {Sev_Critical, Sev_High}) ss) + length (filter (\<lambda>s. s \<in> {Sev_Medium, Sev_Low}) ss) +
     length (filter (\<lambda>s. s = Sev_Informational) ss) = length ss"
proof (induction ss)
  case (Cons s ss)
  then show ?case by (cases s) auto
qed simp

text \<open>The request of a projection passes its checks only when no provider failed.\<close>

lemma counted_request_checked:
  assumes "check_request (counted_request c v i s ss n fs as) = Inr ()"
    and "length ss = length fs" "Sev_Unknown \<notin> set ss"
  shows "n = 0"
  using assms(1) severities_partition [OF assms(3)] assms(2)
  unfolding check_request_iff by (simp add: counted_request_def)

lemma json_dumps_total: "json_value v \<Longrightarrow> \<exists>t. json_dumps False v = Inr t"
proof (induction v)
  case (PList xs)
  then have "\<forall>x \<in> set xs. \<exists>t. json_dumps False x = Inr t" by (simp add: list_all_iff)
  then obtain ts where "map_res (json_dumps False) xs = Inr ts" by (metis map_res_ex)
  then show ?case by simp
next
  case (PDict kvs)
  let ?f = "\<lambda>(k, v). and_then (json_key k) (\<lambda>key. and_then (json_dumps False v) (\<lambda>text. Inr (key, text)))"
  have "\<exists>r. ?f e = Inr r" if e: "e \<in> set kvs" for e
  proof -
    obtain k v where kv: "e = (k, v)" by (cases e)
    with PDict.prems e have "is_str k" "json_value v" by (auto simp: list_all_iff)
    moreover from this obtain t where "json_dumps False v = Inr t"
      using PDict.IH [of "(k, v)" v] e kv by fastforce
    ultimately show ?thesis by (cases k) (simp_all add: kv)
  qed
  then have "\<exists>entries. map_res ?f kvs = Inr entries" unfolding map_res_ex by blast
  then show ?case by auto
qed auto

lemma dget_payload_id:
  assumes "observation_payload q = Inr payload"
  shows "without_id (payload @ [(PStr ''observationId'', PStr i)]) = payload"
    and "dget (payload @ [(PStr ''observationId'', PStr i)]) ''observationId'' = Some (PStr i)"
  using assms by (rule observation_payload_Inr, simp add: without_id_def dget_def)+

lemma build_observation_returns:
  assumes "check_request q = Inr ()" "observation_payload q = Inr payload" "json_value (PDict payload)"
    and "\<And>p. iter_errors p = []" "observation_timestamp_errors calendar payload = []"
  shows "\<exists>p. build_observation iter_errors calendar q = Inr p"
proof -
  obtain i where i: "observation_id payload = Inr i"
    using json_dumps_total [OF assms(3)] by (auto simp: observation_id_def)
  have "dget_none (payload @ [(PStr ''observationId'', PStr i)]) ''execution'' = dget_none payload ''execution''"
    using assms(2) by (rule observation_payload_Inr) (simp add: dget_none_def dget_def)
  then have "validate_observation iter_errors calendar (payload @ [(PStr ''observationId'', PStr i)]) = Inr ()"
    unfolding validate_observation_iff
    using assms(4,5) i by (simp add: dget_payload_id [OF assms(2)] observation_timestamp_errors_def)
  then show ?thesis
    unfolding build_observation_iff using assms(1,2) i by blast
qed

text \<open>A payload can be serialised when the records it was given can, and its errors come from its texts.\<close>

lemma sha256_digest_json: "sha256_digest s = Inr d \<Longrightarrow> json_value d"
  by (auto simp: sha256_digest_def Let_def split: if_splits)

lemma digest_entry_json:
  "digest_entry k v = Inr d \<Longrightarrow> json_value (PDict d) \<and> set (map fst d) \<subseteq> {PStr k}"
  by (auto simp: digest_entry_def and_then_eq_Inr sha256_digest_json split: option.splits if_splits)

lemma text_entry_json: "json_value (PDict (text_entry k v)) \<and> set (map fst (text_entry k v)) \<subseteq> {PStr k}"
  by (auto simp: text_entry_def split: option.splits)

lemma json_extend:
  assumes "json_value (PDict a)" "json_value (PDict b)" "set (map fst b) \<subseteq> K" "set (map fst a) \<inter> K = {}"
  shows "json_value (PDict (a @ b))"
proof -
  have "set (map fst a) \<inter> set (map fst b) = {}" using assms(3,4) by blast
  with assms(1,2) show ?thesis by simp
qed

lemma observation_producer_json:
  assumes "observation_producer q = Inr v"
  shows "json_value v"
proof -
  obtain d where d: "digest_entry ''buildDigest'' (oq_producer_build_digest q) = Inr d"
    and v: "v = PDict ([(PStr ''id'', PStr ''l9-ci-sdk''), (PStr ''version'', PStr (oq_producer_version q)),
                  (PStr ''repository'', PStr ''Quantum-L9/l9-ci-sdk'')] @ d @
                 text_entry ''executionIdentity'' (oq_execution_identity q))"
    using assms by (auto simp: observation_producer_def and_then_eq_Inr)
  have dt: "json_value (PDict (d @ text_entry ''executionIdentity'' (oq_execution_identity q)))"
    using digest_entry_json [OF d] text_entry_json
    by (intro json_extend [where K = "{PStr ''executionIdentity''}"]) auto
  show ?thesis
    unfolding v
    by (rule json_extend [OF _ dt, where K = "{PStr ''buildDigest'', PStr ''executionIdentity''}"])
      (use digest_entry_json [OF d] text_entry_json [of "''executionIdentity''" "oq_execution_identity q"] in auto)
qed

lemma observation_check_json:
  assumes "observation_check q = Inr v"
  shows "json_value v"
proof -
  obtain d where d: "sha256_digest (oq_configuration_digest q) = Inr d"
    and v: "v = PDict ([(PStr ''id'', PStr (oq_check_id q)), (PStr ''version'', PStr ''1.0.0''),
                  (PStr ''configurationDigest'', d)] @ text_entry ''mode'' (oq_mode q))"
    using assms by (auto simp: observation_check_def and_then_eq_Inr)
  show ?thesis
    unfolding v
    by (rule json_extend [where K = "{PStr ''mode''}"])
      (use sha256_digest_json [OF d] text_entry_json [of "''mode''" "oq_mode q"] in auto)
qed

lemma observation_execution_json:
  assumes "observation_execution q = Inr v" and "json_value (oq_attempt q)"
  shows "json_value v"
proof -
  obtain e i where e: "digest_entry ''environmentDigest'' (oq_environment_digest q) = Inr e"
    and i: "digest_entry ''invocationDigest'' (oq_invocation_digest q) = Inr i"
    and v: "v = PDict ([(PStr ''runId'', PStr (oq_run_id q)), (PStr ''attempt'', oq_attempt q),
                  (PStr ''status'', PStr (oq_status q)), (PStr ''startedAt'', PStr (oq_started_at q)),
                  (PStr ''completedAt'', PStr (oq_completed_at q))] @ e @ i)"
    using assms(1) by (auto simp: observation_execution_def and_then_eq_Inr)
  have ei: "json_value (PDict (e @ i))"
    using digest_entry_json [OF e] digest_entry_json [OF i]
    by (intro json_extend [where K = "{PStr ''invocationDigest''}"]) auto
  show ?thesis
    unfolding v
    by (rule json_extend [OF _ ei, where K = "{PStr ''environmentDigest'', PStr ''invocationDigest''}"])
      (use digest_entry_json [OF e] digest_entry_json [OF i] assms(2) in auto)
qed

lemma payload_json:
  assumes "observation_payload q = Inr payload" "list_all (\<lambda>d. json_value (PDict d)) (oq_findings q)"
    "list_all (\<lambda>d. json_value (PDict d)) (oq_artifacts q)" "json_value (oq_attempt q)"
    "list_all json_value (oq_counts q)"
  shows "json_value (PDict payload)"
  using assms(1)
proof (rule observation_payload_Inr, goal_cases)
  case (1 producer owner name revision check execution)
  have "list_all json_value (map PDict (oq_findings q))" "list_all json_value (map PDict (oq_artifacts q))"
    using assms(2,3) by (simp_all add: list_all_iff)
  then show ?case
    using observation_producer_json [OF 1(3)] observation_check_json [OF 1(4)]
      observation_execution_json [OF 1(5) assms(4)] assms(5)
    by (simp add: 1(6) observation_summary_def oq_counts_def)
qed

lemma observation_payload_isl:
  "isl (observation_payload q) \<longleftrightarrow>
     isl (parse_repository (oq_repository q)) \<or> isl (validate_revision (oq_revision q)) \<or>
     isl (observation_producer q) \<or> isl (observation_check q) \<or> isl (observation_execution q)"
  by (auto simp: observation_payload_def and_then_def split: sum.splits)

lemma built_findings:
  assumes "build_observation iter_errors calendar q = Inr p"
  shows "dget p ''findings'' = Some (PList (map PDict (oq_findings q)))"
proof -
  obtain payload i where payload: "observation_payload q = Inr payload"
    and p: "p = payload @ [(PStr ''observationId'', PStr i)]"
    using assms unfolding build_observation_iff by blast
  from payload show ?thesis
    by (rule observation_payload_Inr) (simp add: p dget_def)
qed

lemma built_status:
  assumes "build_observation iter_errors calendar q = Inr p"
  shows "\<exists>execution. dget p ''execution'' = Some (PDict execution) \<and>
    dget execution ''status'' = Some (PStr (oq_status q))"
proof -
  obtain payload i where payload: "observation_payload q = Inr payload"
    and p: "p = payload @ [(PStr ''observationId'', PStr i)]"
    using assms unfolding build_observation_iff by blast
  from payload show ?thesis
  proof (rule observation_payload_Inr, goal_cases)
    case (1 producer owner name revision check execution)
    from 1(5) show ?case
      by (auto simp: p 1(6) observation_execution_def and_then_eq_Inr dget_def)
  qed
qed

subsection \<open>Properties\<close>

definition sha256_collision :: "string \<Rightarrow> string \<Rightarrow> bool" where
  "sha256_collision a b \<longleftrightarrow> a \<noteq> b \<and> sha256_hexdigest a = sha256_hexdigest b"

text \<open>
  C28: an observation identifier is a content address. Two validated observations with the same
  identifier have the same canonical text apart from the identifier, unless their two texts are a
  collision of SHA-256.
\<close>

theorem observation_content_addressed:
  assumes "validate_observation iter_errors calendar p = Inr ()"
    and "validate_observation iter_errors calendar q = Inr ()"
    and "dget p ''observationId'' = dget q ''observationId''"
  shows "\<exists>s t. json_dumps False (PDict (without_id p)) = Inr s \<and>
    json_dumps False (PDict (without_id q)) = Inr t \<and>
    (s = t \<or> sha256_collision (utf8_encode s) (utf8_encode t))"
  using assms unfolding validate_observation_iff
  by (auto simp: observation_id_def and_then_eq_Inr sha256_collision_def utf8_encode_inj)

text \<open>
  What a built observation says. It is validated, names a revision of 40 or 64 lowercase hex
  digits and the owner and name of the repository, carries the given findings, and its summary
  counts are non-negative integers that add up to the number of findings.
\<close>

theorem observation_built_faithfully:
  assumes "build_observation iter_errors calendar q = Inr p"
  shows "validate_observation iter_errors calendar p = Inr () \<and>
    dget p ''findings'' = Some (PList (map PDict (oq_findings q))) \<and>
    (\<exists>n e w i. dget p ''summary'' =
        Some (PDict [(PStr ''findingCount'', PInt n), (PStr ''errorCount'', PInt e),
          (PStr ''warningCount'', PInt w), (PStr ''informationalCount'', PInt i)]) \<and>
      n = int (length (oq_findings q)) \<and> n = e + w + i \<and> 0 \<le> e \<and> 0 \<le> w \<and> 0 \<le> i) \<and>
    (\<exists>owner name revision. parse_repository (oq_repository q) = Inr (owner, name) \<and>
      length revision \<in> {40, 64} \<and> list_all lower_hex revision \<and>
      dget p ''subject'' = Some (PDict
        [(PStr ''kind'', PStr ''git-revision''),
         (PStr ''repository'', PDict
            [(PStr ''host'', PStr (oq_host q)), (PStr ''owner'', PStr owner), (PStr ''name'', PStr name)]),
         (PStr ''revision'', PDict [(PStr ''commit'', PStr revision)])]))"
proof -
  obtain payload i where check: "check_request q = Inr ()" and payload: "observation_payload q = Inr payload"
    and p: "p = payload @ [(PStr ''observationId'', PStr i)]"
    and valid: "validate_observation iter_errors calendar p = Inr ()"
    using assms unfolding build_observation_iff by blast
  obtain e w i where counts: "oq_error_count q = PInt e" "oq_warning_count q = PInt w"
    "oq_informational_count q = PInt i" "0 \<le> e" "0 \<le> w" "0 \<le> i"
    "int (length (oq_findings q)) = e + w + i" "oq_finding_count q = PInt (int (length (oq_findings q)))"
    using check unfolding check_request_iff
    by (auto simp: oq_counts_def elim!: count_at_least.elims(2))
  show ?thesis
  proof (rule observation_payload_Inr [OF payload], goal_cases)
    case (1 producer owner name revision check execution)
    have "dget p ''findings'' = Some (PList (map PDict (oq_findings q)))"
      "dget p ''summary'' = Some (observation_summary q)"
      "dget p ''subject'' = Some (PDict
        [(PStr ''kind'', PStr ''git-revision''),
         (PStr ''repository'', PDict
            [(PStr ''host'', PStr (oq_host q)), (PStr ''owner'', PStr owner), (PStr ''name'', PStr name)]),
         (PStr ''revision'', PDict [(PStr ''commit'', PStr revision)])])"
      by (simp_all add: p 1(6) dget_def)
    then show ?thesis
      using valid counts 1(1) validate_revision_hex [OF 1(2)]
      by (simp add: observation_summary_def)
  qed
qed

text \<open>
  C27: a projection of mandatory findings is complete and has no provider failure behind it. When it
  returns, every finding of the bundle has a severity the boundary knows, the observation carries
  the findings in the order of their identifiers with their severities, its status is \<open>passed\<close>, and
  no provider of the bundle failed; the status \<open>error\<close> the code sets for a failed provider is never
  emitted, because the failures are counted as errors without findings and the summary check raises.
\<close>

theorem mandatory_projection_complete:
  assumes "project_mandatory_findings_observation iter_errors calendar b c source_path = Inr p"
  shows "fb_provider_failures b = [] \<and>
    (\<exists>items execution. dget p ''findings'' = Some (PList (map PDict items)) \<and>
       map (\<lambda>d. (dget d ''findingId'', dget d ''severity'')) items =
         map (\<lambda>f. (Some (PStr (fn_finding_id f)),
                    map_option (\<lambda>s. PStr (severity_value s)) (fn_severity f)))
           (sort_key fn_finding_id (fb_findings b)) \<and>
       (\<forall>f. f \<in> set (fb_findings b) \<longrightarrow> fn_severity f \<noteq> None \<and> fn_severity f \<noteq> Some Sev_Unknown) \<and>
       dget p ''execution'' = Some (PDict execution) \<and> dget execution ''status'' = Some (PStr ''passed''))"
proof -
  obtain projected artifact where
    projected: "map_res (project_finding b) (sort_key fn_finding_id (fb_findings b)) = Inr projected" and
    build: "build_observation iter_errors calendar
      (counted_request c (sd_revision (fb_snapshot b)) ''l9.mandatory-findings''
         (if fb_provider_failures b \<noteq> [] then ''error'' else ''passed'')
         (map fst projected) (int (length (fb_provider_failures b))) (map snd projected) [artifact]) = Inr p"
      (is "build_observation _ _ ?q = _")
    using assms
    by (auto simp: project_mandatory_findings_observation_def and_then_eq_Inr split: if_splits)
  have all: "list_all2 (\<lambda>f r. project_finding b f = Inr r) (sort_key fn_finding_id (fb_findings b)) projected"
    using projected by (simp add: map_res_eq_Inr_iff)
  have one: "\<forall>f \<in> set (fb_findings b). fn_severity f \<noteq> None \<and> fn_severity f \<noteq> Some Sev_Unknown"
  proof
    fix f assume "f \<in> set (fb_findings b)"
    then obtain r where "project_finding b f = Inr r"
      using map_res_ex [of "project_finding b" "sort_key fn_finding_id (fb_findings b)"] projected
      by (simp only: set_sort) blast
    then show "fn_severity f \<noteq> None \<and> fn_severity f \<noteq> Some Sev_Unknown"
      by (auto dest: project_finding_Inr)
  qed
  have unknown: "Sev_Unknown \<notin> set (map fst projected)"
    using map_res_set [OF projected] by (fastforce dest: project_finding_Inr)
  have rows: "map (\<lambda>r. (dget (snd r) ''findingId'', dget (snd r) ''severity'')) projected =
      map (\<lambda>f. (Some (PStr (fn_finding_id f)), map_option (\<lambda>s. PStr (severity_value s)) (fn_severity f)))
        (sort_key fn_finding_id (fb_findings b))"
    using all by (induction rule: list_all2_induct) (auto dest!: project_finding_Inr)
  have "check_request ?q = Inr ()"
    using build unfolding build_observation_iff by blast
  then have "int (length (fb_provider_failures b)) = 0"
    by (rule counted_request_checked [OF _ _ unknown]) simp
  then have failures: "fb_provider_failures b = []" by simp
  have "\<exists>execution. dget p ''execution'' = Some (PDict execution) \<and> dget execution ''status'' = Some (PStr ''passed'')"
    using built_status [OF build] by (simp add: counted_request_def failures)
  moreover have "dget p ''findings'' = Some (PList (map PDict (map snd projected)))"
    using built_findings [OF build] by (simp add: counted_request_def)
  ultimately show ?thesis
    using failures rows one by (auto simp: o_def intro!: exI [of _ "map snd projected"])
qed

text \<open>A request without findings, and the projection of a bundle with one finding.\<close>

definition sample_observation_context :: projection_context where
  "sample_observation_context =
     \<lparr>pc_repository = ''o/r'', pc_configuration_digest = replicate 64 CHR ''a'', pc_run_id = ''1'',
      pc_attempt = PInt 1, pc_started_at = ''2026-01-01T00:00:00Z'',
      pc_completed_at = ''2026-01-01T00:00:01Z'', pc_mode = None\<rparr>"

definition sample_observation_request :: observation_request where
  "sample_observation_request =
     counted_request sample_observation_context (PStr (replicate 40 CHR ''b'')) ''l9.lint'' ''failed'' [] 0 [] []"

lemma sample_request_checks:
  "check_request sample_observation_request = Inr ()"
  "\<exists>payload. observation_payload sample_observation_request = Inr payload \<and> json_value (PDict payload) \<and>
     observation_timestamp_errors (\<lambda>_. True) payload = []"
proof -
  show "check_request sample_observation_request = Inr ()" by code_simp
  have "(case observation_payload sample_observation_request of Inl _ \<Rightarrow> False
      | Inr payload \<Rightarrow> json_value (PDict payload) \<and> observation_timestamp_errors (\<lambda>_. True) payload = [])"
    by code_simp
  then show "\<exists>payload. observation_payload sample_observation_request = Inr payload \<and> json_value (PDict payload) \<and>
     observation_timestamp_errors (\<lambda>_. True) payload = []"
    by (auto split: sum.splits)
qed

lemma sample_observation_built: "\<exists>p. build_observation (\<lambda>_. []) (\<lambda>_. True) sample_observation_request = Inr p"
  using sample_request_checks build_observation_returns [of sample_observation_request _ "\<lambda>_. []" "\<lambda>_. True"] by blast

theorem observation_content_addressed_witness:
  "\<exists>p s t. validate_observation (\<lambda>_. []) (\<lambda>_. True) p = Inr () \<and>
     json_dumps False (PDict (without_id p)) = Inr s \<and> json_dumps False (PDict (without_id p)) = Inr t \<and>
     (s = t \<or> sha256_collision (utf8_encode s) (utf8_encode t))"
proof -
  obtain p where "build_observation (\<lambda>_. []) (\<lambda>_. True) sample_observation_request = Inr p"
    using sample_observation_built by blast
  then have v: "validate_observation (\<lambda>_. []) (\<lambda>_. True) p = Inr ()"
    unfolding build_observation_iff by blast
  from observation_content_addressed [OF v v refl] v show ?thesis by blast
qed

theorem observation_built_faithfully_witness:
  "\<exists>p. build_observation (\<lambda>_. []) (\<lambda>_. True) sample_observation_request = Inr p \<and>
     dget p ''findings'' = Some (PList (map PDict (oq_findings sample_observation_request)))"
proof -
  obtain p where p: "build_observation (\<lambda>_. []) (\<lambda>_. True) sample_observation_request = Inr p"
    using sample_observation_built by blast
  from observation_built_faithfully [OF p] p show ?thesis by blast
qed

definition sample_projection_bundle :: finding_bundle where
  "sample_projection_bundle =
     sample_bundle\<lparr>fb_snapshot := sample_snapshot\<lparr>sd_revision := PStr (replicate 40 CHR ''b'')\<rparr>\<rparr>"

definition sample_projected :: "(severity \<times> pydict) list" where
  "sample_projected =
     (case map_res (project_finding sample_projection_bundle)
             (sort_key fn_finding_id (fb_findings sample_projection_bundle)) of
        Inl _ \<Rightarrow> [] | Inr r \<Rightarrow> r)"

lemma sample_projection_checks:
  "map_res (project_finding sample_projection_bundle)
     (sort_key fn_finding_id (fb_findings sample_projection_bundle)) = Inr sample_projected"
  "\<exists>artifact. bundle_artifact sample_projection_bundle None = Inr artifact \<and> json_value (PDict artifact)"
proof -
  have "\<not> isl (map_res (project_finding sample_projection_bundle)
     (sort_key fn_finding_id (fb_findings sample_projection_bundle)))"
    by code_simp
  then show "map_res (project_finding sample_projection_bundle)
     (sort_key fn_finding_id (fb_findings sample_projection_bundle)) = Inr sample_projected"
    by (auto simp: sample_projected_def isl_def split: sum.splits)
  have "json_value (PDict (digest_payload sample_projection_bundle))" by code_simp
  then obtain d where "canonical_digest sample_projection_bundle = Inr d"
    using canonical_text_total by (fastforce simp: canonical_digest_def)
  then show "\<exists>artifact. bundle_artifact sample_projection_bundle None = Inr artifact \<and> json_value (PDict artifact)"
    by (simp add: bundle_artifact_def source_path_entry_def digest_value_def)
qed

abbreviation sample_projection_request :: "pydict \<Rightarrow> observation_request" where
  "sample_projection_request artifact \<equiv>
     counted_request sample_observation_context (PStr (replicate 40 CHR ''b'')) ''l9.mandatory-findings'' ''passed''
       (map fst sample_projected) 0 (map snd sample_projected) [artifact]"

lemma sample_times:
  "re_match RFC3339_PATTERN ''2026-01-01T00:00:00Z'' \<noteq> None" "re_match RFC3339_PATTERN ''2026-01-01T00:00:01Z'' \<noteq> None"
  by code_simp+

lemma sample_projection_built:
  "\<exists>p. project_mandatory_findings_observation (\<lambda>_. []) (\<lambda>_. True) sample_projection_bundle sample_observation_context None = Inr p"
proof -
  obtain artifact where artifact: "bundle_artifact sample_projection_bundle None = Inr artifact"
    "json_value (PDict artifact)"
    using sample_projection_checks by blast
  let ?q = "sample_projection_request artifact"
  have "check_request (sample_projection_request []) = Inr ()" by code_simp
  then have check: "check_request ?q = Inr ()"
    by (simp add: check_request_iff oq_counts_def counted_request_def)
  have "\<not> isl (observation_payload (sample_projection_request []))"
    "list_all (\<lambda>d. json_value (PDict d)) (map snd sample_projected)"
    by code_simp+
  moreover have "isl (observation_payload ?q) = isl (observation_payload (sample_projection_request []))"
    by (simp add: observation_payload_isl counted_request_def observation_producer_def observation_check_def
        observation_execution_def)
  ultimately have "\<not> isl (observation_payload ?q)"
    and findings: "list_all (\<lambda>d. json_value (PDict d)) (oq_findings ?q)"
    by (simp_all add: counted_request_def)
  then obtain payload where payload: "observation_payload ?q = Inr payload"
    by (cases "observation_payload ?q") auto
  have json: "json_value (PDict payload)"
    by (rule payload_json [OF payload findings])
      (use artifact(2) in \<open>simp_all add: counted_request_def sample_observation_context_def oq_counts_def\<close>)
  have "observation_timestamp_errors (\<lambda>_. True) payload = []"
    using payload
    by (rule observation_payload_Inr)
      (auto simp: observation_timestamp_errors_def dget_none_def dget_def observation_execution_def and_then_eq_Inr
        counted_request_def digest_entry_def sample_observation_context_def timestamp_field_errors_def sample_times Let_def)
  then have "\<exists>p. build_observation (\<lambda>_. []) (\<lambda>_. True) ?q = Inr p"
    using build_observation_returns [OF check payload json, of "\<lambda>_. []" "\<lambda>_. True"] by simp
  moreover have "sd_revision (fb_snapshot sample_projection_bundle) = PStr (replicate 40 CHR ''b'')"
    "fb_provider_failures sample_projection_bundle = []"
    by (simp_all add: sample_projection_bundle_def sample_bundle_def)
  ultimately show ?thesis
    by (simp add: project_mandatory_findings_observation_def sample_projection_checks artifact(1))
qed

theorem mandatory_projection_complete_witness:
  "\<exists>p. project_mandatory_findings_observation (\<lambda>_. []) (\<lambda>_. True) sample_projection_bundle sample_observation_context None = Inr p \<and>
     fb_provider_failures sample_projection_bundle = []"
proof -
  obtain p where p: "project_mandatory_findings_observation (\<lambda>_. []) (\<lambda>_. True) sample_projection_bundle
      sample_observation_context None = Inr p"
    using sample_projection_built by blast
  from mandatory_projection_complete [OF p] p show ?thesis by blast
qed

end
