(* ===== verification/Semgrep_Commands.thy ===== *)
theory Semgrep_Commands
  imports Rulesets Artifact_Commands Pipeline Observation
begin

text \<open>
  \<open>l9_ci/commands/semgrep.py\<close>: the handlers of \<open>l9-ci semgrep\<close>. A command is a relation, because the
  atomic write of the pipeline is one: it relates the file system before and after and the outcome,
  or the exception that leaves the handler.
\<close>

definition REGISTRY_CONFIG_BY_LANGUAGE :: "(string \<times> string) list" where
  "REGISTRY_CONFIG_BY_LANGUAGE = [(''python'', ''p/python''), (''typescript'', ''p/typescript'')]"

definition RUNTIME_SCAFFOLDING_EXCLUSIONS :: "string list" where
  "RUNTIME_SCAFFOLDING_EXCLUSIONS = [''.l9/runtime'']"

text \<open>\<open>SDK_version()\<close>: the installed metadata, else the version in the source.\<close>

definition installed_SDK_version :: "string option \<Rightarrow> string" where
  "installed_SDK_version installed = (case installed of Some v \<Rightarrow> v | None \<Rightarrow> SDK_version)"

record semgrep_args =
  sa_root :: string
  sa_snapshot_id :: "string option"
  sa_derive_snapshot :: bool
  sa_identity_map :: "string option"
  sa_policy :: "string option"
  sa_strict :: bool
  sa_required :: bool
  sa_generated_at :: "string option"
  sa_revision :: "string option"
  sa_dirty :: "bool option"
  sa_format :: output_format
  sa_output :: string

record run_args =
  ra_language :: string
  ra_raw_output :: "string option"
  ra_timeout_seconds :: int
  ra_output_size_limit_bytes :: int
  ra_extra_config :: "string list"
  ra_no_registry_config :: bool
  ra_profile :: "string option"

definition handle_semgrep_detect :: "semgrep_host \<Rightarrow> output_format \<Rightarrow> outcome result" where
  "handle_semgrep_detect h format =
     (let available = (sh_which h \<noteq> None)
      in and_then (semgrep_detect_version h) (\<lambda>version.
         and_then (render_success
             [(PStr ''provider_id'', PStr (pm_provider_id semgrep_metadata)), (PStr ''available'', PBool available),
              (PStr ''version'', PStr (case version of None \<Rightarrow> ''unknown'' | Some v \<Rightarrow> if v = [] then ''unknown'' else v))]
             format) (\<lambda>line.
         Inr (printed (if available then SUCCESS else PROVIDER_EXECUTION_FAILURE) [line]))))"

definition config_option :: "string \<Rightarrow> string list" where
  "config_option v = [''--config'', v]"

definition selected_profile :: "ruleset_package \<Rightarrow> run_args \<Rightarrow> semgrep_profile result" where
  "selected_profile k a =
     (case ra_profile a of
        Some p \<Rightarrow> if p \<noteq> [] then resolve_profile k (PStr p)
                  else and_then (default_profile_name k) (resolve_profile k)
      | None \<Rightarrow> and_then (default_profile_name k) (resolve_profile k))"

definition run_config_arguments :: "ruleset_package \<Rightarrow> run_args \<Rightarrow> string list result" where
  "run_config_arguments k a =
     and_then (selected_profile k a) (\<lambda>profile.
     and_then (if sg_include_registry_ruleset profile \<and> \<not> ra_no_registry_config a then
                 (case map_of REGISTRY_CONFIG_BY_LANGUAGE (ra_language a) of
                    None \<Rightarrow> Inl (KeyError (repr_string (ra_language a)))
                  | Some c \<Rightarrow> Inr (config_option c))
               else Inr []) (\<lambda>registry.
     and_then (if sg_include_l9_ruleset profile then
                 and_then (ruleset_dir k (ra_language a)) (\<lambda>d. Inr (config_option d))
               else Inr []) (\<lambda>l9.
     Inr (registry @ l9 @ concat (map config_option (ra_extra_config a))))))"

definition run_exclusion_arguments :: "string list" where
  "run_exclusion_arguments = concat (map (\<lambda>p. [''--exclude'', p]) RUNTIME_SCAFFOLDING_EXCLUSIONS)"

definition semgrep_request ::
  "string option \<Rightarrow> semgrep_args \<Rightarrow> string \<Rightarrow> bool \<Rightarrow> string option \<Rightarrow> string option \<Rightarrow> int \<Rightarrow> int \<Rightarrow> string list \<Rightarrow>
   pipeline_request"
where
  "semgrep_request installed a report_path execute provider_version identity_map_path timeout_seconds
     output_limit execution_arguments =
     \<lparr>pq_report_path = report_path, pq_repository_root = sa_root a,
      pq_SDK_version = installed_SDK_version installed, pq_output_path = sa_output a,
      pq_snapshot_id = sa_snapshot_id a, pq_provider_version = provider_version,
      pq_identity_map_path = identity_map_path, pq_policy_path = sa_policy a, pq_strict = sa_strict a,
      pq_required = sa_required a, pq_generated_at = sa_generated_at a, pq_revision = sa_revision a,
      pq_dirty = sa_dirty a, pq_derive_snapshot = sa_derive_snapshot a, pq_limits = default_limits,
      pq_execute = execute, pq_timeout_seconds = timeout_seconds,
      pq_output_size_limit_bytes = output_limit, pq_execution_arguments = execution_arguments,
      pq_remediation_map_path = None\<rparr>"

definition identity_map_of :: "ruleset_package \<Rightarrow> semgrep_args \<Rightarrow> string result" where
  "identity_map_of k a =
     (case sa_identity_map a of Some p \<Rightarrow> Inr p | None \<Rightarrow> default_identity_map_path k)"

definition normalize_request ::
  "ruleset_package \<Rightarrow> string option \<Rightarrow> semgrep_args \<Rightarrow> string \<Rightarrow> string \<Rightarrow> pipeline_request result"
where
  "normalize_request k installed a input provider_version =
     and_then (identity_map_of k a) (\<lambda>m.
     Inr (semgrep_request installed a input False (Some provider_version) (Some m) 300 50000000 []))"

text \<open>\<open>args.output.with_name(f"{args.output.stem}.raw.json")\<close>\<close>

definition path_stem :: "string \<Rightarrow> string" where
  "path_stem s = take (length (path_name s) - length (path_suffix s)) (path_name s)"

definition path_with_name :: "string \<Rightarrow> string \<Rightarrow> string result" where
  "path_with_name s name =
     (if path_name s = [] then Inl (ValueError (''PosixPath('' @ repr_string (relative_as_posix s) @ '') has an empty name''))
      else Inr ((if posix_absolute s then ''/'' else []) @ join ''/'' (butlast (posix_parts s) @ [name])))"

definition raw_output_of :: "semgrep_args \<Rightarrow> run_args \<Rightarrow> string result" where
  "raw_output_of a r =
     (case ra_raw_output r of
        Some p \<Rightarrow> Inr p
      | None \<Rightarrow> path_with_name (sa_output a) (path_stem (sa_output a) @ ''.raw.json''))"

definition run_request ::
  "ruleset_package \<Rightarrow> string option \<Rightarrow> semgrep_args \<Rightarrow> run_args \<Rightarrow> pipeline_request result"
where
  "run_request k installed a r =
     and_then (raw_output_of a r) (\<lambda>raw.
     and_then (identity_map_of k a) (\<lambda>m.
     and_then (run_config_arguments k r) (\<lambda>configs.
     Inr (semgrep_request installed a raw True None (Some m) (ra_timeout_seconds r)
            (ra_output_size_limit_bytes r) (configs @ run_exclusion_arguments)))))"

definition request_outcome ::
  "output_format \<Rightarrow> exit_code \<Rightarrow> pipeline_request \<Rightarrow> pipeline_result result \<Rightarrow> outcome result"
where
  "request_outcome format d q result =
     guarded format d result (\<lambda>p.
       and_then (render_success
           [(PStr ''output_path'', PStr (pu_output_path p)), (PStr ''report_path'', PStr (pq_report_path q))]
           format) (\<lambda>line. Inr (printed SUCCESS [line])))"

text \<open>
  \<open>_execute_request(args, _request(...), default=d)\<close>: the request is built before the call, so what
  it raises is not reported by it.
\<close>

inductive semgrep_command ::
  "pipeline_world \<Rightarrow> output_format \<Rightarrow> exit_code \<Rightarrow> pipeline_request result \<Rightarrow> string \<Rightarrow> file_system \<Rightarrow>
   outcome result \<Rightarrow> file_system \<Rightarrow> bool"
  for w format d request tmp
where
  request_raises:
    "request = Inl e \<Longrightarrow> semgrep_command w format d request tmp files (Inl e) files"
| request_runs:
    "request = Inr q \<Longrightarrow> run_semgrep_pipeline w q tmp files result files' \<Longrightarrow>
     semgrep_command w format d request tmp files (request_outcome format d q result) files'"

definition handle_normalize ::
  "pipeline_world \<Rightarrow> ruleset_package \<Rightarrow> string option \<Rightarrow> semgrep_args \<Rightarrow> string \<Rightarrow> string \<Rightarrow> string \<Rightarrow>
   file_system \<Rightarrow> outcome result \<Rightarrow> file_system \<Rightarrow> bool"
where
  "handle_normalize w k installed a input provider_version tmp =
     semgrep_command w (sa_format a) PROVIDER_REPORT_FAILURE
       (normalize_request k installed a input provider_version) tmp"

definition handle_run ::
  "pipeline_world \<Rightarrow> ruleset_package \<Rightarrow> string option \<Rightarrow> semgrep_args \<Rightarrow> run_args \<Rightarrow> string \<Rightarrow>
   file_system \<Rightarrow> outcome result \<Rightarrow> file_system \<Rightarrow> bool"
where
  "handle_run w k installed a r tmp =
     semgrep_command w (sa_format a) PROVIDER_EXECUTION_FAILURE (run_request k installed a r) tmp"

inductive_cases semgrep_command_Inr: "semgrep_command w format d request tmp files (Inr r) files'"
inductive_cases pipeline_run_Inr: "run_semgrep_pipeline w q tmp files (Inr p) files'"

subsection \<open>What a command leaves behind\<close>

lemma request_outcome_exit:
  assumes "request_outcome format d q result = Inr r" "d \<noteq> SUCCESS"
  shows "oc_exit r = SUCCESS \<longleftrightarrow> (\<exists>p. result = Inr p)"
proof (cases result)
  case (Inl e)
  then show ?thesis
    using emit_error_Inr [of e format d r] assms by (simp add: request_outcome_def guarded_def)
next
  case (Inr p)
  then show ?thesis
    using assms by (auto simp: request_outcome_def guarded_def and_then_eq_Inr printed_def)
qed

lemma returned_pipeline:
  assumes "run_semgrep_pipeline w q tmp files (Inr p) files'"
  obtains content where "valid_bundle (pu_bundle p)" "publishable (pw_schema w) (pu_bundle p)"
    "bundle_bytes (pu_bundle p) = Inr content" "files' = files(pq_output_path q \<mapsto> content)"
  using assms
proof (rule pipeline_run_Inr)
  fix b content
  assume p: "p = \<lparr>pu_bundle = b, pu_output_path = pq_output_path q\<rparr>" "pipeline_bundle w q = Inr b"
    "bundle_bytes b = Inr content"
    "(write_step content tmp (pq_output_path q))\<^sup>*\<^sup>* (Ready, files) (Returned, files')"
  then show thesis
    using that [of content] pipeline_bundle_facts(1,2) [OF p(2)] write_inv_reachable [OF p(4)] by simp
qed

lemma run_request_fields:
  "run_request k installed a r = Inr q \<Longrightarrow> pq_output_path q = sa_output a \<and> pq_strict q = sa_strict a"
  by (auto simp: run_request_def and_then_eq_Inr semgrep_request_def)

text \<open>
  A scan that succeeds has published. When \<open>semgrep run\<close> exits with success, the file named by
  \<open>--output\<close> holds the complete bytes of a bundle of valid records that the schema, the semantic
  checks and the redaction check accept, and no other file has changed; its scan was given the
  exclusion of the runtime directory of the toolchain.
\<close>

theorem semgrep_run_publishes:
  assumes "handle_run w k installed a r tmp files (Inr out) files'" "oc_exit out = SUCCESS"
  shows "\<exists>q b content configs. run_request k installed a r = Inr q \<and>
    run_config_arguments k r = Inr configs \<and>
    pq_execution_arguments q = configs @ [''--exclude'', ''.l9/runtime''] \<and>
    valid_bundle b \<and> publishable (pw_schema w) b \<and> bundle_bytes b = Inr content \<and>
    files' = files(sa_output a \<mapsto> content)"
  using assms(1) unfolding handle_run_def
proof (rule semgrep_command_Inr)
  fix q result
  assume q: "run_request k installed a r = Inr q" "run_semgrep_pipeline w q tmp files result files'"
    "Inr out = request_outcome (sa_format a) PROVIDER_EXECUTION_FAILURE q result"
  then obtain p where p: "result = Inr p"
    using request_outcome_exit [of "sa_format a" PROVIDER_EXECUTION_FAILURE q result out] assms(2) by auto
  obtain content where "valid_bundle (pu_bundle p)" "publishable (pw_schema w) (pu_bundle p)"
    "bundle_bytes (pu_bundle p) = Inr content" "files' = files(pq_output_path q \<mapsto> content)"
    using q(2) unfolding p by (rule returned_pipeline)
  moreover obtain configs where "run_config_arguments k r = Inr configs"
    "pq_execution_arguments q = configs @ [''--exclude'', ''.l9/runtime'']"
    using q(1) by (auto simp: run_request_def and_then_eq_Inr semgrep_request_def run_exclusion_arguments_def
        RUNTIME_SCAFFOLDING_EXCLUSIONS_def)
  ultimately show ?thesis
    using q(1) run_request_fields [OF q(1)] by auto
qed

text \<open>
  The configurations of a run are those of its profile: the registry ruleset of the language exactly
  when the profile includes it and the option does not forbid it, then the packaged rules exactly
  when the profile includes them, then the extra configurations as given.
\<close>

lemma run_config_arguments_Inr:
  "run_config_arguments k a = Inr configs \<Longrightarrow>
   (\<exists>profile registry l9. selected_profile k a = Inr profile \<and>
      configs = registry @ l9 @ concat (map config_option (ra_extra_config a)) \<and>
      (if sg_include_registry_ruleset profile \<and> \<not> ra_no_registry_config a
       then \<exists>c. map_of REGISTRY_CONFIG_BY_LANGUAGE (ra_language a) = Some c \<and> registry = config_option c
       else registry = []) \<and>
      (if sg_include_l9_ruleset profile
       then \<exists>d. ruleset_dir k (ra_language a) = Inr d \<and> l9 = config_option d
       else l9 = []))"
  by (auto simp: run_config_arguments_def and_then_eq_Inr split: option.splits if_splits)

text \<open>
  A request that cannot be built leaves the handler as an exception: a package without its identity
  map makes \<open>semgrep run\<close> raise instead of reporting an error.
\<close>

lemma missing_identity_map_unreported:
  assumes "sa_identity_map a = None" "\<not> rp_is_file k (rp_path k ''identity-map.yaml'')"
    "ra_raw_output r = Some raw" "handle_run w k installed a r tmp files out files'"
  shows "\<exists>m. out = Inl (FileNotFoundError m) \<and> files' = files"
proof -
  have "\<exists>m. run_request k installed a r = Inl (FileNotFoundError m)"
    using assms(1-3)
    by (simp add: run_request_def raw_output_of_def identity_map_of_def default_identity_map_path_def
        packaged_file_def Let_def)
  with assms(4) show ?thesis
    unfolding handle_run_def by (auto elim: semgrep_command.cases)
qed

end
