(* ===== verification/Manifest.thy ===== *)
theory Manifest
  imports Command_Line Repository
begin

text \<open>
  \<open>l9_ci/repository/manifest.py\<close> and \<open>l9_ci/commands/manifest.py\<close>: the inventory of a repository, its
  reconciliation with the tracked file and the two commands. \<open>resolve\<close> is what resolving an absolute
  path below the root gives, the path relative to the root or nothing outside it.
\<close>

subsection \<open>The manifest\<close>

definition DEFAULT_MANIFEST_PATH :: string where
  "DEFAULT_MANIFEST_PATH = ''MANIFEST.md''"

record repository_manifest =
  mf_files :: "string list"

definition manifest_file_count :: "repository_manifest \<Rightarrow> nat" where
  "manifest_file_count m = length (mf_files m)"

definition backquoted :: "string \<Rightarrow> string" where
  "backquoted path = ''- '' @ [CHR 0x60] @ path @ [CHR 0x60]"

definition render_markdown :: "repository_manifest \<Rightarrow> string" where
  "render_markdown m =
     join [CHR 0x0A]
       ([''# Consolidated Manifest'', [], ''Files: '' @ string_of_nat (manifest_file_count m), [],
         ''## Contents'', []] @ map backquoted (mf_files m)) @ [CHR 0x0A]"

record manifest_world =
  mw_git :: git_run
  mw_environ :: "(string \<times> string) list"
  mw_tree :: repository_tree
  mw_resolve :: "string \<Rightarrow> string option"

record manifest_options =
  mo_include_untracked :: bool
  mo_excluded_paths :: "string list"
  mo_excluded_directories :: "string list"

definition relative_manifest :: "manifest_world \<Rightarrow> string \<Rightarrow> string result" where
  "relative_manifest w manifest_path =
     (if posix_absolute manifest_path then
        case mw_resolve w manifest_path of
          None \<Rightarrow> Inl (ValueError ''manifest path must be inside repository root'')
        | Some p \<Rightarrow> Inr p
      else Inr (relative_as_posix manifest_path))"

definition manifest_candidates :: "manifest_world \<Rightarrow> manifest_options \<Rightarrow> string list result" where
  "manifest_candidates w opts =
     (if is_git_repository (mw_git w) (mw_environ w) then
        and_then (inspect_git_repository (mw_git w) (mw_environ w) (mo_include_untracked opts)) (\<lambda>s.
        Inr (git_all_files s))
      else enumerate_repository_files (mw_tree w) (mo_excluded_directories opts))"

definition manifest_kept :: "manifest_options \<Rightarrow> string \<Rightarrow> string \<Rightarrow> bool" where
  "manifest_kept opts relative path \<longleftrightarrow>
     path \<notin> set (DEFAULT_MANIFEST_PATH # relative # mo_excluded_paths opts) \<and>
     \<not> list_ex (\<lambda>part. part \<in> set (mo_excluded_directories opts)) (posix_parts path)"

definition build_repository_manifest ::
  "manifest_world \<Rightarrow> string \<Rightarrow> manifest_options \<Rightarrow> repository_manifest result"
where
  "build_repository_manifest w manifest_path opts =
     (if \<not> rt_is_dir (mw_tree w) then
        Inl (ValueError (''repository root is not a directory: '' @ rt_root (mw_tree w)))
      else
        and_then (relative_manifest w manifest_path) (\<lambda>relative.
        and_then (manifest_candidates w opts) (\<lambda>candidates.
        Inr \<lparr>mf_files = sort (filter (manifest_kept opts relative) candidates)\<rparr>)))"

text \<open>
  Writing the manifest: \<open>previous\<close> is what reading the output file gives, nothing when there is no
  file; the write goes to a temporary file that replaces the output. The result is the manifest, the
  change flag and the content written, if any.
\<close>

definition manifest_output :: "manifest_world \<Rightarrow> string \<Rightarrow> string" where
  "manifest_output w manifest_path =
     (if posix_absolute manifest_path then manifest_path
      else rt_root (mw_tree w) @ ''/'' @ relative_as_posix manifest_path)"

definition write_repository_manifest ::
  "manifest_world \<Rightarrow> string option result \<Rightarrow> file_writer \<Rightarrow> string \<Rightarrow> manifest_options \<Rightarrow>
   (repository_manifest \<times> bool \<times> (string \<times> string) list) result"
where
  "write_repository_manifest w previous writer manifest_path opts =
     (let output = manifest_output w manifest_path
      in and_then (build_repository_manifest w output opts) (\<lambda>m.
         and_then previous (\<lambda>old.
           let rendered = render_markdown m
           in if old \<noteq> Some rendered then
                and_then (written writer output rendered) (\<lambda>f. Inr (m, True, [f]))
              else Inr (m, False, []))))"

subsection \<open>Commands\<close>

text \<open>\<open>except (OSError, ValueError)\<close>; other exceptions leave the handler.\<close>

definition manifest_guarded ::
  "'a result \<Rightarrow> ('a \<Rightarrow> outcome result) \<Rightarrow> outcome result"
where
  "manifest_guarded body rest =
     (case body of
        Inl e \<Rightarrow>
          if is_os_error e \<or> is_value_error e then
            Inr (complained INVALID_ARGUMENTS [''error: '' @ exc_message e])
          else Inl e
      | Inr a \<Rightarrow> rest a)"

definition emit_payload :: "exit_code \<Rightarrow> (string \<times> string) list \<Rightarrow> pydict \<Rightarrow> outcome result" where
  "emit_payload code files payload =
     and_then (json_pretty False 0 (PDict payload)) (\<lambda>text.
     Inr ((printed code [text])\<lparr>oc_files := files\<rparr>))"

definition path_as_posix :: "string \<Rightarrow> string" where
  "path_as_posix s =
     (if posix_absolute s then ''/'' @ join ''/'' (posix_parts s) else relative_as_posix s)"

definition handle_manifest_generate ::
  "manifest_world \<Rightarrow> string \<Rightarrow> string option result \<Rightarrow> file_writer \<Rightarrow> string \<Rightarrow> manifest_options \<Rightarrow>
   outcome result"
where
  "handle_manifest_generate w root previous writer output opts =
     manifest_guarded (write_repository_manifest w previous writer output opts) (\<lambda>(m, changed, files).
       emit_payload SUCCESS files
         [(PStr ''changed'', PBool changed), (PStr ''file_count'', PInt (int (manifest_file_count m))),
          (PStr ''manifest'', PStr (path_as_posix output)),
          (PStr ''repository_root'', PStr (path_as_posix root))])"

definition handle_manifest_check ::
  "manifest_world \<Rightarrow> string option result \<Rightarrow> file_writer \<Rightarrow> string \<Rightarrow> manifest_options \<Rightarrow> outcome result"
where
  "handle_manifest_check w previous writer output opts =
     manifest_guarded (write_repository_manifest w previous writer output opts) (\<lambda>(m, changed, files).
       emit_payload (if changed then GATE_FAILURE else SUCCESS) files
         [(PStr ''changed'', PBool changed), (PStr ''manifest'', PStr (path_as_posix output))])"

subsection \<open>Properties\<close>

lemma build_repository_manifest_Inr:
  "build_repository_manifest w manifest_path opts = Inr m \<longleftrightarrow>
     rt_is_dir (mw_tree w) \<and>
     (\<exists>relative candidates. relative_manifest w manifest_path = Inr relative \<and>
        manifest_candidates w opts = Inr candidates \<and>
        mf_files m = sort (filter (manifest_kept opts relative) candidates))"
  by (cases m) (auto simp: build_repository_manifest_def and_then_eq_Inr)

text \<open>
  What a manifest lists. It has exactly the candidate files that are not the manifest itself, not
  excluded by path and not below an excluded directory, in order; the manifest never lists itself.
\<close>

theorem manifest_lists_repository:
  assumes "build_repository_manifest w manifest_path opts = Inr m"
  shows "sorted (mf_files m) \<and> DEFAULT_MANIFEST_PATH \<notin> set (mf_files m) \<and>
    (\<exists>relative candidates. relative_manifest w manifest_path = Inr relative \<and>
       manifest_candidates w opts = Inr candidates \<and> relative \<notin> set (mf_files m) \<and>
       (\<forall>path. path \<in> set (mf_files m) \<longleftrightarrow>
          path \<in> set candidates \<and> path \<notin> {DEFAULT_MANIFEST_PATH, relative} \<and>
          path \<notin> set (mo_excluded_paths opts) \<and>
          set (posix_parts path) \<inter> set (mo_excluded_directories opts) = {}))"
proof -
  obtain relative candidates where r: "relative_manifest w manifest_path = Inr relative"
    "manifest_candidates w opts = Inr candidates"
    "mf_files m = sort (filter (manifest_kept opts relative) candidates)"
    using assms unfolding build_repository_manifest_Inr by blast
  have "path \<in> set (mf_files m) \<longleftrightarrow>
          path \<in> set candidates \<and> path \<notin> {DEFAULT_MANIFEST_PATH, relative} \<and>
          path \<notin> set (mo_excluded_paths opts) \<and>
          set (posix_parts path) \<inter> set (mo_excluded_directories opts) = {}" for path
    by (auto simp: r(3) manifest_kept_def list_ex_iff)
  moreover have "sorted (mf_files m)" by (simp add: r(3))
  ultimately show ?thesis using r(1,2) by blast
qed

text \<open>Two listings that differ in excluded files only, the manifest among them.\<close>

lemma manifest_kept_cong:
  assumes "filter (manifest_kept opts relative) cs = filter (manifest_kept opts relative) cs'"
    and "manifest_candidates w opts = Inr cs" "manifest_candidates w' opts = Inr cs'"
    and "relative_manifest w output = Inr relative" "relative_manifest w' output = Inr relative"
    and "rt_is_dir (mw_tree w')"
    and "build_repository_manifest w output opts = Inr m"
  shows "build_repository_manifest w' output opts = Inr m"
  using assms by (auto simp: build_repository_manifest_def split: if_splits)


definition sample_manifest_world :: "(string list \<times> bool) list \<Rightarrow> manifest_world" where
  "sample_manifest_world paths =
     \<lparr>mw_git = (\<lambda>_ _. (1, [], [])), mw_environ = [],
      mw_tree = \<lparr>rt_root = ''/r'', rt_exists = True, rt_is_dir = True, rt_paths = paths\<rparr>,
      mw_resolve = (\<lambda>_. Some ''MANIFEST.md'')\<rparr>"

definition sample_manifest_options :: manifest_options where
  "sample_manifest_options =
     \<lparr>mo_include_untracked = True, mo_excluded_paths = [], mo_excluded_directories = [''build'']\<rparr>"

lemma sample_manifest_built:
  "build_repository_manifest (sample_manifest_world [([''a'', ''b.py''], True), ([''build'', ''x''], True)])
     ''/r/MANIFEST.md'' sample_manifest_options = Inr \<lparr>mf_files = [''a/b.py'']\<rparr>"
  by code_simp

theorem manifest_lists_repository_witness: "DEFAULT_MANIFEST_PATH \<notin> set (mf_files \<lparr>mf_files = [''a/b.py'']\<rparr>)"
  using manifest_lists_repository [OF sample_manifest_built] by blast

lemma sample_manifest_written:
  "write_repository_manifest (sample_manifest_world [([''a''], True)]) (Inr None) (\<lambda>_ _. Inr ()) ''MANIFEST.md''
     sample_manifest_options =
   Inr (\<lparr>mf_files = [''a'']\<rparr>, True, [(''/r/MANIFEST.md'', render_markdown \<lparr>mf_files = [''a'']\<rparr>)])"
  by code_simp


end
