(* ===== verification/Observation_Commands.thy ===== *)
theory Observation_Commands
  imports Observation Artifact_Commands Manifest
begin

text \<open>
  \<open>l9_ci/commands/observations.py\<close>: the projections that run a check themselves and the four handlers.
  What parsing the bundle file gives is \<open>source\<close>, its bytes are \<open>raw\<close>. A resolved output path below
  the root is again \<open>mw_resolve\<close>.
\<close>

subsection \<open>The SDK's own validation\<close>

text \<open>
  The \<open>try\<close> around the validation: the bundle when it loaded, and whether it is valid. Only a
  \<open>ValueError\<close> or an \<open>OSError\<close> is a verdict.
\<close>

definition sdk_verdict :: "schema_validator \<Rightarrow> pyval result \<Rightarrow> (finding_bundle option \<times> bool) result" where
  "sdk_verdict bundle_schema source =
     (case load_bundle bundle_schema source of
        Inl e \<Rightarrow> if is_value_error e \<or> is_os_error e then Inr (None, False) else Inl e
      | Inr b \<Rightarrow>
          (case redaction_require_valid (validate_redaction (bundle_to_dict b)) of
             Inl e \<Rightarrow> if is_value_error e \<or> is_os_error e then Inr (Some b, False) else Inl e
           | Inr _ \<Rightarrow> Inr (Some b, True)))"

definition validated_input_digest :: "finding_bundle option \<Rightarrow> string result \<Rightarrow> string option result" where
  "validated_input_digest bundle raw =
     (case bundle of
        Some b \<Rightarrow> and_then (canonical_digest b) (\<lambda>d. Inr (Some d))
      | None \<Rightarrow>
          (case raw of
             Inl e \<Rightarrow> if is_os_error e then Inr None else Inl e
           | Inr bytes \<Rightarrow> Inr (Some (sha256_hexdigest bytes))))"

definition sdk_artifacts :: "finding_bundle option \<Rightarrow> string option \<Rightarrow> string option \<Rightarrow> pydict list result" where
  "sdk_artifacts bundle digest source_path =
     (case digest of
        None \<Rightarrow> Inr []
      | Some d \<Rightarrow>
          and_then (source_path_entry source_path) (\<lambda>path.
          Inr [[(PStr ''name'', PStr ''finding-bundle''), (PStr ''digest'', digest_value d),
                (PStr ''mediaType'', PStr BUNDLE_MEDIA_TYPE)] @
               (case bundle of None \<Rightarrow> [] | Some b \<Rightarrow> [(PStr ''sdkVersion'', PStr (fb_SDK_version b))]) @
               path]))"

text \<open>A request without findings: every count is zero.\<close>

definition verdict_request ::
  "projection_context \<Rightarrow> string \<Rightarrow> string \<Rightarrow> bool \<Rightarrow> pydict list \<Rightarrow> observation_request"
where
  "verdict_request c revision check_id passed artifacts =
     counted_request c (PStr revision) check_id (if passed then ''passed'' else ''failed'') [] 0 [] artifacts"

definition project_sdk_validation_observation ::
  "schema_validator \<Rightarrow> schema_validator \<Rightarrow> calendar \<Rightarrow> pyval result \<Rightarrow> string result \<Rightarrow> projection_context \<Rightarrow>
   string \<Rightarrow> string option \<Rightarrow> pydict result"
where
  "project_sdk_validation_observation bundle_schema observation_schema calendar source raw c revision
     source_path =
     (if blank revision then
        Inl (ValueError ''revision is required to bind an sdk-validation observation'')
      else
        and_then (sdk_verdict bundle_schema source) (\<lambda>(bundle, passed).
        if (case bundle of None \<Rightarrow> False | Some b \<Rightarrow> sd_revision (fb_snapshot b) \<noteq> PStr revision) then
          Inl (ValueError (''revision does not match the FindingBundle snapshot revision; the observation '' @
            ''would describe a different subject than the artifact it validated''))
        else
          and_then (validated_input_digest bundle raw) (\<lambda>digest.
          and_then (sdk_artifacts bundle digest source_path) (\<lambda>artifacts.
          build_observation observation_schema calendar
            (verdict_request c revision ''l9.sdk-validation'' passed artifacts)))))"

subsection \<open>Repository metadata\<close>

text \<open>The path as the repository sees it, or its name.\<close>

definition repository_relative_path :: "manifest_world \<Rightarrow> string \<Rightarrow> string" where
  "repository_relative_path w path =
     (case mw_resolve w path of Some p \<Rightarrow> p | None \<Rightarrow> path_name path)"

text \<open>The \<open>try\<close> around the comparison: the derived text, and whether the tracked file equals it.\<close>

definition manifest_verdict ::
  "manifest_world \<Rightarrow> string option result \<Rightarrow> string \<Rightarrow> manifest_options \<Rightarrow> (string option \<times> bool) result"
where
  "manifest_verdict w tracked output opts =
     (case and_then (build_repository_manifest w output opts) (\<lambda>m.
             and_then tracked (\<lambda>old. Inr (render_markdown m, old = Some (render_markdown m)))) of
        Inl e \<Rightarrow> if is_value_error e \<or> is_os_error e then Inr (None, False) else Inl e
      | Inr (rendered, reconciled) \<Rightarrow> Inr (Some rendered, reconciled))"

definition manifest_artifact :: "manifest_world \<Rightarrow> string \<Rightarrow> string option \<Rightarrow> pydict" where
  "manifest_artifact w output rendered =
     [(PStr ''name'', PStr ''repository-manifest''),
      (PStr ''digest'', digest_value (sha256_hexdigest
         (case rendered of None \<Rightarrow> [] | Some text \<Rightarrow> utf8_encode text))),
      (PStr ''mediaType'', PStr ''text/markdown''),
      (PStr ''path'', PStr (repository_relative_path w output))]"

definition project_repository_metadata_observation ::
  "schema_validator \<Rightarrow> calendar \<Rightarrow> manifest_world \<Rightarrow> string option result \<Rightarrow> projection_context \<Rightarrow> string \<Rightarrow>
   string \<Rightarrow> manifest_options \<Rightarrow> pydict result"
where
  "project_repository_metadata_observation observation_schema calendar w tracked c revision manifest_path
     opts =
     (if blank revision then
        Inl (ValueError ''revision is required to bind a repository-metadata observation'')
      else if \<not> is_git_repository (mw_git w) (mw_environ w) then
        Inl (ValueError (rt_root (mw_tree w) @ '' is not a git repository, so no revision can be observed; '' @
          ''an observation bound to an unverified revision would be an assertion rather than evidence''))
      else
        and_then (inspect_git_repository (mw_git w) (mw_environ w) True) (\<lambda>state.
        if gs_revision state \<noteq> revision then
          Inl (ValueError (''revision does not match the repository HEAD ('' @ gs_revision state @
            ''); the observation would name one revision while describing another''))
        else if gs_dirty state then
          Inl (ValueError (''the working tree is dirty, so a manifest comparison does not describe the '' @
            ''committed revision; emit this observation before any step that writes generated files''))
        else
          let output = manifest_output w manifest_path
          in and_then (manifest_verdict w tracked output opts) (\<lambda>(rendered, reconciled).
             build_observation observation_schema calendar
               (verdict_request c revision ''l9.repository-metadata'' reconciled
                  [manifest_artifact w output rendered]))))"

subsection \<open>Handlers\<close>

text \<open>\<open>_write_output\<close> and the end of every handler.\<close>

definition observation_written ::
  "file_writer \<Rightarrow> string \<Rightarrow> output_format \<Rightarrow> pydict result \<Rightarrow> outcome result"
where
  "observation_written writer output format payload =
     guarded format ARTIFACT_VALIDATION_FAILURE
       (and_then payload (\<lambda>p. and_then (canonical_json_bytes (PDict p)) (written writer output)))
       (\<lambda>f. Inr ((printed SUCCESS [output])\<lparr>oc_files := [f]\<rparr>))"

text \<open>\<open>if not args.revision: raise\<close>\<close>

definition required_revision :: "string option \<Rightarrow> string \<Rightarrow> string result" where
  "required_revision revision command =
     (case revision of
        None \<Rightarrow> Inl (ValueError (''--revision is required for observation '' @ command))
      | Some r \<Rightarrow>
          if r = [] then Inl (ValueError (''--revision is required for observation '' @ command))
          else Inr r)"

definition build_request ::
  "projection_context \<Rightarrow> string \<Rightarrow> string \<Rightarrow> string \<Rightarrow> int \<Rightarrow> int \<Rightarrow> int \<Rightarrow> observation_request"
where
  "build_request c revision check_id status errors warnings informational =
     (counted_request c (PStr revision) check_id status [] errors [] [])
       \<lparr>oq_warning_count := PInt warnings, oq_informational_count := PInt informational\<rparr>"

definition handle_observation_build ::
  "schema_validator \<Rightarrow> calendar \<Rightarrow> file_writer \<Rightarrow> projection_context \<Rightarrow> string option \<Rightarrow> string \<Rightarrow> string \<Rightarrow>
   int \<Rightarrow> int \<Rightarrow> int \<Rightarrow> string \<Rightarrow> output_format \<Rightarrow> outcome result"
where
  "handle_observation_build observation_schema calendar writer c revision check_id status errors warnings
     informational output format =
     observation_written writer output format
       (and_then (required_revision revision ''build'') (\<lambda>r.
        build_observation observation_schema calendar
          (build_request c r check_id status errors warnings informational)))"

definition relative_input :: "string \<Rightarrow> string option" where
  "relative_input path = (if posix_absolute path then None else Some (relative_as_posix path))"

definition handle_project_mandatory_findings ::
  "schema_validator \<Rightarrow> schema_validator \<Rightarrow> calendar \<Rightarrow> file_writer \<Rightarrow> pyval result \<Rightarrow> projection_context \<Rightarrow>
   string option \<Rightarrow> string \<Rightarrow> string \<Rightarrow> output_format \<Rightarrow> outcome result"
where
  "handle_project_mandatory_findings bundle_schema observation_schema calendar writer source c revision
     input output format =
     observation_written writer output format
       (and_then (load_bundle bundle_schema source) (\<lambda>b.
        if (case revision of None \<Rightarrow> False | Some r \<Rightarrow> r \<noteq> [] \<and> sd_revision (fb_snapshot b) \<noteq> PStr r) then
          Inl (ValueError ''--revision does not match FindingBundle snapshot revision'')
        else
          project_mandatory_findings_observation observation_schema calendar b c (relative_input input)))"

definition handle_project_sdk_validation ::
  "schema_validator \<Rightarrow> schema_validator \<Rightarrow> calendar \<Rightarrow> file_writer \<Rightarrow> pyval result \<Rightarrow> string result \<Rightarrow>
   projection_context \<Rightarrow> string option \<Rightarrow> string \<Rightarrow> string \<Rightarrow> output_format \<Rightarrow> outcome result"
where
  "handle_project_sdk_validation bundle_schema observation_schema calendar writer source raw c revision
     input output format =
     observation_written writer output format
       (and_then (required_revision revision ''project-sdk-validation'') (\<lambda>r.
        project_sdk_validation_observation bundle_schema observation_schema calendar source raw c r
          (relative_input input)))"

definition handle_project_repository_metadata ::
  "schema_validator \<Rightarrow> calendar \<Rightarrow> file_writer \<Rightarrow> manifest_world \<Rightarrow> string option result \<Rightarrow>
   projection_context \<Rightarrow> string option \<Rightarrow> string \<Rightarrow> manifest_options \<Rightarrow> string \<Rightarrow> output_format \<Rightarrow> outcome result"
where
  "handle_project_repository_metadata observation_schema calendar writer w tracked c revision manifest_path
     opts output format =
     observation_written writer output format
       (and_then (required_revision revision ''project-repository-metadata'') (\<lambda>r.
        project_repository_metadata_observation observation_schema calendar w tracked c r manifest_path opts))"

subsection \<open>Verdicts\<close>

definition bundle_accepted :: "schema_validator \<Rightarrow> pyval result \<Rightarrow> bool" where
  "bundle_accepted bundle_schema source \<longleftrightarrow>
     (\<exists>b. load_bundle bundle_schema source = Inr b \<and> rd_errors (validate_redaction (bundle_to_dict b)) = [])"

lemma sdk_verdict_Inr:
  assumes "sdk_verdict bundle_schema source = Inr (bundle, passed)"
  shows "(passed \<longleftrightarrow> bundle_accepted bundle_schema source) \<and>
    (\<forall>b. load_bundle bundle_schema source = Inr b \<longrightarrow> bundle = Some b)"
proof (cases "load_bundle bundle_schema source")
  case (Inl e)
  with assms show ?thesis
    by (auto simp: sdk_verdict_def bundle_accepted_def split: if_splits)
next
  case (Inr b)
  with assms show ?thesis
    by (auto simp: sdk_verdict_def bundle_accepted_def redaction_require_valid_def split: if_splits)
qed

lemma verdict_status:
  assumes "build_observation s calendar (verdict_request c revision check_id passed artifacts) = Inr p"
  shows "\<exists>execution. dget p ''execution'' = Some (PDict execution) \<and>
    dget execution ''status'' = Some (PStr (if passed then ''passed'' else ''failed''))"
  using built_status [OF assms] by (simp add: verdict_request_def counted_request_def)

text \<open>
  C29: an SDK validation observation says what the validation found. Its status is \<open>passed\<close> exactly
  when the bundle file loads as a valid bundle that is redacted and \<open>failed\<close> otherwise, and a bundle
  that loads is one of the stated revision. No argument of the projection sets the status.
\<close>

theorem sdk_validation_honest:
  assumes "project_sdk_validation_observation bundle_schema observation_schema calendar source raw c
    revision source_path = Inr p"
  shows "(\<exists>execution. dget p ''execution'' = Some (PDict execution) \<and>
      dget execution ''status'' =
        Some (PStr (if bundle_accepted bundle_schema source then ''passed'' else ''failed''))) \<and>
    (\<forall>b. load_bundle bundle_schema source = Inr b \<longrightarrow> sd_revision (fb_snapshot b) = PStr revision)"
proof -
  obtain loaded passed artifacts where v: "sdk_verdict bundle_schema source = Inr (loaded, passed)"
    and match: "\<forall>b. loaded = Some b \<longrightarrow> sd_revision (fb_snapshot b) = PStr revision"
    and build: "build_observation observation_schema calendar
      (verdict_request c revision ''l9.sdk-validation'' passed artifacts) = Inr p"
    using assms
    by (auto simp: project_sdk_validation_observation_def and_then_eq_Inr split: if_splits option.splits)
  show ?thesis
    using sdk_verdict_Inr [OF v] match verdict_status [OF build] by auto
qed

text \<open>
  C30: a repository metadata observation describes the committed revision. One that is returned
  names the HEAD of a clean git repository, and its status is \<open>passed\<close> exactly when the tracked
  manifest is the text derived from the repository.
\<close>

theorem repository_metadata_honest:
  assumes "project_repository_metadata_observation observation_schema calendar w tracked c revision
    manifest_path opts = Inr p"
  shows "(\<exists>state. inspect_git_repository (mw_git w) (mw_environ w) True = Inr state \<and>
      gs_revision state = revision \<and> \<not> gs_dirty state) \<and>
    (\<exists>execution. dget p ''execution'' = Some (PDict execution) \<and>
      dget execution ''status'' =
        Some (PStr (if \<exists>m. build_repository_manifest w (manifest_output w manifest_path) opts = Inr m \<and>
            tracked = Inr (Some (render_markdown m)) then ''passed'' else ''failed'')))"
proof -
  let ?output = "manifest_output w manifest_path"
  obtain state rendered reconciled where state: "inspect_git_repository (mw_git w) (mw_environ w) True = Inr state"
    "gs_revision state = revision" "\<not> gs_dirty state"
    and v: "manifest_verdict w tracked ?output opts = Inr (rendered, reconciled)"
    and build: "build_observation observation_schema calendar
      (verdict_request c revision ''l9.repository-metadata'' reconciled
         [manifest_artifact w ?output rendered]) = Inr p"
    using assms
    by (auto simp: project_repository_metadata_observation_def and_then_eq_Inr Let_def split: if_splits)
  have "reconciled \<longleftrightarrow> (\<exists>m. build_repository_manifest w ?output opts = Inr m \<and>
            tracked = Inr (Some (render_markdown m)))"
    using v by (cases "build_repository_manifest w ?output opts"; cases tracked)
      (auto simp: manifest_verdict_def split: if_splits)
  then show ?thesis
    using state verdict_status [OF build] by simp
qed

text \<open>
  A file whose root is no mapping is not a \<open>failed\<close> bundle: loading it raises an \<open>AttributeError\<close>,
  which leaves the projection.
\<close>

lemma sdk_validation_of_list:
  assumes "\<not> blank revision"
  shows "\<exists>m. project_sdk_validation_observation bundle_schema observation_schema calendar (Inr (PList xs)) raw
    c revision source_path = Inl (AttributeError m)"
  using assms
  by (simp add: project_sdk_validation_observation_def sdk_verdict_def load_bundle_def
      load_and_validate_bundle_def)

text \<open>
  An observation command writes a validated observation or nothing. It exits with success exactly
  when its projection returns an observation, whose canonical bytes then are in the output file; with
  any other exit code it has written nothing.
\<close>

theorem observation_command_writes:
  assumes "observation_written writer output format payload = Inr r"
  shows "(oc_exit r = SUCCESS \<longleftrightarrow>
      (\<exists>p content. payload = Inr p \<and> canonical_json_bytes (PDict p) = Inr content \<and>
         writer output content = Inr () \<and> oc_files r = [(output, content)])) \<and>
    (oc_exit r \<noteq> SUCCESS \<longrightarrow> oc_files r = [])"
proof (cases "and_then payload (\<lambda>p. and_then (canonical_json_bytes (PDict p)) (written writer output))")
  case (Inl e)
  then have r: "emit_error e format ARTIFACT_VALIDATION_FAILURE = Inr r"
    using assms by (simp add: observation_written_def guarded_def)
  moreover have "\<not> (\<exists>p content. payload = Inr p \<and> canonical_json_bytes (PDict p) = Inr content \<and>
      writer output content = Inr ())"
    using Inl by (auto simp: written_def)
  ultimately show ?thesis
    using emit_error_Inr [OF r] by auto
next
  case (Inr f)
  then have "r = (printed SUCCESS [output])\<lparr>oc_files := [f]\<rparr>"
    using assms by (simp add: observation_written_def guarded_def)
  then show ?thesis
    using Inr by (auto simp: and_then_eq_Inr written_def printed_def)
qed

subsection \<open>Witnesses\<close>

lemma sample_verdict_built:
  "\<exists>p. build_observation (\<lambda>_. []) (\<lambda>_. True)
     (verdict_request sample_observation_context (replicate 40 CHR ''b'') ''l9.sdk-validation'' False []) = Inr p"
proof -
  let ?q = "verdict_request sample_observation_context (replicate 40 CHR ''b'') ''l9.sdk-validation'' False []"
  have check: "check_request ?q = Inr ()" by code_simp
  have "(case observation_payload ?q of Inl _ \<Rightarrow> False
      | Inr payload \<Rightarrow> json_value (PDict payload) \<and> observation_timestamp_errors (\<lambda>_. True) payload = [])"
    by code_simp
  then obtain payload where "observation_payload ?q = Inr payload" "json_value (PDict payload)"
    "observation_timestamp_errors (\<lambda>_. True) payload = []"
    by (auto split: sum.splits)
  then show ?thesis
    using build_observation_returns [OF check, of payload "\<lambda>_. []" "\<lambda>_. True"] by blast
qed

theorem sdk_validation_honest_witness:
  "\<exists>p execution. project_sdk_validation_observation (\<lambda>_. []) (\<lambda>_. []) (\<lambda>_. True)
       (Inl (JSONDecodeError ''bad'')) (Inl (OSError ''gone'')) sample_observation_context (replicate 40 CHR ''b'') None = Inr p \<and>
     dget p ''execution'' = Some (PDict execution) \<and> dget execution ''status'' = Some (PStr ''failed'')"
proof -
  have "\<not> blank (replicate 40 CHR ''b'')" by code_simp
  then have "\<exists>p. project_sdk_validation_observation (\<lambda>_. []) (\<lambda>_. []) (\<lambda>_. True)
       (Inl (JSONDecodeError ''bad'')) (Inl (OSError ''gone'')) sample_observation_context (replicate 40 CHR ''b'') None = Inr p"
    using sample_verdict_built
    by (simp add: project_sdk_validation_observation_def sdk_verdict_def load_bundle_def
        validated_input_digest_def sdk_artifacts_def)
  then obtain p where p: "project_sdk_validation_observation (\<lambda>_. []) (\<lambda>_. []) (\<lambda>_. True)
       (Inl (JSONDecodeError ''bad'')) (Inl (OSError ''gone'')) sample_observation_context (replicate 40 CHR ''b'') None = Inr p"
    by blast
  have "\<not> bundle_accepted (\<lambda>_. []) (Inl (JSONDecodeError ''bad''))"
    by (simp add: bundle_accepted_def load_bundle_def)
  with sdk_validation_honest [OF p] p show ?thesis by auto
qed

theorem observation_command_writes_witness:
  "\<exists>r. observation_written (\<lambda>_ _. Inr ()) ''o.json'' Text_Format (Inl (ValueError ''no'')) = Inr r \<and> oc_files r = []"
proof -
  obtain r where r: "observation_written (\<lambda>_ _. Inr ()) ''o.json'' Text_Format (Inl (ValueError ''no'')) = Inr r"
    using emit_error_returns [of "ValueError ''no''" Text_Format ARTIFACT_VALIDATION_FAILURE]
    by (auto simp: observation_written_def guarded_def)
  then have "oc_exit r \<noteq> SUCCESS"
    using emit_error_Inr [of "ValueError ''no''" Text_Format ARTIFACT_VALIDATION_FAILURE r]
    by (auto simp: observation_written_def guarded_def)
  with observation_command_writes [OF r] r show ?thesis by blast
qed

definition sample_git :: git_run where
  "sample_git arguments env =
     (if arguments = [''rev-parse'', ''--is-inside-work-tree''] then (0, ''true'', [])
      else if arguments = [''rev-parse'', ''HEAD''] then (0, replicate 40 CHR ''b'', [])
      else if arguments = [''ls-files'', ''-z''] then (0, ''a'', []) else (0, [], []))"

definition sample_clean_world :: manifest_world where
  "sample_clean_world = (sample_manifest_world [])\<lparr>mw_git := sample_git\<rparr>"

definition sample_tracked :: string where
  "sample_tracked = render_markdown \<lparr>mf_files = [''a'']\<rparr>"

lemma sample_metadata_built:
  "\<exists>p. build_observation (\<lambda>_. []) (\<lambda>_. True)
     (verdict_request sample_observation_context (replicate 40 CHR ''b'') ''l9.repository-metadata'' True
        [[(PStr ''name'', PStr ''repository-manifest''), (PStr ''digest'', digest_value d),
           (PStr ''mediaType'', PStr ''text/markdown''), (PStr ''path'', PStr ''MANIFEST.md'')]]) = Inr p"
proof -
  let ?q = "verdict_request sample_observation_context (replicate 40 CHR ''b'') ''l9.repository-metadata'' True
        [[(PStr ''name'', PStr ''repository-manifest''), (PStr ''digest'', digest_value d),
           (PStr ''mediaType'', PStr ''text/markdown''), (PStr ''path'', PStr ''MANIFEST.md'')]]"
  have check: "check_request ?q = Inr ()" by code_simp
  have "(case observation_payload ?q of Inl _ \<Rightarrow> False
      | Inr payload \<Rightarrow> json_value (PDict payload) \<and> observation_timestamp_errors (\<lambda>_. True) payload = [])"
    by code_simp
  then obtain payload where "observation_payload ?q = Inr payload" "json_value (PDict payload)"
    "observation_timestamp_errors (\<lambda>_. True) payload = []"
    by (auto split: sum.splits)
  then show ?thesis
    using build_observation_returns [OF check, of payload "\<lambda>_. []" "\<lambda>_. True"] by blast
qed

lemma sample_manifest_artifact:
  "manifest_artifact sample_clean_world path (Some document) =
     [(PStr ''name'', PStr ''repository-manifest''),
      (PStr ''digest'', digest_value (sha256_hexdigest (utf8_encode document))),
      (PStr ''mediaType'', PStr ''text/markdown''), (PStr ''path'', PStr ''MANIFEST.md'')]"
  by (simp add: manifest_artifact_def repository_relative_path_def sample_clean_world_def
      sample_manifest_world_def)

theorem repository_metadata_honest_witness:
  "\<exists>p execution. project_repository_metadata_observation (\<lambda>_. []) (\<lambda>_. True) sample_clean_world
       (Inr (Some sample_tracked)) sample_observation_context (replicate 40 CHR ''b'') ''MANIFEST.md'' sample_manifest_options = Inr p \<and>
     dget p ''execution'' = Some (PDict execution) \<and> dget execution ''status'' = Some (PStr ''passed'')"
proof -
  let ?r = "replicate 40 CHR ''b''"
  have "project_repository_metadata_observation (\<lambda>_. []) (\<lambda>_. True) sample_clean_world
       (Inr (Some sample_tracked)) sample_observation_context ?r ''MANIFEST.md'' sample_manifest_options =
     build_observation (\<lambda>_. []) (\<lambda>_. True)
       (verdict_request sample_observation_context ?r ''l9.repository-metadata'' True
          [manifest_artifact sample_clean_world ''/r/MANIFEST.md'' (Some sample_tracked)])"
  proof -
    have "\<not> blank ?r" "is_git_repository (mw_git sample_clean_world) (mw_environ sample_clean_world)"
      "inspect_git_repository (mw_git sample_clean_world) (mw_environ sample_clean_world) True =
         Inr \<lparr>gs_revision = ?r, gs_dirty = False, gs_tracked_files = [''a''], gs_untracked_files = []\<rparr>"
      "manifest_output sample_clean_world ''MANIFEST.md'' = ''/r/MANIFEST.md''"
      "manifest_verdict sample_clean_world (Inr (Some sample_tracked)) ''/r/MANIFEST.md'' sample_manifest_options =
         Inr (Some sample_tracked, True)"
      by code_simp+
    then show ?thesis
      by (simp add: project_repository_metadata_observation_def)
  qed
  then obtain p where p: "project_repository_metadata_observation (\<lambda>_. []) (\<lambda>_. True) sample_clean_world
       (Inr (Some sample_tracked)) sample_observation_context ?r ''MANIFEST.md'' sample_manifest_options = Inr p"
    using sample_metadata_built [of "sha256_hexdigest (utf8_encode sample_tracked)"] sample_manifest_artifact
    by auto
  have "build_repository_manifest sample_clean_world (manifest_output sample_clean_world ''MANIFEST.md'')
      sample_manifest_options = Inr \<lparr>mf_files = [''a'']\<rparr>"
    by code_simp
  with repository_metadata_honest [OF p] p show ?thesis
    by (auto simp: sample_tracked_def)
qed

end
