(* ===== verification/Ci_Gate.thy ===== *)
theory Ci_Gate
  imports Command_Line
begin

text \<open>
  \<open>.github/scripts/evaluate_ci_gate.py\<close>, the gate a pull request merges through. What parsing the
  context file gives is \<open>source\<close>, the text of the rule modes is \<open>modes\<close>, and \<open>appender\<close> is the file
  named by \<open>GITHUB_OUTPUT\<close> when the variable is set.
\<close>

definition FAIL_RESULTS :: "string list" where
  "FAIL_RESULTS = [''failure'', ''timed_out'', ''action_required'']"

definition VALID_MODES :: "string list" where
  "VALID_MODES = [''blocking'', ''advisory'', ''shadow'', ''disabled'']"

subsection \<open>Reading the context and the rule modes\<close>

text \<open>The mapping and the warnings of \<open>_load_json\<close>.\<close>

definition load_context :: "string \<Rightarrow> pyval result \<Rightarrow> (pydict \<times> string list) result" where
  "load_context path source =
     (case source of
        Inr v \<Rightarrow> Inr (case v of PDict d \<Rightarrow> d | _ \<Rightarrow> [], [])
      | Inl e \<Rightarrow>
          if is_os_error e \<or> (case e of JSONDecodeError _ \<Rightarrow> True | _ \<Rightarrow> False) then
            Inr ([], [''[WARN] could not read '' @ path @ '': '' @ exc_message e])
          else Inl e)"

definition strip_chars :: "char list \<Rightarrow> string \<Rightarrow> string" where
  "strip_chars cs s = rev (dropWhile (\<lambda>c. c \<in> set cs) (rev (dropWhile (\<lambda>c. c \<in> set cs) s)))"

text \<open>\<open>val.strip().strip("\"'").lower()\<close>\<close>

definition mode_text :: "string \<Rightarrow> string" where
  "mode_text v = py_lower (strip_chars [CHR 0x22, CHR 0x27] (py_strip v))"

record rule_modes =
  ru_in_rules :: bool
  ru_default :: string
  ru_rules :: "(string \<times> string) list"

definition default_line :: "string \<Rightarrow> string \<Rightarrow> string" where
  "default_line stripped default_mode =
     (if starts_with ''default_mode:'' stripped \<and> mode_text (after_char CHR '':'' stripped) \<in> set VALID_MODES
      then mode_text (after_char CHR '':'' stripped) else default_mode)"

definition mode_rule_line :: "string \<Rightarrow> (string \<times> string) list \<Rightarrow> (string \<times> string) list" where
  "mode_rule_line stripped rules =
     (let key = py_strip (before_char CHR '':'' stripped); mode = mode_text (after_char CHR '':'' stripped)
      in if key \<noteq> [] \<and> mode \<in> set VALID_MODES then assoc_put key mode rules else rules)"

text \<open>One turn of the loop over the lines.\<close>

definition modes_line :: "string \<Rightarrow> rule_modes \<Rightarrow> rule_modes" where
  "modes_line raw st =
     (let line = py_rstrip raw; stripped = py_strip line
      in if line = [] \<or> starts_with ''#'' (py_lstrip line) then st
         else if length line - length (py_lstrip line) = 0 then
           st\<lparr>ru_in_rules := starts_with ''rules:'' stripped, ru_default := default_line stripped (ru_default st)\<rparr>
         else if ru_in_rules st \<and> CHR '':'' \<in> set stripped then
           st\<lparr>ru_rules := mode_rule_line stripped (ru_rules st)\<rparr>
         else st)"

definition no_modes :: rule_modes where
  "no_modes = \<lparr>ru_in_rules = False, ru_default = ''advisory'', ru_rules = []\<rparr>"

definition parse_rule_modes :: "string \<Rightarrow> rule_modes" where
  "parse_rule_modes document = fold modes_line (splitlines document) no_modes"

definition load_rule_modes :: "string \<Rightarrow> string result \<Rightarrow> (rule_modes \<times> string list) result" where
  "load_rule_modes path modes =
     (case modes of
        Inr document \<Rightarrow> Inr (parse_rule_modes document, [])
      | Inl e \<Rightarrow>
          if is_os_error e then
            Inr (no_modes, [''[WARN] rule-modes policy unreadable ('' @ path @ ''): '' @ exc_message e @
                            ''; using advisory default''])
          else Inl e)"

definition mode_for :: "string \<Rightarrow> rule_modes \<Rightarrow> string" where
  "mode_for rule_id m =
     (case List.find (\<lambda>c. map_of (ru_rules m) c \<noteq> None)
             [rule_id, py_upper rule_id, py_upper (replace_char CHR ''_'' CHR ''-'' rule_id)] of
        None \<Rightarrow> ru_default m
      | Some c \<Rightarrow> the (map_of (ru_rules m) c))"

subsection \<open>The verdict\<close>

record ci_routes =
  ro_blocking :: "string list"
  ro_advisory :: "string list"
  ro_shadow :: "string list"

definition route :: "rule_modes \<Rightarrow> string \<Rightarrow> string \<Rightarrow> ci_routes \<Rightarrow> ci_routes" where
  "route m rule_id detail r =
     (let mode = mode_for rule_id m; entry = mode @ '':'' @ rule_id @ '':'' @ detail
      in if mode = ''blocking'' then r\<lparr>ro_blocking := ro_blocking r @ [entry]\<rparr>
         else if mode = ''shadow'' then r\<lparr>ro_shadow := ro_shadow r @ [entry]\<rparr>
         else if mode = ''disabled'' then r
         else r\<lparr>ro_advisory := ro_advisory r @ [entry]\<rparr>)"

definition job_results :: "pydict \<Rightarrow> pydict" where
  "job_results ctx = (case dget ctx ''results'' of Some (PDict d) \<Rightarrow> d | _ \<Rightarrow> [])"

definition secret_result :: "pydict \<Rightarrow> string" where
  "secret_result ctx = py_lower (py_str (dget_default (job_results ctx) ''secret_scan'' (PStr ''missing'')))"

definition secret_findings :: "pydict \<Rightarrow> int result" where
  "secret_findings ctx =
     (let v = dget_default ctx ''secret_findings'' (PInt 0) in py_int (if py_truthy v then v else PInt 0))"

definition secret_routes :: "rule_modes \<Rightarrow> pydict \<Rightarrow> int \<Rightarrow> ci_routes \<Rightarrow> ci_routes" where
  "secret_routes m ctx findings r =
     (if secret_result ctx \<in> set FAIL_RESULTS \<or> findings > 0 then
        route m ''SECRET-LEAK-NEW''
          (''findings='' @ (if findings \<noteq> 0 then string_of_int findings else ''job_failed'')) r
      else r)"

definition unknown_routes :: "rule_modes \<Rightarrow> pydict \<Rightarrow> ci_routes \<Rightarrow> ci_routes" where
  "unknown_routes m ctx r =
     (if py_truthy (dget_none ctx ''diff_unknown'') then route m ''UNKNOWN-DIFF'' ''unclassified_changed_files'' r
      else r)"

definition job_advisories :: "pydict \<Rightarrow> string list" where
  "job_advisories ctx =
     concat (map (\<lambda>(job, v).
       let res = py_lower (py_str v)
       in if job \<noteq> PStr ''secret_scan'' \<and> (res \<in> set FAIL_RESULTS \<or> res = ''missing'') then
            [''advisory:'' @ py_str job @ '':'' @ res]
          else []) (job_results ctx))"

definition ci_routes_of :: "rule_modes \<Rightarrow> pydict \<Rightarrow> int \<Rightarrow> ci_routes" where
  "ci_routes_of m ctx findings =
     (let r = unknown_routes m ctx (secret_routes m ctx findings
                \<lparr>ro_blocking = [], ro_advisory = [], ro_shadow = []\<rparr>)
      in r\<lparr>ro_advisory := ro_advisory r @ job_advisories ctx\<rparr>)"

definition ci_result :: "ci_routes \<Rightarrow> string" where
  "ci_result r = (if ro_blocking r \<noteq> [] then ''FAIL'' else ''PASS'')"

definition merge_meaning :: "ci_routes \<Rightarrow> string" where
  "merge_meaning r = (if ro_blocking r \<noteq> [] then ''blocked_by_real_governance'' else ''advisory_only'')"

definition ci_verdict :: "rule_modes \<Rightarrow> pydict \<Rightarrow> int \<Rightarrow> ci_routes \<Rightarrow> pydict" where
  "ci_verdict m ctx findings r =
     [(PStr ''result'', PStr (ci_result r)), (PStr ''merge_meaning'', PStr (merge_meaning r)),
      (PStr ''blocking'', PList (map PStr (ro_blocking r))),
      (PStr ''advisory'', PList (map PStr (ro_advisory r))),
      (PStr ''shadow'', PList (map PStr (ro_shadow r))),
      (PStr ''secret_findings'', PInt findings),
      (PStr ''pr_class'', dget_default ctx ''pr_class'' (PStr ''unknown'')),
      (PStr ''default_mode'', PStr (ru_default m))]"

definition github_lines :: "ci_routes \<Rightarrow> string" where
  "github_lines r =
     ''gate_result='' @ ci_result r @ [CHR 0x0A] @
     ''merge_meaning='' @ merge_meaning r @ [CHR 0x0A] @
     ''blocking_count='' @ string_of_nat (length (ro_blocking r)) @ [CHR 0x0A]"

record ci_outcome =
  cg_exit :: int
  cg_stdout :: "string list"
  cg_stderr :: "string list"
  cg_github :: "string option"

definition append_output :: "(string \<Rightarrow> unit result) option \<Rightarrow> string \<Rightarrow> string option result" where
  "append_output appender lines =
     (case appender of None \<Rightarrow> Inr None | Some f \<Rightarrow> and_then (f lines) (\<lambda>_. Inr (Some lines)))"

definition evaluate_ci_gate ::
  "string \<Rightarrow> pyval result \<Rightarrow> string \<Rightarrow> string result \<Rightarrow> (string \<Rightarrow> unit result) option \<Rightarrow> ci_outcome result"
where
  "evaluate_ci_gate context_path source modes_path modes appender =
     and_then (load_context context_path source) (\<lambda>(ctx, warnings).
     and_then (load_rule_modes modes_path modes) (\<lambda>(m, more_warnings).
     and_then (secret_findings ctx) (\<lambda>findings.
     let r = ci_routes_of m ctx findings
     in and_then (json_pretty True 0 (PDict (ci_verdict m ctx findings r))) (\<lambda>verdict.
        and_then (append_output appender (github_lines r)) (\<lambda>github.
        Inr \<lparr>cg_exit = (if ro_blocking r \<noteq> [] then 1 else 0),
             cg_stdout = [verdict,
               if ro_blocking r \<noteq> [] then ''[FAIL] PR Pipeline Gate: merge blocked by a blocking-mode rule.''
               else ''[PASS] PR Pipeline Gate: no blocking-mode rule triggered (advisories/shadow may exist).''],
             cg_stderr = warnings @ more_warnings, cg_github = github\<rparr>)))))"

subsection \<open>The parser reads what the policy file says\<close>

lemma splitlines_from_line:
  assumes "list_all (\<lambda>c. \<not> line_break c) l"
  shows "splitlines_from acc (l @ CHR 0x0A # s) = (rev acc @ l) # splitlines_from [] s"
  using assms
proof (induction l arbitrary: acc)
  case Nil
  have "line_break CHR 0x0A" by code_simp
  then show ?case by (cases s) simp_all
next
  case (Cons c l)
  then have "c \<noteq> CHR 0x0D" "\<not> line_break c" by (auto simp: line_break_def)
  then have "splitlines_from acc ((c # l) @ CHR 0x0A # s) = splitlines_from (c # acc) (l @ CHR 0x0A # s)"
    by (cases l) simp_all
  then show ?case using Cons.IH [of "c # acc"] Cons.prems by simp
qed

lemma splitlines_concat:
  "list_all (list_all (\<lambda>c. \<not> line_break c)) ls \<Longrightarrow>
   splitlines (concat (map (\<lambda>l. l @ [CHR 0x0A]) ls)) = ls"
proof (induction ls)
  case Nil
  then show ?case by (simp add: splitlines_def)
next
  case (Cons l ls)
  then show ?case
    using splitlines_from_line [of l "[]" "concat (map (\<lambda>l. l @ [CHR 0x0A]) ls)"]
    by (simp add: splitlines_def)
qed

definition policy_line :: "string \<times> string \<Rightarrow> string" where
  "policy_line e = ''  '' @ fst e @ '': '' @ snd e"

definition policy_document :: "string \<Rightarrow> (string \<times> string) list \<Rightarrow> string" where
  "policy_document default_mode rules =
     concat (map (\<lambda>l. l @ [CHR 0x0A]) ((''default_mode: '' @ default_mode) # ''rules:'' # map policy_line rules))"

definition rule_key :: "string \<Rightarrow> bool" where
  "rule_key k \<longleftrightarrow> k \<noteq> [] \<and> hd k \<noteq> CHR ''#'' \<and> list_all (\<lambda>c. \<not> py_isspace c \<and> c \<noteq> CHR '':'') k"

definition rule_entry :: "string \<times> string \<Rightarrow> bool" where
  "rule_entry e \<longleftrightarrow> rule_key (fst e) \<and> snd e \<in> set VALID_MODES"

lemma line_break_isspace: "line_break c \<Longrightarrow> py_isspace c"
  by (auto simp: line_break_def py_isspace_def Let_def)

lemma valid_mode_read:
  assumes "m \<in> set VALID_MODES"
  shows "mode_text (CHR '' '' # m) = m" "list_all (\<lambda>c. \<not> py_isspace c) m" "m \<noteq> []"
proof -
  have "list_all (\<lambda>m. mode_text (CHR '' '' # m) = m \<and> list_all (\<lambda>c. \<not> py_isspace c) m \<and> m \<noteq> []) VALID_MODES"
    by code_simp
  with assms show "mode_text (CHR '' '' # m) = m" "list_all (\<lambda>c. \<not> py_isspace c) m" "m \<noteq> []"
    by (auto simp: list_all_iff)
qed

lemma rstrip_last: "s \<noteq> [] \<Longrightarrow> \<not> py_isspace (last s) \<Longrightarrow> py_rstrip s = s"
  by (cases s rule: rev_cases) (simp_all add: py_rstrip_def)

lemma lstrip_hd: "s \<noteq> [] \<Longrightarrow> \<not> py_isspace (hd s) \<Longrightarrow> py_lstrip s = s"
  by (cases s) (simp_all add: py_lstrip_def)

lemma after_before_colon:
  assumes "list_all (\<lambda>c. c \<noteq> d) k"
  shows "before_char d (k @ d # s) = k" "after_char d (k @ d # s) = s"
  using assms by (induction k) (simp_all add: before_char_def after_char_def)

lemma modes_line_entry:
  assumes "rule_entry e" "ru_in_rules st"
  shows "modes_line (policy_line e) st = st\<lparr>ru_rules := assoc_put (fst e) (snd e) (ru_rules st)\<rparr>"
proof -
  obtain k m where e: "e = (k, m)" by (cases e)
  have k: "k \<noteq> []" "hd k \<noteq> CHR ''#''" "list_all (\<lambda>c. \<not> py_isspace c) k" "list_all (\<lambda>c. c \<noteq> CHR '':'') k"
    and m: "m \<in> set VALID_MODES"
    using assms(1) by (auto simp: e rule_entry_def rule_key_def list_all_iff)
  note read = valid_mode_read [OF m]
  let ?rest = "k @ CHR '':'' # CHR '' '' # m"
  have line: "policy_line (k, m) = CHR '' '' # CHR '' '' # ?rest" by (simp add: policy_line_def)
  have space: "py_isspace CHR '' ''" by code_simp
  have "\<not> py_isspace (last m)" using read(2,3) by (simp add: list_all_iff)
  then have r: "py_rstrip (policy_line (k, m)) = CHR '' '' # CHR '' '' # ?rest" "py_rstrip ?rest = ?rest"
    using read(3) by (simp_all add: rstrip_last line)
  have "py_lstrip ?rest = ?rest" using k by (simp add: lstrip_hd list_all_iff)
  then have l: "py_lstrip (policy_line (k, m)) = ?rest" "py_lstrip (CHR '' '' # CHR '' '' # ?rest) = ?rest"
    by (simp_all add: line space py_lstrip_def)
  have "py_strip k = k" using k(3) by (rule py_strip_nonspace)
  moreover have "\<not> starts_with ''#'' ?rest" using k(1,2) by (cases k) (simp_all add: starts_with_def)
  ultimately show ?thesis
    using assms(2) k(1) m read(1) r l
    by (simp add: modes_line_def py_strip_def Let_def mode_rule_line_def after_before_colon [OF k(4)] e line)
qed

lemma fold_modes_entries:
  assumes "list_all rule_entry es" "ru_in_rules st" "distinct (map fst (ru_rules st @ es))"
  shows "fold modes_line (map policy_line es) st = st\<lparr>ru_rules := ru_rules st @ es\<rparr>"
  using assms
proof (induction es arbitrary: st)
  case (Cons e es)
  have "assoc_put k v d = d @ [(k, v)]" if "k \<notin> fst ` set d" for k v and d :: "(string \<times> string) list"
    using that by (induction d) auto
  then have "modes_line (policy_line e) st = st\<lparr>ru_rules := ru_rules st @ [e]\<rparr>"
    using Cons.prems modes_line_entry [of e st] by simp
  with Cons show ?case by simp
qed simp

lemma parse_policy_document:
  assumes "default_mode \<in> set VALID_MODES" "list_all rule_entry rules" "distinct (map fst rules)"
  shows "parse_rule_modes (policy_document default_mode rules) =
    \<lparr>ru_in_rules = True, ru_default = default_mode, ru_rules = rules\<rparr>"
proof -
  let ?lines = "(''default_mode: '' @ default_mode) # ''rules:'' # map policy_line rules"
  have "list_all (\<lambda>c. \<not> line_break c) (policy_line e)" if "rule_entry e" for e
  proof -
    have "list_all (\<lambda>c. \<not> line_break c) (''  '')" "list_all (\<lambda>c. \<not> line_break c) ('': '')" by code_simp+
    moreover have "list_all (\<lambda>c. \<not> line_break c) (fst e)" "list_all (\<lambda>c. \<not> line_break c) (snd e)"
      using that valid_mode_read(2) [of "snd e"] line_break_isspace
      by (auto simp: rule_entry_def rule_key_def list_all_iff)
    ultimately show ?thesis by (simp add: policy_line_def)
  qed
  moreover have "list_all (\<lambda>m. list_all (\<lambda>c. \<not> line_break c) (''default_mode: '' @ m)) VALID_MODES"
    "list_all (\<lambda>c. \<not> line_break c) ''rules:''"
    by code_simp+
  ultimately have "list_all (list_all (\<lambda>c. \<not> line_break c)) ?lines"
    using assms(1,2) by (auto simp: list_all_iff)
  then have lines: "splitlines (policy_document default_mode rules) = ?lines"
    unfolding policy_document_def by (rule splitlines_concat)
  have "list_all (\<lambda>m. modes_line ''rules:'' (modes_line (''default_mode: '' @ m) no_modes) =
      \<lparr>ru_in_rules = True, ru_default = m, ru_rules = []\<rparr>) VALID_MODES"
    by code_simp
  then have "modes_line ''rules:'' (modes_line (''default_mode: '' @ default_mode) no_modes) =
      \<lparr>ru_in_rules = True, ru_default = default_mode, ru_rules = []\<rparr>"
    using assms(1) by (simp add: list_all_iff)
  then show ?thesis
    using fold_modes_entries [of rules "\<lparr>ru_in_rules = True, ru_default = default_mode, ru_rules = []\<rparr>"] assms(2,3)
    by (simp add: parse_rule_modes_def lines)
qed

text \<open>
  The parser of the rule modes reads back what the policy file says. A file that states a valid
  default mode and then, under \<open>rules:\<close>, distinct rule identifiers with their modes is read as that
  default and exactly those rules.
\<close>

theorem rule_modes_roundtrip:
  assumes "default_mode \<in> set VALID_MODES" "list_all rule_entry rules" "distinct (map fst rules)"
  shows "parse_rule_modes (policy_document default_mode rules) =
    \<lparr>ru_in_rules = True, ru_default = default_mode, ru_rules = rules\<rparr>"
  using parse_policy_document [OF assms] .

theorem rule_modes_roundtrip_witness:
  "parse_rule_modes (policy_document ''advisory'' [(''SECRET-LEAK-NEW'', ''blocking''), (''UNKNOWN-DIFF'', ''shadow'')]) =
   \<lparr>ru_in_rules = True, ru_default = ''advisory'',
    ru_rules = [(''SECRET-LEAK-NEW'', ''blocking''), (''UNKNOWN-DIFF'', ''shadow'')]\<rparr>"
  by (rule rule_modes_roundtrip) code_simp+

subsection \<open>What blocks a merge\<close>

definition secret_leak :: "pydict \<Rightarrow> int \<Rightarrow> bool" where
  "secret_leak ctx findings \<longleftrightarrow> secret_result ctx \<in> set FAIL_RESULTS \<or> findings > 0"

definition diff_unknown :: "pydict \<Rightarrow> bool" where
  "diff_unknown ctx \<longleftrightarrow> py_truthy (dget_none ctx ''diff_unknown'')"

lemma route_blocking:
  "ro_blocking (route m i d r) = [] \<longleftrightarrow> ro_blocking r = [] \<and> mode_for i m \<noteq> ''blocking''"
  by (simp add: route_def Let_def)

lemma ci_routes_blocking:
  "ro_blocking (ci_routes_of m ctx n) \<noteq> [] \<longleftrightarrow>
     (secret_leak ctx n \<and> mode_for ''SECRET-LEAK-NEW'' m = ''blocking'') \<or>
     (diff_unknown ctx \<and> mode_for ''UNKNOWN-DIFF'' m = ''blocking'')"
  by (auto simp: ci_routes_of_def Let_def unknown_routes_def secret_routes_def route_blocking secret_leak_def
      diff_unknown_def)

lemma evaluate_ci_gate_Inr:
  assumes "evaluate_ci_gate cp source mp modes appender = Inr r"
  obtains ctx ws m ws' n where "load_context cp source = Inr (ctx, ws)" "load_rule_modes mp modes = Inr (m, ws')"
    "secret_findings ctx = Inr n" "cg_exit r = (if ro_blocking (ci_routes_of m ctx n) \<noteq> [] then 1 else 0)"
    "cg_stderr r = ws @ ws'"
  using assms by (auto simp: evaluate_ci_gate_def and_then_eq_Inr Let_def)

lemma ci_gate_exit:
  assumes "evaluate_ci_gate cp (Inr (PDict ctx)) mp (Inr (policy_document default_mode rules)) appender = Inr r"
    and "default_mode \<in> set VALID_MODES" "list_all rule_entry rules" "distinct (map fst rules)"
  shows "\<exists>n. secret_findings ctx = Inr n \<and>
    cg_exit r =
      (if (secret_leak ctx n \<and> (case map_of rules ''SECRET-LEAK-NEW'' of None \<Rightarrow> default_mode | Some m \<Rightarrow> m) = ''blocking'') \<or>
          (diff_unknown ctx \<and> (case map_of rules ''UNKNOWN-DIFF'' of None \<Rightarrow> default_mode | Some m \<Rightarrow> m) = ''blocking'')
       then 1 else 0)"
proof -
  let ?m = "\<lparr>ru_in_rules = True, ru_default = default_mode, ru_rules = rules\<rparr>"
  have read: "parse_rule_modes (policy_document default_mode rules) = ?m"
    using parse_policy_document [OF assms(2-4)] .
  obtain n where n: "secret_findings ctx = Inr n"
    "cg_exit r = (if ro_blocking (ci_routes_of ?m ctx n) \<noteq> [] then 1 else 0)"
    using assms(1) by (rule evaluate_ci_gate_Inr) (simp add: load_context_def load_rule_modes_def read)
  have "py_upper ''SECRET-LEAK-NEW'' = ''SECRET-LEAK-NEW''" "py_upper ''UNKNOWN-DIFF'' = ''UNKNOWN-DIFF''"
    "replace_char CHR ''_'' CHR ''-'' ''SECRET-LEAK-NEW'' = ''SECRET-LEAK-NEW''"
    "replace_char CHR ''_'' CHR ''-'' ''UNKNOWN-DIFF'' = ''UNKNOWN-DIFF''"
    by code_simp+
  then have "mode_for ''SECRET-LEAK-NEW'' ?m = (case map_of rules ''SECRET-LEAK-NEW'' of None \<Rightarrow> default_mode | Some m \<Rightarrow> m)"
    "mode_for ''UNKNOWN-DIFF'' ?m = (case map_of rules ''UNKNOWN-DIFF'' of None \<Rightarrow> default_mode | Some m \<Rightarrow> m)"
    by (simp_all only: mode_for_def) (simp_all split: option.splits)
  with n show ?thesis by (simp only: ci_routes_blocking) simp
qed



text \<open>
  A gate that cannot read its evidence or its policy lets the merge pass: with an unreadable context
  or unreadable rule modes it never blocks, whatever the other input says.
\<close>

theorem ci_gate_unreadable_passes:
  assumes "evaluate_ci_gate cp source mp modes appender = Inr r"
    and "(\<exists>e. source = Inl e) \<or> (\<exists>e. modes = Inl e)"
  shows "cg_exit r = 0 \<and> cg_stderr r \<noteq> []"
  using assms(1)
proof (rule evaluate_ci_gate_Inr, goal_cases)
  case (1 ctx ws m ws' n)
  have mode: "mode_for i no_modes = ''advisory''" for i
    by (simp add: mode_for_def no_modes_def)
  have empty: "secret_findings [] = Inr 0" "\<not> secret_leak [] 0" "\<not> diff_unknown []"
    by code_simp+
  from assms(2) show ?case
  proof
    assume "\<exists>e. source = Inl e"
    then have "ctx = []" "ws \<noteq> []" using 1(1) by (auto simp: load_context_def split: if_splits)
    with 1 empty show ?thesis by (simp add: ci_routes_blocking del: not_None_eq)
  next
    assume "\<exists>e. modes = Inl e"
    then have "m = no_modes" "ws' \<noteq> []" using 1(2) by (auto simp: load_rule_modes_def split: if_splits)
    with 1 mode show ?thesis by (simp add: ci_routes_blocking del: not_None_eq)
  qed
qed

end
