(* ===== verification/Ci_Summary.thy ===== *)
theory Ci_Summary
  imports Ci_Gate
begin

text \<open>
  The other scripts of the pull request pipeline: \<open>render_ci_summary.py\<close>, which writes the comment and
  the state of a run from the same context the gate reads, \<open>agent_review_payload.py\<close> and
  \<open>update_marker_comment.py\<close> under \<open>.github/scripts\<close>. Parsed files, the environment and the answers of
  the GitHub API are inputs.
\<close>

definition MARKER :: string where
  "MARKER = ''<!-- l9-ci-audit-marker: v1 -->''"

definition MAX_COMMENT_CHARS :: nat where
  "MAX_COMMENT_CHARS = 65336"

definition ICON :: "(string \<times> string) list" where
  "ICON =
     [(''success'', ''[PASS]''), (''skipped'', ''[SKIP]''), (''failure'', ''[FAIL]''), (''cancelled'', ''[STOP]''),
      (''missing'', ''[MISS]'')]"

subsection \<open>The rendered comment\<close>

definition result_icon :: "pyval \<Rightarrow> string" where
  "result_icon v =
     (case map_of ICON (py_lower (py_str v)) of Some i \<Rightarrow> i | None \<Rightarrow> ''['' @ py_upper (py_str v) @ '']'')"

definition summary_blocking :: "pydict \<Rightarrow> int \<Rightarrow> bool" where
  "summary_blocking ctx findings \<longleftrightarrow>
     findings > 0 \<or> py_lower (py_str (dget_default (job_results ctx) ''secret_scan'' (PStr []))) \<in> set FAIL_RESULTS"

definition summary_result :: "pydict \<Rightarrow> int \<Rightarrow> string" where
  "summary_result ctx findings = (if summary_blocking ctx findings then ''FAIL'' else ''PASS'')"

definition summary_meaning :: "pydict \<Rightarrow> int \<Rightarrow> string" where
  "summary_meaning ctx findings =
     (if summary_blocking ctx findings then ''blocked_by_real_governance'' else ''advisory_only'')"

definition advisory_jobs :: "pydict \<Rightarrow> pyval list" where
  "advisory_jobs ctx =
     map fst (filter (\<lambda>(j, r). j \<noteq> PStr ''secret_scan'' \<and>
                (py_lower (py_str r) \<in> set FAIL_RESULTS \<or> py_lower (py_str r) = ''missing'')) (job_results ctx))"

definition skipped_jobs :: "pydict \<Rightarrow> pyval list" where
  "skipped_jobs ctx = map fst (filter (\<lambda>(_, r). py_lower (py_str r) = ''skipped'') (job_results ctx))"

text \<open>\<open>ctx.get(key) or []\<close> and \<open>', '.join(v) if v else 'none'\<close>\<close>

definition value_or_empty :: "pydict \<Rightarrow> string \<Rightarrow> pyval" where
  "value_or_empty ctx key = (if py_truthy (dget_none ctx key) then dget_none ctx key else PList [])"

definition joined_or_none :: "pyval \<Rightarrow> string result" where
  "joined_or_none v =
     (if \<not> py_truthy v then Inr ''none''
      else
        (case py_iter v of
           Inl _ \<Rightarrow> Inl (TypeError ''can only join an iterable'')
         | Inr xs \<Rightarrow>
             let i = length (takeWhile is_str xs)
             in if i = length xs then Inr (join '', '' (map the_str xs))
                else Inl (TypeError (''sequence item '' @ string_of_nat i @ '': expected str instance, '' @
                       py_type_name (xs ! i) @ '' found''))))"

definition table_row :: "string \<Rightarrow> string \<Rightarrow> string" where
  "table_row a b = ''| '' @ a @ '' | '' @ b @ '' |''"

definition TABLE_RULE :: string where
  "TABLE_RULE = ''|---|---|''"

definition status_lines :: "pydict \<Rightarrow> int \<Rightarrow> string list" where
  "status_lines ctx findings =
     [MARKER, ''## L9 CI Summary'', ''### Status'', table_row ''Field'' ''Value'', TABLE_RULE,
      table_row ''Result'' (summary_result ctx findings), table_row ''Merge Meaning'' (summary_meaning ctx findings),
      table_row ''PR Class'' (py_str (dget_default ctx ''pr_class'' (PStr ''unknown''))),
      table_row ''Blocking Count'' (if summary_blocking ctx findings then ''1'' else ''0''),
      table_row ''Advisory Count'' (string_of_nat (length (advisory_jobs ctx))),
      table_row ''Skipped Count'' (string_of_nat (length (skipped_jobs ctx)))]"

definition classifier_lines :: "pydict \<Rightarrow> string list result" where
  "classifier_lines ctx =
     and_then (joined_or_none (value_or_empty ctx ''relevant_surfaces'')) (\<lambda>surfaces.
     and_then (joined_or_none (value_or_empty ctx ''labels'')) (\<lambda>labels.
     Inr [''### Classifier'', table_row ''Signal'' ''Value'', TABLE_RULE,
          table_row ''Changed files'' (py_str (dget_default ctx ''changed_count'' (PInt 0))),
          table_row ''Relevant surfaces'' surfaces, table_row ''Labels'' labels,
          table_row ''Diff unknown'' (if diff_unknown ctx then ''True'' else ''False'')]))"

definition result_lines :: "pydict \<Rightarrow> string list" where
  "result_lines ctx =
     [''### Gate Results'', table_row ''Gate'' ''Result'', TABLE_RULE] @
     map (\<lambda>(job, v). table_row (py_str job) (result_icon v @ '' '' @ py_str v)) (job_results ctx)"

definition finding_lines :: "pydict \<Rightarrow> int \<Rightarrow> string list" where
  "finding_lines ctx findings =
     [''### Blocking Findings'', table_row ''Severity'' ''Detail'', TABLE_RULE,
      if findings > 0 then
        table_row ''CRITICAL'' (string_of_int findings @ '' newly-introduced secret finding(s)'')
      else if summary_blocking ctx findings then table_row ''HIGH'' ''secret_scan job failed''
      else table_row ''-'' ''none'']"

definition action_lines :: "pydict \<Rightarrow> int \<Rightarrow> string list" where
  "action_lines ctx findings =
     [''### Next Action'',
      if summary_blocking ctx findings then
        ''- Required: remove the newly-introduced secret(s), rotate the exposed credential, then push.''
      else ''- Required: none. Gate passes.'',
      ''- Optional: address advisory findings (inherited debt is non-blocking on this node).'', ''---'',
      ''<!-- l9-agent-review-marker: v1 (prepared, advisory-only, not enabled) -->'', ''Generated by L9 CI'']"

definition TRUNCATION :: string where
  "TRUNCATION =
     [CHR 0x0A, CHR 0x0A] @ ''... truncated due to GitHub comment limit ...'' @ [CHR 0x0A] @ ''Generated by L9 CI''"

definition truncated :: "string \<Rightarrow> string" where
  "truncated body =
     (if length body > MAX_COMMENT_CHARS then take (MAX_COMMENT_CHARS - 80) body @ TRUNCATION else body)"

definition comment_body :: "pydict \<Rightarrow> int \<Rightarrow> string result" where
  "comment_body ctx findings =
     and_then (classifier_lines ctx) (\<lambda>classifier.
     Inr (truncated (join [CHR 0x0A]
       (status_lines ctx findings @ classifier @ result_lines ctx @ finding_lines ctx findings @
        action_lines ctx findings))))"

definition summary_json :: "pydict \<Rightarrow> int \<Rightarrow> pydict" where
  "summary_json ctx findings =
     [(PStr ''marker'', PStr MARKER), (PStr ''result'', PStr (summary_result ctx findings)),
      (PStr ''merge_meaning'', PStr (summary_meaning ctx findings)),
      (PStr ''pr_class'', dget_default ctx ''pr_class'' (PStr ''unknown'')),
      (PStr ''diff_unknown'', PBool (diff_unknown ctx)),
      (PStr ''changed_count'', dget_default ctx ''changed_count'' (PInt 0)),
      (PStr ''labels'', value_or_empty ctx ''labels''),
      (PStr ''relevant_surfaces'', value_or_empty ctx ''relevant_surfaces''),
      (PStr ''results'', PDict (job_results ctx)), (PStr ''secret_findings'', PInt findings),
      (PStr ''blocking'', PBool (summary_blocking ctx findings)),
      (PStr ''advisory_jobs'', PList (advisory_jobs ctx)), (PStr ''skipped_jobs'', PList (skipped_jobs ctx))]"

record script_outcome =
  so_files :: "(string \<times> string) list"
  so_stdout :: "string list"
  so_stderr :: "string list"

definition render_ci_summary :: "file_writer \<Rightarrow> string \<Rightarrow> pyval result \<Rightarrow> script_outcome result" where
  "render_ci_summary writer context_path source =
     and_then (load_context context_path source) (\<lambda>(ctx, warnings).
     and_then (secret_findings ctx) (\<lambda>findings.
     and_then (comment_body ctx findings) (\<lambda>body.
     and_then (written writer ''ci_summary.md'' body) (\<lambda>comment.
     and_then (json_pretty True 0 (PDict (summary_json ctx findings))) (\<lambda>text.
     and_then (written writer ''ci_summary.json'' text) (\<lambda>state.
     Inr \<lparr>so_files = [comment, state],
          so_stdout = [''[INFO] rendered ci_summary.md ('' @ string_of_nat (length body) @
                       '' chars) + ci_summary.json''],
          so_stderr = warnings\<rparr>))))))"

subsection \<open>The payload of the agent review loop\<close>

definition review_inputs :: "pydict \<Rightarrow> pydict" where
  "review_inputs summary =
     [(PStr ''pr_class'', dget_default summary ''pr_class'' (PStr ''unknown'')),
      (PStr ''diff_unknown'', dget_default summary ''diff_unknown'' (PBool False)),
      (PStr ''changed_count'', dget_default summary ''changed_count'' (PInt 0)),
      (PStr ''labels'', dget_default summary ''labels'' (PList [])),
      (PStr ''relevant_surfaces'', dget_default summary ''relevant_surfaces'' (PList [])),
      (PStr ''results'', dget_default summary ''results'' (PDict [])),
      (PStr ''blocking'', dget_default summary ''blocking'' (PBool False)),
      (PStr ''secret_findings'', dget_default summary ''secret_findings'' (PInt 0)),
      (PStr ''advisory_jobs'', dget_default summary ''advisory_jobs'' (PList []))]"

definition review_payload :: "pydict \<Rightarrow> pydict" where
  "review_payload summary =
     [(PStr ''schema'', PStr ''l9.agent_review_payload/v1''), (PStr ''enabled'', PBool False),
      (PStr ''mode'', PStr ''advisory_only''), (PStr ''merge_authority'', PBool False),
      (PStr ''secret_access'', PBool False), (PStr ''inputs'', PDict (review_inputs summary)),
      (PStr ''forbidden'', PList (map PStr
        [''treating_agent_approval_as_merge_authority'', ''bypassing_pr_pipeline_gate'',
         ''hiding_failed_checks'', ''creating_new_governance_semantics_without_updating_kernel''])),
      (PStr ''expected_agent_outputs'', PList (map PStr [''structured_review_comment'', ''suggested_patch_plan'']))]"

definition agent_review_script :: "file_writer \<Rightarrow> string \<Rightarrow> pyval result \<Rightarrow> script_outcome result" where
  "agent_review_script writer summary_path source =
     and_then (load_context summary_path source) (\<lambda>(summary, warnings).
     and_then (json_pretty True 0 (PDict (review_payload summary))) (\<lambda>text.
     and_then (written writer ''agent_review_payload.json'' text) (\<lambda>f.
     Inr \<lparr>so_files = [f],
          so_stdout = [''[INFO] wrote agent_review_payload.json (advisory-only, loop not enabled)''],
          so_stderr = warnings\<rparr>)))"

subsection \<open>Posting the comment\<close>

definition API :: string where
  "API = ''https://api.github.com''"

text \<open>\<open>str.isdigit\<close>: the superscript digits count.\<close>

definition py_isdigit :: "char \<Rightarrow> bool" where
  "py_isdigit c \<longleftrightarrow> is_digit c \<or> (of_char c :: nat) \<in> {178, 179, 185}"

record comment_env =
  ce_token :: string
  ce_repository :: string
  ce_pr_number :: string
  ce_body_path :: string
  ce_marker :: string

text \<open>A request to the API: method, address and body; the listing is answered by \<open>listing\<close>.\<close>

datatype api_call = Get_Comments string | Patch_Comment string string | Post_Comment string string

definition comment_matches :: "string \<Rightarrow> pyval \<Rightarrow> bool result" where
  "comment_matches marker c =
     (case c of
        PDict d \<Rightarrow>
          (let v = dget_none d ''body''
           in if \<not> py_truthy v then Inr (contains marker [])
              else (case v of
                      PStr s \<Rightarrow> Inr (contains marker s)
                    | PList xs \<Rightarrow> Inr (PStr marker \<in> set xs)
                    | PDict kvs \<Rightarrow> Inr (PStr marker \<in> fst ` set kvs)
                    | _ \<Rightarrow> Inl (TypeError (''argument of type '' @ repr_string (py_type_name v) @ '' is not iterable''))))
      | _ \<Rightarrow> Inr False)"

fun first_match :: "string \<Rightarrow> pyval list \<Rightarrow> pydict option result" where
  "first_match marker [] = Inr None"
| "first_match marker (c # cs) =
     and_then (comment_matches marker c) (\<lambda>found.
     if found then Inr (Some (case c of PDict d \<Rightarrow> d | _ \<Rightarrow> [])) else first_match marker cs)"

text \<open>The calls made, in order, or no call at all; the script exits with 0 in every case.\<close>

definition update_marker_comment ::
  "comment_env \<Rightarrow> string result \<Rightarrow> (int \<times> pyval) result \<Rightarrow> api_call list result"
where
  "update_marker_comment env body_file listing =
     (let pr = py_strip (ce_pr_number env);
          issue = API @ ''/repos/'' @ ce_repository env @ ''/issues/'' @ pr @ ''/comments'';
          list_call = Get_Comments (issue @ ''?per_page=100'')
      in if ce_token env = [] \<or> ce_repository env = [] \<or> pr = [] \<or> \<not> list_all py_isdigit pr then Inr []
         else
           (case body_file of
              Inl e \<Rightarrow> if is_os_error e then Inr [] else Inl e
            | Inr body \<Rightarrow>
                if \<not> contains (ce_marker env) body then Inr []
                else
                  and_then listing (\<lambda>answer.
                   case answer of
                     (status, PList comments) \<Rightarrow>
                       if status \<noteq> 200 then Inr [list_call]
                       else
                         and_then (first_match (ce_marker env) comments) (\<lambda>existing.
                         case existing of
                           Some d \<Rightarrow>
                             if d = [] then Inr [list_call, Post_Comment issue body]
                             else
                               and_then (dsub d ''id'') (\<lambda>i.
                               Inr [list_call,
                                    Patch_Comment (API @ ''/repos/'' @ ce_repository env @ ''/issues/comments/'' @ py_str i) body])
                         | None \<Rightarrow> Inr [list_call, Post_Comment issue body])
                   | _ \<Rightarrow> Inr [list_call])))"

subsection \<open>Properties\<close>

lemma length_truncated: "length (truncated body) \<le> MAX_COMMENT_CHARS"
  by (simp add: truncated_def MAX_COMMENT_CHARS_def TRUNCATION_def)

lemma starts_with_iff: "starts_with p s \<longleftrightarrow> (\<exists>t. s = p @ t)"
proof
  assume "starts_with p s"
  then have "s = p @ drop (length p) s" unfolding starts_with_def by (metis append_take_drop_id)
  then show "\<exists>t. s = p @ t" ..
qed auto

lemma starts_with_take: "starts_with p s \<Longrightarrow> length p \<le> n \<Longrightarrow> starts_with p (take n s @ t)"
  unfolding starts_with_iff by auto

lemma starts_with_join: "starts_with p (join s (p # xs))"
  by (cases xs) (simp_all add: starts_with_iff)

lemma contains_prefix: "starts_with p s \<Longrightarrow> contains p s"
  by (cases s) (simp_all add: starts_with_def)

lemma summary_blocking_leak: "summary_blocking ctx n \<longleftrightarrow> secret_leak ctx n"
proof -
  have "py_lower (py_str (PStr [])) \<notin> set FAIL_RESULTS" "py_lower (py_str (PStr ''missing'')) \<notin> set FAIL_RESULTS"
    by code_simp+
  then show ?thesis
    by (cases "dget (job_results ctx) ''secret_scan''")
      (auto simp: summary_blocking_def secret_leak_def secret_result_def dget_default_def)
qed

lemma comment_body_marker:
  assumes "comment_body ctx n = Inr body"
  shows "starts_with MARKER body"
proof -
  obtain classifier where body: "body = truncated (join [CHR 0x0A]
      (status_lines ctx n @ classifier @ result_lines ctx @ finding_lines ctx n @ action_lines ctx n))"
    using assms by (auto simp: comment_body_def and_then_eq_Inr)
  have "status_lines ctx n @ classifier @ result_lines ctx @ finding_lines ctx n @ action_lines ctx n =
      MARKER # tl (status_lines ctx n) @ classifier @ result_lines ctx @ finding_lines ctx n @ action_lines ctx n"
    by (simp add: status_lines_def)
  then have "starts_with MARKER (join [CHR 0x0A]
      (status_lines ctx n @ classifier @ result_lines ctx @ finding_lines ctx n @ action_lines ctx n))"
    by (metis starts_with_join)
  moreover have "length MARKER \<le> MAX_COMMENT_CHARS - 80" by (simp add: MARKER_def MAX_COMMENT_CHARS_def)
  ultimately show ?thesis
    unfolding body truncated_def by (simp add: starts_with_take)
qed

text \<open>A comment as the API lists it: an identifier and a text.\<close>

definition listed_comment :: "pyval \<Rightarrow> bool" where
  "listed_comment c \<longleftrightarrow> (\<exists>d i b. c = PDict d \<and> dget d ''id'' = Some i \<and> dget d ''body'' = Some (PStr b))"

definition marked :: "string \<Rightarrow> pyval \<Rightarrow> bool" where
  "marked marker c =
     (case c of PDict d \<Rightarrow> (case dget d ''body'' of Some (PStr b) \<Rightarrow> contains marker b | _ \<Rightarrow> False) | _ \<Rightarrow> False)"

definition comment_id :: "pyval \<Rightarrow> string" where
  "comment_id c = (case c of PDict d \<Rightarrow> py_str (dget_none d ''id'') | _ \<Rightarrow> [])"

lemma first_match_listed:
  assumes "list_all listed_comment cs"
  shows "first_match marker cs =
    Inr (map_option (\<lambda>c. case c of PDict d \<Rightarrow> d | _ \<Rightarrow> []) (List.find (marked marker) cs))"
  using assms
proof (induction cs)
  case (Cons c cs)
  then obtain d i b where c: "c = PDict d" "dget d ''body'' = Some (PStr b)"
    by (auto simp: listed_comment_def)
  then have "comment_matches marker c = Inr (marked marker c)"
    by (cases "b = []") (simp_all add: comment_matches_def dget_none_def marked_def Let_def)
  with Cons c show ?case by simp
qed simp

definition issue_url :: "comment_env \<Rightarrow> string" where
  "issue_url env = API @ ''/repos/'' @ ce_repository env @ ''/issues/'' @ py_strip (ce_pr_number env) @ ''/comments''"

definition comment_url :: "comment_env \<Rightarrow> pyval \<Rightarrow> string" where
  "comment_url env c = API @ ''/repos/'' @ ce_repository env @ ''/issues/comments/'' @ comment_id c"

text \<open>
  C38: the comment of a run fits and is upserted. A rendered comment is within the limit and starts
  with the marker. Posting it with the marker and credentials, over a first page of comments that was
  listed, makes one change: it replaces the first listed comment that carries the marker, and creates
  a comment exactly when no listed comment does.
\<close>

theorem summary_comment_upserted:
  assumes "comment_body ctx n = Inr body" "ce_marker env = MARKER"
    and "ce_token env \<noteq> []" "ce_repository env \<noteq> []" "py_strip (ce_pr_number env) \<noteq> []"
    "list_all py_isdigit (py_strip (ce_pr_number env))" "list_all listed_comment cs"
  shows "length body \<le> 65336 \<and> starts_with MARKER body \<and>
    update_marker_comment env (Inr body) (Inr (200, PList cs)) =
      Inr [Get_Comments (issue_url env @ ''?per_page=100''),
           (case List.find (marked MARKER) cs of
              None \<Rightarrow> Post_Comment (issue_url env) body
            | Some c \<Rightarrow> Patch_Comment (comment_url env c) body)]"
proof -
  have start: "starts_with MARKER body" using assms(1) by (rule comment_body_marker)
  have "length body \<le> 65336"
    using assms(1) length_truncated by (auto simp: comment_body_def and_then_eq_Inr MAX_COMMENT_CHARS_def)
  moreover have "update_marker_comment env (Inr body) (Inr (200, PList cs)) =
      Inr [Get_Comments (issue_url env @ ''?per_page=100''),
           (case List.find (marked MARKER) cs of
              None \<Rightarrow> Post_Comment (issue_url env) body
            | Some c \<Rightarrow> Patch_Comment (comment_url env c) body)]"
  proof (cases "List.find (marked MARKER) cs")
    case None
    then show ?thesis
      using assms contains_prefix [OF start]
      by (simp add: update_marker_comment_def Let_def first_match_listed issue_url_def)
  next
    case (Some c)
    then have "c \<in> set cs" by (auto simp: find_Some_iff)
    with assms(7) obtain d i b where c: "c = PDict d" "dget d ''id'' = Some i"
      by (auto simp: list_all_iff listed_comment_def)
    then have "d \<noteq> []" by (auto simp: dget_def)
    with Some c show ?thesis
      using assms contains_prefix [OF start]
      by (simp add: update_marker_comment_def Let_def first_match_listed issue_url_def comment_url_def
          comment_id_def dsub_def dget_none_def)
  qed
  ultimately show ?thesis using start by simp
qed

definition sample_comment_env :: comment_env where
  "sample_comment_env = \<lparr>ce_token = ''t'', ce_repository = ''o/r'', ce_pr_number = '' 12 '', ce_body_path = ''b'',
     ce_marker = MARKER\<rparr>"

definition sample_comments :: "pyval list" where
  "sample_comments = [PDict [(PStr ''id'', PInt 3), (PStr ''body'', PStr ''hello'')],
     PDict [(PStr ''id'', PInt 7), (PStr ''body'', PStr (''old '' @ MARKER))]]"

lemma comment_body_empty: "\<exists>body. comment_body [] 0 = Inr body"
  by (simp add: comment_body_def classifier_lines_def joined_or_none_def value_or_empty_def dget_none_def dget_def)

theorem summary_comment_upserted_witness:
  "\<exists>body. comment_body [] 0 = Inr body \<and> length body \<le> 65336 \<and>
    update_marker_comment sample_comment_env (Inr body) (Inr (200, PList sample_comments)) =
      Inr [Get_Comments ''https://api.github.com/repos/o/r/issues/12/comments?per_page=100'',
           Patch_Comment ''https://api.github.com/repos/o/r/issues/comments/7'' body]"
proof -
  obtain body where body: "comment_body [] 0 = Inr body"
    using comment_body_empty ..
  have env: "ce_marker sample_comment_env = MARKER" "ce_token sample_comment_env \<noteq> []"
    "ce_repository sample_comment_env \<noteq> []" "py_strip (ce_pr_number sample_comment_env) = ''12''"
    "list_all py_isdigit ''12''"
    by code_simp+
  have listed: "list_all listed_comment sample_comments"
    by (simp add: sample_comments_def listed_comment_def dget_def)
  have "List.find (marked MARKER) sample_comments = Some (sample_comments ! 1)"
    by code_simp
  moreover have "issue_url sample_comment_env @ ''?per_page=100'' =
      ''https://api.github.com/repos/o/r/issues/12/comments?per_page=100''"
    "comment_url sample_comment_env (sample_comments ! 1) = ''https://api.github.com/repos/o/r/issues/comments/7''"
    by code_simp+
  ultimately show ?thesis
    using summary_comment_upserted [OF body, of sample_comment_env sample_comments] body env listed by simp
qed

text \<open>
  The comment and the gate read the same context but not the same policy: the comment calls every
  leak a failure. They agree when \<open>SECRET-LEAK-NEW\<close> is the blocking rule, and they contradict each
  other when the policy makes it advisory, as the policy of this repository does.
\<close>

theorem summary_agrees_with_gate:
  assumes "evaluate_ci_gate cp (Inr (PDict ctx)) mp (Inr (policy_document default_mode rules)) appender = Inr r"
    and "default_mode \<in> set VALID_MODES" "list_all rule_entry rules" "distinct (map fst rules)"
    and "map_of rules ''SECRET-LEAK-NEW'' = Some ''blocking''" "map_of rules ''UNKNOWN-DIFF'' = Some u" "u \<noteq> ''blocking''"
  shows "\<exists>n. secret_findings ctx = Inr n \<and> (cg_exit r = 1 \<longleftrightarrow> summary_result ctx n = ''FAIL'')"
proof -
  obtain n where "secret_findings ctx = Inr n"
    "cg_exit r = (if secret_leak ctx n then 1 else 0)"
    using ci_gate_exit [OF assms(1-4)] assms(5-7) by auto
  then show ?thesis
    by (auto simp: summary_result_def summary_blocking_leak)
qed

theorem summary_contradicts_gate:
  "let ctx = [(PStr ''secret_findings'', PInt 1)]
   in map_sum id cg_exit (evaluate_ci_gate ''c'' (Inr (PDict ctx)) ''m''
        (Inr (policy_document ''advisory'' [(''SECRET-LEAK-NEW'', ''advisory'')])) None) = Inr 0 \<and>
      summary_result ctx 1 = ''FAIL'' \<and> summary_meaning ctx 1 = ''blocked_by_real_governance''"
  by code_simp

end
