(* ===== verification/Change_Class.thy ===== *)
theory Change_Class
  imports Repository Command_Line
begin

text \<open>
  \<open>.github/scripts/classify_pr.py\<close>: one canonical class for a set of changed files. The parsed policy
  file is an input. \<open>SystemExit\<close> is a value of its own, beside the exceptions nobody catches.
\<close>

datatype policy_failure = System_Exit string | Uncaught pyexc

record change_rule =
  cu_name :: pyval
  cu_rule :: pydict

text \<open>\<open>ClassifierPolicy\<close>; the taxonomy is the list of its entries, the set of classes a list.\<close>

record classifier_policy =
  cy_canonical_classes :: "string list"
  cy_unknown_class :: string
  cy_docs_only_class :: string
  cy_priority :: "string list"
  cy_taxonomy :: "change_rule list"

record change_class =
  cl_pr_class :: string
  cl_changed_files :: "string list"
  cl_reasons :: "string list"
  cl_matched_tags :: "(string \<times> string list) list"

subsection \<open>Paths\<close>

fun drop_dot_slash :: "string \<Rightarrow> string" where
  "drop_dot_slash (a # b # s) = (if a = CHR ''.'' \<and> b = CHR ''/'' then drop_dot_slash s else a # b # s)"
| "drop_dot_slash s = s"

definition norm_path :: "string \<Rightarrow> string" where
  "norm_path path = drop_dot_slash (replace_char CHR 0x5C CHR ''/'' (py_strip path))"

definition norm_paths :: "string list \<Rightarrow> string list" where
  "norm_paths paths = filter (\<lambda>p. p \<noteq> []) (map norm_path paths)"

definition split_env :: "string \<Rightarrow> string list" where
  "split_env v = norm_paths (splitlines (replace_char CHR '','' CHR 0x0A v))"

definition collect_files :: "string list \<Rightarrow> string \<Rightarrow> string option \<Rightarrow> string list" where
  "collect_files argv_files changed_env stdin =
     (if norm_paths argv_files \<noteq> [] then sorted_set (norm_paths argv_files)
      else if \<not> blank changed_env then sorted_set (split_env changed_env)
      else case stdin of
             Some text \<Rightarrow> if \<not> blank text then sorted_set (split_env text) else []
           | None \<Rightarrow> [])"

subsection \<open>Loading the policy\<close>

text \<open>What reading and parsing the policy file gives.\<close>

datatype policy_read = Policy_Document pyval | Policy_Missing | Policy_Malformed string | Policy_Raised pyexc

definition all_strs :: "pyval \<Rightarrow> bool" where
  "all_strs v \<longleftrightarrow> (case v of PList xs \<Rightarrow> list_all is_str xs | _ \<Rightarrow> False)"

definition strs_of :: "pyval \<Rightarrow> string list" where
  "strs_of v = (case v of PList xs \<Rightarrow> map the_str xs | _ \<Rightarrow> [])"

text \<open>\<open>if v not in canonical_set: raise SystemExit(message)\<close>\<close>

definition canonical_or :: "string \<Rightarrow> string list \<Rightarrow> pyval \<Rightarrow> policy_failure + string" where
  "canonical_or message canonical v =
     (if \<not> hashable v then Inl (Uncaught (TypeError (''unhashable type: '' @ repr_string (py_type_name v))))
      else if v \<in> PStr ` set canonical then Inr (the_str v) else Inl (System_Exit message))"

fun check_priority :: "string list \<Rightarrow> string list \<Rightarrow> policy_failure + unit" where
  "check_priority canonical [] = Inr ()"
| "check_priority canonical (c # cs) =
     (if c \<notin> set canonical then
        Inl (System_Exit (''classifier.priority contains non-canonical class: '' @ c))
      else check_priority canonical cs)"

fun check_taxonomy :: "string list \<Rightarrow> pydict \<Rightarrow> policy_failure + change_rule list" where
  "check_taxonomy canonical [] = Inr []"
| "check_taxonomy canonical ((name, v) # rest) =
     (case v of
        PDict rule \<Rightarrow>
          (if dget_none rule ''class'' \<notin> PStr ` set canonical then
             Inl (System_Exit (''classifier.taxonomy.'' @ py_str name @ ''.class must be canonical''))
           else
             (case check_taxonomy canonical rest of
                Inl f \<Rightarrow> Inl f
              | Inr rules \<Rightarrow> Inr (\<lparr>cu_name = name, cu_rule = rule\<rparr> # rules)))
      | _ \<Rightarrow> Inl (System_Exit (''classifier.taxonomy.'' @ py_str name @ '' must be a mapping'')))"

definition build_policy :: "pydict \<Rightarrow> policy_failure + classifier_policy" where
  "build_policy classifier =
     (let canonical = strs_of (dget_none classifier ''canonical_classes'');
          priority = strs_of (dget_none classifier ''priority'')
      in if \<not> all_strs (dget_none classifier ''canonical_classes'') then
           Inl (System_Exit ''classifier.canonical_classes must be a list of strings'')
         else if \<not> all_strs (dget_none classifier ''priority'') then
           Inl (System_Exit ''classifier.priority must be a list of strings'')
         else
           (case dget_none classifier ''taxonomy'' of
              PDict taxonomy \<Rightarrow>
                (case canonical_or ''classifier.unknown_class must be canonical'' canonical
                        (dget_default classifier ''unknown_class'' (PStr ''unknown_diff'')) of
                   Inl f \<Rightarrow> Inl f
                 | Inr unknown \<Rightarrow>
                     (case canonical_or ''classifier.docs_only_class must be canonical'' canonical
                             (dget_default classifier ''docs_only_class'' (PStr ''docs_only'')) of
                        Inl f \<Rightarrow> Inl f
                      | Inr docs \<Rightarrow>
                          (case check_priority canonical priority of
                             Inl f \<Rightarrow> Inl f
                           | Inr _ \<Rightarrow>
                               (case check_taxonomy canonical taxonomy of
                                  Inl f \<Rightarrow> Inl f
                                | Inr rules \<Rightarrow>
                                    Inr \<lparr>cy_canonical_classes = canonical, cy_unknown_class = unknown,
                                         cy_docs_only_class = docs, cy_priority = priority,
                                         cy_taxonomy = rules\<rparr>))))
            | _ \<Rightarrow> Inl (System_Exit ''classifier.taxonomy must be a mapping'')))"

definition load_policy :: "string \<Rightarrow> policy_read \<Rightarrow> policy_failure + classifier_policy" where
  "load_policy path yaml =
     (case yaml of
        Policy_Missing \<Rightarrow> Inl (System_Exit (''classifier policy not found: '' @ path))
      | Policy_Malformed m \<Rightarrow> Inl (System_Exit (''classifier policy is malformed YAML: '' @ path @ '': '' @ m))
      | Policy_Raised e \<Rightarrow> Inl (Uncaught e)
      | Policy_Document v \<Rightarrow>
          (case v of
             PDict raw \<Rightarrow>
               (case dget_none raw ''classifier'' of
                  PDict classifier \<Rightarrow> build_policy classifier
                | _ \<Rightarrow> Inl (System_Exit (''classifier policy missing '' @ repr_string ''classifier'' @ '' mapping: '' @ path)))
           | _ \<Rightarrow> Inl (System_Exit (''classifier policy must be a mapping: '' @ path))))"

subsection \<open>Matching one path\<close>

definition as_str_list :: "pyval \<Rightarrow> string list" where
  "as_str_list v = (case v of PList xs \<Rightarrow> map (\<lambda>x. py_lower (py_str x)) xs | _ \<Rightarrow> [])"

definition path_words :: "string \<Rightarrow> string list" where
  "path_words lower = split_on CHR ''/'' (replace_char CHR ''.'' CHR ''/'' (replace_char CHR ''-'' CHR ''_'' lower))"

definition rule_reason :: "pydict \<Rightarrow> string \<Rightarrow> string \<Rightarrow> string" where
  "rule_reason rule key fallback =
     (case dget_none rule ''reasons'' of
        PDict reasons \<Rightarrow> (case dget_none reasons key of PStr s \<Rightarrow> s | _ \<Rightarrow> fallback)
      | _ \<Rightarrow> fallback)"

definition ends_with :: "string \<Rightarrow> string \<Rightarrow> bool" where
  "ends_with p s \<longleftrightarrow> starts_with (rev p) (rev s)"

definition matches_prefix :: "string \<Rightarrow> pydict \<Rightarrow> string option" where
  "matches_prefix lower rule =
     map_option (\<lambda>p. rule_reason rule ''prefix'' (''matched prefix '' @ p))
       (List.find (\<lambda>p. starts_with p lower) (as_str_list (dget_none rule ''prefixes'')))"

definition matches_suffix :: "string \<Rightarrow> pydict \<Rightarrow> string option" where
  "matches_suffix lower rule =
     map_option (\<lambda>e. rule_reason rule ''suffix'' (''matched suffix '' @ e))
       (List.find (\<lambda>e. path_suffix lower = e) (as_str_list (dget_none rule ''suffixes'')))"

definition matches_exact :: "string \<Rightarrow> string \<Rightarrow> pydict \<Rightarrow> string option" where
  "matches_exact lower name rule =
     (let exact = as_str_list (dget_none rule ''exact'')
      in if lower \<in> set exact \<or> name \<in> set exact then Some (rule_reason rule ''exact'' ''matched exact file name'')
         else None)"

definition matches_contains :: "string \<Rightarrow> pydict \<Rightarrow> string option" where
  "matches_contains lower rule =
     map_option (\<lambda>t. rule_reason rule ''contains'' (''matched token '' @ t))
       (List.find (\<lambda>t. contains t lower) (as_str_list (dget_none rule ''contains'')))"

definition matches_parts :: "string list \<Rightarrow> pydict \<Rightarrow> string option" where
  "matches_parts parts rule =
     (if list_ex (\<lambda>p. p \<in> set parts) (as_str_list (dget_none rule ''parts'')) then
        Some (rule_reason rule ''part'' ''matched path segment'')
      else None)"

definition pattern_text :: "pydict \<Rightarrow> string \<Rightarrow> string" where
  "pattern_text pattern key = py_lower (py_str (dget_default pattern key (PStr [])))"

definition matches_name_pattern :: "string \<Rightarrow> pydict \<Rightarrow> string option" where
  "matches_name_pattern name rule =
     (case dget_none rule ''name_prefix_suffix'' of
        PList patterns \<Rightarrow>
          map_option (\<lambda>(p, s). rule_reason rule ''pattern'' (''matched name pattern '' @ p @ ''*'' @ s))
            (List.find (\<lambda>(p, s). starts_with p name \<and> ends_with s name)
               (List.map_filter (\<lambda>v. case v of
                    PDict d \<Rightarrow> Some (pattern_text d ''prefix'', pattern_text d ''suffix'')
                  | _ \<Rightarrow> None) patterns))
      | _ \<Rightarrow> None)"

text \<open>\<open>a or b or ...\<close> over optional texts: the first that is not empty.\<close>

definition first_truthy :: "string option list \<Rightarrow> string option" where
  "first_truthy rs = (case List.find (\<lambda>r. r \<noteq> None \<and> r \<noteq> Some []) rs of None \<Rightarrow> None | Some r \<Rightarrow> r)"

definition match_reason :: "string \<Rightarrow> pydict \<Rightarrow> string option" where
  "match_reason lower rule =
     first_truthy [matches_prefix lower rule, matches_suffix lower rule,
       matches_exact lower (path_name lower) rule, matches_contains lower rule,
       matches_parts (path_words lower) rule, matches_name_pattern (path_name lower) rule]"

definition rule_tag :: "string \<Rightarrow> change_rule \<Rightarrow> (string \<times> string) list result" where
  "rule_tag path r =
     and_then (dsub (cu_rule r) ''class'') (\<lambda>cls.
     Inr (case match_reason (py_lower path) (cu_rule r) of
            None \<Rightarrow> []
          | Some reason \<Rightarrow> [(py_str cls, path @ '': '' @ reason @ '' ('' @ py_str (cu_name r) @ '')'')]))"

definition tags_for :: "string \<Rightarrow> classifier_policy \<Rightarrow> (string \<times> string) list result" where
  "tags_for path policy = and_then (map_res (rule_tag path) (cy_taxonomy policy)) (\<lambda>tags. Inr (concat tags))"

subsection \<open>Classification\<close>

text \<open>\<open>observed.setdefault(cls, []).append(reason)\<close>\<close>

fun observe_tag :: "string \<times> string \<Rightarrow> (string \<times> string list) list \<Rightarrow> (string \<times> string list) list" where
  "observe_tag (cls, reason) [] = [(cls, [reason])]"
| "observe_tag (cls, reason) ((c, rs) # rest) =
     (if c = cls then (c, rs @ [reason]) # rest else (c, rs) # observe_tag (cls, reason) rest)"

definition reasons_of :: "(string \<times> string list) list \<Rightarrow> string \<Rightarrow> string list" where
  "reasons_of observed cls = (case map_of observed cls of None \<Rightarrow> [] | Some rs \<Rightarrow> rs)"

definition decide_class ::
  "classifier_policy \<Rightarrow> string list \<Rightarrow> string list \<Rightarrow> (string \<times> string list) list \<Rightarrow> change_class"
where
  "decide_class policy changed unknown observed =
     (let answer = (\<lambda>cls reasons. \<lparr>cl_pr_class = cls, cl_changed_files = changed, cl_reasons = reasons,
                                  cl_matched_tags = observed\<rparr>);
          docs = cy_docs_only_class policy
      in if unknown \<noteq> [] then
           answer (cy_unknown_class policy) (map (\<lambda>p. ''unclassified path: '' @ p) unknown)
         else if fst ` set observed = {docs} then answer docs (reasons_of observed docs)
         else
           (case List.find (\<lambda>cls. cls \<in> fst ` set observed \<and> cls \<noteq> docs) (cy_priority policy) of
              Some cls \<Rightarrow> answer cls (reasons_of observed cls)
            | None \<Rightarrow> answer (cy_unknown_class policy) [''no canonical class matched'']))"

definition classify_changes :: "string list \<Rightarrow> classifier_policy \<Rightarrow> change_class result" where
  "classify_changes paths policy =
     (let changed = sorted_set (norm_paths paths)
      in if changed = [] then
           Inr \<lparr>cl_pr_class = cy_unknown_class policy, cl_changed_files = [],
                cl_reasons = [''no changed files supplied''], cl_matched_tags = []\<rparr>
         else
           and_then (map_res (\<lambda>p. tags_for p policy) changed) (\<lambda>tags.
           let unknown = map fst (filter (\<lambda>(_, t). t = []) (zip changed tags));
               observed = fold observe_tag (concat tags) []
           in Inr (decide_class policy changed unknown observed)))"

definition class_payload :: "change_class \<Rightarrow> pydict" where
  "class_payload c =
     [(PStr ''pr_class'', PStr (cl_pr_class c)),
      (PStr ''changed_files'', PList (map PStr (cl_changed_files c))),
      (PStr ''reasons'', PList (map PStr (cl_reasons c))),
      (PStr ''matched_tags'', PDict (map (\<lambda>(k, rs). (PStr k, PList (map PStr rs))) (cl_matched_tags c)))]"

text \<open>The exit code with the lines on standard output and standard error.\<close>

definition classify_main ::
  "string \<Rightarrow> policy_read \<Rightarrow> bool \<Rightarrow> string list \<Rightarrow> string \<Rightarrow> string option \<Rightarrow>
   policy_failure + int \<times> string list \<times> string list"
where
  "classify_main path yaml plain argv_files changed_env stdin =
     (case load_policy path yaml of
        Inl f \<Rightarrow> Inl f
      | Inr policy \<Rightarrow>
          (case classify_changes (collect_files argv_files changed_env stdin) policy of
             Inl e \<Rightarrow> Inl (Uncaught e)
           | Inr c \<Rightarrow>
               if cl_pr_class c \<notin> set (cy_canonical_classes policy) then
                 Inr (2, [], [''invalid classifier output: '' @ cl_pr_class c])
               else if plain then Inr (0, [cl_pr_class c], [])
               else
                 (case json_pretty True 0 (PDict (class_payload c)) of
                    Inl e \<Rightarrow> Inl (Uncaught e)
                  | Inr text \<Rightarrow> Inr (0, [text], []))))"

subsection \<open>Properties\<close>

text \<open>The classes that the rules of the policy give a path.\<close>

definition path_classes :: "classifier_policy \<Rightarrow> string \<Rightarrow> string set" where
  "path_classes policy path = (case tags_for path policy of Inl _ \<Rightarrow> {} | Inr tags \<Rightarrow> fst ` set tags)"

definition policy_ok :: "classifier_policy \<Rightarrow> bool" where
  "policy_ok p \<longleftrightarrow>
     cy_unknown_class p \<in> set (cy_canonical_classes p) \<and> cy_docs_only_class p \<in> set (cy_canonical_classes p) \<and>
     set (cy_priority p) \<subseteq> set (cy_canonical_classes p) \<and>
     list_all (\<lambda>r. dget_none (cu_rule r) ''class'' \<in> PStr ` set (cy_canonical_classes p)) (cy_taxonomy p)"

lemma canonical_or_Inr: "canonical_or m canonical v = Inr c \<Longrightarrow> c \<in> set canonical"
  by (auto simp: canonical_or_def split: if_splits)

lemma check_priority_Inr: "check_priority canonical cs = Inr u \<Longrightarrow> set cs \<subseteq> set canonical"
  by (induction cs) (auto split: if_splits)

lemma check_taxonomy_Inr:
  "check_taxonomy canonical d = Inr rules \<Longrightarrow>
   list_all (\<lambda>r. dget_none (cu_rule r) ''class'' \<in> PStr ` set canonical) rules"
  by (induction d arbitrary: rules rule: check_taxonomy.induct)
    (auto split: pyval.splits if_splits sum.splits)

lemma build_policy_ok: "build_policy classifier = Inr p \<Longrightarrow> policy_ok p"
  using canonical_or_Inr check_priority_Inr check_taxonomy_Inr
  by (fastforce simp: build_policy_def policy_ok_def Let_def split: if_splits pyval.splits sum.splits)

lemma load_policy_ok: "load_policy path yaml = Inr p \<Longrightarrow> policy_ok p"
  using build_policy_ok by (auto simp: load_policy_def split: policy_read.splits pyval.splits)

lemma tags_for_ok:
  assumes "policy_ok p"
  shows "\<exists>tags. tags_for path p = Inr tags \<and> fst ` set tags \<subseteq> set (cy_canonical_classes p)"
proof -
  let ?P = "\<lambda>tags. fst ` set tags \<subseteq> set (cy_canonical_classes p)"
  have "\<exists>tags. rule_tag path r = Inr tags \<and> ?P tags" if "r \<in> set (cy_taxonomy p)" for r
  proof -
    obtain c where c: "dget_none (cu_rule r) ''class'' = PStr c" "c \<in> set (cy_canonical_classes p)"
      using assms \<open>r \<in> _\<close> by (auto simp: policy_ok_def list_all_iff)
    then have "dsub (cu_rule r) ''class'' = Inr (PStr c)"
      by (auto simp: dsub_def dget_none_def split: option.splits)
    with c(2) show ?thesis
      by (cases "match_reason (py_lower path) (cu_rule r)") (simp_all add: rule_tag_def)
  qed
  note rows = this
  then have "\<exists>tss. map_res (rule_tag path) (cy_taxonomy p) = Inr tss" unfolding map_res_ex by blast
  then obtain tss where tss: "map_res (rule_tag path) (cy_taxonomy p) = Inr tss" by blast
  have "?P tags" if "tags \<in> set tss" for tags
    using map_res_set [OF tss that] rows by fastforce
  then have "?P (concat tss)" by auto
  with tss show ?thesis by (simp add: tags_for_def)
qed

lemma observe_tag_keys: "fst ` set (observe_tag t observed) = insert (fst t) (fst ` set observed)"
  by (induction t observed rule: observe_tag.induct) auto

lemma fold_observe_keys: "fst ` set (fold observe_tag ts observed) = fst ` set ts \<union> fst ` set observed"
  by (induction ts arbitrary: observed) (auto simp: observe_tag_keys)

lemma classify_changes_Inr:
  assumes "policy_ok p" "norm_paths paths \<noteq> []"
  obtains unknown observed where
    "classify_changes paths p = Inr (decide_class p (sorted_set (norm_paths paths)) unknown observed)"
    "set unknown = {q \<in> set (norm_paths paths). path_classes p q = {}}"
    "fst ` set observed = (\<Union>q \<in> set (norm_paths paths). path_classes p q)"
proof -
  let ?changed = "sorted_set (norm_paths paths)"
  let ?g = "\<lambda>q. projr (tags_for q p)"
  have g: "tags_for q p = Inr (?g q)" for q
    using tags_for_ok [OF assms(1), of q] by auto
  then have classes: "path_classes p q = fst ` set (?g q)" for q
    by (cases "tags_for q p") (simp_all add: path_classes_def, metis g sum.distinct(1))
  have tags: "map_res (\<lambda>q. tags_for q p) ?changed = Inr (map ?g ?changed)"
    using g by (rule map_res_InrI)
  let ?unknown = "map fst (filter (\<lambda>(_, t). t = []) (zip ?changed (map ?g ?changed)))"
  let ?observed = "fold observe_tag (concat (map ?g ?changed)) []"
  have "zip ?changed (map ?g ?changed) = map (\<lambda>q. (q, ?g q)) ?changed"
    by (simp add: zip_map2 zip_same_conv_map)
  then have "?unknown = filter (\<lambda>q. ?g q = []) ?changed"
    by (simp add: filter_map comp_def case_prod_unfold)
  then have "set ?unknown = {q \<in> set (norm_paths paths). path_classes p q = {}}"
    by (auto simp: classes)
  moreover have "fst ` set ?observed = (\<Union>q \<in> set (norm_paths paths). path_classes p q)"
    by (simp add: fold_observe_keys classes image_UN)
  moreover have "classify_changes paths p = Inr (decide_class p ?changed ?unknown ?observed)"
    using assms(2) tags by (simp add: classify_changes_def Let_def)
  ultimately show ?thesis using that by blast
qed

lemma decide_class_cases:
  obtains "unknown \<noteq> []" "cl_pr_class (decide_class p changed unknown observed) = cy_unknown_class p"
  | "unknown = []" "fst ` set observed = {cy_docs_only_class p}"
    "cl_pr_class (decide_class p changed unknown observed) = cy_docs_only_class p"
  | before cls after where "unknown = []" "cy_priority p = before @ cls # after" "cls \<in> fst ` set observed"
    "cls \<noteq> cy_docs_only_class p" "\<forall>d \<in> set before. d \<in> fst ` set observed \<longrightarrow> d = cy_docs_only_class p"
    "cl_pr_class (decide_class p changed unknown observed) = cls"
  | "unknown = []" "cl_pr_class (decide_class p changed unknown observed) = cy_unknown_class p"
proof -
  let ?P = "\<lambda>cls. cls \<in> fst ` set observed \<and> cls \<noteq> cy_docs_only_class p"
  consider "unknown \<noteq> []" | "unknown = []" "fst ` set observed = {cy_docs_only_class p}"
    | "unknown = []" "fst ` set observed \<noteq> {cy_docs_only_class p}" "List.find ?P (cy_priority p) = None"
    | cls where "unknown = []" "fst ` set observed \<noteq> {cy_docs_only_class p}"
        "List.find ?P (cy_priority p) = Some cls"
    by (cases "List.find ?P (cy_priority p)") blast+
  then show ?thesis
  proof cases
    case 1
    then show ?thesis using that(1) by (simp add: decide_class_def Let_def)
  next
    case 2
    then show ?thesis using that(2) by (simp add: decide_class_def Let_def)
  next
    case 3
    then show ?thesis using that(4) by (simp add: decide_class_def Let_def)
  next
    case 4
    then obtain i where i: "i < length (cy_priority p)" "cls = cy_priority p ! i" "?P cls"
      "\<forall>j<i. \<not> ?P (cy_priority p ! j)"
      unfolding find_Some_iff by blast
    have "cy_priority p = take i (cy_priority p) @ cls # drop (Suc i) (cy_priority p)"
      using i(1,2) by (simp add: id_take_nth_drop)
    moreover have "\<forall>d \<in> set (take i (cy_priority p)). d \<in> fst ` set observed \<longrightarrow> d = cy_docs_only_class p"
    proof
      fix d
      assume "d \<in> set (take i (cy_priority p))"
      then obtain j where j: "j < i" "d = cy_priority p ! j" by (auto simp: in_set_conv_nth)
      from i(4) j(1) have "\<not> ?P (cy_priority p ! j)" by simp
      then show "d \<in> fst ` set observed \<longrightarrow> d = cy_docs_only_class p" unfolding j(2) by simp
    qed
    moreover have "cl_pr_class (decide_class p changed unknown observed) = cls"
      using 4 by (simp add: decide_class_def Let_def)
    ultimately show ?thesis using that(3) 4(1) i(3) by blast
  qed
qed

lemma decide_class_changed: "cl_changed_files (decide_class p changed unknown observed) = changed"
  by (simp add: decide_class_def Let_def split: option.split)


text \<open>
  The class does not depend on the order of the paths, on repetitions, or on how they are spelled
  before normalisation; and the check of the output in \<open>main\<close> never fails.
\<close>

theorem classify_order_independent:
  assumes "set (norm_paths paths) = set (norm_paths paths')"
  shows "classify_changes paths p = classify_changes paths' p"
  using sorted_set_cong [OF assms] by (simp add: classify_changes_def)

lemma classify_canonical:
  assumes "policy_ok p"
  shows "\<exists>c. classify_changes paths p = Inr c \<and> cl_pr_class c \<in> set (cy_canonical_classes p)"
proof (cases "norm_paths paths = []")
  case True
  then show ?thesis using assms by (simp add: classify_changes_def Let_def policy_ok_def)
next
  case False
  with assms obtain unknown observed where c: "classify_changes paths p =
      Inr (decide_class p (sorted_set (norm_paths paths)) unknown observed)"
    by (rule classify_changes_Inr)
  have "cl_pr_class (decide_class p (sorted_set (norm_paths paths)) unknown observed) \<in> set (cy_canonical_classes p)"
    by (rule decide_class_cases [of unknown p "sorted_set (norm_paths paths)" observed])
      (use assms in \<open>auto simp: policy_ok_def\<close>)
  with c show ?thesis by simp
qed

theorem classify_main_exit:
  assumes "classify_main path yaml plain argv_files changed_env stdin = Inr (code, out, err)"
  shows "code = 0 \<and> err = []"
proof -
  obtain p where p: "load_policy path yaml = Inr p"
    using assms by (auto simp: classify_main_def split: sum.splits)
  show ?thesis
    using assms classify_canonical [OF load_policy_ok [OF p], of "collect_files argv_files changed_env stdin"]
    by (auto simp: classify_main_def p split: sum.splits if_splits)
qed

subsection \<open>Witnesses\<close>

definition sample_change_policy :: classifier_policy where
  "sample_change_policy =
     \<lparr>cy_canonical_classes = [''unknown_diff'', ''docs_only'', ''code''], cy_unknown_class = ''unknown_diff'',
      cy_docs_only_class = ''docs_only'', cy_priority = [''code''],
      cy_taxonomy =
        [\<lparr>cu_name = PStr ''docs'',
          cu_rule = [(PStr ''class'', PStr ''docs_only''), (PStr ''suffixes'', PList [PStr ''.md''])]\<rparr>,
         \<lparr>cu_name = PStr ''sources'',
          cu_rule = [(PStr ''class'', PStr ''code''), (PStr ''prefixes'', PList [PStr ''src/''])]\<rparr>]\<rparr>"

lemma sample_change_policy_loads:
  "load_policy ''p.yaml'' (Policy_Document (PDict [(PStr ''classifier'', PDict
     [(PStr ''canonical_classes'', PList [PStr ''unknown_diff'', PStr ''docs_only'', PStr ''code'']),
      (PStr ''priority'', PList [PStr ''code'']),
      (PStr ''taxonomy'', PDict
        [(PStr ''docs'', PDict [(PStr ''class'', PStr ''docs_only''), (PStr ''suffixes'', PList [PStr ''.md''])]),
         (PStr ''sources'', PDict [(PStr ''class'', PStr ''code''), (PStr ''prefixes'', PList [PStr ''src/''])])])])])) =
   Inr sample_change_policy"
  by code_simp


end
