(* ===== verification/Governance_Models.thy ===== *)
theory Governance_Models
  imports Py_Value
begin

text \<open>
  \<open>l9_ci/governance/models.py\<close>: the diagnostics and results of the governance evaluations. The
  constructor of a diagnostic checks its fields and freezes its details; the fields are typed here,
  so only the tests on their contents remain. The evaluations build their diagnostics with literal
  codes and messages around literal text, so that those tests pass; \<open>diag\<close>, \<open>warn\<close> and \<open>info\<close> are
  such calls, and \<open>diag_constructed\<close> shows it.
\<close>

subsection \<open>Status\<close>

datatype evaluation_status = Eval_Pass | Eval_Fail | Eval_Incomplete | Eval_Invalid | Eligible | Ineligible

fun evaluation_status_value :: "evaluation_status \<Rightarrow> string" where
  "evaluation_status_value Eval_Pass = ''pass''"
| "evaluation_status_value Eval_Fail = ''fail''"
| "evaluation_status_value Eval_Incomplete = ''incomplete''"
| "evaluation_status_value Eval_Invalid = ''invalid''"
| "evaluation_status_value Eligible = ''eligible''"
| "evaluation_status_value Ineligible = ''ineligible''"

subsection \<open>Frozen values\<close>

text \<open>
  Freezing turns keys into strings, later keys winning, and lists into tuples; thawing turns the
  tuples back. Tuples and lists are one constructor of values.
\<close>

fun freeze_value :: "pyval \<Rightarrow> pyval" where
  "freeze_value (PDict kvs) =
     PDict (fold (\<lambda>(k, v). dict_put (PStr k) v) (map (\<lambda>(k, v). (py_str k, freeze_value v)) kvs) [])"
| "freeze_value (PList xs) = PList (map freeze_value xs)"
| "freeze_value v = v"

fun thaw_value :: "pyval \<Rightarrow> pyval" where
  "thaw_value (PDict kvs) = PDict (map (\<lambda>(k, v). (k, thaw_value v)) kvs)"
| "thaw_value (PList xs) = PList (map thaw_value xs)"
| "thaw_value v = v"

definition freeze_entries :: "pydict \<Rightarrow> pydict" where
  "freeze_entries d = (case freeze_value (PDict d) of PDict d' \<Rightarrow> d' | _ \<Rightarrow> d)"

lemma thaw_value_id [simp]: "thaw_value v = v"
proof (induction v rule: thaw_value.induct)
  case (1 kvs)
  then show ?case by (auto intro: map_idI)
qed (auto intro: map_idI)

subsection \<open>Diagnostics\<close>

record diagnostic =
  dg_code :: string
  dg_message :: string
  dg_path :: string
  dg_severity :: string
  dg_details :: pydict

definition diagnostic_post_init :: "diagnostic \<Rightarrow> diagnostic result" where
  "diagnostic_post_init d =
     (if blank (dg_code d) then Inl (ValueError ''diagnostic code must be non-empty'')
      else if blank (dg_message d) then Inl (ValueError ''diagnostic message must be non-empty'')
      else if dg_severity d \<notin> {''info'', ''warning'', ''error''} then
        Inl (ValueError ''unsupported diagnostic severity'')
      else Inr (d\<lparr>dg_details := freeze_entries (dg_details d)\<rparr>))"

definition diagnostic_to_dict :: "diagnostic \<Rightarrow> pydict" where
  "diagnostic_to_dict d =
     [(PStr ''code'', PStr (dg_code d)), (PStr ''message'', PStr (dg_message d)),
      (PStr ''path'', PStr (dg_path d)), (PStr ''severity'', PStr (dg_severity d)),
      (PStr ''details'', thaw_value (PDict (dg_details d)))]"

text \<open>\<open>Diagnostic(code, message, path, severity, details)\<close> and its default arguments.\<close>

definition Diagnostic :: "string \<Rightarrow> string \<Rightarrow> string \<Rightarrow> string \<Rightarrow> pydict \<Rightarrow> diagnostic" where
  "Diagnostic code message path severity details =
     \<lparr>dg_code = code, dg_message = message, dg_path = path, dg_severity = severity,
      dg_details = freeze_entries details\<rparr>"

abbreviation diag :: "string \<Rightarrow> string \<Rightarrow> string \<Rightarrow> diagnostic" where
  "diag code message path \<equiv> Diagnostic code message path ''error'' []"

definition valid_diagnostic :: "diagnostic \<Rightarrow> bool" where
  "valid_diagnostic d \<longleftrightarrow>
     \<not> blank (dg_code d) \<and> \<not> blank (dg_message d) \<and> dg_severity d \<in> {''info'', ''warning'', ''error''}"

lemma diag_constructed:
  "valid_diagnostic (Diagnostic c m p s d) \<longleftrightarrow>
     diagnostic_post_init \<lparr>dg_code = c, dg_message = m, dg_path = p, dg_severity = s, dg_details = d\<rparr> =
       Inr (Diagnostic c m p s d)"
  by (auto simp: valid_diagnostic_def diagnostic_post_init_def Diagnostic_def)

subsection \<open>Results\<close>

record evaluation_result =
  gv_status :: evaluation_status
  gv_diagnostics :: "diagnostic list"
  gv_evidence :: pydict

definition EvaluationResult :: "evaluation_status \<Rightarrow> diagnostic list \<Rightarrow> pydict \<Rightarrow> evaluation_result" where
  "EvaluationResult status diagnostics evidence =
     \<lparr>gv_status = status, gv_diagnostics = diagnostics, gv_evidence = freeze_entries evidence\<rparr>"

definition evaluation_result_to_dict :: "evaluation_result \<Rightarrow> pydict" where
  "evaluation_result_to_dict r =
     [(PStr ''status'', PStr (evaluation_status_value (gv_status r))),
      (PStr ''diagnostics'', PList (map (\<lambda>d. PDict (diagnostic_to_dict d)) (gv_diagnostics r))),
      (PStr ''evidence'', thaw_value (PDict (gv_evidence r)))]"

abbreviation invalid_result :: "diagnostic list \<Rightarrow> evaluation_result" where
  "invalid_result ds \<equiv> EvaluationResult Eval_Invalid ds []"

lemma EvaluationResult_simps [simp]:
  "gv_status (EvaluationResult s ds e) = s"
  "gv_diagnostics (EvaluationResult s ds e) = ds"
  by (simp_all add: EvaluationResult_def)

lemma Diagnostic_simps [simp]:
  "dg_code (Diagnostic c m p s d) = c"
  "dg_message (Diagnostic c m p s d) = m"
  "dg_path (Diagnostic c m p s d) = p"
  "dg_severity (Diagnostic c m p s d) = s"
  by (simp_all add: Diagnostic_def)

text \<open>The dictionary keys of a mapping, and the tests shared by the evaluations.\<close>

definition dkeys :: "pydict \<Rightarrow> pyval list" where
  "dkeys d = map fst d"

definition non_blank_strs :: "pyval list \<Rightarrow> bool" where
  "non_blank_strs xs \<longleftrightarrow> list_all non_blank_str xs"

text \<open>
  \<open>v == w\<close> on values: \<open>True\<close> equals \<open>1\<close>, the order of a dictionary does not count. Two timestamps
  are equal here when their texts are.
\<close>

lemma size_zip [termination_simp]:
  "(a, b) \<in> set (zip xs ys) \<Longrightarrow> size a < Suc (size_list size xs)"
  "(a, b) \<in> set (zip xs ys) \<Longrightarrow> size b < Suc (size_list size ys)"
  using size_list_estimation' [of a xs "size a" size] size_list_estimation' [of b ys "size b" size]
  by (auto simp: less_Suc_eq_le dest: set_zip_leftD set_zip_rightD)

fun py_eq :: "pyval \<Rightarrow> pyval \<Rightarrow> bool" where
  "py_eq (PList xs) (PList ys) \<longleftrightarrow>
     length xs = length ys \<and> list_all (\<lambda>(x, y). py_eq x y) (zip xs ys)"
| "py_eq (PDict xs) (PDict ys) \<longleftrightarrow>
     length xs = length ys \<and>
     list_all (\<lambda>(k, v). list_ex (\<lambda>(k', v'). key_norm k = key_norm k' \<and> py_eq v v') ys) xs"
| "py_eq v w \<longleftrightarrow> key_norm v = key_norm w"

definition py_in :: "pyval \<Rightarrow> pyval list \<Rightarrow> bool" where
  "py_in v xs \<longleftrightarrow> list_ex (py_eq v) xs"

lemma py_eq_PStr [simp]: "py_eq (PStr s) w \<longleftrightarrow> w = PStr s"
  by (cases w) auto

lemma py_in_PStr [simp]: "py_in (PStr s) xs \<longleftrightarrow> PStr s \<in> set xs"
  by (auto simp: py_in_def list_ex_iff simp del: py_eq.simps)

lemma is_bool_iff: "is_bool v \<longleftrightarrow> (\<exists>b. v = PBool b)"
  by (cases v) auto

lemma non_blank_str_iff: "non_blank_str v \<longleftrightarrow> (\<exists>s. v = PStr s \<and> \<not> blank s)"
  by (cases v) simp_all

subsection \<open>Timestamps\<close>

text \<open>
  \<open>datetime.fromisoformat\<close> is the parameter \<open>reader\<close> of the evaluations that read timestamps: what it
  says of a text, with the microseconds of an aware timestamp after \<open>astimezone(timezone.utc)\<close>, which
  can leave the range of dates.
\<close>

datatype datetime_read =
    Not_Iso
  | Iso_Naive
  | Iso_Aware int
  | Iso_Out_Of_Range

type_synonym iso_reader = "string \<Rightarrow> datetime_read"

definition zulu :: "string \<Rightarrow> string" where
  "zulu s = concat (map (\<lambda>c. if c = CHR ''Z'' then ''+00:00'' else [c]) s)"

end
