(* ===== verification/Governance_Authority.thy ===== *)
theory Governance_Authority
  imports Governance_Models
begin

text \<open>
  \<open>l9_ci/governance/authority.py\<close>: the comparison of two authority surfaces. It observes changes
  and neither approves nor blocks them. Two of its loops run over a Python \<open>set\<close> of field names;
  their order is the parameter \<open>order\<close>, any list of the two names.
\<close>

subsection \<open>Ranks\<close>

definition MUTATION_RANK :: "(pyval \<times> int) list" where
  "MUTATION_RANK =
     [(PStr ''read_only'', 0), (PStr ''propose_only'', 1), (PStr ''enrich_only'', 2),
      (PStr ''internal_state'', 3), (PStr ''internal_plus_graph_sync'', 4),
      (PStr ''external_mutation'', 5)]"

definition APPROVAL_RANK :: "(pyval \<times> int) list" where
  "APPROVAL_RANK = [(PStr ''human'', 0), (PStr ''threshold_or_human'', 1), (PStr ''autonomous'', 2)]"

definition REPLAY_RANK :: "(pyval \<times> int) list" where
  "REPLAY_RANK = [(PBool False, 0), (PStr ''conditional'', 1), (PBool True, 2)]"

definition RANKED_FIELDS :: "(string \<times> (pyval \<times> int) list) list" where
  "RANKED_FIELDS =
     [(''mutation_class'', MUTATION_RANK), (''approval_mode'', APPROVAL_RANK),
      (''replay_safe'', REPLAY_RANK)]"

definition COLLECTION_FIELDS :: "string list" where
  "COLLECTION_FIELDS = [''required_provenance'', ''required_dependencies'']"

text \<open>A dictionary lookup compares keys with \<open>==\<close>, which identifies \<open>True\<close> with \<open>1\<close>.\<close>

definition rank_of :: "(pyval \<times> int) list \<Rightarrow> pyval \<Rightarrow> int option" where
  "rank_of ranks v = map_of (map (\<lambda>(k, r). (key_norm k, r)) ranks) (key_norm v)"

subsection \<open>Validation\<close>

fun authority_string_set :: "pyval \<Rightarrow> string \<Rightarrow> string list \<times> diagnostic list" where
  "authority_string_set PNone path = ([], [])"
| "authority_string_set (PList xs) path =
     (if \<not> list_all non_blank_str xs then
        ([], [diag ''authority.collection_invalid'' (path @ '' must be an array of non-empty strings'') path])
      else
        (map the_str xs,
         if distinct xs then []
         else [diag ''authority.collection_duplicate'' (path @ '' must contain unique values'') path]))"
| "authority_string_set v path =
     ([], [diag ''authority.collection_invalid'' (path @ '' must be an array of non-empty strings'') path])"

definition ranked_field_errors ::
  "string \<Rightarrow> pydict \<Rightarrow> string \<times> (pyval \<times> int) list \<Rightarrow> diagnostic list result"
where
  "ranked_field_errors path action fr =
     (case fr of (field, ranks) \<Rightarrow>
        let v = dget_none action field
        in if v = PNone then Inr []
           else if \<not> hashable v then
             Inl (TypeError (''unhashable type: '' @ repr_string (py_type_name v)))
           else if rank_of ranks v = None then
             Inr [diag ''authority.value_unrecognized''
                    (''unrecognized '' @ field @ '' value '' @ py_repr v) (path @ ''.'' @ field)]
           else Inr [])"

fun validate_action ::
  "string list \<Rightarrow> string \<Rightarrow> string \<times> pyval \<Rightarrow> diagnostic list result"
where
  "validate_action order side (name, PDict action) =
     (let path = side @ ''.actions.'' @ name
      in and_then (map_res (ranked_field_errors path action) RANKED_FIELDS) (\<lambda>errors.
         Inr (concat errors @
           concat (map (\<lambda>field. snd (authority_string_set (dget_none action field) (path @ ''.'' @ field)))
             order))))"
| "validate_action order side (name, v) =
     Inr [diag ''authority.action_invalid'' (''action '' @ repr_string name @ '' must be a mapping'')
            (side @ ''.actions.'' @ name)]"

definition named_actions :: "pydict \<Rightarrow> (string \<times> pyval) list" where
  "named_actions actions = map (\<lambda>(k, v). (the_str k, v)) actions"

subsection \<open>Changes\<close>

text \<open>\<open>validated[name] or {}\<close>: without invalid actions it is the mapping itself.\<close>

definition action_of :: "pydict \<Rightarrow> string \<Rightarrow> pydict" where
  "action_of actions name = (case dget actions name of Some (PDict d) \<Rightarrow> d | _ \<Rightarrow> [])"

definition rank_sub :: "(pyval \<times> int) list \<Rightarrow> pyval \<Rightarrow> int result" where
  "rank_sub ranks v =
     (case rank_of ranks v of Some r \<Rightarrow> Inr r | None \<Rightarrow> Inl (KeyError (py_repr v)))"

definition ranked_code :: "string \<Rightarrow> int \<Rightarrow> int \<Rightarrow> string" where
  "ranked_code field new_rank old_rank =
     (if field = ''mutation_class'' then
        (if old_rank < new_rank then ''authority.mutation_class_escalated''
         else ''authority.mutation_class_reduced'')
      else if field = ''approval_mode'' then
        (if old_rank < new_rank then ''authority.approval_mode_weakened''
         else ''authority.approval_mode_strengthened'')
      else
        (if new_rank < old_rank then ''authority.replay_safety_reduced''
         else ''authority.replay_safety_increased''))"

definition ranked_change ::
  "string \<Rightarrow> pydict \<Rightarrow> pydict \<Rightarrow> string \<times> (pyval \<times> int) list \<Rightarrow> diagnostic list result"
where
  "ranked_change name old new fr =
     (case fr of (field, ranks) \<Rightarrow>
        let old_value = dget_none old field; new_value = dget_none new field;
            path = ''actions.'' @ name @ ''.'' @ field;
            details = [(PStr ''before'', old_value), (PStr ''after'', new_value)];
            new_present = (dget new field \<noteq> None)
        in if (dget old field \<noteq> None) \<noteq> new_present then
             Inr [Diagnostic (if new_present then ''authority.field_added'' else ''authority.field_removed'')
                    (name @ '': '' @ field @ '' was '' @ (if new_present then ''added'' else ''removed''))
                    path ''warning'' details]
           else if dget old field = None \<or> key_norm old_value = key_norm new_value then Inr []
           else
             and_then (rank_sub ranks new_value) (\<lambda>new_rank.
             and_then (rank_sub ranks old_value) (\<lambda>old_rank.
             Inr [Diagnostic (ranked_code field new_rank old_rank)
                    (name @ '': '' @ field @ '' changed '' @ py_repr old_value @ '' -> '' @ py_repr new_value)
                    path ''warning'' details])))"

fun items_of :: "pyval \<Rightarrow> string list" where
  "items_of (PList xs) = map the_str xs"
| "items_of _ = []"

definition collection_change ::
  "string \<Rightarrow> pydict \<Rightarrow> pydict \<Rightarrow> string \<times> string \<times> string \<Rightarrow> diagnostic list"
where
  "collection_change name old new frc =
     (case frc of (field, removed_code, added_code) \<Rightarrow>
        let old_items = items_of (dget_none old field); new_items = items_of (dget_none new field);
            path = ''actions.'' @ name @ ''.'' @ field
        in map (\<lambda>i. Diagnostic removed_code
                  (name @ '': required item '' @ repr_string i @ '' was removed'') path ''warning'' [])
             (sorted_set (filter (\<lambda>i. i \<notin> set new_items) old_items)) @
           map (\<lambda>i. Diagnostic added_code
                  (name @ '': required item '' @ repr_string i @ '' was added'') path ''info'' [])
             (sorted_set (filter (\<lambda>i. i \<notin> set old_items) new_items)))"

definition COLLECTION_CODES :: "(string \<times> string \<times> string) list" where
  "COLLECTION_CODES =
     [(''required_provenance'', ''authority.required_provenance_removed'',
       ''authority.required_provenance_added''),
      (''required_dependencies'', ''authority.required_dependency_removed'',
       ''authority.required_dependency_added'')]"

definition action_changes :: "pydict \<Rightarrow> pydict \<Rightarrow> string \<Rightarrow> diagnostic list result" where
  "action_changes before_actions after_actions name =
     (let old = action_of before_actions name; new = action_of after_actions name
      in and_then (map_res (ranked_change name old new) RANKED_FIELDS) (\<lambda>ranked.
         Inr (concat ranked @ concat (map (collection_change name old new) COLLECTION_CODES))))"

definition only_in :: "pydict \<Rightarrow> pydict \<Rightarrow> string list" where
  "only_in xs ys = sorted_set (filter (\<lambda>n. dget ys n = None) (map the_str (dkeys xs)))"

definition in_both :: "pydict \<Rightarrow> pydict \<Rightarrow> string list" where
  "in_both xs ys = sorted_set (filter (\<lambda>n. dget ys n \<noteq> None) (map the_str (dkeys xs)))"

definition compare_authority ::
  "string list \<Rightarrow> pyval \<Rightarrow> pyval \<Rightarrow> evaluation_result result"
where
  "compare_authority order before after =
     (case (before, after) of
        (PDict b, PDict a) \<Rightarrow>
          (case (dget_default b ''actions'' (PDict []), dget_default a ''actions'' (PDict [])) of
             (PDict before_actions, PDict after_actions) \<Rightarrow>
               if \<not> non_blank_strs (dkeys before_actions @ dkeys after_actions) then
                 Inr (invalid_result [diag ''authority.action_name_invalid''
                   ''action names must be non-empty strings'' ''actions''])
               else
                 and_then (map_res (validate_action order ''before'') (named_actions before_actions)) (\<lambda>e1.
                 and_then (map_res (validate_action order ''after'') (named_actions after_actions)) (\<lambda>e2.
                 let invalid = concat e1 @ concat e2
                 in if invalid \<noteq> [] then Inr (invalid_result invalid)
                    else
                      and_then (map_res (action_changes before_actions after_actions)
                                  (in_both before_actions after_actions)) (\<lambda>changed.
                      let changes =
                            map (\<lambda>name. Diagnostic ''authority.action_added''
                                  (''action '' @ repr_string name @ '' was added'') (''actions.'' @ name)
                                  ''warning'' [(PStr ''after'', PDict (action_of after_actions name))])
                              (only_in after_actions before_actions) @
                            map (\<lambda>name. Diagnostic ''authority.action_removed''
                                  (''action '' @ repr_string name @ '' was removed'') (''actions.'' @ name)
                                  ''warning'' [(PStr ''before'', PDict (action_of before_actions name))])
                              (only_in before_actions after_actions) @
                            concat changed
                      in Inr (EvaluationResult Eval_Pass changes
                           [(PStr ''changed'', PBool (changes \<noteq> [])),
                            (PStr ''change_count'', PInt (int (length changes)))]))))
           | _ \<Rightarrow> Inr (invalid_result [diag ''authority.actions_invalid'' ''actions must be mappings'' ''actions'']))
      | _ \<Rightarrow> Inr (invalid_result [diag ''authority.input_invalid'' ''before and after must be mappings'' []]))"

subsection \<open>What a comparison shows\<close>

text \<open>Two actions with the same authority: equal ranked fields, equal sets of requirements.\<close>

definition same_field :: "pydict \<Rightarrow> pydict \<Rightarrow> string \<Rightarrow> bool" where
  "same_field old new field \<longleftrightarrow> map_option key_norm (dget old field) = map_option key_norm (dget new field)"

definition same_action :: "pydict \<Rightarrow> pydict \<Rightarrow> bool" where
  "same_action old new \<longleftrightarrow>
     list_all (same_field old new) (map fst RANKED_FIELDS) \<and>
     list_all (\<lambda>field. set (items_of (dget_none old field)) = set (items_of (dget_none new field)))
       COLLECTION_FIELDS"

definition same_surface :: "pydict \<Rightarrow> pydict \<Rightarrow> bool" where
  "same_surface b a \<longleftrightarrow>
     set (dkeys b) = set (dkeys a) \<and>
     (\<forall>name. PStr name \<in> set (dkeys b) \<longrightarrow> same_action (action_of b name) (action_of a name))"

lemma dget_None_iff: "dget d k = None \<longleftrightarrow> PStr k \<notin> set (dkeys d)"
  by (simp add: dget_def dkeys_def map_of_eq_None_iff)

lemma ranked_change_Nil:
  assumes "ranked_change name old new (field, ranks) = Inr ds"
  shows "ds = [] \<longleftrightarrow> same_field old new field"
  using assms
  by (cases "dget old field"; cases "dget new field")
    (auto simp: ranked_change_def same_field_def Let_def dget_none_def and_then_eq_Inr split: if_splits)

lemma collection_change_Nil:
  "collection_change name old new (field, r, a) = [] \<longleftrightarrow>
     set (items_of (dget_none old field)) = set (items_of (dget_none new field))"
  by (auto simp: collection_change_def Let_def filter_empty_conv)

lemma action_changes_Nil:
  assumes "action_changes b a name = Inr ds"
  shows "ds = [] \<longleftrightarrow> same_action (action_of b name) (action_of a name)"
proof -
  obtain d1 d2 d3 where
    "ranked_change name (action_of b name) (action_of a name) (''mutation_class'', MUTATION_RANK) = Inr d1"
    "ranked_change name (action_of b name) (action_of a name) (''approval_mode'', APPROVAL_RANK) = Inr d2"
    "ranked_change name (action_of b name) (action_of a name) (''replay_safe'', REPLAY_RANK) = Inr d3"
    and ds: "ds = concat [d1, d2, d3] @
      concat (map (collection_change name (action_of b name) (action_of a name)) COLLECTION_CODES)"
    using assms by (auto simp: action_changes_def Let_def RANKED_FIELDS_def and_then_eq_Inr)
  then show ?thesis
    by (auto simp: same_action_def RANKED_FIELDS_def COLLECTION_CODES_def COLLECTION_FIELDS_def
        ranked_change_Nil collection_change_Nil)
qed

lemma set_only_in: "non_blank_strs (dkeys xs) \<Longrightarrow> n \<in> set (only_in xs ys) \<longleftrightarrow> PStr n \<in> set (dkeys xs) \<and> PStr n \<notin> set (dkeys ys)"
  by (force simp: only_in_def dget_None_iff non_blank_strs_def list_all_iff non_blank_str_iff image_iff)

lemma set_in_both: "non_blank_strs (dkeys xs) \<Longrightarrow> n \<in> set (in_both xs ys) \<longleftrightarrow> PStr n \<in> set (dkeys xs) \<and> PStr n \<in> set (dkeys ys)"
  by (force simp: in_both_def dget_None_iff non_blank_strs_def list_all_iff non_blank_str_iff image_iff)

lemma only_in_Nil: "non_blank_strs (dkeys xs) \<Longrightarrow> only_in xs ys = [] \<longleftrightarrow> set (dkeys xs) \<subseteq> set (dkeys ys)"
  by (force simp: only_in_def dget_None_iff non_blank_strs_def list_all_iff non_blank_str_iff
      filter_empty_conv)

text \<open>A comparison that passes went through every step.\<close>

lemma compare_authority_Pass:
  assumes "compare_authority order before after = Inr r" "gv_status r = Eval_Pass"
  obtains b a ba aa changed where "before = PDict b" "after = PDict a"
    "dget_default b ''actions'' (PDict []) = PDict ba" "dget_default a ''actions'' (PDict []) = PDict aa"
    "non_blank_strs (dkeys ba)" "non_blank_strs (dkeys aa)"
    "map_res (action_changes ba aa) (in_both ba aa) = Inr changed"
    "gv_diagnostics r =
       map (\<lambda>name. Diagnostic ''authority.action_added''
             (''action '' @ repr_string name @ '' was added'') (''actions.'' @ name)
             ''warning'' [(PStr ''after'', PDict (action_of aa name))]) (only_in aa ba) @
       map (\<lambda>name. Diagnostic ''authority.action_removed''
             (''action '' @ repr_string name @ '' was removed'') (''actions.'' @ name)
             ''warning'' [(PStr ''before'', PDict (action_of ba name))]) (only_in ba aa) @
       concat changed"
proof -
  obtain b a where ba: "before = PDict b" "after = PDict a"
    using assms by (cases before; cases after) (auto simp: compare_authority_def)
  obtain bb aa where acts: "dget_default b ''actions'' (PDict []) = PDict bb"
    "dget_default a ''actions'' (PDict []) = PDict aa"
    using assms
    by (cases "dget_default b ''actions'' (PDict [])"; cases "dget_default a ''actions'' (PDict [])")
      (auto simp: compare_authority_def ba)
  have names: "non_blank_strs (dkeys bb)" "non_blank_strs (dkeys aa)"
    using assms by (auto simp: compare_authority_def ba acts non_blank_strs_def split: if_splits)
  then have nn: "non_blank_strs (dkeys bb @ dkeys aa)"
    by (simp add: non_blank_strs_def)
  obtain e1 e2 where e: "map_res (validate_action order ''before'') (named_actions bb) = Inr e1"
    "map_res (validate_action order ''after'') (named_actions aa) = Inr e2"
    using assms nn by (auto simp: compare_authority_def ba acts and_then_eq_Inr)
  have nil: "concat e1 @ concat e2 = []"
    using assms nn e by (auto simp: compare_authority_def ba acts Let_def split: if_splits)
  obtain changed where "map_res (action_changes bb aa) (in_both bb aa) = Inr changed"
    using assms nn e nil by (auto simp: compare_authority_def ba acts Let_def and_then_eq_Inr)
  moreover from this have "gv_diagnostics r =
       map (\<lambda>name. Diagnostic ''authority.action_added''
             (''action '' @ repr_string name @ '' was added'') (''actions.'' @ name)
             ''warning'' [(PStr ''after'', PDict (action_of aa name))]) (only_in aa bb) @
       map (\<lambda>name. Diagnostic ''authority.action_removed''
             (''action '' @ repr_string name @ '' was removed'') (''actions.'' @ name)
             ''warning'' [(PStr ''before'', PDict (action_of bb name))]) (only_in bb aa) @
       concat changed"
    using assms nn e nil by (auto simp: compare_authority_def ba acts Let_def)
  ultimately show thesis
    using that ba acts names by blast
qed

lemma compare_authority_status:
  "compare_authority order before after = Inr r \<Longrightarrow> gv_status r = Eval_Pass \<or> gv_status r = Eval_Invalid"
  by (auto simp: compare_authority_def and_then_eq_Inr Let_def split: pyval.splits if_splits)

lemma list_all2_concat_ex:
  assumes "list_all2 R xs ys" and "\<And>x y. R x y \<Longrightarrow> (\<exists>d \<in> set y. Q d) \<longleftrightarrow> P x"
  shows "(\<exists>d \<in> set (concat ys). Q d) \<longleftrightarrow> (\<exists>x \<in> set xs. P x)"
  using assms(1) by (induction rule: list_all2_induct) (simp_all add: assms(2) bex_Un)

abbreviation escalated :: string where
  "escalated \<equiv> ''authority.mutation_class_escalated''"

lemma ranked_change_path:
  "ranked_change name old new (field, ranks) = Inr ds \<Longrightarrow> d \<in> set ds \<Longrightarrow>
     dg_path d = ''actions.'' @ name @ ''.'' @ field"
  by (auto simp: ranked_change_def Let_def and_then_eq_Inr split: if_splits)

lemma ranked_change_escalated:
  assumes "ranked_change name old new (field, ranks) = Inr ds"
  shows "(\<exists>d \<in> set ds. dg_code d = escalated) \<longleftrightarrow>
     field = ''mutation_class'' \<and> dget old field \<noteq> None \<and> dget new field \<noteq> None \<and>
     (\<exists>ro rn. rank_of ranks (dget_none old field) = Some ro \<and>
        rank_of ranks (dget_none new field) = Some rn \<and> ro < rn)"
proof -
  have eq: "key_norm v = key_norm w \<Longrightarrow> rank_of ranks v = rank_of ranks w" for v w
    by (simp add: rank_of_def)
  from assms show ?thesis
    by (cases "rank_of ranks (dget_none old field)"; cases "rank_of ranks (dget_none new field)")
      (auto simp: ranked_change_def ranked_code_def Let_def and_then_eq_Inr rank_sub_def
        split: if_splits dest: eq)
qed

lemma collection_change_codes:
  "d \<in> set (collection_change name old new frc) \<Longrightarrow> frc \<in> set COLLECTION_CODES \<Longrightarrow> dg_code d \<noteq> escalated"
  by (auto simp: collection_change_def COLLECTION_CODES_def Let_def)

lemma rank_of_present: "rank_of MUTATION_RANK (dget_none d f) = Some r \<Longrightarrow> dget d f \<noteq> None"
  by (auto simp: dget_none_def rank_of_def MUTATION_RANK_def split: option.splits)

lemma action_changes_escalated:
  assumes "action_changes b a name = Inr ds"
  shows "(\<exists>d \<in> set ds. dg_code d = escalated \<and> dg_path d = path) \<longleftrightarrow>
     path = ''actions.'' @ name @ ''.mutation_class'' \<and>
     (\<exists>ro rn. rank_of MUTATION_RANK (dget_none (action_of b name) ''mutation_class'') = Some ro \<and>
        rank_of MUTATION_RANK (dget_none (action_of a name) ''mutation_class'') = Some rn \<and> ro < rn)"
proof -
  obtain d1 d2 d3 where d:
    "ranked_change name (action_of b name) (action_of a name) (''mutation_class'', MUTATION_RANK) = Inr d1"
    "ranked_change name (action_of b name) (action_of a name) (''approval_mode'', APPROVAL_RANK) = Inr d2"
    "ranked_change name (action_of b name) (action_of a name) (''replay_safe'', REPLAY_RANK) = Inr d3"
    and ds: "ds = concat [d1, d2, d3] @
      concat (map (collection_change name (action_of b name) (action_of a name)) COLLECTION_CODES)"
    using assms by (auto simp: action_changes_def Let_def RANKED_FIELDS_def and_then_eq_Inr)
  have no: "\<not> (\<exists>d \<in> set d2. dg_code d = escalated)" "\<not> (\<exists>d \<in> set d3. dg_code d = escalated)"
    unfolding ranked_change_escalated [OF d(2)] ranked_change_escalated [OF d(3)] by simp_all
  have "(\<exists>d \<in> set ds. dg_code d = escalated \<and> dg_path d = path) \<longleftrightarrow>
      (\<exists>d \<in> set d1. dg_code d = escalated \<and> dg_path d = path)"
    using no collection_change_codes by (fastforce simp: ds)
  also have "\<dots> \<longleftrightarrow> path = ''actions.'' @ name @ ''.mutation_class'' \<and> (\<exists>d \<in> set d1. dg_code d = escalated)"
    using ranked_change_path [OF d(1)] by auto
  finally show ?thesis
    unfolding ranked_change_escalated [OF d(1)] using rank_of_present by blast
qed

subsection \<open>Properties\<close>

text \<open>
  An unchanged authority surface is reported as unchanged, and only that. A comparison ends
  with the status pass or invalid, never with a verdict; when it passes, it lists no change exactly
  when both sides have the same actions with equal mutation class, approval mode and replay
  safety (absent or equal) and equal sets of required provenance and dependencies.
\<close>

theorem compare_authority_unchanged:
  assumes "compare_authority order (PDict b) (PDict a) = Inr r"
  shows "(gv_status r = Eval_Pass \<or> gv_status r = Eval_Invalid) \<and>
    (gv_status r = Eval_Pass \<longrightarrow>
       (\<exists>ba aa. dget_default b ''actions'' (PDict []) = PDict ba \<and>
          dget_default a ''actions'' (PDict []) = PDict aa \<and>
          (gv_diagnostics r = [] \<longleftrightarrow> same_surface ba aa)))"
proof (intro conjI impI)
  show "gv_status r = Eval_Pass \<or> gv_status r = Eval_Invalid"
    using assms by (rule compare_authority_status)
  assume "gv_status r = Eval_Pass"
  then obtain ba aa changed where acts: "dget_default b ''actions'' (PDict []) = PDict ba"
      "dget_default a ''actions'' (PDict []) = PDict aa"
    and names: "non_blank_strs (dkeys ba)" "non_blank_strs (dkeys aa)"
    and ch: "map_res (action_changes ba aa) (in_both ba aa) = Inr changed"
    and nil: "gv_diagnostics r = [] \<longleftrightarrow> only_in aa ba = [] \<and> only_in ba aa = [] \<and> concat changed = []"
  proof -
    show thesis
      by (rule compare_authority_Pass [OF assms \<open>gv_status r = Eval_Pass\<close>]) (rule that, simp_all)
  qed
  have keys: "only_in aa ba = [] \<and> only_in ba aa = [] \<longleftrightarrow> set (dkeys ba) = set (dkeys aa)"
    unfolding only_in_Nil [OF names(1)] only_in_Nil [OF names(2)] by blast
  have "concat changed = [] \<longleftrightarrow> (\<forall>n \<in> set (in_both ba aa). same_action (action_of ba n) (action_of aa n))"
    using ch [unfolded map_res_eq_Inr_iff]
    by (induction rule: list_all2_induct) (auto simp: action_changes_Nil)
  then have "gv_diagnostics r = [] \<longleftrightarrow> same_surface ba aa"
    unfolding nil same_surface_def using keys set_in_both [OF names(1), of _ aa] by auto
  then show "\<exists>ba aa. dget_default b ''actions'' (PDict []) = PDict ba \<and>
          dget_default a ''actions'' (PDict []) = PDict aa \<and>
          (gv_diagnostics r = [] \<longleftrightarrow> same_surface ba aa)"
    using acts by blast
qed


definition authority_sample :: "string \<Rightarrow> pydict" where
  "authority_sample c =
     [(PStr ''actions'', PDict [(PStr ''run'', PDict [(PStr ''mutation_class'', PStr c)])])]"

lemma authority_sample_result:
  "compare_authority COLLECTION_FIELDS (PDict (authority_sample ''read_only''))
     (PDict (authority_sample ''external_mutation'')) =
   Inr (EvaluationResult Eval_Pass
     [Diagnostic ''authority.mutation_class_escalated''
        (''run: mutation_class changed '' @ py_repr (PStr ''read_only'') @ '' -> '' @
         py_repr (PStr ''external_mutation''))
        ''actions.run.mutation_class'' ''warning''
        [(PStr ''before'', PStr ''read_only''), (PStr ''after'', PStr ''external_mutation'')]]
     [(PStr ''changed'', PBool True), (PStr ''change_count'', PInt 1)])"
  by code_simp


theorem compare_authority_unchanged_witness:
  "\<not> same_surface [(PStr ''run'', PDict [(PStr ''mutation_class'', PStr ''read_only'')])]
     [(PStr ''run'', PDict [(PStr ''mutation_class'', PStr ''external_mutation'')])]"
  using compare_authority_unchanged [OF authority_sample_result [unfolded authority_sample_def]]
  by simp

text \<open>A list where a ranked value is expected is not reported: the membership test raises.\<close>

lemma ranked_value_unhashable:
  "ranked_field_errors path [(PStr ''approval_mode'', PList [])] (''approval_mode'', ranks) =
     Inl (TypeError (''unhashable type: '' @ repr_string ''list''))"
  by (simp add: ranked_field_errors_def dget_none_def dget_def)


end
