(* ===== verification/Governance_Promotion.thy ===== *)
theory Governance_Promotion
  imports Governance_Models
begin

text \<open>
  \<open>l9_ci/governance/promotion.py\<close>: whether the recorded observations make a policy mode eligible for
  promotion. Whole days are counted on the microseconds of the
  timestamps; Python divides a float, which is exact for windows of less than 272 years.
\<close>

subsection \<open>Timestamps\<close>

fun parse_timestamp :: "iso_reader \<Rightarrow> pyval \<Rightarrow> string \<Rightarrow> (int option \<times> diagnostic list) result" where
  "parse_timestamp reader (PStr s) path =
     (if blank s then
        Inr (None, [diag ''promotion.timestamp_missing'' (path @ '' is required'') path])
      else
        case reader (zulu s) of
          Not_Iso \<Rightarrow> Inr (None, [diag ''promotion.timestamp_invalid'' (path @ '' is not ISO-8601'') path])
        | Iso_Naive \<Rightarrow>
            Inr (None, [diag ''promotion.timestamp_timezone_missing''
                          (path @ '' must include a timezone'') path])
        | Iso_Aware t \<Rightarrow> Inr (Some t, [])
        | Iso_Out_Of_Range \<Rightarrow> Inl (OverflowError ''date value out of range''))"
| "parse_timestamp reader v path =
     Inr (None, [diag ''promotion.timestamp_missing'' (path @ '' is required'') path])"

subsection \<open>Numbers\<close>

fun counted :: "string \<Rightarrow> string \<Rightarrow> string \<Rightarrow> pyval \<Rightarrow> int option \<times> diagnostic list" where
  "counted code name path (PInt i) =
     (if i < 0 then (None, [diag code (name @ '' must be a non-negative integer'') path]) else (Some i, []))"
| "counted code name path v =
     (None, [diag code (name @ '' must be a non-negative integer'') path])"

definition non_negative_int :: "pyval \<Rightarrow> string \<Rightarrow> int option \<times> diagnostic list" where
  "non_negative_int v path = counted ''promotion.metric_invalid'' path path v"

definition requirement_int :: "pydict \<Rightarrow> string \<Rightarrow> int option \<times> diagnostic list" where
  "requirement_int requirements name =
     counted ''promotion.requirement_invalid'' name (''requirements.'' @ name) (dget_none requirements name)"

subsection \<open>Transitions and requirements\<close>

definition transition_errors :: "pyval \<times> pyval \<Rightarrow> diagnostic list" where
  "transition_errors st =
     (case st of (source, targets) \<Rightarrow>
        let path = ''transitions.'' @ py_str source
        in if \<not> non_blank_str source then
             [diag ''promotion.transition_source_invalid''
                ''transition source must be a non-empty string'' ''transitions'']
           else
             case targets of
               PList xs \<Rightarrow>
                 if \<not> non_blank_strs xs then
                   [diag ''promotion.transition_targets_invalid''
                      ''transition targets must be an array of non-empty strings'' path]
                 else if \<not> distinct xs then
                   [diag ''promotion.transition_targets_duplicate'' ''transition targets must be unique'' path]
                 else []
             | _ \<Rightarrow>
                 [diag ''promotion.transition_targets_invalid''
                    ''transition targets must be an array of non-empty strings'' path])"

definition validate_transitions :: "pydict \<Rightarrow> diagnostic list" where
  "validate_transitions transitions =
     (if transitions = [] then
        [diag ''promotion.transitions_empty'' ''transitions must not be empty'' ''transitions'']
      else concat (map transition_errors transitions))"

definition REQUIRED_NAMES :: "string list" where
  "REQUIRED_NAMES =
     [''minimum_observation_runs'', ''minimum_observation_days'', ''maximum_contract_failures'',
      ''maximum_artifact_validation_failures'', ''approval_required'']"

definition requirement_key_errors :: "pydict \<Rightarrow> diagnostic list result" where
  "requirement_key_errors requirements =
     and_then (sorted_keys (filter (\<lambda>k. k \<notin> PStr ` set REQUIRED_NAMES) (dkeys requirements))) (\<lambda>unexpected.
     Inr (map (\<lambda>name. diag ''promotion.requirement_missing''
                (''required policy field '' @ repr_string name @ '' is missing'') (''requirements.'' @ name))
            (sort (filter (\<lambda>name. dget requirements name = None) REQUIRED_NAMES)) @
          map (\<lambda>name. diag ''promotion.requirement_unknown''
                (''unknown policy requirement '' @ py_repr name) (''requirements.'' @ py_str name))
            unexpected))"

fun allowed_targets :: "pydict \<Rightarrow> pyval \<Rightarrow> pyval" where
  "allowed_targets transitions (PStr mode) = dget_none transitions mode"
| "allowed_targets transitions _ = PNone"

definition transition_legality :: "pydict \<Rightarrow> pyval \<Rightarrow> pyval \<Rightarrow> diagnostic list" where
  "transition_legality transitions current requested =
     (case allowed_targets transitions current of
        PList allowed \<Rightarrow>
          if \<not> py_in requested allowed then
            [diag ''promotion.transition_illegal''
               (''transition '' @ py_repr current @ '' -> '' @ py_repr requested @ '' is not permitted'')
               ''transitions'']
          else []
      | _ \<Rightarrow>
          [diag ''promotion.transition_source_unknown''
             (''current mode '' @ py_repr current @ '' has no transition declaration'') ''current_mode''])"

definition POLICY_SCHEMA :: string where "POLICY_SCHEMA = ''l9.promotion-policy/v1''"

definition OBSERVATION_SCHEMA :: string where "OBSERVATION_SCHEMA = ''l9.policy-observation/v1''"

definition input_errors :: "pydict \<Rightarrow> pydict \<Rightarrow> pyval \<Rightarrow> pyval \<Rightarrow> pyval \<Rightarrow> diagnostic list" where
  "input_errors policy observation current requested approval =
     (if dget_none policy ''schema'' \<noteq> PStr POLICY_SCHEMA then
        [diag ''promotion.policy_schema_unsupported'' (''policy.schema must be '' @ POLICY_SCHEMA) ''schema'']
      else []) @
     (if dget_none observation ''schema'' \<noteq> PStr OBSERVATION_SCHEMA then
        [diag ''promotion.observation_schema_unsupported''
           (''observation.schema must be '' @ OBSERVATION_SCHEMA) ''observation.schema'']
      else []) @
     (if \<not> non_blank_str current then
        [diag ''promotion.current_mode_invalid'' ''current_mode must be a non-empty string'' ''current_mode'']
      else []) @
     (if \<not> non_blank_str requested then
        [diag ''promotion.requested_mode_invalid'' ''requested_mode must be a non-empty string''
           ''requested_mode'']
      else []) @
     (if \<not> is_bool approval then
        [diag ''promotion.approval_flag_invalid'' ''approval_present must be boolean'' ''approval_present'']
      else [])"

subsection \<open>Eligibility\<close>

text \<open>The figures of a valid request.\<close>

record promotion_figures =
  fg_first :: int
  fg_last :: int
  fg_runs :: int
  fg_contract_failures :: int
  fg_artifact_failures :: int
  fg_minimum_runs :: int
  fg_minimum_days :: int
  fg_maximum_contract_failures :: int
  fg_maximum_artifact_failures :: int
  fg_approval_required :: bool

definition elapsed_days :: "promotion_figures \<Rightarrow> int" where
  "elapsed_days g = (fg_last g - fg_first g) div (86400 * 1000000)"

definition int_details :: "string \<Rightarrow> int \<Rightarrow> string \<Rightarrow> int \<Rightarrow> pydict" where
  "int_details k i l j = [(PStr k, PInt i), (PStr l, PInt j)]"

definition unmet_requirements :: "promotion_figures \<Rightarrow> bool \<Rightarrow> diagnostic list" where
  "unmet_requirements g approval_present =
     (if fg_runs g < fg_minimum_runs g then
        [Diagnostic ''promotion.observation_runs_insufficient''
           (''requires at least '' @ string_of_int (fg_minimum_runs g) @ '' completed runs'')
           ''completed_runs'' ''error'' (int_details ''observed'' (fg_runs g) ''required'' (fg_minimum_runs g))]
      else []) @
     (if elapsed_days g < fg_minimum_days g then
        [Diagnostic ''promotion.observation_days_insufficient''
           (''requires at least '' @ string_of_int (fg_minimum_days g) @ '' full observation days'')
           ''last_observed_at'' ''error''
           (int_details ''observed'' (elapsed_days g) ''required'' (fg_minimum_days g))]
      else []) @
     (if fg_maximum_contract_failures g < fg_contract_failures g then
        [Diagnostic ''promotion.contract_failure_budget_exceeded''
           ''contract_failures exceeds allowed maximum'' ''contract_failures'' ''error''
           (int_details ''observed'' (fg_contract_failures g) ''allowed'' (fg_maximum_contract_failures g))]
      else []) @
     (if fg_maximum_artifact_failures g < fg_artifact_failures g then
        [Diagnostic ''promotion.artifact_failure_budget_exceeded''
           ''artifact_validation_failures exceeds allowed maximum'' ''artifact_validation_failures'' ''error''
           (int_details ''observed'' (fg_artifact_failures g) ''allowed'' (fg_maximum_artifact_failures g))]
      else []) @
     (if fg_approval_required g \<and> \<not> approval_present then
        [diag ''promotion.approval_absent'' ''required approval evidence is absent'' ''approval'']
      else [])"

text \<open>Reading the figures: every one that is missing leaves its diagnostic.\<close>

definition window_errors :: "int option \<Rightarrow> int option \<Rightarrow> diagnostic list" where
  "window_errors start until =
     (case (start, until) of
        (Some f, Some l) \<Rightarrow>
          if l < f then
            [diag ''promotion.observation_window_invalid'' ''last_observed_at precedes first_observed_at''
               ''last_observed_at'']
          else []
      | _ \<Rightarrow> [])"

definition approval_errors :: "pyval \<Rightarrow> diagnostic list" where
  "approval_errors v =
     (if \<not> is_bool v then
        [diag ''promotion.requirement_invalid'' ''approval_required must be boolean''
           ''requirements.approval_required'']
      else [])"

definition metric :: "pydict \<Rightarrow> string \<Rightarrow> int option \<times> diagnostic list" where
  "metric observation name = non_negative_int (dget_none observation name) name"

definition figures ::
  "int option \<Rightarrow> int option \<Rightarrow> pydict \<Rightarrow> pydict \<Rightarrow> promotion_figures"
where
  "figures start until observation requirements =
     \<lparr>fg_first = the start, fg_last = the until,
      fg_runs = the (fst (metric observation ''completed_runs'')),
      fg_contract_failures = the (fst (metric observation ''contract_failures'')),
      fg_artifact_failures = the (fst (metric observation ''artifact_validation_failures'')),
      fg_minimum_runs = the (fst (requirement_int requirements ''minimum_observation_runs'')),
      fg_minimum_days = the (fst (requirement_int requirements ''minimum_observation_days'')),
      fg_maximum_contract_failures = the (fst (requirement_int requirements ''maximum_contract_failures'')),
      fg_maximum_artifact_failures =
        the (fst (requirement_int requirements ''maximum_artifact_validation_failures'')),
      fg_approval_required = (dget_none requirements ''approval_required'' = PBool True)\<rparr>"

definition figure_errors :: "pydict \<Rightarrow> pydict \<Rightarrow> diagnostic list" where
  "figure_errors observation requirements =
     concat (map (\<lambda>name. snd (metric observation name))
       [''completed_runs'', ''contract_failures'', ''artifact_validation_failures'']) @
     concat (map (\<lambda>name. snd (requirement_int requirements name))
       [''minimum_observation_runs'', ''minimum_observation_days'', ''maximum_contract_failures'',
        ''maximum_artifact_validation_failures'']) @
     approval_errors (dget_none requirements ''approval_required'')"

definition read_figures ::
  "iso_reader \<Rightarrow> pydict \<Rightarrow> pydict \<Rightarrow> (promotion_figures \<times> diagnostic list) result"
where
  "read_figures reader observation requirements =
     and_then (parse_timestamp reader (dget_none observation ''first_observed_at'') ''first_observed_at'')
       (\<lambda>(start, d1).
     and_then (parse_timestamp reader (dget_none observation ''last_observed_at'') ''last_observed_at'')
       (\<lambda>(until, d2).
     Inr (figures start until observation requirements,
          d1 @ d2 @ figure_errors observation requirements @ window_errors start until)))"

definition evaluate_promotion ::
  "iso_reader \<Rightarrow> pyval \<Rightarrow> pyval \<Rightarrow> pyval \<Rightarrow> pyval \<Rightarrow> pyval \<Rightarrow> evaluation_result result"
where
  "evaluate_promotion reader policy current requested observation approval =
     (case (policy, observation) of
        (PDict p, PDict ob) \<Rightarrow>
          let d0 = input_errors p ob current requested approval
          in (case (dget_none p ''transitions'', dget_none p ''requirements'') of
                (PDict transitions, PDict requirements) \<Rightarrow>
                  and_then (requirement_key_errors requirements) (\<lambda>d2.
                  and_then (read_figures reader ob requirements) (\<lambda>(g, d4).
                  let ds = d0 @ validate_transitions transitions @ d2 @
                           transition_legality transitions current requested @ d4
                  in if ds \<noteq> [] then Inr (invalid_result ds)
                     else
                       let unmet = unmet_requirements g (approval = PBool True);
                           evidence = [(PStr ''current_mode'', current), (PStr ''requested_mode'', requested),
                                       (PStr ''elapsed_days'', PInt (elapsed_days g))]
                       in if unmet \<noteq> [] then Inr (EvaluationResult Ineligible unmet evidence)
                          else Inr (EvaluationResult Eligible [] evidence)))
              | _ \<Rightarrow>
                  Inr (invalid_result (d0 @ [diag ''promotion.policy_invalid''
                    ''policy requires transitions and requirements mappings'' []])))
      | _ \<Rightarrow>
          Inr (invalid_result [diag ''promotion.input_invalid''
            ''policy and observation must be mappings'' []]))"

subsection \<open>When each step leaves no diagnostic\<close>

lemma counted_Nil:
  "snd (counted c n p v) = [] \<longleftrightarrow> (\<exists>i. v = PInt i \<and> 0 \<le> i \<and> fst (counted c n p v) = Some i)"
  by (cases v) auto

lemma parse_timestamp_Nil:
  "parse_timestamp reader v path = Inr (t, []) \<longleftrightarrow>
     (\<exists>s i. v = PStr s \<and> \<not> blank s \<and> reader (zulu s) = Iso_Aware i \<and> t = Some i)"
  by (cases v) (auto split: datetime_read.splits)

lemma input_errors_Nil:
  "input_errors p ob current requested approval = [] \<longleftrightarrow>
     dget_none p ''schema'' = PStr POLICY_SCHEMA \<and> dget_none ob ''schema'' = PStr OBSERVATION_SCHEMA \<and>
     non_blank_str current \<and> non_blank_str requested \<and> is_bool approval"
  by (simp add: input_errors_def)

definition wellformed_transition :: "pyval \<times> pyval \<Rightarrow> bool" where
  "wellformed_transition st \<longleftrightarrow>
     non_blank_str (fst st) \<and> (\<exists>xs. snd st = PList xs \<and> non_blank_strs xs \<and> distinct xs)"

lemma validate_transitions_Nil:
  "validate_transitions ts = [] \<longleftrightarrow> ts \<noteq> [] \<and> list_all wellformed_transition ts"
proof -
  have "transition_errors st = [] \<longleftrightarrow> wellformed_transition st" for st
    by (cases st; cases "snd st") (auto simp: transition_errors_def wellformed_transition_def Let_def)
  then show ?thesis
    by (auto simp: validate_transitions_def list_all_iff)
qed

lemma requirement_key_errors_Nil:
  "requirement_key_errors rs = Inr [] \<longleftrightarrow> set (dkeys rs) = PStr ` set REQUIRED_NAMES"
proof -
  have miss: "filter (\<lambda>name. dget rs name = None) REQUIRED_NAMES = [] \<longleftrightarrow>
      PStr ` set REQUIRED_NAMES \<subseteq> set (dkeys rs)"
    by (auto simp: filter_empty_conv dget_def dkeys_def map_of_eq_None_iff)
  have extra: "sorted_keys ks = Inr [] \<longleftrightarrow> ks = []" for ks
    using sorted_keys_set [of ks "[]"] by auto
  have "requirement_key_errors rs = Inr [] \<longleftrightarrow>
      filter (\<lambda>name. dget rs name = None) REQUIRED_NAMES = [] \<and>
      sorted_keys (filter (\<lambda>k. k \<notin> PStr ` set REQUIRED_NAMES) (dkeys rs)) = Inr []"
    by (auto simp: requirement_key_errors_def and_then_eq_Inr)
  also have "\<dots> \<longleftrightarrow> PStr ` set REQUIRED_NAMES \<subseteq> set (dkeys rs) \<and> set (dkeys rs) \<subseteq> PStr ` set REQUIRED_NAMES"
    unfolding miss extra by (simp add: filter_empty_conv subset_iff Ball_def)
  finally show ?thesis
    by (metis subset_antisym order_refl)
qed

lemma transition_legality_Nil:
  "transition_legality ts (PStr m) (PStr r) = [] \<longleftrightarrow>
     (\<exists>allowed. dget_none ts m = PList allowed \<and> PStr r \<in> set allowed)"
  by (cases "dget_none ts m") (simp_all add: transition_legality_def)

text \<open>What the observation and the policy say, read off the two documents.\<close>

definition figures_of :: "iso_reader \<Rightarrow> pydict \<Rightarrow> pydict \<Rightarrow> promotion_figures \<Rightarrow> bool" where
  "figures_of reader ob rs g \<longleftrightarrow>
     (\<exists>s1 s2. dget_none ob ''first_observed_at'' = PStr s1 \<and> \<not> blank s1 \<and>
        reader (zulu s1) = Iso_Aware (fg_first g) \<and>
        dget_none ob ''last_observed_at'' = PStr s2 \<and> \<not> blank s2 \<and>
        reader (zulu s2) = Iso_Aware (fg_last g)) \<and>
     fg_first g \<le> fg_last g \<and>
     list_all (\<lambda>(v, i). v = PInt i \<and> 0 \<le> i)
       [(dget_none ob ''completed_runs'', fg_runs g),
        (dget_none ob ''contract_failures'', fg_contract_failures g),
        (dget_none ob ''artifact_validation_failures'', fg_artifact_failures g),
        (dget_none rs ''minimum_observation_runs'', fg_minimum_runs g),
        (dget_none rs ''minimum_observation_days'', fg_minimum_days g),
        (dget_none rs ''maximum_contract_failures'', fg_maximum_contract_failures g),
        (dget_none rs ''maximum_artifact_validation_failures'', fg_maximum_artifact_failures g)] \<and>
     dget_none rs ''approval_required'' = PBool (fg_approval_required g)"

lemma window_errors_Nil [simp]: "window_errors (Some f) (Some l) = [] \<longleftrightarrow> f \<le> l"
  by (auto simp: window_errors_def)

lemma metric_Nil: "snd (metric ob n) = [] \<longleftrightarrow> (\<exists>i. dget_none ob n = PInt i \<and> 0 \<le> i \<and> fst (metric ob n) = Some i)"
  by (simp add: metric_def non_negative_int_def counted_Nil)

lemma requirement_Nil:
  "snd (requirement_int rs n) = [] \<longleftrightarrow>
     (\<exists>i. dget_none rs n = PInt i \<and> 0 \<le> i \<and> fst (requirement_int rs n) = Some i)"
  by (simp add: requirement_int_def counted_Nil)

lemma approval_errors_Nil: "approval_errors v = [] \<longleftrightarrow> (\<exists>b. v = PBool b)"
  by (simp add: approval_errors_def is_bool_iff)

lemma read_figures_Nil: "read_figures reader ob rs = Inr (g, []) \<longleftrightarrow> figures_of reader ob rs g"
proof -
  have "read_figures reader ob rs = Inr (g, []) \<longleftrightarrow>
      (\<exists>t1 t2. parse_timestamp reader (dget_none ob ''first_observed_at'') ''first_observed_at'' = Inr (t1, []) \<and>
         parse_timestamp reader (dget_none ob ''last_observed_at'') ''last_observed_at'' = Inr (t2, []) \<and>
         g = figures t1 t2 ob rs \<and> figure_errors ob rs = [] \<and> window_errors t1 t2 = [])"
    by (auto simp: read_figures_def and_then_eq_Inr)
  also have "\<dots> \<longleftrightarrow> figures_of reader ob rs g"
  proof
    assume "\<exists>t1 t2. parse_timestamp reader (dget_none ob ''first_observed_at'') ''first_observed_at'' = Inr (t1, []) \<and>
         parse_timestamp reader (dget_none ob ''last_observed_at'') ''last_observed_at'' = Inr (t2, []) \<and>
         g = figures t1 t2 ob rs \<and> figure_errors ob rs = [] \<and> window_errors t1 t2 = []"
    then show "figures_of reader ob rs g"
      unfolding parse_timestamp_Nil figure_errors_def
      by (auto simp: figures_of_def figures_def metric_Nil requirement_Nil approval_errors_Nil)
  next
    assume fo: "figures_of reader ob rs g"
    have "parse_timestamp reader (dget_none ob ''first_observed_at'') ''first_observed_at'' = Inr (Some (fg_first g), [])"
      "parse_timestamp reader (dget_none ob ''last_observed_at'') ''last_observed_at'' = Inr (Some (fg_last g), [])"
      using fo unfolding parse_timestamp_Nil figures_of_def by blast+
    moreover have "g = figures (Some (fg_first g)) (Some (fg_last g)) ob rs"
      using fo by (simp add: figures_of_def figures_def metric_def non_negative_int_def requirement_int_def)
    moreover have "figure_errors ob rs = []"
      using fo by (simp add: figures_of_def figure_errors_def metric_def non_negative_int_def
          requirement_int_def approval_errors_Nil)
    moreover have "window_errors (Some (fg_first g)) (Some (fg_last g)) = []"
      using fo by (simp add: figures_of_def)
    ultimately show "\<exists>t1 t2. parse_timestamp reader (dget_none ob ''first_observed_at'') ''first_observed_at'' = Inr (t1, []) \<and>
         parse_timestamp reader (dget_none ob ''last_observed_at'') ''last_observed_at'' = Inr (t2, []) \<and>
         g = figures t1 t2 ob rs \<and> figure_errors ob rs = [] \<and> window_errors t1 t2 = []"
      by blast
  qed
  finally show ?thesis .
qed

subsection \<open>Property\<close>

text \<open>What eligibility means, without the order of the checks.\<close>

definition request_valid ::
  "iso_reader \<Rightarrow> pydict \<Rightarrow> pyval \<Rightarrow> pyval \<Rightarrow> pydict \<Rightarrow> pyval \<Rightarrow> promotion_figures \<Rightarrow> bool"
where
  "request_valid reader p current requested ob approval g \<longleftrightarrow>
     dget_none p ''schema'' = PStr POLICY_SCHEMA \<and> dget_none ob ''schema'' = PStr OBSERVATION_SCHEMA \<and>
     is_bool approval \<and>
     (\<exists>m r ts rs allowed. current = PStr m \<and> requested = PStr r \<and> \<not> blank m \<and> \<not> blank r \<and>
        dget_none p ''transitions'' = PDict ts \<and> dget_none p ''requirements'' = PDict rs \<and>
        ts \<noteq> [] \<and> list_all wellformed_transition ts \<and> set (dkeys rs) = PStr ` set REQUIRED_NAMES \<and>
        dget_none ts m = PList allowed \<and> PStr r \<in> set allowed \<and> figures_of reader ob rs g)"

definition requirements_met :: "promotion_figures \<Rightarrow> pyval \<Rightarrow> bool" where
  "requirements_met g approval \<longleftrightarrow>
     fg_minimum_runs g \<le> fg_runs g \<and> fg_minimum_days g \<le> elapsed_days g \<and>
     fg_contract_failures g \<le> fg_maximum_contract_failures g \<and>
     fg_artifact_failures g \<le> fg_maximum_artifact_failures g \<and>
     (fg_approval_required g \<longrightarrow> approval = PBool True)"

lemma unmet_Nil: "unmet_requirements g (a = PBool True) = [] \<longleftrightarrow> requirements_met g a"
  by (auto simp: unmet_requirements_def requirements_met_def)

lemma request_valid_iff:
  assumes "dget_none p ''transitions'' = PDict ts" "dget_none p ''requirements'' = PDict rs"
  shows "request_valid reader p current requested ob approval g \<longleftrightarrow>
     input_errors p ob current requested approval = [] \<and> validate_transitions ts = [] \<and>
     requirement_key_errors rs = Inr [] \<and> transition_legality ts current requested = [] \<and>
     read_figures reader ob rs = Inr (g, [])"
  unfolding request_valid_def input_errors_Nil non_blank_str_iff read_figures_Nil requirement_key_errors_Nil
  using assms by (auto simp: transition_legality_Nil validate_transitions_Nil)

lemma evaluate_promotion_valid:
  assumes "evaluate_promotion reader (PDict p) current requested (PDict ob) approval = Inr r"
  shows "(gv_status r = Eval_Invalid \<and> gv_diagnostics r \<noteq> [] \<and>
        (\<forall>g. \<not> request_valid reader p current requested ob approval g)) \<or>
     (\<exists>g. (\<forall>g'. request_valid reader p current requested ob approval g' \<longleftrightarrow> g' = g) \<and>
        gv_status r = (if requirements_met g approval then Eligible else Ineligible) \<and>
        (gv_diagnostics r = [] \<longleftrightarrow> requirements_met g approval))"
proof (cases "\<exists>ts rs. dget_none p ''transitions'' = PDict ts \<and> dget_none p ''requirements'' = PDict rs")
  case False
  then have "\<exists>ds. ds \<noteq> [] \<and> r = invalid_result ds"
    using assms by (auto simp: evaluate_promotion_def Let_def split: pyval.splits)
  moreover have "\<not> request_valid reader p current requested ob approval g" for g
    using False by (auto simp: request_valid_def)
  ultimately show ?thesis by auto
next
  case True
  then obtain ts rs where docs: "dget_none p ''transitions'' = PDict ts" "dget_none p ''requirements'' = PDict rs"
    by blast
  obtain d2 g d4 where d2: "requirement_key_errors rs = Inr d2" and d4: "read_figures reader ob rs = Inr (g, d4)"
    using assms by (auto simp: evaluate_promotion_def docs and_then_eq_Inr Let_def)
  let ?ds = "input_errors p ob current requested approval @ validate_transitions ts @ d2 @
      transition_legality ts current requested @ d4"
  have valid: "request_valid reader p current requested ob approval g' \<longleftrightarrow> ?ds = [] \<and> g' = g" for g'
    using request_valid_iff [OF docs, of reader current requested ob approval g'] d2 d4 by auto
  show ?thesis
  proof (cases "?ds = []")
    case False
    then have "r = invalid_result ?ds"
      using assms by (simp add: evaluate_promotion_def docs d2 d4 Let_def)
    with False valid show ?thesis by (simp del: append_is_Nil_conv)
  next
    case True
    then show ?thesis
      using assms valid unmet_Nil [of g approval]
      by (auto simp: evaluate_promotion_def docs d2 d4 Let_def split: if_splits)
  qed
qed

text \<open>
  C24: promotion is granted on evidence only. An evaluation that returns is invalid unless the
  documents have their schemas, the modes are named, the transition is declared by a well-formed
  policy with exactly the five requirements, both timestamps are aware and in order and every
  figure is a non-negative integer; then it is eligible exactly when there are enough runs and
  whole days, no failure budget is exceeded and a required approval is present, and ineligible
  otherwise.
\<close>

theorem promotion_on_evidence:
  assumes "evaluate_promotion reader (PDict p) current requested (PDict ob) approval = Inr r"
  shows "(gv_status r = Eval_Invalid \<longleftrightarrow> \<not> (\<exists>g. request_valid reader p current requested ob approval g)) \<and>
    (\<forall>g. request_valid reader p current requested ob approval g \<longrightarrow>
       gv_status r = (if requirements_met g approval then Eligible else Ineligible)) \<and>
    (gv_status r = Eligible \<longleftrightarrow> gv_diagnostics r = [])"
  using evaluate_promotion_valid [OF assms] by (auto split: if_splits)

text \<open>An observation of ten runs over three days under a policy that asks for five runs and two days.\<close>

definition sample_reader :: iso_reader where
  "sample_reader s = (if s = ''d0'' then Iso_Aware 0 else if s = ''d3'' then Iso_Aware 259200000000 else Not_Iso)"

definition sample_promotion_policy :: pydict where
  "sample_promotion_policy =
     [(PStr ''schema'', PStr POLICY_SCHEMA),
      (PStr ''transitions'', PDict [(PStr ''observe'', PList [PStr ''enforce''])]),
      (PStr ''requirements'', PDict
        [(PStr ''minimum_observation_runs'', PInt 5), (PStr ''minimum_observation_days'', PInt 2),
         (PStr ''maximum_contract_failures'', PInt 0),
         (PStr ''maximum_artifact_validation_failures'', PInt 0), (PStr ''approval_required'', PBool True)])]"

definition sample_observation :: pydict where
  "sample_observation =
     [(PStr ''schema'', PStr OBSERVATION_SCHEMA), (PStr ''first_observed_at'', PStr ''d0''),
      (PStr ''last_observed_at'', PStr ''d3''), (PStr ''completed_runs'', PInt 10),
      (PStr ''contract_failures'', PInt 0), (PStr ''artifact_validation_failures'', PInt 0)]"

lemma sample_promotion:
  "evaluate_promotion sample_reader (PDict sample_promotion_policy) (PStr ''observe'') (PStr ''enforce'')
     (PDict sample_observation) (PBool True) =
   Inr (EvaluationResult Eligible []
     [(PStr ''current_mode'', PStr ''observe''), (PStr ''requested_mode'', PStr ''enforce''),
      (PStr ''elapsed_days'', PInt 3)])"
  by code_simp

theorem promotion_on_evidence_witness:
  "gv_diagnostics (EvaluationResult Eligible [] [(PStr ''current_mode'', PStr ''observe''),
     (PStr ''requested_mode'', PStr ''enforce''), (PStr ''elapsed_days'', PInt 3)]) = []"
  using promotion_on_evidence [OF sample_promotion] by simp

end
