(* ===== verification/Governance_Digest.thy ===== *)
theory Governance_Digest
  imports Governance_Models Contracts_Source Sha256
begin

text \<open>
  \<open>l9_ci/governance/digest.py\<close>: the digest of a set of contract files. File contents are byte
  strings, one character per byte. A path is any value; contents that are no bytes are excluded by
  their type. Unicode normalisation leaves the code points below 256 as they are, and decoding a
  valid UTF-8 text, replacing its newlines and encoding it again changes the newline bytes only.
  Drive letters are those of CPython 3.11.
\<close>

subsection \<open>Paths\<close>

definition DIGEST_PROTOCOL :: string where
  "DIGEST_PROTOCOL = ''l9.contract-set-digest/v1''"

text \<open>
  \<open>PureWindowsPath(value).drive\<close>, for a value that is not absolute as a POSIX path: a value that
  begins with two separators is.
\<close>

fun windows_drive :: "string \<Rightarrow> bool" where
  "windows_drive (d # c # _) \<longleftrightarrow>
     c = CHR '':'' \<and> (CHR ''a'' \<le> d \<and> d \<le> CHR ''z'' \<or> CHR ''A'' \<le> d \<and> d \<le> CHR ''Z'')"
| "windows_drive _ \<longleftrightarrow> False"

fun safe_path :: "pyval \<Rightarrow> string result" where
  "safe_path (PStr value) =
     (if blank value then Inl (ValueError ''contract path must be a non-empty string'')
      else if list_ex (\<lambda>c. (of_char c :: nat) < 32) value then
        Inl (ValueError (''unsafe contract path: '' @ repr_string value))
      else
        let portable = replace_char CHR 0x5C CHR ''/'' value
        in if posix_absolute portable \<or> windows_drive value \<or> ''..'' \<in> set (posix_parts portable) \<or>
              posix_parts portable = []
           then Inl (ValueError (''unsafe contract path: '' @ value))
           else Inr (join ''/'' (posix_parts portable)))"
| "safe_path _ = Inl (ValueError ''contract path must be a non-empty string'')"

subsection \<open>Contents\<close>

definition utf8_continuation :: "char \<Rightarrow> bool" where
  "utf8_continuation c \<longleftrightarrow> 128 \<le> (of_char c :: nat) \<and> (of_char c :: nat) < 192"

text \<open>The second byte of a sequence of three or four: no overlong form, no surrogate, no code point too large.\<close>

definition second_ok :: "nat \<Rightarrow> nat \<Rightarrow> bool" where
  "second_ok b1 b2 \<longleftrightarrow>
     (if b1 = 224 then 160 \<le> b2 else 128 \<le> b2) \<and>
     (if b1 = 237 then b2 < 160 else b2 < 192) \<and>
     (b1 = 240 \<longrightarrow> 144 \<le> b2) \<and> (b1 = 244 \<longrightarrow> b2 < 144)"

fun utf8_valid :: "string \<Rightarrow> bool" where
  "utf8_valid [] \<longleftrightarrow> True"
| "utf8_valid (c # s) \<longleftrightarrow>
     (let b = of_char c :: nat
      in if b < 128 then utf8_valid s
         else if 194 \<le> b \<and> b < 224 then
           (case s of c1 # s' \<Rightarrow> utf8_continuation c1 \<and> utf8_valid s' | _ \<Rightarrow> False)
         else if 224 \<le> b \<and> b < 240 then
           (case s of c1 # c2 # s' \<Rightarrow>
              second_ok b (of_char c1) \<and> utf8_continuation c2 \<and> utf8_valid s'
            | _ \<Rightarrow> False)
         else if 240 \<le> b \<and> b < 245 then
           (case s of c1 # c2 # c3 # s' \<Rightarrow>
              second_ok b (of_char c1) \<and> utf8_continuation c2 \<and> utf8_continuation c3 \<and> utf8_valid s'
            | _ \<Rightarrow> False)
         else False)"

fun unix_newlines :: "string \<Rightarrow> string" where
  "unix_newlines [] = []"
| "unix_newlines [c] = (if c = CHR 0x0D then [CHR 0x0A] else [c])"
| "unix_newlines (c # d # s) =
     (if c = CHR 0x0D then
        (if d = CHR 0x0A then CHR 0x0A # unix_newlines s else CHR 0x0A # unix_newlines (d # s))
      else c # unix_newlines (d # s))"

definition normalize_contract_bytes :: "string \<Rightarrow> string" where
  "normalize_contract_bytes content = (if utf8_valid content then unix_newlines content else content)"

subsection \<open>Digests\<close>

definition contract_hash :: "string \<Rightarrow> string" where
  "contract_hash content = ''sha256:'' @ sha256_hexdigest (normalize_contract_bytes content)"

text \<open>The two dictionaries of the loop are one list of the normalised path, the raw path and the hash.\<close>

fun collect_hashes ::
  "(pyval \<times> string) list \<Rightarrow> (string \<times> pyval \<times> string) list \<Rightarrow> (string \<times> pyval \<times> string) list result"
where
  "collect_hashes [] acc = Inr acc"
| "collect_hashes ((raw, content) # files) acc =
     and_then (safe_path raw) (\<lambda>path.
     case map_of acc path of
       Some (original, _) \<Rightarrow>
         Inl (ValueError (''contract paths collide after normalization: '' @ py_repr original @
                '' and '' @ py_repr raw))
     | None \<Rightarrow> collect_hashes files (acc @ [(path, raw, contract_hash content)]))"

definition contract_file_hashes :: "(pyval \<times> string) list \<Rightarrow> (string \<times> string) list result" where
  "contract_file_hashes files =
     and_then (collect_hashes files []) (\<lambda>acc. Inr (sort_key fst (map (\<lambda>(p, _, h). (p, h)) acc)))"

definition framed_hashes :: "(string \<times> string) list \<Rightarrow> string" where
  "framed_hashes hashes =
     DIGEST_PROTOCOL @ [CHR 0x00] @
     concat (map (\<lambda>(path, digest). utf8_encode path @ [CHR 0x00] @ digest @ [CHR 0x00]) hashes)"

definition contract_set_digest :: "(pyval \<times> string) list \<Rightarrow> string result" where
  "contract_set_digest files =
     and_then (contract_file_hashes files) (\<lambda>hashes.
     Inr (''sha256:'' @ sha256_hexdigest (framed_hashes hashes)))"

subsection \<open>Lemmas\<close>

lemma unix_newlines_no_cr: "CHR 0x0D \<notin> set (unix_newlines s)"
  by (induction s rule: unix_newlines.induct) auto

lemma unix_newlines_id: "CHR 0x0D \<notin> set s \<Longrightarrow> unix_newlines s = s"
  by (induction s rule: unix_newlines.induct) auto

text \<open>Every accepted path is relative, with no empty, dot or dot-dot segment and no control character.\<close>

lemma safe_path_Inr:
  assumes "safe_path v = Inr p"
  shows "repository_relative p" and "CHR 0x00 \<notin> set p"
proof -
  obtain raw where v: "v = PStr raw"
    using assms by (cases v) simp_all
  let ?q = "replace_char CHR 0x5C CHR ''/'' raw"
  have p: "p = join ''/'' (posix_parts ?q)" "posix_parts ?q \<noteq> []" "''..'' \<notin> set (posix_parts ?q)"
    and ctl: "\<not> list_ex (\<lambda>c. (of_char c :: nat) < 32) raw"
    using assms by (auto simp: v Let_def split: if_splits)
  have chars: "c \<noteq> CHR ''/'' \<and> c \<noteq> CHR 0x5C \<and> c \<noteq> CHR 0x00"
    if "s \<in> set (posix_parts ?q)" "c \<in> set s" for s c
  proof -
    have mem: "s \<in> set (split_on CHR ''/'' ?q)"
      using that(1) by (simp add: posix_parts_def)
    then have "c \<noteq> CHR ''/''"
      using split_on_no_sep that(2) by blast
    then show ?thesis
      using set_split_on [OF mem that(2)] ctl by (auto simp: replace_char_def list_ex_iff)
  qed
  have "safe_segment s" if "s \<in> set (posix_parts ?q)" for s
  proof -
    have "s \<noteq> [] \<and> s \<noteq> ''.'' \<and> s \<noteq> ''..''"
      using that p(3) by (auto simp: posix_parts_def)
    then show ?thesis
      using chars [OF that] by (auto simp: safe_segment_def)
  qed
  then show "repository_relative p"
    using p unfolding repository_relative_def list_all_iff by blast
  have "CHR 0x00 \<notin> set (join ''/'' ps)" if "\<forall>s \<in> set ps. CHR 0x00 \<notin> set s" for ps
    using that by (induction ps rule: induct_list012) auto
  then show "CHR 0x00 \<notin> set p"
    using p(1) chars by blast
qed

lemma collect_hashes_Inr:
  "collect_hashes files acc = Inr r \<longleftrightarrow>
     (\<exists>ps. map_res (\<lambda>(raw, _). safe_path raw) files = Inr ps \<and> distinct ps \<and>
        set ps \<inter> fst ` set acc = {} \<and>
        r = acc @ map2 (\<lambda>p (raw, content). (p, raw, contract_hash content)) ps files)"
proof (induction files arbitrary: acc)
  case (Cons f files)
  obtain raw content where f: "f = (raw, content)"
    by (cases f)
  show ?case
  proof (cases "safe_path raw")
    case (Inr p)
    show ?thesis
    proof (cases "map_of acc p")
      case None
      then have "p \<notin> fst ` set acc"
        by (simp add: map_of_eq_None_iff)
      then show ?thesis
        using Inr None by (auto simp: f Cons.IH and_then_eq_Inr)
    next
      case (Some e)
      then have "p \<in> fst ` set acc"
        by (metis map_of_eq_None_iff option.distinct(1))
      then show ?thesis
        using Inr Some by (cases e) (auto simp: f and_then_eq_Inr)
    qed
  qed (simp add: f)
qed auto

definition hash_row :: "pyval \<times> string \<Rightarrow> (string \<times> string) result" where
  "hash_row f = (case f of (raw, content) \<Rightarrow> and_then (safe_path raw) (\<lambda>p. Inr (p, contract_hash content)))"

lemma hash_row_pair:
  "hash_row (raw, content) = and_then (safe_path raw) (\<lambda>p. Inr (p, contract_hash content))"
  by (simp add: hash_row_def)

lemma contract_file_hashes_Inr:
  "contract_file_hashes fs = Inr h \<longleftrightarrow>
     (\<exists>rows. map_res hash_row fs = Inr rows \<and> distinct (map fst rows) \<and> h = sort_key fst rows)"
proof -
  let ?row = "\<lambda>p (raw, content). (p, contract_hash content)"
  have rows: "map_res hash_row gs = Inr rows \<longleftrightarrow>
      (\<exists>ps. map_res (\<lambda>(raw, _). safe_path raw) gs = Inr ps \<and> rows = map2 ?row ps gs)" for gs rows
  proof (induction gs arbitrary: rows)
    case (Cons g gs)
    obtain raw content where g: "g = (raw, content)"
      by (cases g)
    show ?case
      by (cases "safe_path raw") (auto simp: g hash_row_pair and_then_eq_Inr Cons.IH)
  qed auto
  have fst: "length ps = length gs \<Longrightarrow> map fst (map2 ?row ps gs) = ps" for ps and gs :: "(pyval \<times> string) list"
    by (induction ps gs rule: list_induct2) auto
  have proj: "map ((\<lambda>(p, _, h). (p, h)) \<circ> (\<lambda>(p, raw, content). (p, raw, contract_hash content))) (zip ps gs)
      = map2 ?row ps gs" for ps :: "string list" and gs :: "(pyval \<times> string) list"
    by (auto simp: split_def)
  have len: "map_res (\<lambda>(raw, _). safe_path raw) fs = Inr ps \<Longrightarrow> length ps = length fs" for ps
    by (rule map_res_length)
  show ?thesis
  proof
    assume "contract_file_hashes fs = Inr h"
    then obtain ps where ps: "map_res (\<lambda>(raw, _). safe_path raw) fs = Inr ps" "distinct ps"
      and h: "h = sort_key fst (map2 ?row ps fs)"
      unfolding contract_file_hashes_def and_then_eq_Inr collect_hashes_Inr by (auto simp: proj)
    then show "\<exists>rs. map_res hash_row fs = Inr rs \<and> distinct (map fst rs) \<and> h = sort_key fst rs"
      using rows fst [OF len [OF ps(1)]] by (intro exI [of _ "map2 ?row ps fs"]) auto
  next
    assume "\<exists>rs. map_res hash_row fs = Inr rs \<and> distinct (map fst rs) \<and> h = sort_key fst rs"
    then obtain ps where ps: "map_res (\<lambda>(raw, _). safe_path raw) fs = Inr ps"
      and d: "distinct (map fst (map2 ?row ps fs))" and h: "h = sort_key fst (map2 ?row ps fs)"
      unfolding rows by blast
    have "distinct ps"
      using d unfolding fst [OF len [OF ps]] .
    then show "contract_file_hashes fs = Inr h"
      unfolding contract_file_hashes_def and_then_eq_Inr collect_hashes_Inr using ps h by (auto simp: proj)
  qed
qed

lemma hash_row_Inr:
  assumes "hash_row f = Inr (p, d)"
  shows "repository_relative p" "CHR 0x00 \<notin> set p" "CHR 0x00 \<notin> set d"
proof -
  obtain raw content where f: "f = (raw, content)"
    by (cases f)
  then have p: "safe_path raw = Inr p" and d: "d = contract_hash content"
    using assms by (auto simp: hash_row_def and_then_eq_Inr)
  show "repository_relative p" "CHR 0x00 \<notin> set p"
    using safe_path_Inr [OF p] by blast+
  have "CHR 0x00 \<notin> set (sha256_hexdigest s)" for s
    using sha256_digits [of "CHR 0x00" s] by (auto simp: is_digit_def less_eq_char_def)
  then show "CHR 0x00 \<notin> set d"
    by (simp add: d contract_hash_def)
qed

lemma hashes_nul_free:
  assumes "contract_file_hashes fs = Inr h"
  shows "list_all (\<lambda>(p, d). CHR 0x00 \<notin> set p \<and> CHR 0x00 \<notin> set d \<and> repository_relative p) h"
proof -
  obtain rows where rows: "map_res hash_row fs = Inr rows" "h = sort_key fst rows"
    using assms by (auto simp: contract_file_hashes_Inr)
  show ?thesis
    unfolding list_all_iff
  proof (clarsimp simp: rows(2))
    fix p d assume "(p, d) \<in> set rows"
    then obtain f where "hash_row f = Inr (p, d)"
      using map_res_set [OF rows(1)] by blast
    then show "CHR 0x00 \<notin> set p \<and> CHR 0x00 \<notin> set d \<and> repository_relative p"
      using hash_row_Inr by blast
  qed
qed

lemma frame_inj:
  assumes "list_all (\<lambda>(p, d). z \<notin> set p \<and> z \<notin> set d) h" "list_all (\<lambda>(p, d). z \<notin> set p \<and> z \<notin> set d) h'"
    and "concat (map (\<lambda>(p, d). p @ [z] @ d @ [z]) h) = concat (map (\<lambda>(p, d). p @ [z] @ d @ [z]) h')"
  shows "h = h'"
  using assms
proof (induction h arbitrary: h')
  case Nil
  then show ?case by (cases h') auto
next
  case (Cons x h)
  obtain p d where x: "x = (p, d)" by (cases x)
  with Cons.prems(3) obtain q e h2 where h': "h' = (q, e) # h2"
    by (cases h') auto
  have split: "a @ z # r = b @ z # s \<Longrightarrow> z \<notin> set a \<Longrightarrow> z \<notin> set b \<Longrightarrow> a = b \<and> r = s" for a b r s
  proof -
    assume eq: "a @ z # r = b @ z # s" and nz: "z \<notin> set a" "z \<notin> set b"
    have "takeWhile (\<lambda>c. c \<noteq> z) (t @ z # u) = t" if "z \<notin> set t" for t u
      using that by (subst takeWhile_append2) auto
    with eq nz have "a = b" by metis
    with eq show ?thesis by simp
  qed
  have "p = q \<and> d = e \<and>
      concat (map (\<lambda>(p, d). p @ [z] @ d @ [z]) h) = concat (map (\<lambda>(p, d). p @ [z] @ d @ [z]) h2)"
    using Cons.prems by (auto simp: x h' dest!: split)
  then show ?case
    using Cons.IH [of h2] Cons.prems by (simp add: x h')
qed

lemma utf8_char_nul: "CHR 0x00 \<in> set (utf8_char c) \<longleftrightarrow> c = CHR 0x00"
proof -
  have n: "(of_char c :: nat) < 256"
    by (metis of_char_mod_256 mod_less_divisor zero_less_numeral)
  have zero: "char_of m = CHR 0x00 \<longleftrightarrow> m mod 256 = 0" for m :: nat
    by (simp add: char_of_eq_iff take_bit_eq_mod)
  show ?thesis
  proof (cases "(of_char c :: nat) < 128")
    case True
    then show ?thesis by (auto simp: utf8_char_def)
  next
    case False
    then have "192 + of_char c div 64 < (256 :: nat)" "128 + of_char c mod 64 < (256 :: nat)" "c \<noteq> CHR 0x00"
    proof -
      have "(of_char c :: nat) div 64 < 4"
        using n by (intro less_mult_imp_div_less) simp
      then show "192 + of_char c div 64 < (256 :: nat)" by simp
    qed (use False in auto)
    then show ?thesis
      using False by (simp add: utf8_char_def zero Let_def eq_commute [of "CHR 0x00"])
  qed
qed

subsection \<open>Properties\<close>

text \<open>
  The digest of a contract set does not depend on the order in which the files are given; two
  paths that become one after normalisation are refused in every order.
\<close>

theorem contract_set_digest_order_independent:
  assumes "contract_set_digest fs = Inr d" and "mset gs = mset fs"
  shows "contract_set_digest gs = Inr d"
proof -
  obtain rows where rows: "map_res hash_row fs = Inr rows" "distinct (map fst rows)"
    and d: "d = ''sha256:'' @ sha256_hexdigest (framed_hashes (sort_key fst rows))"
    using assms(1) by (auto simp: contract_set_digest_def and_then_eq_Inr contract_file_hashes_Inr)
  obtain rows' where rows': "map_res hash_row gs = Inr rows'" "mset rows' = mset rows"
    using map_res_mset [OF rows(1) assms(2)] by blast
  have "distinct (map fst rows')"
    using rows(2) rows'(2) by (metis mset_map mset_eq_imp_distinct_iff)
  moreover have "sort_key fst rows = sort_key fst rows'"
    using rows(2) rows'(2) by (intro sort_key_mset_unique) (simp_all add: unique_by_def)
  ultimately have "contract_file_hashes gs = Inr (sort_key fst rows)"
    using rows'(1) by (auto simp: contract_file_hashes_Inr)
  then show ?thesis
    using d by (simp add: contract_set_digest_def)
qed

text \<open>
  C26: the text that is hashed determines the contract set. Two accepted sets of files with the same
  framed text have the same normalised paths with the same content digests: the separators cannot
  be forged, because no accepted path and no digest contains one.
\<close>

theorem contract_set_unambiguous:
  assumes "contract_file_hashes fs = Inr h" and "contract_file_hashes gs = Inr h'"
    and "framed_hashes h = framed_hashes h'"
  shows "h = h' \<and> list_all (\<lambda>(path, _). repository_relative path) h"
proof
  let ?e = "map (\<lambda>(p, d). (utf8_encode p, d))"
  have free: "list_all (\<lambda>(p, d). CHR 0x00 \<notin> set p \<and> CHR 0x00 \<notin> set d) (?e x)"
    if "contract_file_hashes y = Inr x" for x y
    using hashes_nul_free [OF that] by (auto simp: list_all_iff utf8_encode_def utf8_char_nul)
  have "concat (map (\<lambda>(p, d). p @ [CHR 0x00] @ d @ [CHR 0x00]) (?e h)) =
      concat (map (\<lambda>(p, d). p @ [CHR 0x00] @ d @ [CHR 0x00]) (?e h'))"
    using assms(3) by (simp add: framed_hashes_def comp_def split_def)
  then have "?e h = ?e h'"
    using frame_inj [OF free [OF assms(1)] free [OF assms(2)]] by blast
  moreover have "inj (\<lambda>(p, d :: string). (utf8_encode p, d))"
    by (auto simp: inj_def utf8_encode_inj)
  ultimately show "h = h'"
    by (simp add: inj_map_eq_map)
  show "list_all (\<lambda>(path, _). repository_relative path) h"
    using hashes_nul_free [OF assms(1)] by (auto simp: list_all_iff)
qed

lemma digest_sample:
  "\<exists>h. contract_file_hashes [(PStr ''b.yaml'', ''x''), (PStr ''a.yaml'', ''y'')] = Inr h \<and>
     map fst h = [''a.yaml'', ''b.yaml'']"
proof -
  have "safe_path (PStr ''b.yaml'') = Inr ''b.yaml''" "safe_path (PStr ''a.yaml'') = Inr ''a.yaml''"
    by code_simp+
  then show ?thesis
    by (simp add: contract_file_hashes_def)
qed

theorem contract_set_digest_order_independent_witness:
  "\<exists>d. contract_set_digest [(PStr ''b.yaml'', ''x''), (PStr ''a.yaml'', ''y'')] = Inr d \<and>
     contract_set_digest [(PStr ''a.yaml'', ''y''), (PStr ''b.yaml'', ''x'')] = Inr d"
proof -
  obtain d where d: "contract_set_digest [(PStr ''b.yaml'', ''x''), (PStr ''a.yaml'', ''y'')] = Inr d"
    using digest_sample by (auto simp: contract_set_digest_def)
  show ?thesis
    using d contract_set_digest_order_independent [OF d, of "[(PStr ''a.yaml'', ''y''), (PStr ''b.yaml'', ''x'')]"]
    by auto
qed

theorem contract_set_unambiguous_witness:
  "\<exists>h. contract_file_hashes [(PStr ''b.yaml'', ''x''), (PStr ''a.yaml'', ''y'')] = Inr h \<and>
     list_all (\<lambda>(path, _). repository_relative path) h"
proof -
  obtain h where h: "contract_file_hashes [(PStr ''b.yaml'', ''x''), (PStr ''a.yaml'', ''y'')] = Inr h"
    using digest_sample by blast
  show ?thesis
    using contract_set_unambiguous [OF h h refl] h by blast
qed

end
