(* ===== verification/Governance_Attestation.thy ===== *)
theory Governance_Attestation
  imports Governance_Models Governance_Digest Py_Regex "HOL-Library.AList"
begin

text \<open>
  \<open>l9_ci/governance/attestation.py\<close>: what a running node attests of itself, compared with its
  constitution. The validation appends to one list, which is the concatenation of what each test
  leaves; the comparison keeps a list of drift and a list of missing evidence, and returns early
  when the constitution itself is malformed. Sets of strings are lists; where the code sorts a set
  its order does not matter. Every path returns a result: no branch raises.
\<close>

subsection \<open>Shapes\<close>

definition ATTESTATION_REQUIRED :: "string list" where
  "ATTESTATION_REQUIRED =
     [''node_id'', ''node_version'', ''contract_version'', ''contract_digest'', ''generated_at'',
      ''tracked_contract_hashes'', ''action_inventory'', ''tool_inventory'', ''event_inventory'',
      ''dependency_readiness'', ''degraded_modes'', ''policy_mode'']"

definition SHA256_PATTERN :: regex where
  "SHA256_PATTERN = Seqs [Lit ''sha256:'', Times_re 64 (Chars lower_hex), At_end]"

fun is_sha256 :: "pyval \<Rightarrow> bool" where
  "is_sha256 (PStr s) \<longleftrightarrow> re_fullmatch SHA256_PATTERN s"
| "is_sha256 _ \<longleftrightarrow> False"

definition safe_contract_path :: "string \<Rightarrow> bool" where
  "safe_contract_path s \<longleftrightarrow>
     \<not> blank s \<and> CHR 0x00 \<notin> set s \<and>
     (let posix = replace_char CHR 0x5C CHR ''/'' s
      in \<not> posix_absolute posix \<and> \<not> windows_drive s \<and> ''..'' \<notin> set (posix_parts posix))"

definition invalid_inventory :: "string \<Rightarrow> diagnostic" where
  "invalid_inventory path =
     diag ''attestation.inventory_invalid'' (path @ '' must be an array of non-empty strings'') path"

fun attestation_string_set :: "pyval \<Rightarrow> string \<Rightarrow> bool \<Rightarrow> string list \<times> diagnostic list" where
  "attestation_string_set (PList xs) path allow_empty_items =
     (if \<not> list_all (\<lambda>x. is_str x \<and> (allow_empty_items \<or> non_blank_str x)) xs then
        ([], [invalid_inventory path])
      else
        (remdups (map the_str xs),
         if distinct (map the_str xs) then []
         else [diag ''attestation.inventory_duplicate'' (path @ '' must contain unique values'') path]))"
| "attestation_string_set v path allow_empty_items = ([], [invalid_inventory path])"

fun timestamp_errors :: "iso_reader \<Rightarrow> pyval \<Rightarrow> diagnostic list" where
  "timestamp_errors reader (PStr s) =
     (case reader (zulu s) of
        Not_Iso \<Rightarrow>
          [diag ''attestation.generated_at_invalid'' ''generated_at must be an ISO-8601 timestamp''
             ''generated_at'']
      | Iso_Naive \<Rightarrow>
          [diag ''attestation.generated_at_invalid'' ''generated_at must include a timezone''
             ''generated_at'']
      | _ \<Rightarrow> [])"
| "timestamp_errors reader v =
     [diag ''attestation.generated_at_invalid'' ''generated_at must be an ISO-8601 timestamp''
        ''generated_at'']"

subsection \<open>Tracked contract hashes\<close>

definition hash_entry :: "pyval \<Rightarrow> pyval \<Rightarrow> (string \<times> pyval) option \<times> diagnostic list" where
  "hash_entry path hash =
     (if \<not> (is_str path \<and> safe_contract_path (the_str path)) then
        (None, [diag ''attestation.contract_hash_path_invalid''
                  ''tracked contract hash paths must be safe relative paths''
                  (''tracked_contract_hashes.'' @ py_str path)])
      else if \<not> is_sha256 hash then
        (None, [diag ''attestation.contract_hash_digest_invalid''
                  ''tracked contract hashes must be lowercase sha256 digests''
                  (''tracked_contract_hashes.'' @ py_str path)])
      else (Some (replace_char CHR 0x5C CHR ''/'' (the_str path), hash), []))"

fun hash_entries :: "pydict \<Rightarrow> (string \<times> pyval) list \<Rightarrow> (string \<times> pyval) list \<times> diagnostic list" where
  "hash_entries [] found = (found, [])"
| "hash_entries ((path, hash) # rest) found =
     (case hash_entry path hash of (entry, ds) \<Rightarrow>
      case hash_entries rest
             (case entry of None \<Rightarrow> found | Some (k, v) \<Rightarrow> AList.update k v found) of
        (found', ds') \<Rightarrow> (found', ds @ ds'))"

fun validate_hashes :: "pyval \<Rightarrow> (string \<times> pyval) list \<times> diagnostic list" where
  "validate_hashes (PDict d) = hash_entries d []"
| "validate_hashes _ =
     ([], [diag ''attestation.contract_hashes_invalid'' ''tracked_contract_hashes must be a mapping''
             ''tracked_contract_hashes''])"

subsection \<open>Dependency readiness\<close>

definition READINESS_FIELDS :: "string list" where
  "READINESS_FIELDS = [''required'', ''ready'', ''env_vars'', ''missing_env'']"

definition missing_names :: "string list \<Rightarrow> pydict \<Rightarrow> string list" where
  "missing_names names d = sort (filter (\<lambda>name. dget d name = None) names)"

definition readiness_errors :: "pydict \<Rightarrow> string \<Rightarrow> diagnostic list" where
  "readiness_errors entry path =
     (case attestation_string_set (dget_none entry ''env_vars'') (path @ ''.env_vars'') False of
        (env_vars, d1) \<Rightarrow>
      case attestation_string_set (dget_none entry ''missing_env'') (path @ ''.missing_env'') False of
        (missing_env, d2) \<Rightarrow>
        (if \<not> is_bool (dget_none entry ''required'') \<or> \<not> is_bool (dget_none entry ''ready'') then
           [diag ''attestation.dependency_readiness_invalid'' ''required and ready must be booleans'' path]
         else []) @ d1 @ d2 @
        (if \<not> list_all (\<lambda>x. x \<in> set env_vars) missing_env then
           [diag ''attestation.missing_env_not_declared'' ''missing_env must be a subset of env_vars''
              (path @ ''.missing_env'')]
         else []) @
        (if dget_none entry ''ready'' = PBool True \<and> missing_env \<noteq> [] then
           [diag ''attestation.ready_with_missing_env''
              ''ready cannot be true when missing_env is non-empty'' path]
         else []))"

definition readiness_entry :: "pyval \<Rightarrow> pyval \<Rightarrow> (string \<times> pydict) option \<times> diagnostic list" where
  "readiness_entry dependency entry =
     (let path = ''dependency_readiness.'' @ py_str dependency
      in if \<not> non_blank_str dependency then
           (None, [diag ''attestation.dependency_name_invalid''
                     ''dependency names must be non-empty strings'' ''dependency_readiness''])
         else
           case entry of
             PDict e \<Rightarrow>
               let missing = missing_names READINESS_FIELDS e
               in if missing \<noteq> [] then
                    (None, map (\<lambda>name. diag ''attestation.dependency_field_missing''
                                  (''required readiness field '' @ repr_string name @ '' is missing'')
                                  (path @ ''.'' @ name)) missing)
                  else (Some (py_str dependency, e), readiness_errors e path)
           | _ \<Rightarrow>
               (None, [diag ''attestation.dependency_readiness_invalid''
                         (''readiness for '' @ py_repr dependency @ '' must be a mapping'') path]))"

fun readiness_entries :: "pydict \<Rightarrow> (string \<times> pydict) list \<Rightarrow> (string \<times> pydict) list \<times> diagnostic list" where
  "readiness_entries [] found = (found, [])"
| "readiness_entries ((dependency, v) # rest) found =
     (case readiness_entry dependency v of (entry, ds) \<Rightarrow>
      case readiness_entries rest
             (case entry of None \<Rightarrow> found | Some (k, e) \<Rightarrow> AList.update k e found) of
        (found', ds') \<Rightarrow> (found', ds @ ds'))"

fun validate_readiness :: "pyval \<Rightarrow> (string \<times> pydict) list \<times> diagnostic list" where
  "validate_readiness (PDict d) = readiness_entries d []"
| "validate_readiness _ =
     ([], [diag ''attestation.readiness_invalid'' ''dependency_readiness must be a mapping''
             ''dependency_readiness''])"

subsection \<open>Validation of the attestation\<close>

definition node_of :: "pydict \<Rightarrow> pydict \<times> diagnostic list" where
  "node_of constitution =
     (case dget_none constitution ''node'' of
        PDict node \<Rightarrow> (node, [])
      | _ \<Rightarrow> ([], [diag ''constitution.node_invalid'' ''constitution.node must be a mapping'' ''node'']))"

definition IDENTITY_FIELDS :: "string list" where
  "IDENTITY_FIELDS = [''node_id'', ''node_version'', ''contract_version'', ''policy_mode'']"

text \<open>The sets read from the attestation.\<close>

record attested_sets =
  as_actions :: "string list"
  as_tools :: "string list"
  as_events :: "string list"
  as_hashes :: "(string \<times> pyval) list"
  as_degraded :: "string list"
  as_readiness :: "(string \<times> pydict) list"

definition attestation_sets :: "pydict \<Rightarrow> attested_sets" where
  "attestation_sets a =
     \<lparr>as_actions = fst (attestation_string_set (dget_none a ''action_inventory'') ''action_inventory'' False),
      as_tools = fst (attestation_string_set (dget_none a ''tool_inventory'') ''tool_inventory'' False),
      as_events = fst (attestation_string_set (dget_none a ''event_inventory'') ''event_inventory'' False),
      as_hashes = fst (validate_hashes (dget_none a ''tracked_contract_hashes'')),
      as_degraded = fst (attestation_string_set (dget_none a ''degraded_modes'') ''degraded_modes'' False),
      as_readiness = fst (validate_readiness (dget_none a ''dependency_readiness''))\<rparr>"

definition attestation_errors :: "iso_reader \<Rightarrow> pydict \<Rightarrow> pydict \<Rightarrow> diagnostic list" where
  "attestation_errors reader constitution a =
     snd (node_of constitution) @
     concat (map (\<lambda>field.
         if \<not> non_blank_str (dget_none a field) then
           [diag ''attestation.field_invalid'' (field @ '' must be a non-empty string'') field]
         else [])
       IDENTITY_FIELDS) @
     (if \<not> is_sha256 (dget_none a ''contract_digest'') then
        [diag ''attestation.contract_digest_invalid'' ''contract_digest must be a lowercase sha256 digest''
           ''contract_digest'']
      else []) @
     timestamp_errors reader (dget_none a ''generated_at'') @
     concat (map (\<lambda>k.
         snd (attestation_string_set (dget_none a (k @ ''_inventory'')) (k @ ''_inventory'') False))
       [''action'', ''tool'', ''event'']) @
     snd (validate_hashes (dget_none a ''tracked_contract_hashes'')) @
     snd (attestation_string_set (dget_none a ''degraded_modes'') ''degraded_modes'' False) @
     snd (validate_readiness (dget_none a ''dependency_readiness''))"

subsection \<open>Comparison\<close>

text \<open>A comparison that returns early gives its result on the left.\<close>

fun unless_returned :: "evaluation_result + 'a \<Rightarrow> ('a \<Rightarrow> evaluation_result) \<Rightarrow> evaluation_result" where
  "unless_returned (Inl r) f = r"
| "unless_returned (Inr a) f = f a"

definition version_drift :: "pydict \<Rightarrow> string \<Rightarrow> pyval \<Rightarrow> string \<Rightarrow> diagnostic list" where
  "version_drift node key observed field =
     (if dget_none node key \<noteq> PNone \<and> PStr (py_str (dget_none node key)) \<noteq> observed then
        [diag (''attestation.'' @ field @ ''_mismatch'')
           (''attested '' @ field @ '' does not match constitution'') field]
      else [])"

definition node_drift :: "pydict \<Rightarrow> pydict \<Rightarrow> diagnostic list" where
  "node_drift node a =
     (if \<not> py_eq (dget_none node ''id'') (dget_none a ''node_id'') then
        [diag ''attestation.node_mismatch'' ''attested node_id does not match constitution'' ''node_id'']
      else []) @
     version_drift node ''version'' (dget_none a ''node_version'') ''node_version'' @
     version_drift node ''contract_version'' (dget_none a ''contract_version'') ''contract_version''"

definition expectation_details :: "pyval \<Rightarrow> pyval \<Rightarrow> pydict" where
  "expectation_details expected observed = [(PStr ''expected'', expected), (PStr ''observed'', observed)]"

definition digest_drift :: "string option \<Rightarrow> pyval \<Rightarrow> evaluation_result + diagnostic list" where
  "digest_drift expected_digest observed =
     (case expected_digest of
        None \<Rightarrow> Inr []
      | Some expected \<Rightarrow>
          if \<not> re_fullmatch SHA256_PATTERN expected then
            Inl (invalid_result [diag ''attestation.expected_digest_invalid''
              ''expected_contract_digest must be a lowercase sha256 digest'' ''expected_contract_digest''])
          else if observed \<noteq> PStr expected then
            Inr [Diagnostic ''attestation.contract_digest_mismatch''
              ''attested contract_digest does not match expected digest'' ''contract_digest'' ''error''
              (expectation_details (PStr expected) observed)]
          else Inr [])"

definition mode_drift :: "string option \<Rightarrow> pyval \<Rightarrow> diagnostic list" where
  "mode_drift expected_mode observed =
     (case expected_mode of
        None \<Rightarrow> []
      | Some expected \<Rightarrow>
          if observed \<noteq> PStr expected then
            [Diagnostic ''attestation.policy_mode_mismatch''
               ''attested policy_mode does not match expected mode'' ''policy_mode'' ''error''
               (expectation_details (PStr expected) observed)]
          else [])"

definition or_none :: "pyval option \<Rightarrow> pyval" where
  "or_none v = (case v of None \<Rightarrow> PNone | Some w \<Rightarrow> w)"

definition hash_drift ::
  "(string \<times> pyval) list \<Rightarrow> (string \<times> pyval) list \<Rightarrow> string \<Rightarrow> diagnostic list"
where
  "hash_drift expected observed path =
     (if map_of expected path \<noteq> map_of observed path then
        [Diagnostic ''attestation.contract_hash_mismatch''
           (''tracked contract hash differs for '' @ repr_string path)
           (''tracked_contract_hashes.'' @ path) ''error''
           (expectation_details (or_none (map_of expected path)) (or_none (map_of observed path)))]
      else [])"

definition hashes_drift ::
  "pydict option \<Rightarrow> (string \<times> pyval) list \<Rightarrow> evaluation_result + diagnostic list"
where
  "hashes_drift expected_hashes observed =
     (case expected_hashes of
        None \<Rightarrow> Inr []
      | Some d \<Rightarrow>
          (case validate_hashes (PDict d) of (expected, invalid) \<Rightarrow>
             if invalid \<noteq> [] then Inl (invalid_result invalid)
             else Inr (concat (map (hash_drift expected observed)
               (sort (remdups (map fst expected @ map fst observed)))))))"

definition set_minus :: "string list \<Rightarrow> string list \<Rightarrow> string list" where
  "set_minus xs ys = sort (filter (\<lambda>x. x \<notin> set ys) (remdups xs))"

definition inventory_drift ::
  "pydict \<Rightarrow> string \<Rightarrow> string \<Rightarrow> string list \<Rightarrow> evaluation_result + diagnostic list"
where
  "inventory_drift constitution k field inventory =
     (case dget_default constitution field (PDict []) of
        PDict d \<Rightarrow>
          if \<not> non_blank_strs (dkeys d) then
            Inl (invalid_result [diag (''constitution.'' @ field @ ''_name_invalid'')
              (''constitution.'' @ field @ '' names must be non-empty strings'') field])
          else
            let declared = map the_str (dkeys d)
            in Inr (map (\<lambda>name. diag (''attestation.'' @ k @ ''_missing'')
                       (''declared '' @ k @ '' '' @ repr_string name @ '' is absent'') (k @ ''_inventory''))
                     (set_minus declared inventory) @
                   map (\<lambda>name. diag (''attestation.'' @ k @ ''_undeclared'')
                       (''undeclared '' @ k @ '' '' @ repr_string name @ '' is present'') (k @ ''_inventory''))
                     (set_minus inventory declared))
      | _ \<Rightarrow>
          Inl (invalid_result [diag (''constitution.'' @ field @ ''_invalid'')
            (''constitution.'' @ field @ '' must be a mapping'') field]))"

text \<open>One declared dependency: the drift and the missing evidence it leaves.\<close>

definition dependency_findings ::
  "(string \<times> pydict) list \<Rightarrow> pyval \<times> pyval \<Rightarrow> evaluation_result + (diagnostic list \<times> diagnostic list)"
where
  "dependency_findings readiness dd =
     (case dd of (dependency, declaration) \<Rightarrow>
        let path = ''dependency_readiness.'' @ py_str dependency;
            bad = Inl (invalid_result [diag ''constitution.dependency_invalid''
              (''dependency '' @ py_repr dependency @ '' must declare boolean required'')
              (''dependencies.'' @ py_str dependency)])
        in case (dependency, declaration) of
             (PStr name, PDict decl) \<Rightarrow>
               if blank name \<or> \<not> is_bool (dget_none decl ''required'') then bad
               else
                 let required = (dget_none decl ''required'' = PBool True)
                 in (case map_of readiness name of
                       None \<Rightarrow>
                         Inr ([], if required then
                           [diag ''attestation.required_dependency_missing''
                              (''required dependency '' @ repr_string name @ '' has no readiness evidence'') path]
                           else [])
                     | Some entry \<Rightarrow>
                         Inr (if \<not> py_eq (dget_none entry ''required'') (dget_none decl ''required'') then
                                [diag ''attestation.dependency_required_mismatch''
                                   (''dependency '' @ repr_string name @ '' required flag differs'')
                                   (path @ ''.required'')]
                              else [],
                              if required \<and> dget_none entry ''ready'' \<noteq> PBool True then
                                [diag ''attestation.required_dependency_unready''
                                   (''required dependency '' @ repr_string name @ '' is not ready'') path]
                              else []))
           | _ \<Rightarrow> bad)"

fun all_dependency_findings ::
  "(string \<times> pydict) list \<Rightarrow> pydict \<Rightarrow> evaluation_result + (diagnostic list \<times> diagnostic list)"
where
  "all_dependency_findings readiness [] = Inr ([], [])"
| "all_dependency_findings readiness (dd # rest) =
     (case dependency_findings readiness dd of
        Inl r \<Rightarrow> Inl r
      | Inr (drift, incomplete) \<Rightarrow>
          (case all_dependency_findings readiness rest of
             Inl r \<Rightarrow> Inl r
           | Inr (drift', incomplete') \<Rightarrow> Inr (drift @ drift', incomplete @ incomplete')))"

definition declared_modes :: "pydict \<Rightarrow> string list" where
  "declared_modes dependencies =
     concat (map (\<lambda>(_, declaration).
         case declaration of
           PDict decl \<Rightarrow>
             (case dget_default decl ''degraded_modes'' (PList []) of
                PList modes \<Rightarrow> map the_str (filter is_str modes)
              | _ \<Rightarrow> [])
         | _ \<Rightarrow> [])
       dependencies)"

definition undeclared_drift :: "pydict \<Rightarrow> attested_sets \<Rightarrow> diagnostic list" where
  "undeclared_drift dependencies s =
     map (\<lambda>d. diag ''attestation.dependency_undeclared''
            (''undeclared dependency '' @ repr_string d @ '' is present'') (''dependency_readiness.'' @ d))
       (set_minus (map fst (as_readiness s)) (map the_str (dkeys dependencies))) @
     map (\<lambda>m. diag ''attestation.degraded_mode_undeclared''
            (''undeclared degraded mode '' @ repr_string m @ '' is present'') ''degraded_modes'')
       (set_minus (as_degraded s) (declared_modes dependencies))"

definition attestation_verdict :: "diagnostic list \<Rightarrow> diagnostic list \<Rightarrow> evaluation_result" where
  "attestation_verdict drift incomplete =
     EvaluationResult
       (if drift \<noteq> [] then Eval_Fail else if incomplete \<noteq> [] then Eval_Incomplete else Eval_Pass)
       (drift @ incomplete)
       [(PStr ''drift_count'', PInt (int (length drift))),
        (PStr ''incomplete_count'', PInt (int (length incomplete)))]"

definition compare_dependencies ::
  "pydict \<Rightarrow> attested_sets \<Rightarrow> diagnostic list \<Rightarrow> evaluation_result"
where
  "compare_dependencies constitution s drift =
     (case dget_default constitution ''dependencies'' (PDict []) of
        PDict dependencies \<Rightarrow>
          unless_returned (all_dependency_findings (as_readiness s) dependencies) (\<lambda>(d, incomplete).
            attestation_verdict (drift @ d @ undeclared_drift dependencies s) incomplete)
      | _ \<Rightarrow>
          invalid_result [diag ''constitution.dependencies_invalid''
            ''constitution.dependencies must be a mapping'' ''dependencies''])"

definition compare_attestation ::
  "iso_reader \<Rightarrow> pyval \<Rightarrow> pyval \<Rightarrow> string option \<Rightarrow> pydict option \<Rightarrow> string option \<Rightarrow> evaluation_result"
where
  "compare_attestation reader constitution attestation expected_digest expected_hashes expected_mode =
     (case (constitution, attestation) of
        (PDict c, PDict a) \<Rightarrow>
          let missing = missing_names ATTESTATION_REQUIRED a;
              invalid = attestation_errors reader c a;
              s = attestation_sets a
          in if missing \<noteq> [] then
               invalid_result (map (\<lambda>name. diag ''attestation.required_missing''
                 (''required attestation field '' @ repr_string name @ '' is missing'') name) missing)
             else if invalid \<noteq> [] then invalid_result invalid
             else
               unless_returned (digest_drift expected_digest (dget_none a ''contract_digest'')) (\<lambda>d1.
               unless_returned (hashes_drift expected_hashes (as_hashes s)) (\<lambda>d2.
               unless_returned (inventory_drift c ''action'' ''actions'' (as_actions s)) (\<lambda>d3.
               unless_returned (inventory_drift c ''tool'' ''tools'' (as_tools s)) (\<lambda>d4.
               unless_returned (inventory_drift c ''event'' ''events'' (as_events s)) (\<lambda>d5.
               compare_dependencies c s
                 (node_drift (fst (node_of c)) a @ d1 @ mode_drift expected_mode (dget_none a ''policy_mode'') @
                  d2 @ d3 @ d4 @ d5))))))
      | _ \<Rightarrow>
          invalid_result [diag ''attestation.input_invalid''
            ''constitution and attestation must be mappings'' []])"

subsection \<open>When each step leaves nothing\<close>

fun names_in :: "pyval \<Rightarrow> string list" where
  "names_in (PList xs) = map the_str xs"
| "names_in _ = []"

definition string_list :: "pyval \<Rightarrow> bool" where
  "string_list v \<longleftrightarrow> (\<exists>xs. v = PList xs \<and> non_blank_strs xs \<and> distinct xs)"

lemma non_blank_strs_distinct:
  "list_all is_str xs \<Longrightarrow> distinct (map the_str xs) \<longleftrightarrow> distinct xs"
  by (induction xs) (auto simp: list_all_iff elim!: is_str.elims(2))

lemma non_blank_strs_is_str: "non_blank_strs xs \<Longrightarrow> list_all is_str xs"
  by (auto simp: non_blank_strs_def list_all_iff non_blank_str_iff)

lemma attestation_string_set_Nil:
  "snd (attestation_string_set v path False) = [] \<longleftrightarrow> string_list v"
proof (cases v)
  case (PList xs)
  have "list_all (\<lambda>x. is_str x \<and> (False \<or> non_blank_str x)) xs \<longleftrightarrow> non_blank_strs xs"
    by (auto simp: non_blank_strs_def list_all_iff non_blank_str_iff)
  then show ?thesis
    using non_blank_strs_distinct [OF non_blank_strs_is_str, of xs]
    by (simp add: PList string_list_def)
qed (auto simp: string_list_def)

lemma set_minus_Nil [simp]: "set_minus xs ys = [] \<longleftrightarrow> set xs \<subseteq> set ys"
proof -
  have "set (set_minus xs ys) = set xs - set ys" by (auto simp: set_minus_def)
  then show ?thesis by (metis Diff_eq_empty_iff set_empty)
qed

definition tracked_hash :: "pyval \<times> pyval \<Rightarrow> bool" where
  "tracked_hash ph \<longleftrightarrow>
     (case ph of (PStr path, hash) \<Rightarrow> safe_contract_path path \<and> is_sha256 hash | _ \<Rightarrow> False)"

lemma hash_entry_Nil: "snd (hash_entry path hash) = [] \<longleftrightarrow> tracked_hash (path, hash)"
  by (cases path) (auto simp: hash_entry_def tracked_hash_def)

lemma hash_entries_Nil: "snd (hash_entries d found) = [] \<longleftrightarrow> list_all tracked_hash d"
proof (induction d arbitrary: found)
  case (Cons ph d)
  obtain path hash where "ph = (path, hash)" by (cases ph)
  with Cons show ?case by (simp add: case_prod_unfold hash_entry_Nil)
qed simp

lemma validate_hashes_Nil: "snd (validate_hashes v) = [] \<longleftrightarrow> (\<exists>d. v = PDict d \<and> list_all tracked_hash d)"
  by (cases v) (auto simp: hash_entries_Nil)

definition readiness_ok :: "pyval \<times> pyval \<Rightarrow> bool" where
  "readiness_ok de \<longleftrightarrow>
     (case de of
        (dependency, PDict e) \<Rightarrow>
          non_blank_str dependency \<and> list_all (\<lambda>name. dget e name \<noteq> None) READINESS_FIELDS \<and>
          is_bool (dget_none e ''required'') \<and> is_bool (dget_none e ''ready'') \<and>
          string_list (dget_none e ''env_vars'') \<and> string_list (dget_none e ''missing_env'') \<and>
          set (names_in (dget_none e ''missing_env'')) \<subseteq> set (names_in (dget_none e ''env_vars'')) \<and>
          (dget_none e ''ready'' = PBool True \<longrightarrow> dget_none e ''missing_env'' = PList [])
      | _ \<Rightarrow> False)"

lemma string_set_names:
  "string_list v \<Longrightarrow> fst (attestation_string_set v path False) = names_in v"
proof -
  assume "string_list v"
  then obtain xs where v: "v = PList xs" "non_blank_strs xs" "distinct xs"
    by (auto simp: string_list_def)
  then have "list_all (\<lambda>x. is_str x \<and> non_blank_str x) xs" "distinct (map the_str xs)"
    using non_blank_strs_distinct [OF non_blank_strs_is_str, of xs]
    by (auto simp: non_blank_strs_def list_all_iff non_blank_str_iff)
  then show ?thesis
    by (simp add: v distinct_remdups_id)
qed

lemma names_in_Nil: "string_list v \<Longrightarrow> names_in v = [] \<longleftrightarrow> v = PList []"
  by (auto simp: string_list_def)

lemma missing_names_Nil: "missing_names names d = [] \<longleftrightarrow> list_all (\<lambda>name. dget d name \<noteq> None) names"
proof -
  have "missing_names names d = [] \<longleftrightarrow> filter (\<lambda>name. dget d name = None) names = []"
    unfolding missing_names_def by (metis set_empty set_sort)
  then show ?thesis
    by (simp only: filter_empty_conv list_all_iff)
qed

lemma readiness_errors_Nil:
  "readiness_errors e path = [] \<longleftrightarrow>
     is_bool (dget_none e ''required'') \<and> is_bool (dget_none e ''ready'') \<and>
     string_list (dget_none e ''env_vars'') \<and> string_list (dget_none e ''missing_env'') \<and>
     set (names_in (dget_none e ''missing_env'')) \<subseteq> set (names_in (dget_none e ''env_vars'')) \<and>
     (dget_none e ''ready'' = PBool True \<longrightarrow> dget_none e ''missing_env'' = PList [])"
proof (cases "string_list (dget_none e ''env_vars'') \<and> string_list (dget_none e ''missing_env'')")
  case True
  then show ?thesis
    using names_in_Nil [of "dget_none e ''missing_env''"]
    by (auto simp: readiness_errors_def case_prod_unfold attestation_string_set_Nil string_set_names list_all_iff)
next
  case False
  then show ?thesis
    by (auto simp: readiness_errors_def case_prod_unfold attestation_string_set_Nil)
qed

lemma readiness_entry_Nil: "snd (readiness_entry dependency v) = [] \<longleftrightarrow> readiness_ok (dependency, v)"
proof (cases v)
  case (PDict e)
  show ?thesis
    unfolding readiness_entry_def readiness_ok_def Let_def PDict
    using missing_names_Nil [of READINESS_FIELDS e]
    by (cases "missing_names READINESS_FIELDS e = []") (simp_all add: readiness_errors_Nil)
qed (simp_all add: readiness_entry_def readiness_ok_def Let_def)

lemma readiness_entries_Nil: "snd (readiness_entries d found) = [] \<longleftrightarrow> list_all readiness_ok d"
proof (induction d arbitrary: found)
  case (Cons de d)
  obtain dependency v where "de = (dependency, v)" by (cases de)
  with Cons show ?case by (simp add: case_prod_unfold readiness_entry_Nil)
qed simp

lemma validate_readiness_Nil:
  "snd (validate_readiness v) = [] \<longleftrightarrow> (\<exists>d. v = PDict d \<and> list_all readiness_ok d)"
  by (cases v) (auto simp: readiness_entries_Nil)

fun aware_timestamp :: "iso_reader \<Rightarrow> pyval \<Rightarrow> bool" where
  "aware_timestamp reader (PStr s) \<longleftrightarrow> reader (zulu s) \<noteq> Not_Iso \<and> reader (zulu s) \<noteq> Iso_Naive"
| "aware_timestamp reader _ \<longleftrightarrow> False"

lemma timestamp_errors_Nil: "timestamp_errors reader v = [] \<longleftrightarrow> aware_timestamp reader v"
  by (cases v) (auto split: datetime_read.splits)

text \<open>What an attestation must be before it is compared.\<close>

definition wellformed_attestation :: "iso_reader \<Rightarrow> pydict \<Rightarrow> bool" where
  "wellformed_attestation reader a \<longleftrightarrow>
     list_all (\<lambda>name. dget a name \<noteq> None) ATTESTATION_REQUIRED \<and>
     list_all (\<lambda>field. non_blank_str (dget_none a field)) IDENTITY_FIELDS \<and>
     is_sha256 (dget_none a ''contract_digest'') \<and> aware_timestamp reader (dget_none a ''generated_at'') \<and>
     list_all (\<lambda>field. string_list (dget_none a field))
       [''action_inventory'', ''tool_inventory'', ''event_inventory'', ''degraded_modes''] \<and>
     (\<exists>hs. dget_none a ''tracked_contract_hashes'' = PDict hs \<and> list_all tracked_hash hs) \<and>
     (\<exists>rs. dget_none a ''dependency_readiness'' = PDict rs \<and> list_all readiness_ok rs)"

lemma attestation_errors_Nil:
  "missing_names ATTESTATION_REQUIRED a = [] \<and> attestation_errors reader c a = [] \<longleftrightarrow>
     wellformed_attestation reader a \<and> (\<exists>node. dget_none c ''node'' = PDict node)"
proof -
  have "snd (node_of c) = [] \<longleftrightarrow> (\<exists>node. dget_none c ''node'' = PDict node)"
    by (cases "dget_none c ''node''") (simp_all add: node_of_def)
  moreover have "concat (map (\<lambda>field.
         if \<not> non_blank_str (dget_none a field) then
           [diag ''attestation.field_invalid'' (field @ '' must be a non-empty string'') field]
         else []) IDENTITY_FIELDS) = [] \<longleftrightarrow> list_all (\<lambda>field. non_blank_str (dget_none a field)) IDENTITY_FIELDS"
    by (auto simp: list_all_iff)
  ultimately show ?thesis
    unfolding attestation_errors_def wellformed_attestation_def missing_names_Nil append_is_Nil_conv
      attestation_string_set_Nil validate_hashes_Nil validate_readiness_Nil timestamp_errors_Nil
    by (auto simp: attestation_string_set_Nil)
qed

subsection \<open>What passes\<close>

definition node_matches :: "pydict \<Rightarrow> pydict \<Rightarrow> bool" where
  "node_matches node a \<longleftrightarrow>
     py_eq (dget_none node ''id'') (dget_none a ''node_id'') \<and>
     (dget_none node ''version'' = PNone \<or>
        dget_none a ''node_version'' = PStr (py_str (dget_none node ''version''))) \<and>
     (dget_none node ''contract_version'' = PNone \<or>
        dget_none a ''contract_version'' = PStr (py_str (dget_none node ''contract_version'')))"

lemma node_drift_Nil: "node_drift node a = [] \<longleftrightarrow> node_matches node a"
  by (auto simp: node_drift_def node_matches_def version_drift_def)

lemma mode_drift_Nil: "mode_drift em v = [] \<longleftrightarrow> (\<forall>m. em = Some m \<longrightarrow> v = PStr m)"
  by (cases em) (simp_all add: mode_drift_def)

lemma digest_drift_Nil:
  "digest_drift ed v = Inr [] \<longleftrightarrow> (\<forall>d. ed = Some d \<longrightarrow> re_fullmatch SHA256_PATTERN d \<and> v = PStr d)"
  by (cases ed) (auto simp: digest_drift_def)

lemma hash_drift_Nil: "hash_drift e h p = [] \<longleftrightarrow> map_of e p = map_of h p"
  by (simp add: hash_drift_def)

text \<open>Two hash lists agree when they are the same map, whatever the order of their entries.\<close>

lemma map_of_eq_on_keys:
  "(\<forall>p \<in> set (map fst xs @ map fst ys). map_of xs p = map_of ys p) \<longleftrightarrow> map_of xs = map_of ys"
proof
  assume eq: "\<forall>p \<in> set (map fst xs @ map fst ys). map_of xs p = map_of ys p"
  show "map_of xs = map_of ys"
  proof
    fix p
    show "map_of xs p = map_of ys p"
    proof (cases "p \<in> set (map fst xs @ map fst ys)")
      case False
      then have "map_of xs p = None" "map_of ys p = None" by (simp_all add: map_of_eq_None_iff)
      then show ?thesis by simp
    qed (use eq in blast)
  qed
qed simp

lemma hashes_drift_Nil:
  "hashes_drift eh hs = Inr [] \<longleftrightarrow>
     (\<forall>d. eh = Some d \<longrightarrow>
        list_all tracked_hash d \<and> map_of (fst (validate_hashes (PDict d))) = map_of hs)"
proof (cases eh)
  case (Some d)
  show ?thesis
    by (simp add: Some hashes_drift_def case_prod_unfold hash_entries_Nil hash_drift_Nil
        map_of_eq_on_keys [symmetric])
qed (simp add: hashes_drift_def)

definition inventory_matches :: "pydict \<Rightarrow> string \<Rightarrow> string list \<Rightarrow> bool" where
  "inventory_matches c field inventory \<longleftrightarrow>
     (\<exists>d. dget_default c field (PDict []) = PDict d \<and> non_blank_strs (dkeys d) \<and>
        set inventory = set (map the_str (dkeys d)))"

lemma inventory_drift_Nil: "inventory_drift c k field held = Inr [] \<longleftrightarrow> inventory_matches c field held"
  by (cases "dget_default c field (PDict [])")
    (auto simp: inventory_drift_def inventory_matches_def Let_def)

definition dependency_ready :: "(string \<times> pydict) list \<Rightarrow> pyval \<times> pyval \<Rightarrow> bool" where
  "dependency_ready readiness dd \<longleftrightarrow>
     (\<exists>name decl b. dd = (PStr name, PDict decl) \<and> \<not> blank name \<and> dget_none decl ''required'' = PBool b \<and>
        (case map_of readiness name of
           None \<Rightarrow> \<not> b
         | Some entry \<Rightarrow>
             py_eq (dget_none entry ''required'') (PBool b) \<and>
             (b \<longrightarrow> dget_none entry ''ready'' = PBool True)))"

lemma dependency_findings_Nil:
  "dependency_findings readiness dd = Inr ([], []) \<longleftrightarrow> dependency_ready readiness dd"
proof (cases dd)
  case (Pair dependency declared)
  show ?thesis
  proof (cases "\<exists>name decl b. dd = (PStr name, PDict decl) \<and> \<not> blank name \<and> dget_none decl ''required'' = PBool b")
    case True
    then obtain name decl b where
      "dd = (PStr name, PDict decl)" "\<not> blank name" "dget_none decl ''required'' = PBool b"
      by blast
    then show ?thesis
      by (cases "map_of readiness name")
        (auto simp: dependency_findings_def dependency_ready_def Let_def simp del: py_eq.simps)
  next
    case False
    then have "\<exists>r. dependency_findings readiness dd = Inl r"
      by (auto simp: Pair dependency_findings_def Let_def is_bool_iff split: pyval.splits)
    with False show ?thesis
      unfolding dependency_ready_def by auto
  qed
qed

lemma all_dependency_findings_Nil:
  "all_dependency_findings readiness dds = Inr ([], []) \<longleftrightarrow> list_all (dependency_ready readiness) dds"
proof (induction dds)
  case (Cons dd dds)
  then show ?case
    by (auto simp: dependency_findings_Nil [symmetric] split: sum.splits)
qed simp

definition dependencies_match :: "pydict \<Rightarrow> attested_sets \<Rightarrow> bool" where
  "dependencies_match c s \<longleftrightarrow>
     (\<exists>dependencies. dget_default c ''dependencies'' (PDict []) = PDict dependencies \<and>
        list_all (dependency_ready (as_readiness s)) dependencies \<and>
        set (map fst (as_readiness s)) \<subseteq> set (map the_str (dkeys dependencies)) \<and>
        set (as_degraded s) \<subseteq> set (declared_modes dependencies))"

lemma attestation_verdict_pass:
  "gv_status (attestation_verdict drift incomplete) = Eval_Pass \<longleftrightarrow> drift = [] \<and> incomplete = []"
  by (simp add: attestation_verdict_def)

definition invalid_return :: "evaluation_result \<Rightarrow> bool" where
  "invalid_return r \<longleftrightarrow> (\<exists>ds. ds \<noteq> [] \<and> r = invalid_result ds)"

lemma invalid_return_result [simp]: "invalid_return (invalid_result ds) \<longleftrightarrow> ds \<noteq> []"
  by (auto simp: invalid_return_def EvaluationResult_def)

lemma early_returns:
  "dependency_findings readiness dd = Inl r \<Longrightarrow> invalid_return r"
  "all_dependency_findings readiness dds = Inl r \<Longrightarrow> invalid_return r"
  "digest_drift ed v = Inl r \<Longrightarrow> invalid_return r"
  "hashes_drift eh hs = Inl r \<Longrightarrow> invalid_return r"
  "inventory_drift c k field held = Inl r \<Longrightarrow> invalid_return r"
proof -
  show one: "invalid_return r" if "dependency_findings readiness dd = Inl r" for dd r
    using that by (auto simp: dependency_findings_def Let_def split: prod.splits pyval.splits if_splits option.splits)
  show "all_dependency_findings readiness dds = Inl r \<Longrightarrow> invalid_return r"
    by (induction dds) (auto split: sum.splits dest: one)
  show "digest_drift ed v = Inl r \<Longrightarrow> invalid_return r"
    by (auto simp: digest_drift_def split: option.splits if_splits)
  show "hashes_drift eh hs = Inl r \<Longrightarrow> invalid_return r"
    by (auto simp: hashes_drift_def split: option.splits if_splits prod.splits)
  show "inventory_drift c k field held = Inl r \<Longrightarrow> invalid_return r"
    by (auto simp: inventory_drift_def Let_def split: pyval.splits if_splits)
qed

lemma unless_returned_pass:
  assumes "\<And>r. x = Inl r \<Longrightarrow> invalid_return r"
  shows "gv_status (unless_returned x f) = Eval_Pass \<longleftrightarrow> (\<exists>a. x = Inr a \<and> gv_status (f a) = Eval_Pass)"
  using assms by (cases x) (auto simp: invalid_return_def)

text \<open>A result is silent exactly when it passes.\<close>

definition speaks :: "evaluation_result \<Rightarrow> bool" where
  "speaks r \<longleftrightarrow> (gv_diagnostics r = [] \<longleftrightarrow> gv_status r = Eval_Pass)"

lemma unless_returned_speaks:
  assumes "\<And>r. x = Inl r \<Longrightarrow> invalid_return r" and "\<And>a. speaks (f a)"
  shows "speaks (unless_returned x f)"
  using assms by (cases x) (auto simp: invalid_return_def speaks_def)

lemma invalid_speaks: "ds \<noteq> [] \<Longrightarrow> speaks (invalid_result ds)"
  by (simp add: speaks_def)

lemma compare_dependencies_pass:
  "gv_status (compare_dependencies c s drift) = Eval_Pass \<longleftrightarrow> drift = [] \<and> dependencies_match c s"
proof (cases "dget_default c ''dependencies'' (PDict [])")
  case (PDict ds)
  show ?thesis
    by (auto simp: PDict compare_dependencies_def dependencies_match_def unless_returned_pass early_returns
        attestation_verdict_pass undeclared_drift_def all_dependency_findings_Nil [symmetric])
qed (simp_all add: compare_dependencies_def dependencies_match_def)

lemma compare_dependencies_speaks: "speaks (compare_dependencies c s drift)"
proof (cases "dget_default c ''dependencies'' (PDict [])")
  case (PDict ds)
  have "speaks (attestation_verdict d i)" for d i
    by (simp add: speaks_def attestation_verdict_def)
  then show ?thesis
    by (auto simp: PDict compare_dependencies_def intro!: unless_returned_speaks intro: early_returns(2))
qed (simp_all add: compare_dependencies_def invalid_speaks)

text \<open>What an attestation must agree with.\<close>

definition conforms ::
  "pydict \<Rightarrow> pydict \<Rightarrow> string option \<Rightarrow> pydict option \<Rightarrow> string option \<Rightarrow> bool"
where
  "conforms c a expected_digest expected_hashes expected_mode \<longleftrightarrow>
     (let s = attestation_sets a
      in (\<exists>node. dget_none c ''node'' = PDict node \<and> node_matches node a) \<and>
         (\<forall>d. expected_digest = Some d \<longrightarrow>
            re_fullmatch SHA256_PATTERN d \<and> dget_none a ''contract_digest'' = PStr d) \<and>
         (\<forall>m. expected_mode = Some m \<longrightarrow> dget_none a ''policy_mode'' = PStr m) \<and>
         (\<forall>d. expected_hashes = Some d \<longrightarrow>
            list_all tracked_hash d \<and> map_of (fst (validate_hashes (PDict d))) = map_of (as_hashes s)) \<and>
         inventory_matches c ''actions'' (names_in (dget_none a ''action_inventory'')) \<and>
         inventory_matches c ''tools'' (names_in (dget_none a ''tool_inventory'')) \<and>
         inventory_matches c ''events'' (names_in (dget_none a ''event_inventory'')) \<and>
         dependencies_match c s)"

text \<open>
  C23: an attestation passes exactly when it is well formed (the twelve fields, a lowercase SHA-256
  digest, an aware timestamp, arrays of unique names, safe hash paths, consistent readiness
  entries) and conforms to the constitution: node and versions agree, the expected digest, mode and
  hashes hold, each inventory is the set of declared names, every required dependency is ready and
  nothing is undeclared. Every other attestation gets at least one diagnostic.
\<close>

theorem attestation_passes:
  "(gv_status (compare_attestation reader (PDict c) (PDict a) ed eh em) = Eval_Pass \<longleftrightarrow>
      wellformed_attestation reader a \<and> conforms c a ed eh em) \<and>
   (gv_diagnostics (compare_attestation reader (PDict c) (PDict a) ed eh em) = [] \<longleftrightarrow>
      gv_status (compare_attestation reader (PDict c) (PDict a) ed eh em) = Eval_Pass)"
proof (cases "wellformed_attestation reader a \<and> (\<exists>node. dget_none c ''node'' = PDict node)")
  case False
  then have "\<exists>ds. ds \<noteq> [] \<and> compare_attestation reader (PDict c) (PDict a) ed eh em = invalid_result ds"
    unfolding attestation_errors_Nil [symmetric] by (auto simp: compare_attestation_def Let_def)
  moreover have "\<not> (wellformed_attestation reader a \<and> conforms c a ed eh em)"
    using False by (auto simp: conforms_def Let_def)
  ultimately show ?thesis by auto
next
  case True
  then obtain node where node: "dget_none c ''node'' = PDict node" by blast
  then have "fst (node_of c) = node" by (simp add: node_of_def)
  have valid: "missing_names ATTESTATION_REQUIRED a = []" "attestation_errors reader c a = []"
    using True attestation_errors_Nil by blast+
  have names: "as_actions (attestation_sets a) = names_in (dget_none a ''action_inventory'')"
    "as_tools (attestation_sets a) = names_in (dget_none a ''tool_inventory'')"
    "as_events (attestation_sets a) = names_in (dget_none a ''event_inventory'')"
    using True by (simp_all add: wellformed_attestation_def attestation_sets_def string_set_names)
  have "gv_status (compare_attestation reader (PDict c) (PDict a) ed eh em) = Eval_Pass \<longleftrightarrow> conforms c a ed eh em"
    unfolding compare_attestation_def conforms_def names [symmetric]
    by (simp add: Let_def valid unless_returned_pass early_returns compare_dependencies_pass node
        \<open>fst (node_of c) = node\<close> node_drift_Nil mode_drift_Nil digest_drift_Nil
        hashes_drift_Nil inventory_drift_Nil) blast
  moreover have "speaks (compare_attestation reader (PDict c) (PDict a) ed eh em)"
    by (simp add: compare_attestation_def Let_def valid)
      (intro unless_returned_speaks compare_dependencies_speaks; erule early_returns)
  ultimately show ?thesis
    using True by (simp add: speaks_def)
qed

end
