(* ===== verification/Governance_Reports.thy ===== *)
theory Governance_Reports
  imports Governance_Models Governance_Digest Py_Regex
begin

text \<open>
  \<open>l9_ci/governance/reports.py\<close>: validation of evidence reports of untrusted producers, over a report
  as JSON gives it, a tree: no value occurs twice, so the identities \<open>_walk\<close> remembers never stop it.
  What \<open>urllib.parse\<close> says of a host in brackets is the parameter \<open>host_check\<close>.
\<close>

subsection \<open>Secrets\<close>

definition SECRET :: regex where
  "SECRET =
     Seqs [Word_boundary,
       Group_re 1 (Alts
         [Seqs [Lit_nocase ''api'', Opt_re (Chars (\<lambda>c. c = CHR ''_'' \<or> c = CHR ''-'')), Lit_nocase ''key''],
          Seqs [Lit_nocase ''client'', Opt_re (Chars (\<lambda>c. c = CHR ''_'' \<or> c = CHR ''-'')), Lit_nocase ''secret''],
          Lit_nocase ''secret'',
          Seqs [Lit_nocase ''access'', Opt_re (Chars (\<lambda>c. c = CHR ''_'' \<or> c = CHR ''-'')), Lit_nocase ''token''],
          Lit_nocase ''password'']),
       Word_boundary, Star_re (Chars re_space), Chars (\<lambda>c. c = CHR '':'' \<or> c = CHR ''=''),
       Star_re (Chars re_space),
       Group_re 2 (Plus_re (Chars (\<lambda>c. \<not> re_space c \<and> c \<noteq> CHR '','' \<and> c \<noteq> CHR '';'')))]"

definition REDACTED :: "string list" where
  "REDACTED = [''[redacted]'', ''<redacted>'', ''redacted'', ''***'', ''xxxxx'']"

definition contains_secret :: "string \<Rightarrow> bool" where
  "contains_secret s \<longleftrightarrow>
     list_ex (\<lambda>m. py_lower (py_strip (group_of 2 m)) \<notin> set REDACTED) (find_all SECRET None s)"

subsection \<open>Absolute paths\<close>

text \<open>
  \<open>PureWindowsPath(s).is_absolute()\<close>: both a drive and a root, after the split of Python 3.11 into an
  extended prefix, a drive or a share, and the rest.
\<close>

definition split_extended :: "string \<Rightarrow> string \<times> string" where
  "split_extended s =
     (if starts_with [CHR 0x5C, CHR 0x5C, CHR ''?'', CHR 0x5C] s then
        (let rest = drop 4 s
         in if starts_with (''UNC'' @ [CHR 0x5C]) rest then (take 7 s, CHR 0x5C # drop 3 rest)
            else (take 4 s, rest))
      else ([], s))"

definition has_share :: "string \<Rightarrow> bool" where
  "has_share p \<longleftrightarrow>
     take 2 p = [CHR 0x5C, CHR 0x5C] \<and> take 1 (drop 2 p) \<noteq> [CHR 0x5C] \<and>
     (let host = drop 2 p
      in CHR 0x5C \<in> set host \<and> take 1 (after_char CHR 0x5C host) \<noteq> [CHR 0x5C])"

definition has_drive :: "string \<Rightarrow> bool" where
  "has_drive p \<longleftrightarrow>
     (case p of c # d # _ \<Rightarrow> (ascii_lower c \<or> ascii_upper c) \<and> d = CHR '':'' | _ \<Rightarrow> False)"

definition windows_absolute :: "string \<Rightarrow> bool" where
  "windows_absolute s \<longleftrightarrow>
     (let w = replace_char CHR ''/'' CHR 0x5C s;
          (prefix, p) = (if take 2 w = [CHR 0x5C, CHR 0x5C] then split_extended w else ([], w))
      in has_share p \<or>
         (if has_drive p then take 1 (drop 2 p) = [CHR 0x5C]
          else prefix \<noteq> [] \<and> take 1 p = [CHR 0x5C]))"

text \<open>
  The part of \<open>urlparse\<close> that is used: scheme, network location and path. A path parameter is split
  off for other schemes than \<open>file\<close> only, whose path is not looked at.
\<close>

record parsed_url =
  ur_scheme :: string
  ur_netloc :: string
  ur_path :: string

definition clean_url :: "string \<Rightarrow> string" where
  "clean_url s =
     filter (\<lambda>c. c \<notin> {CHR 0x09, CHR 0x0D, CHR 0x0A}) (dropWhile (\<lambda>c. (of_char c :: nat) \<le> 32) s)"

definition scheme_char :: "char \<Rightarrow> bool" where
  "scheme_char c \<longleftrightarrow> ascii_lower c \<or> ascii_upper c \<or> is_digit c \<or> c \<in> {CHR ''+'', CHR ''-'', CHR ''.''}"

definition split_scheme :: "string \<Rightarrow> string \<times> string" where
  "split_scheme u =
     (let scheme = before_char CHR '':'' u
      in if CHR '':'' \<in> set u \<and> scheme \<noteq> [] \<and> (ascii_lower (hd scheme) \<or> ascii_upper (hd scheme)) \<and>
            list_all scheme_char scheme
         then (py_lower scheme, after_char CHR '':'' u) else ([], u))"

definition split_netloc :: "string \<Rightarrow> string \<times> string" where
  "split_netloc u =
     (if starts_with ''//'' u then
        (let rest = drop 2 u; delim = (\<lambda>c. c \<in> {CHR ''/'', CHR ''?'', CHR ''#''})
         in (takeWhile (\<lambda>c. \<not> delim c) rest, dropWhile (\<lambda>c. \<not> delim c) rest))
      else ([], u))"

definition check_netloc :: "(string \<Rightarrow> unit result) \<Rightarrow> string \<Rightarrow> unit result" where
  "check_netloc host_check netloc =
     (if (CHR ''['' \<in> set netloc) \<noteq> (CHR '']'' \<in> set netloc) then Inl (ValueError ''Invalid IPv6 URL'')
      else if CHR ''['' \<in> set netloc then host_check (before_char CHR '']'' (after_char CHR ''['' netloc))
      else Inr ())"

definition url_parse :: "(string \<Rightarrow> unit result) \<Rightarrow> string \<Rightarrow> parsed_url result" where
  "url_parse host_check s =
     (case split_scheme (clean_url s) of
        (scheme, rest) \<Rightarrow>
          (case split_netloc rest of
             (netloc, path) \<Rightarrow>
               and_then (check_netloc host_check netloc) (\<lambda>_.
               Inr \<lparr>ur_scheme = scheme, ur_netloc = netloc,
                    ur_path = before_char CHR ''?'' (before_char CHR ''#'' path)\<rparr>)))"

text \<open>
  \<open>unquote\<close> up to the decoding: a byte of a multi-byte sequence is kept as a character, and no such
  character is one the tests on the path look at.
\<close>

fun hex_value :: "char \<Rightarrow> nat" where
  "hex_value c =
     (let n = of_char c :: nat
      in if is_digit c then n - 48 else if CHR ''a'' \<le> c then n - 87 else n - 55)"

fun unquote :: "string \<Rightarrow> string" where
  "unquote (c # a # b # s) =
     (if c = CHR ''%'' \<and> any_hex a \<and> any_hex b then char_of (16 * hex_value a + hex_value b) # unquote s
      else c # unquote (a # b # s))"
| "unquote s = s"

definition looks_absolute :: "(string \<Rightarrow> unit result) \<Rightarrow> string \<Rightarrow> bool result" where
  "looks_absolute host_check s =
     (let stripped = py_strip s
      in if windows_absolute stripped \<or> posix_absolute stripped then Inr True
         else and_then (url_parse host_check stripped) (\<lambda>u.
           Inr (ur_scheme u = ''file'' \<and>
                (ur_netloc u \<noteq> [] \<or> posix_absolute (unquote (ur_path u)) \<or>
                 windows_absolute (dropWhile (\<lambda>c. c = CHR ''/'') (unquote (ur_path u)))))))"

subsection \<open>Walking a report\<close>

definition child_path :: "string \<Rightarrow> pyval \<Rightarrow> string" where
  "child_path path key = (if path \<noteq> [] then path @ ''.'' @ py_str key else py_str key)"

definition item_path :: "string \<Rightarrow> nat \<Rightarrow> string" where
  "item_path path i = path @ ''['' @ string_of_nat i @ '']''"

fun walk_report :: "string \<Rightarrow> pyval \<Rightarrow> (string \<times> pyval) list" where
  "walk_report path (PDict kvs) =
     (path, PDict kvs) # concat (map (\<lambda>(k, v). walk_report (child_path path k) v) kvs)"
| "walk_report path (PList xs) =
     (path, PList xs) # concat (map (\<lambda>(i, v). walk_report (item_path path i) v) (zip [0..<length xs] xs))"
| "walk_report path v = [(path, v)]"

definition text_findings :: "(string \<Rightarrow> unit result) \<Rightarrow> string \<times> pyval \<Rightarrow> diagnostic list result" where
  "text_findings host_check entry =
     (case snd entry of
        PStr s \<Rightarrow>
          and_then (looks_absolute host_check s) (\<lambda>absolute.
          Inr ((if contains_secret s then
                  [diag ''report.secret_material_detected'' ''secret-like material is forbidden'' (fst entry)]
                else []) @
               (if absolute then
                  [diag ''report.absolute_path_detected'' ''absolute paths are forbidden'' (fst entry)]
                else [])))
      | _ \<Rightarrow> Inr [])"

subsection \<open>The shape of a report\<close>

definition REPORT_REQUIRED :: "(string \<times> (pyval \<Rightarrow> bool)) list" where
  "REPORT_REQUIRED =
     [(''schema'', is_str), (''report_id'', is_str), (''producer'', is_mapping), (''subject'', is_mapping),
      (''operation'', is_mapping), (''outcome'', is_mapping), (''evidence_refs'', is_list),
      (''diagnostics'', is_list), (''limitations'', is_list), (''provenance'', is_mapping)]"

definition required_field :: "pydict \<Rightarrow> string \<times> (pyval \<Rightarrow> bool) \<Rightarrow> diagnostic list" where
  "required_field d f =
     (case dget d (fst f) of
        None \<Rightarrow> [diag ''report.required_missing''
                  (''required report field '' @ repr_string (fst f) @ '' is missing'') (fst f)]
      | Some v \<Rightarrow>
          if snd f v then []
          else [diag ''report.field_type_invalid'' (fst f @ '' has an invalid type'') (fst f)])"

definition OUTCOME_STATUSES :: "string list" where
  "OUTCOME_STATUSES = [''pass'', ''fail'', ''incomplete'', ''invalid'']"

definition outcome_findings :: "pydict \<Rightarrow> diagnostic list result" where
  "outcome_findings d =
     (case dget_none d ''outcome'' of
        PDict outcome \<Rightarrow>
          (let status = dget_none outcome ''status''
           in if \<not> hashable status then
                Inl (TypeError (''unhashable type: '' @ repr_string (py_type_name status)))
              else if status \<notin> PStr ` set OUTCOME_STATUSES then
                Inr [diag ''report.outcome_invalid'' ''outcome.status is invalid'' ''outcome.status'']
              else Inr [])
      | _ \<Rightarrow> Inr [])"

definition shape_findings :: "pydict \<Rightarrow> diagnostic list" where
  "shape_findings d =
     concat (map (required_field d) REPORT_REQUIRED) @
     (if dget_none d ''schema'' \<noteq> PStr ''l9.evidence-report/v1'' then
        [diag ''report.schema_unsupported'' ''schema must be l9.evidence-report/v1'' ''schema'']
      else []) @
     (case dget_none d ''report_id'' of
        PStr s \<Rightarrow> if blank s then [diag ''report.report_id_invalid'' ''report_id must be non-empty'' ''report_id''] else []
      | _ \<Rightarrow> []) @
     (case dget_none d ''producer'' of
        PDict producer \<Rightarrow>
          if \<not> non_blank_str (dget_none producer ''id'') then
            [diag ''report.producer_invalid'' ''producer.id must be a non-empty string'' ''producer.id'']
          else []
      | _ \<Rightarrow> [])"

definition collection_findings :: "pydict \<Rightarrow> diagnostic list" where
  "collection_findings d =
     (case dget_none d ''evidence_refs'' of
        PList refs \<Rightarrow>
          if \<not> list_all non_blank_str refs then
            [diag ''report.evidence_ref_invalid'' ''evidence_refs must contain non-empty strings'' ''evidence_refs'']
          else if \<not> distinct refs then
            [diag ''report.evidence_ref_duplicate'' ''evidence_refs must contain unique values'' ''evidence_refs'']
          else []
      | _ \<Rightarrow> []) @
     (case dget_none d ''limitations'' of
        PList items \<Rightarrow>
          if \<not> list_all non_blank_str items then
            [diag ''report.limitation_invalid'' ''limitations must contain non-empty strings'' ''limitations'']
          else []
      | _ \<Rightarrow> [])"

definition validate_governed_report :: "(string \<Rightarrow> unit result) \<Rightarrow> pyval \<Rightarrow> evaluation_result result" where
  "validate_governed_report host_check report =
     (case report of
        PDict d \<Rightarrow>
          and_then (outcome_findings d) (\<lambda>outcome.
          and_then (map_res (text_findings host_check) (walk_report [] report)) (\<lambda>texts.
          let diagnostics = shape_findings d @ outcome @ collection_findings d @ concat texts
          in Inr (EvaluationResult (if diagnostics \<noteq> [] then Eval_Invalid else Eval_Pass) diagnostics [])))
      | _ \<Rightarrow> Inr (invalid_result [diag ''report.input_invalid'' ''report must be a mapping'' []]))"

subsection \<open>What a passing report is\<close>

fun report_clean :: "(string \<Rightarrow> unit result) \<Rightarrow> pyval \<Rightarrow> bool" where
  "report_clean host_check (PStr s) \<longleftrightarrow> \<not> contains_secret s \<and> looks_absolute host_check s = Inr False"
| "report_clean host_check (PList xs) \<longleftrightarrow> list_all (report_clean host_check) xs"
| "report_clean host_check (PDict kvs) \<longleftrightarrow> list_all (\<lambda>(k, v). report_clean host_check v) kvs"
| "report_clean host_check _ \<longleftrightarrow> True"

definition wellformed_report :: "pydict \<Rightarrow> bool" where
  "wellformed_report d \<longleftrightarrow>
     list_all (\<lambda>(name, typed). \<exists>v. dget d name = Some v \<and> typed v) REPORT_REQUIRED \<and>
     dget_none d ''schema'' = PStr ''l9.evidence-report/v1'' \<and>
     non_blank_str (dget_none d ''report_id'') \<and>
     (\<exists>producer. dget_none d ''producer'' = PDict producer \<and> non_blank_str (dget_none producer ''id'')) \<and>
     (\<exists>outcome s. dget_none d ''outcome'' = PDict outcome \<and> dget_none outcome ''status'' = PStr s \<and>
        s \<in> set OUTCOME_STATUSES) \<and>
     (\<exists>refs. dget_none d ''evidence_refs'' = PList refs \<and> list_all non_blank_str refs \<and> distinct refs) \<and>
     (\<exists>items. dget_none d ''limitations'' = PList items \<and> list_all non_blank_str items)"

lemma text_findings_container [simp]:
  "text_findings host_check (path, PDict kvs) = Inr []" "text_findings host_check (path, PList xs) = Inr []"
  by (simp_all add: text_findings_def)

lemma list_all_concat_map: "list_all P (concat (map f xs)) \<longleftrightarrow> list_all (\<lambda>x. list_all P (f x)) xs"
  by (induction xs) auto

lemma walk_report_clean:
  "list_all (\<lambda>e. text_findings host_check e = Inr []) (walk_report path v) \<longleftrightarrow> report_clean host_check v"
proof (induction path v rule: walk_report.induct)
  case (1 path kvs)
  have "list_all (\<lambda>e. text_findings host_check e = Inr []) (walk_report path (PDict kvs)) \<longleftrightarrow>
      list_all (\<lambda>(k, v). list_all (\<lambda>e. text_findings host_check e = Inr []) (walk_report (child_path path k) v)) kvs"
    by (simp add: list_all_concat_map case_prod_unfold)
  also have "\<dots> \<longleftrightarrow> list_all (\<lambda>(k, v). report_clean host_check v) kvs"
    using 1 by (intro list.pred_cong refl) (simp add: case_prod_unfold)
  finally show ?case by simp
next
  case (2 path xs)
  have "list_all (\<lambda>e. text_findings host_check e = Inr []) (walk_report path (PList xs)) \<longleftrightarrow>
      list_all (\<lambda>(i, v). list_all (\<lambda>e. text_findings host_check e = Inr []) (walk_report (item_path path i) v))
        (zip [0..<length xs] xs)"
    by (simp add: list_all_concat_map case_prod_unfold)
  also have "\<dots> \<longleftrightarrow> list_all (\<lambda>(i, v). report_clean host_check v) (zip [0..<length xs] xs)"
    using 2 by (intro list.pred_cong refl) (simp add: case_prod_unfold)
  also have "\<dots> \<longleftrightarrow> list_all (report_clean host_check) (map snd (zip [0..<length xs] xs))"
    by (simp only: list.pred_map comp_def case_prod_unfold)
  finally show ?case by simp
qed (auto simp: text_findings_def and_then_eq_Inr)

lemma required_field_Nil: "required_field d f = [] \<longleftrightarrow> (\<exists>v. dget d (fst f) = Some v \<and> snd f v)"
  by (auto simp: required_field_def split: option.split)

lemma required_fields_Nil:
  "concat (map (required_field d) REPORT_REQUIRED) = [] \<longleftrightarrow>
     list_all (\<lambda>(name, typed). \<exists>v. dget d name = Some v \<and> typed v) REPORT_REQUIRED"
  by (simp add: list_all_iff case_prod_unfold required_field_Nil)

lemma required_kinds:
  assumes "list_all (\<lambda>(name, typed). \<exists>v. dget d name = Some v \<and> typed v) REPORT_REQUIRED"
  shows "is_str (dget_none d ''report_id'')" "is_mapping (dget_none d ''producer'')"
    "is_mapping (dget_none d ''outcome'')" "is_list (dget_none d ''evidence_refs'')"
    "is_list (dget_none d ''limitations'')"
  using assms by (auto simp: REPORT_REQUIRED_def dget_none_def)

lemma shape_Nil:
  "shape_findings d = [] \<and> outcome_findings d = Inr [] \<and> collection_findings d = [] \<longleftrightarrow> wellformed_report d"
proof (cases "list_all (\<lambda>(name, typed). \<exists>v. dget d name = Some v \<and> typed v) REPORT_REQUIRED")
  case False
  then have "shape_findings d \<noteq> []" unfolding shape_findings_def required_fields_Nil [symmetric] by blast
  with False show ?thesis unfolding wellformed_report_def by blast
next
  case True
  obtain rid producer outcome refs items where parts:
    "dget_none d ''report_id'' = PStr rid" "dget_none d ''producer'' = PDict producer"
    "dget_none d ''outcome'' = PDict outcome" "dget_none d ''evidence_refs'' = PList refs"
    "dget_none d ''limitations'' = PList items"
    using required_kinds [OF True] by (metis is_list.elims(2) is_mapping.elims(2) is_str.elims(2))
  have "shape_findings d = [] \<longleftrightarrow> dget_none d ''schema'' = PStr ''l9.evidence-report/v1'' \<and> \<not> blank rid \<and>
      non_blank_str (dget_none producer ''id'')"
    using True [folded required_fields_Nil] by (simp add: shape_findings_def parts)
  moreover have "outcome_findings d = Inr [] \<longleftrightarrow>
      (\<exists>s. dget_none outcome ''status'' = PStr s \<and> s \<in> set OUTCOME_STATUSES)"
    by (cases "dget_none outcome ''status''") (auto simp: outcome_findings_def parts Let_def)
  moreover have "collection_findings d = [] \<longleftrightarrow>
      list_all non_blank_str refs \<and> distinct refs \<and> list_all non_blank_str items"
    by (simp add: collection_findings_def parts)
  ultimately show ?thesis
    using True by (auto simp: wellformed_report_def parts)
qed

lemma texts_Nil:
  assumes "map_res (text_findings host_check) es = Inr texts"
  shows "concat texts = [] \<longleftrightarrow> (\<forall>e \<in> set es. text_findings host_check e = Inr [])"
  using assms by (induction es arbitrary: texts) (auto simp: and_then_eq_Inr)

text \<open>
  C37: a report passes exactly when it is well formed and clean: every required field with its type,
  the supported schema, non-empty identifiers, a known outcome, unique evidence references, and
  nowhere in the tree a text that holds a secret or looks like an absolute path. Every other report
  that is evaluated is invalid and has a diagnostic.
\<close>

theorem report_passes:
  assumes "validate_governed_report host_check (PDict d) = Inr r"
  shows "(gv_status r = Eval_Pass \<longleftrightarrow> wellformed_report d \<and> report_clean host_check (PDict d)) \<and>
    (gv_status r \<noteq> Eval_Pass \<longrightarrow> gv_status r = Eval_Invalid \<and> gv_diagnostics r \<noteq> [])"
proof -
  obtain outcome texts where o: "outcome_findings d = Inr outcome"
    and t: "map_res (text_findings host_check) (walk_report [] (PDict d)) = Inr texts"
    and r: "r = EvaluationResult
      (if shape_findings d @ outcome @ collection_findings d @ concat texts \<noteq> [] then Eval_Invalid else Eval_Pass)
      (shape_findings d @ outcome @ collection_findings d @ concat texts) []"
    using assms by (auto simp: validate_governed_report_def and_then_eq_Inr Let_def simp del: walk_report.simps)
  have "concat texts = [] \<longleftrightarrow> report_clean host_check (PDict d)"
    using texts_Nil [OF t] walk_report_clean unfolding list_all_iff by blast
  with shape_Nil [of d] o r show ?thesis
    by (auto simp del: concat_eq_Nil_conv report_clean.simps)
qed

subsection \<open>Concrete reports\<close>

definition sample_report_document :: "string \<Rightarrow> pydict" where
  "sample_report_document note =
     [(PStr ''schema'', PStr ''l9.evidence-report/v1''), (PStr ''report_id'', PStr ''r1''),
      (PStr ''producer'', PDict [(PStr ''id'', PStr ''ci'')]), (PStr ''subject'', PDict []),
      (PStr ''operation'', PDict []), (PStr ''outcome'', PDict [(PStr ''status'', PStr ''pass'')]),
      (PStr ''evidence_refs'', PList [PStr ''e1'']), (PStr ''diagnostics'', PList []),
      (PStr ''limitations'', PList [PStr note]), (PStr ''provenance'', PDict [])]"

lemma sample_report_status:
  "map_sum id gv_status (validate_governed_report (\<lambda>_. Inr ()) (PDict (sample_report_document ''no ml''))) =
   Inr Eval_Pass"
  by code_simp

theorem report_passes_witness:
  "wellformed_report (sample_report_document ''no ml'') \<and>
   report_clean (\<lambda>_. Inr ()) (PDict (sample_report_document ''no ml''))"
proof -
  obtain r where r: "validate_governed_report (\<lambda>_. Inr ()) (PDict (sample_report_document ''no ml'')) = Inr r"
    "gv_status r = Eval_Pass"
    using sample_report_status
    by (cases "validate_governed_report (\<lambda>_. Inr ()) (PDict (sample_report_document ''no ml''))") auto
  with report_passes [OF r(1)] show ?thesis by blast
qed

text \<open>
  A secret is found in a text, a redacted one is not; and a text with an unbalanced bracket in a
  network location, from an untrusted producer, makes the validation raise.
\<close>

lemma secret_examples:
  "contains_secret ''api_key: abc''" "\<not> contains_secret ''password=[REDACTED]''"
  "looks_absolute (\<lambda>_. Inr ()) ''file://h/x'' = Inr True" "looks_absolute (\<lambda>_. Inr ()) ''C:/x'' = Inr True"
  by code_simp+

lemma malformed_url_raises: "looks_absolute host_check ''http://['' = Inl (ValueError ''Invalid IPv6 URL'')"
  by code_simp

end
