(* ===== verification/Governance_Lint.thy ===== *)
theory Governance_Lint
  imports Py_Value
begin

text \<open>
  \<open>lint/check_governance_json.py\<close>: the strict reading of the governance documents and the checks of
  their contents. The JSON parser is part of Python; a parsed text is given as a tree whose objects
  still hold every pair of the text, and the hook that rejects repeated keys is run on it, innermost
  objects first as the decoder does. A text with both a repeated key and a later syntax error is
  reported for the syntax error; both are a \<open>ValueError\<close> for the caller.
\<close>

datatype raw_json =
    Raw_Scalar pyval
  | Raw_List "raw_json list"
  | Raw_Object "(string \<times> raw_json) list"

definition dict_of_pairs :: "(string \<times> pyval) list \<Rightarrow> pyval" where
  "dict_of_pairs pairs = PDict (fold (\<lambda>(k, v). dict_put (PStr k) v) pairs [])"

fun repeated_key :: "string list \<Rightarrow> string list \<Rightarrow> string option" where
  "repeated_key seen [] = None"
| "repeated_key seen (k # ks) = (if k \<in> set seen then Some k else repeated_key (k # seen) ks)"

definition reject_duplicate_keys :: "(string \<times> pyval) list \<Rightarrow> pyval result" where
  "reject_duplicate_keys pairs =
     (case repeated_key [] (map fst pairs) of
        Some k \<Rightarrow> Inl (ValueError (''duplicate key: '' @ repr_string k))
      | None \<Rightarrow> Inr (dict_of_pairs pairs))"

text \<open>\<open>json.loads(text, object_pairs_hook=hook)\<close>, and \<open>json.loads(text)\<close>.\<close>

fun json_decode :: "((string \<times> pyval) list \<Rightarrow> pyval result) \<Rightarrow> raw_json \<Rightarrow> pyval result" where
  "json_decode hook (Raw_Scalar v) = Inr v"
| "json_decode hook (Raw_List ts) = and_then (map_res (json_decode hook) ts) (\<lambda>vs. Inr (PList vs))"
| "json_decode hook (Raw_Object kts) =
     and_then (map_res (\<lambda>(k, t). and_then (json_decode hook t) (\<lambda>v. Inr (k, v))) kts) hook"

definition json_loads :: "raw_json \<Rightarrow> pyval result" where
  "json_loads = json_decode (\<lambda>pairs. Inr (dict_of_pairs pairs))"

definition load_strict :: "raw_json result \<Rightarrow> pyval result" where
  "load_strict source = and_then source (json_decode reject_duplicate_keys)"

subsection \<open>The checks\<close>

definition REQUIRED_PROFILES :: "string list" where
  "REQUIRED_PROFILES = [''pr_fast'', ''merge'', ''nightly'', ''release'', ''supply_chain'']"

definition LINT_MODES :: "string list" where
  "LINT_MODES = [''blocking'', ''advisory'', ''shadow'', ''disabled'']"

definition PROFILE_KEYS :: "string list" where
  "PROFILE_KEYS = [''sdk_profile'', ''strict'', ''default_mode'', ''providers'', ''allowed_events'']"

definition SDK_PROFILES :: "string list" where
  "SDK_PROFILES = [''ci_fast'', ''ci_deep'']"

definition WAIVER_KEYS :: "string list" where
  "WAIVER_KEYS = [''id'', ''owner'', ''reason'', ''created'', ''expires'', ''scope'']"

text \<open>\<open>value in {...}\<close> for a set of strings, which hashes the value.\<close>

definition in_strings :: "string list \<Rightarrow> pyval \<Rightarrow> bool result" where
  "in_strings names v =
     (if hashable v then Inr (v \<in> PStr ` set names)
      else Inl (TypeError (''unhashable type: '' @ repr_string (py_type_name v))))"

definition sorted_repr :: "string list \<Rightarrow> string" where
  "sorted_repr names = py_repr (PList (map PStr (sort names)))"

definition reported :: "bool \<Rightarrow> string \<Rightarrow> string \<Rightarrow> string list" where
  "reported ok path message = (if ok then [] else [path @ '': '' @ message])"

definition nonempty_array :: "pyval \<Rightarrow> bool" where
  "nonempty_array v = (case v of PList xs \<Rightarrow> xs \<noteq> [] | _ \<Rightarrow> False)"

definition profile_errors :: "string \<Rightarrow> pyval \<times> pyval \<Rightarrow> string list result" where
  "profile_errors path entry =
     (let at = ''profile '' @ py_str (fst entry)
      in case snd entry of
           PDict p \<Rightarrow>
             and_then (in_strings SDK_PROFILES (dget_none p ''sdk_profile'')) (\<lambda>sdk.
             and_then (in_strings LINT_MODES (dget_none p ''default_mode'')) (\<lambda>mode.
             Inr (concat (map (\<lambda>k. reported (dget p k \<noteq> None) path (at @ '' missing '' @ k)) PROFILE_KEYS) @
               reported sdk path (at @ '' sdk_profile must be ci_fast or ci_deep'') @
               reported (is_bool (dget_none p ''strict'')) path (at @ '' strict must be boolean'') @
               reported mode path (at @ '' default_mode invalid'') @
               reported (nonempty_array (dget_none p ''providers'')) path
                 (at @ '' providers must be a non-empty array'') @
               reported (nonempty_array (dget_none p ''allowed_events'')) path
                 (at @ '' allowed_events must be a non-empty array''))))
         | _ \<Rightarrow> Inr (reported False path (at @ '' must be an object'')))"

definition check_execution_profiles :: "pydict \<Rightarrow> string \<Rightarrow> string list result" where
  "check_execution_profiles doc path =
     (case dget_none doc ''profiles'' of
        PDict profiles \<Rightarrow>
          (let names = map (the_str \<circ> fst) profiles
           in and_then (map_res (profile_errors path) profiles) (\<lambda>ess.
              Inr (reported (set names = set REQUIRED_PROFILES) path
                     (''profile set must be exactly '' @ sorted_repr REQUIRED_PROFILES @ '', got '' @
                      sorted_repr names) @
                   concat ess)))
      | _ \<Rightarrow> Inr (reported False path ''profiles must be an object''))"

definition provider_errors :: "string \<Rightarrow> pyval \<times> pyval \<Rightarrow> string list" where
  "provider_errors path entry =
     (case snd entry of
        PDict mapping \<Rightarrow>
          if mapping = [] then reported False path (''profile '' @ py_str (fst entry) @ '' must map providers to booleans'')
          else concat (map (\<lambda>(provider, required).
                 reported (is_bool required) path (py_str (fst entry) @ ''.'' @ py_str provider @
                   '' must be boolean, got '' @ py_repr required)) mapping)
      | _ \<Rightarrow> reported False path (''profile '' @ py_str (fst entry) @ '' must map providers to booleans''))"

definition check_requiredness :: "pydict \<Rightarrow> string \<Rightarrow> string list result" where
  "check_requiredness doc path =
     (case dget_none doc ''profiles'' of
        PDict profiles \<Rightarrow> Inr (concat (map (provider_errors path) profiles))
      | _ \<Rightarrow> Inr (reported False path ''profiles must be an object''))"

definition allowed_errors :: "pydict \<Rightarrow> string \<Rightarrow> string list result" where
  "allowed_errors doc path =
     (let allowed = dget_none doc ''allowed_modes''
      in if allowed = PNone then Inr []
         else
           and_then (py_iter allowed) (\<lambda>vs.
           case find (\<lambda>v. \<not> hashable v) vs of
             Some v \<Rightarrow> Inl (TypeError (''unhashable type: '' @ repr_string (py_type_name v)))
           | None \<Rightarrow> Inr (reported (set vs = PStr ` set LINT_MODES) path
                       (''allowed_modes must equal '' @ sorted_repr LINT_MODES))))"

definition default_mode_errors :: "string \<Rightarrow> pyval \<times> pyval \<Rightarrow> string list result" where
  "default_mode_errors path entry =
     and_then (in_strings LINT_MODES (snd entry)) (\<lambda>ok.
     Inr (reported ok path (''defaults.'' @ py_str (fst entry) @ '' invalid mode '' @ py_repr (snd entry))))"

definition check_rule_modes :: "pydict \<Rightarrow> string \<Rightarrow> string list result" where
  "check_rule_modes doc path =
     and_then (allowed_errors doc path) (\<lambda>es.
     case dget_default doc ''defaults'' (PDict []) of
       PDict defaults \<Rightarrow> and_then (map_res (default_mode_errors path) defaults) (\<lambda>ess. Inr (es @ concat ess))
     | _ \<Rightarrow> Inr (es @ reported False path ''defaults must be an object''))"

fun waiver_errors :: "string \<Rightarrow> string list \<Rightarrow> pyval list \<Rightarrow> string list" where
  "waiver_errors path seen [] = []"
| "waiver_errors path seen (PDict entry # es) =
     concat (map (\<lambda>k. reported (dget entry k \<noteq> None) path (''waiver missing '' @ k)) WAIVER_KEYS) @
     (case dget_none entry ''id'' of
        PStr wid \<Rightarrow> reported (wid \<notin> set seen) path (''duplicate waiver id '' @ wid) @
                   waiver_errors path (wid # seen) es
      | _ \<Rightarrow> waiver_errors path seen es)"
| "waiver_errors path seen (_ # es) =
     reported False path ''each waiver must be an object'' @ waiver_errors path seen es"

definition check_waivers :: "pydict \<Rightarrow> string \<Rightarrow> string list result" where
  "check_waivers doc path =
     (case dget_none doc ''waivers'' of
        PNone \<Rightarrow> Inr []
      | PList entries \<Rightarrow> Inr (waiver_errors path [] entries)
      | _ \<Rightarrow> Inr (reported False path ''waivers must be an array''))"

text \<open>\<open>CHECKS\<close>: the check of a document by its file name.\<close>

definition run_check :: "string \<Rightarrow> pydict \<Rightarrow> string \<Rightarrow> string list result" where
  "run_check name doc path =
     (if name = ''execution-profiles.yaml'' then check_execution_profiles doc path
      else if name = ''provider-requiredness.yaml'' then check_requiredness doc path
      else if name = ''rule-modes.yaml'' then check_rule_modes doc path
      else if name = ''waivers.yaml'' then check_waivers doc path
      else Inr [])"

subsection \<open>The command\<close>

text \<open>A file a pattern matches: its path, its name, the parts that order it, and its text as parsed.\<close>

record governance_file =
  gf_path :: string
  gf_name :: string
  gf_parts :: "string list"
  gf_source :: "raw_json result"

definition SKIP_JSON_PARSE :: "string list" where
  "SKIP_JSON_PARSE = [''l9-ci-shared-spec.yaml'', ''rule-modes.selfci.yaml'']"

definition document_errors :: "governance_file \<Rightarrow> string list result" where
  "document_errors f =
     (case load_strict (gf_source f) of
        Inl exc \<Rightarrow>
          if is_value_error exc then Inr (reported False (gf_path f) (''not valid JSON ('' @ exc_message exc @ '')''))
          else Inl exc
      | Inr (PDict doc) \<Rightarrow>
          and_then (run_check (gf_name f) doc (gf_path f)) (\<lambda>es.
          Inr (reported (dget doc ''schema'' \<noteq> None) (gf_path f) (''missing required '' @ repr_string ''schema'' @ '' key'') @ es))
      | Inr _ \<Rightarrow> Inr (reported False (gf_path f) ''top level must be a JSON object''))"

definition lint_line :: "string \<Rightarrow> string" where
  "lint_line error = ''::error file='' @ before_char CHR '':'' error @ ''::'' @ error"

text \<open>The files of each glob pattern, in any order; the exit code and the printed lines.\<close>

definition governance_lint :: "governance_file list list \<Rightarrow> (int \<times> string list) result" where
  "governance_lint listings =
     (let files = concat (map (sort_key gf_parts) listings);
          checked = filter (\<lambda>f. gf_name f \<notin> set SKIP_JSON_PARSE) files;
          skipped = length files - length checked
      in and_then (map_res document_errors checked) (\<lambda>ess.
         let errors = concat ess
         in Inr (if errors = [] then 0 else 1,
              (if files = [] then [''notice: no governance documents found''] else []) @
              map lint_line errors @
              [''checked '' @ string_of_nat (length checked) @ '' governance document(s), '' @
               ''skipped '' @ string_of_nat skipped @ '' real-YAML companion(s), '' @
               string_of_nat (length errors) @ '' error(s)''])))"

subsection \<open>Properties\<close>

text \<open>No object of the text repeats a key.\<close>

fun no_repeats :: "raw_json \<Rightarrow> bool" where
  "no_repeats (Raw_Scalar v) \<longleftrightarrow> True"
| "no_repeats (Raw_List ts) \<longleftrightarrow> list_all no_repeats ts"
| "no_repeats (Raw_Object kts) \<longleftrightarrow> distinct (map fst kts) \<and> list_all (\<lambda>(k, t). no_repeats t) kts"

lemma repeated_key_None: "repeated_key seen ks = None \<longleftrightarrow> distinct ks \<and> set ks \<inter> set seen = {}"
  by (induction ks arbitrary: seen) auto

lemma reject_duplicate_keys_Inr:
  "reject_duplicate_keys pairs = Inr v \<longleftrightarrow> distinct (map fst pairs) \<and> v = dict_of_pairs pairs"
  using repeated_key_None [of "[]" "map fst pairs"]
  by (cases "repeated_key [] (map fst pairs)") (auto simp: reject_duplicate_keys_def)

lemma list_all2_weaken:
  assumes "\<And>x y. x \<in> set xs \<Longrightarrow> P x y \<longleftrightarrow> R x \<and> Q x y"
  shows "list_all2 P xs ys \<longleftrightarrow> list_all R xs \<and> list_all2 Q xs ys"
  using assms by (induction xs arbitrary: ys) (auto simp: list_all2_Cons1)

lemma json_decode_keys:
  "map_res (\<lambda>(k, t). and_then (f t) (\<lambda>v. Inr (k, v))) kts = Inr kvs \<Longrightarrow> map fst kvs = map fst kts"
  by (induction kts arbitrary: kvs) (auto simp: and_then_eq_Inr)

lemma strict_decode_iff:
  "json_decode reject_duplicate_keys t = Inr v \<longleftrightarrow> no_repeats t \<and> json_loads t = Inr v"
proof (induction t arbitrary: v)
  case (Raw_List ts)
  then have "map_res (json_decode reject_duplicate_keys) ts = Inr vs \<longleftrightarrow>
      list_all no_repeats ts \<and> map_res json_loads ts = Inr vs" for vs
    unfolding map_res_eq_Inr_iff by (intro list_all2_weaken) blast
  then show ?case by (auto simp: json_loads_def and_then_eq_Inr)
next
  case (Raw_Object kts)
  let ?d = "\<lambda>f (k, t). and_then (f t) (\<lambda>v. Inr (k, v))"
  have "map_res (?d (json_decode reject_duplicate_keys)) kts = Inr kvs \<longleftrightarrow>
      list_all (\<lambda>(k, t). no_repeats t) kts \<and> map_res (?d json_loads) kts = Inr kvs" for kvs
    unfolding map_res_eq_Inr_iff
    by (intro list_all2_weaken) (use Raw_Object in \<open>fastforce simp: and_then_eq_Inr\<close>)
  moreover have "map fst kvs = map fst kts" if "map_res (?d json_loads) kts = Inr kvs" for kvs
    using that by (rule json_decode_keys)
  ultimately show ?case
    by (auto simp: json_loads_def and_then_eq_Inr reject_duplicate_keys_Inr)
qed (simp add: json_loads_def)

text \<open>What each document has to say.\<close>

definition profile_valid :: "pyval \<Rightarrow> bool" where
  "profile_valid v \<longleftrightarrow>
     (\<exists>p. v = PDict p \<and>
        dget p ''sdk_profile'' \<in> Some ` PStr ` set SDK_PROFILES \<and>
        dget p ''default_mode'' \<in> Some ` PStr ` set LINT_MODES \<and>
        (\<exists>b. dget p ''strict'' = Some (PBool b)) \<and>
        (\<exists>x xs. dget p ''providers'' = Some (PList (x # xs))) \<and>
        (\<exists>x xs. dget p ''allowed_events'' = Some (PList (x # xs))))"

definition profiles_valid :: "pydict \<Rightarrow> bool" where
  "profiles_valid doc \<longleftrightarrow>
     (\<exists>profiles. dget doc ''profiles'' = Some (PDict profiles) \<and>
        set (map (the_str \<circ> fst) profiles) = set REQUIRED_PROFILES \<and> list_all (profile_valid \<circ> snd) profiles)"

definition requiredness_valid :: "pydict \<Rightarrow> bool" where
  "requiredness_valid doc \<longleftrightarrow>
     (\<exists>profiles. dget doc ''profiles'' = Some (PDict profiles) \<and>
        list_all (\<lambda>(_, v). \<exists>m. v = PDict m \<and> m \<noteq> [] \<and> list_all (is_bool \<circ> snd) m) profiles)"

definition modes_valid :: "pydict \<Rightarrow> bool" where
  "modes_valid doc \<longleftrightarrow>
     (dget_none doc ''allowed_modes'' = PNone \<or>
        (\<exists>vs. py_iter (dget_none doc ''allowed_modes'') = Inr vs \<and> set vs = PStr ` set LINT_MODES)) \<and>
     (\<exists>defaults. dget_default doc ''defaults'' (PDict []) = PDict defaults \<and>
        list_all (\<lambda>(_, mode). mode \<in> PStr ` set LINT_MODES) defaults)"

definition waiver_id :: "pyval \<Rightarrow> string option" where
  "waiver_id v = (case v of PDict e \<Rightarrow> (case dget e ''id'' of Some (PStr s) \<Rightarrow> Some s | _ \<Rightarrow> None) | _ \<Rightarrow> None)"

definition waivers_valid :: "pydict \<Rightarrow> bool" where
  "waivers_valid doc \<longleftrightarrow>
     dget_none doc ''waivers'' = PNone \<or>
     (\<exists>entries. dget doc ''waivers'' = Some (PList entries) \<and>
        list_all (\<lambda>v. \<exists>e. v = PDict e \<and> list_all (\<lambda>k. dget e k \<noteq> None) WAIVER_KEYS) entries \<and>
        distinct (List.map_filter waiver_id entries))"

definition contents_valid :: "string \<Rightarrow> pydict \<Rightarrow> bool" where
  "contents_valid name doc \<longleftrightarrow>
     (name = ''execution-profiles.yaml'' \<longrightarrow> profiles_valid doc) \<and>
     (name = ''provider-requiredness.yaml'' \<longrightarrow> requiredness_valid doc) \<and>
     (name = ''rule-modes.yaml'' \<longrightarrow> modes_valid doc) \<and>
     (name = ''waivers.yaml'' \<longrightarrow> waivers_valid doc)"

definition document_valid :: "governance_file \<Rightarrow> bool" where
  "document_valid f \<longleftrightarrow>
     (\<exists>t doc. gf_source f = Inr t \<and> no_repeats t \<and> json_loads t = Inr (PDict doc) \<and>
        dget doc ''schema'' \<noteq> None \<and> contents_valid (gf_name f) doc)"

lemma reported_Nil [simp]: "reported ok path m = [] \<longleftrightarrow> ok"
  by (simp add: reported_def)

lemma in_strings_True: "in_strings names v = Inr True \<longleftrightarrow> v \<in> PStr ` set names"
  by (auto simp: in_strings_def)

lemma dget_none_PStr: "dget_none d k \<in> PStr ` S \<longleftrightarrow> dget d k \<in> Some ` PStr ` S"
  by (auto simp: dget_none_def image_iff split: option.splits)

lemma nonempty_array_dget: "nonempty_array (dget_none p k) \<longleftrightarrow> (\<exists>x xs. dget p k = Some (PList (x # xs)))"
  by (auto simp: nonempty_array_def dget_none_def neq_Nil_conv split: pyval.splits option.splits)

lemma is_bool_PBool: "is_bool v \<longleftrightarrow> (\<exists>b. v = PBool b)"
  by (cases v) auto

lemma is_bool_dget: "is_bool (dget_none p k) \<longleftrightarrow> (\<exists>b. dget p k = Some (PBool b))"
  by (auto simp: is_bool_PBool dget_none_def split: option.splits)

lemma profile_errors_Nil: "profile_errors path e = Inr [] \<longleftrightarrow> profile_valid (snd e)"
proof (cases "snd e")
  case (PDict p)
  have keys: "list_all (\<lambda>k. dget p k \<noteq> None) PROFILE_KEYS" if "profile_valid (PDict p)"
    using that by (auto simp: profile_valid_def PROFILE_KEYS_def)
  have "profile_errors path e = Inr [] \<longleftrightarrow>
      list_all (\<lambda>k. dget p k \<noteq> None) PROFILE_KEYS \<and>
      in_strings SDK_PROFILES (dget_none p ''sdk_profile'') = Inr True \<and>
      in_strings LINT_MODES (dget_none p ''default_mode'') = Inr True \<and>
      is_bool (dget_none p ''strict'') \<and> nonempty_array (dget_none p ''providers'') \<and>
      nonempty_array (dget_none p ''allowed_events'')"
    by (auto simp: profile_errors_def PDict Let_def and_then_eq_Inr list_all_iff)
  also have "\<dots> \<longleftrightarrow> profile_valid (PDict p)"
    using keys
    by (auto simp: in_strings_True dget_none_PStr nonempty_array_dget is_bool_dget profile_valid_def)
  finally show ?thesis by (simp add: PDict)
qed (auto simp: profile_errors_def profile_valid_def)

lemma profiles_errors_Nil: "check_execution_profiles doc path = Inr [] \<longleftrightarrow> profiles_valid doc"
proof (cases "dget_none doc ''profiles''")
  case (PDict profiles)
  then have "dget doc ''profiles'' = Some (PDict profiles)"
    by (auto simp: dget_none_def split: option.splits)
  moreover have "check_execution_profiles doc path = Inr [] \<longleftrightarrow>
      set (map (the_str \<circ> fst) profiles) = set REQUIRED_PROFILES \<and>
      (\<exists>ess. map_res (profile_errors path) profiles = Inr ess \<and> concat ess = [])"
    by (auto simp: check_execution_profiles_def PDict Let_def and_then_eq_Inr)
  ultimately show ?thesis
    by (simp only: map_res_Nils profile_errors_Nil) (simp add: profiles_valid_def list_all_iff)
qed (auto simp: check_execution_profiles_def profiles_valid_def dget_none_def split: option.splits)

lemma provider_errors_Nil:
  "provider_errors path e = [] \<longleftrightarrow> (\<exists>m. snd e = PDict m \<and> m \<noteq> [] \<and> list_all (is_bool \<circ> snd) m)"
  by (cases "snd e") (auto simp: provider_errors_def list_all_iff)

lemma requiredness_errors_Nil: "check_requiredness doc path = Inr [] \<longleftrightarrow> requiredness_valid doc"
proof (cases "dget_none doc ''profiles''")
  case (PDict profiles)
  then have "dget doc ''profiles'' = Some (PDict profiles)"
    by (auto simp: dget_none_def split: option.splits)
  with PDict show ?thesis
    by (simp add: check_requiredness_def requiredness_valid_def provider_errors_Nil list_all_iff case_prod_unfold)
qed (auto simp: check_requiredness_def requiredness_valid_def dget_none_def split: option.splits)

lemma modes_errors_Nil: "check_rule_modes doc path = Inr [] \<longleftrightarrow> modes_valid doc"
proof -
  let ?d = "dget_default doc ''defaults'' (PDict [])"
  have allowed: "allowed_errors doc path = Inr [] \<longleftrightarrow> dget_none doc ''allowed_modes'' = PNone \<or>
      (\<exists>vs. py_iter (dget_none doc ''allowed_modes'') = Inr vs \<and> set vs = PStr ` set LINT_MODES)"
    by (auto simp: allowed_errors_def Let_def and_then_eq_Inr find_None_iff split: option.splits)
      (rule exI, rule conjI, blast, auto)
  have entry: "default_mode_errors path e = Inr [] \<longleftrightarrow> snd e \<in> PStr ` set LINT_MODES" for e
    by (auto simp: default_mode_errors_def and_then_eq_Inr simp flip: in_strings_True)
  show ?thesis
  proof (cases ?d)
    case (PDict defaults)
    have "check_rule_modes doc path = Inr [] \<longleftrightarrow> allowed_errors doc path = Inr [] \<and>
        (\<exists>ess. map_res (default_mode_errors path) defaults = Inr ess \<and> concat ess = [])"
      by (auto simp: check_rule_modes_def PDict and_then_eq_Inr)
    then show ?thesis
      by (simp only: allowed map_res_Nils entry) (auto simp: modes_valid_def PDict list_all_iff)
  qed (auto simp: check_rule_modes_def modes_valid_def and_then_eq_Inr reported_def)
qed

lemma waiver_errors_Nil:
  "waiver_errors path seen entries = [] \<longleftrightarrow>
     list_all (\<lambda>v. \<exists>e. v = PDict e \<and> list_all (\<lambda>k. dget e k \<noteq> None) WAIVER_KEYS) entries \<and>
     distinct (List.map_filter waiver_id entries) \<and> set (List.map_filter waiver_id entries) \<inter> set seen = {}"
proof (induction path seen entries rule: waiver_errors.induct)
  case (2 path seen entry es)
  show ?case
  proof (cases "dget_none entry ''id''")
    case (PStr wid)
    then have "waiver_id (PDict entry) = Some wid"
      by (auto simp: waiver_id_def dget_none_def split: option.splits)
    with 2 PStr show ?thesis by (auto simp: list_all_iff map_filter_simps)
  qed (use 2 in \<open>auto simp: list_all_iff map_filter_simps waiver_id_def dget_none_def
      split: option.splits pyval.splits\<close>)
qed (auto simp: map_filter_simps)

lemma waivers_errors_Nil: "check_waivers doc path = Inr [] \<longleftrightarrow> waivers_valid doc"
  by (auto simp: check_waivers_def waivers_valid_def waiver_errors_Nil dget_none_def
      split: pyval.splits option.splits)

lemma contents_errors_Nil: "run_check name doc path = Inr [] \<longleftrightarrow> contents_valid name doc"
  by (simp add: run_check_def contents_valid_def profiles_errors_Nil requiredness_errors_Nil
      modes_errors_Nil waivers_errors_Nil)

lemma document_errors_Nil: "document_errors f = Inr [] \<longleftrightarrow> document_valid f"
proof -
  have "document_errors f = Inr [] \<longleftrightarrow>
      (\<exists>doc. load_strict (gf_source f) = Inr (PDict doc) \<and> dget doc ''schema'' \<noteq> None \<and>
         run_check (gf_name f) doc (gf_path f) = Inr [])"
    by (auto simp: document_errors_def and_then_eq_Inr reported_def split: sum.splits pyval.splits)
  then show ?thesis
    by (auto simp: load_strict_def and_then_eq_Inr strict_decode_iff contents_errors_Nil document_valid_def)
qed

text \<open>
  C39: the governance lint passes exactly on a valid pack. It returns with exit code 0 exactly when every
  document it does not skip parses, repeats no key in any object, is an object with a \<open>schema\<close>, and, by
  its name, has the five profiles each fully specified, boolean requiredness, known modes only, or
  complete waivers with distinct ids; the order of the listings does not matter.
\<close>

theorem governance_lint_passes:
  "(\<exists>lines. governance_lint listings = Inr (0, lines)) \<longleftrightarrow>
     (\<forall>f \<in> set (concat listings). gf_name f \<in> set SKIP_JSON_PARSE \<or> document_valid f)"
proof -
  let ?checked = "filter (\<lambda>f. gf_name f \<notin> set SKIP_JSON_PARSE) (concat (map (sort_key gf_parts) listings))"
  have "(\<exists>lines. governance_lint listings = Inr (0, lines)) \<longleftrightarrow>
      (\<exists>ess. map_res document_errors ?checked = Inr ess \<and> concat ess = [])"
    by (cases "map_res document_errors ?checked") (simp_all add: governance_lint_def Let_def)
  then show ?thesis
    unfolding map_res_Nils document_errors_Nil by auto
qed

definition sample_waivers :: raw_json where
  "sample_waivers = Raw_Object
     [(''schema'', Raw_Scalar (PStr ''l9.waivers/v1'')),
      (''waivers'', Raw_List [Raw_Object (map (\<lambda>k. (k, Raw_Scalar (PStr ''x''))) WAIVER_KEYS)])]"

definition sample_pack :: "governance_file list list" where
  "sample_pack =
     [[\<lparr>gf_path = ''g/waivers.yaml'', gf_name = ''waivers.yaml'', gf_parts = [''g'', ''waivers.yaml''],
        gf_source = Inr sample_waivers\<rparr>,
       \<lparr>gf_path = ''g/l9-ci-shared-spec.yaml'', gf_name = ''l9-ci-shared-spec.yaml'',
        gf_parts = [''g'', ''l9-ci-shared-spec.yaml''], gf_source = Inl (JSONDecodeError ''comment'')\<rparr>]]"

theorem governance_lint_passes_witness:
  "\<exists>lines. governance_lint sample_pack = Inr (0, lines)"
proof -
  have "load_strict (Inr sample_waivers) =
      Inr (PDict [(PStr ''schema'', PStr ''l9.waivers/v1''),
        (PStr ''waivers'', PList [PDict (map (\<lambda>k. (PStr k, PStr ''x'')) WAIVER_KEYS)])])"
    by code_simp
  then have "no_repeats sample_waivers"
    "json_loads sample_waivers = Inr (PDict [(PStr ''schema'', PStr ''l9.waivers/v1''),
        (PStr ''waivers'', PList [PDict (map (\<lambda>k. (PStr k, PStr ''x'')) WAIVER_KEYS)])])"
    by (simp_all add: load_strict_def strict_decode_iff)
  then have "document_valid (hd (hd sample_pack))"
    by (simp add: document_valid_def sample_pack_def contents_valid_def waivers_valid_def dget_def
        dget_none_def WAIVER_KEYS_def map_filter_simps waiver_id_def)
  then have "\<forall>f \<in> set (concat sample_pack). gf_name f \<in> set SKIP_JSON_PARSE \<or> document_valid f"
    by (simp add: sample_pack_def SKIP_JSON_PARSE_def)
  then show ?thesis unfolding governance_lint_passes .
qed

text \<open>
  A field of the wrong shape is not always reported: the membership tests hash their value, so a
  list where a mode is expected ends the command with a traceback.
\<close>

lemma governance_lint_unhashable:
  "governance_lint [[\<lparr>gf_path = ''g/rule-modes.yaml'', gf_name = ''rule-modes.yaml'', gf_parts = [],
     gf_source = Inr (Raw_Object [(''schema'', Raw_Scalar (PStr ''v1'')),
       (''defaults'', Raw_Object [(''unknown'', Raw_List [])])])\<rparr>]] =
   Inl (TypeError (''unhashable type: '' @ repr_string ''list''))"
  by code_simp


end
