(* ===== verification/Action_Pins.thy ===== *)
theory Action_Pins
  imports Py_Regex Py_Value
begin

text \<open>
  \<open>lint/check_action_pins.py\<close>: every external action of a workflow is pinned to a full commit SHA, the
  pins of Core agree within a file, and no \<open>permissions:\<close> block is empty or missing. The files that
  the patterns match and their texts are inputs.
\<close>

subsection \<open>The patterns\<close>

definition quote_char :: "char \<Rightarrow> bool" where
  "quote_char c \<longleftrightarrow> c = CHR 0x27 \<or> c = CHR 0x22"

definition ref_char :: "char \<Rightarrow> bool" where
  "ref_char c \<longleftrightarrow> \<not> quote_char c \<and> \<not> re_space c \<and> c \<noteq> CHR ''#''"

definition USES :: regex where
  "USES = Seqs
     [Not_behind (\<lambda>c. c \<noteq> CHR 0x0A), Star_re (Chars re_space),
      Opt_re (Seqs [Lit ''-'', Plus_re (Chars re_space)]), Lit ''uses:'', Star_re (Chars re_space),
      Opt_re (Chars quote_char), Group_re 1 (Plus_re (Chars ref_char))]"

definition FULL_SHA :: regex where
  "FULL_SHA = Seqs [Times_re 40 (Chars lower_hex), At_end]"

definition PERMISSIONS_KEY :: regex where
  "PERMISSIONS_KEY = Seqs
     [Group_re 1 (Star_re (Chars re_space)), Lit ''permissions:'', Group_re 2 (Star_re (Chars (\<lambda>c. c \<noteq> CHR 0x0A))),
      At_end]"

definition CORE_REPO :: string where
  "CORE_REPO = ''Quantum-L9/l9-ci-core''"

definition LOCAL_PREFIXES :: "string list" where
  "LOCAL_PREFIXES = [''./'', ''docker://'']"

subsection \<open>Pins\<close>

definition local_ref :: "string \<Rightarrow> bool" where
  "local_ref ref \<longleftrightarrow> list_ex (\<lambda>p. starts_with p ref) LOCAL_PREFIXES"

text \<open>The last two parts of \<open>ref.rpartition("@")\<close>, for a text that holds the separator.\<close>

definition rpartition :: "char \<Rightarrow> string \<Rightarrow> string \<times> string" where
  "rpartition d s =
     (let tail = rev (takeWhile (\<lambda>c. c \<noteq> d) (rev s)) in (take (length s - length tail - 1) s, tail))"

fun add_pin :: "string \<Rightarrow> string \<Rightarrow> (string \<times> string list) list \<Rightarrow> (string \<times> string list) list" where
  "add_pin sha target [] = [(sha, [target])]"
| "add_pin sha target ((r, ts) # pins) =
     (if r = sha then (r, ts @ [target]) # pins else (r, ts) # add_pin sha target pins)"

definition check_ref ::
  "string \<Rightarrow> string \<Rightarrow> string list \<times> (string \<times> string list) list \<Rightarrow> string list \<times> (string \<times> string list) list"
where
  "check_ref path ref state =
     (case state of (errors, pins) \<Rightarrow>
        if local_ref ref then state
        else if CHR ''@'' \<notin> set ref then
          (errors @ [path @ '': `uses: '' @ ref @ ''` has no ref; pin to a full commit SHA''], pins)
        else
          (case rpartition CHR ''@'' ref of (target, sha) \<Rightarrow>
             if re_match FULL_SHA sha = None then
               (errors @ [path @ '': `uses: '' @ ref @
                  ''` is not SHA-pinned (refs must be a full 40-character lowercase commit SHA)''], pins)
             else if starts_with CORE_REPO target then (errors, add_pin sha target pins)
             else state))"

definition refs_of :: "string \<Rightarrow> string list" where
  "refs_of body = map (group_of 1) (find_all USES None body)"

definition check_file :: "string \<Rightarrow> string \<Rightarrow> string list" where
  "check_file path body =
     (case fold (check_ref path) (refs_of body) ([], []) of (errors, pins) \<Rightarrow>
        if length pins > 1 then
          errors @ [path @ '': l9-ci-core is pinned to '' @ string_of_nat (length pins) @
            '' different SHAs in one file ('' @ join '', '' (sort (map fst pins)) @
            ''); every literal must be bumped together'']
        else errors)"

subsection \<open>Permissions\<close>

definition comment_line :: "string \<Rightarrow> bool" where
  "comment_line l \<longleftrightarrow> starts_with ''#'' (py_lstrip l)"

text \<open>A scope line follows: the next line with content is indented deeper.\<close>

definition populated :: "string \<Rightarrow> string list \<Rightarrow> bool" where
  "populated indent following =
     (case find (\<lambda>l. py_strip l \<noteq> [] \<and> \<not> comment_line l) following of
        None \<Rightarrow> False
      | Some l \<Rightarrow> length l - length (py_lstrip l) > length indent)"

fun permission_lines :: "string \<Rightarrow> nat \<Rightarrow> string list \<Rightarrow> string list \<times> bool" where
  "permission_lines path i [] = ([], False)"
| "permission_lines path i (l # ls) =
     (case (re_match PERMISSIONS_KEY l, permission_lines path (Suc i) ls) of
        (None, result) \<Rightarrow> result
      | (Some m, (errors, has_top)) \<Rightarrow>
          let indent = group_of 1 m;
              inline = py_strip (group_of 2 m)
          in (if inline \<noteq> [] \<and> \<not> starts_with ''#'' inline \<or> populated indent ls then errors
              else (path @ '':'' @ string_of_nat (i + 1) @
                '': `permissions:` is empty and parses as null; write `permissions: {}` to grant nothing, or list explicit scopes'')
                # errors,
              indent = [] \<or> has_top))"

definition check_permissions :: "string \<Rightarrow> string \<Rightarrow> string \<Rightarrow> string list" where
  "check_permissions path parent body =
     (case permission_lines path 0 (splitlines body) of (errors, has_top) \<Rightarrow>
        if parent = ''workflows'' \<and> \<not> has_top then
          errors @ [path @
            '': no top-level `permissions:` block; declare least privilege explicitly rather than inheriting defaults'']
        else errors)"

subsection \<open>The command\<close>

record workflow_file =
  wf_path :: string
  wf_parent :: string
  wf_parts :: "string list"
  wf_text :: "string result"

definition workflow_errors :: "workflow_file \<Rightarrow> string list result" where
  "workflow_errors f =
     and_then (wf_text f) (\<lambda>body.
     Inr (check_file (wf_path f) body @ check_permissions (wf_path f) (wf_parent f) body))"

definition action_pins :: "workflow_file list list \<Rightarrow> (int \<times> string list) result" where
  "action_pins listings =
     (let files = concat (map (sort_key wf_parts) listings)
      in and_then (map_res workflow_errors files) (\<lambda>ess.
         let errors = concat ess
         in Inr (if errors = [] then 0 else 1,
              map (\<lambda>e. ''::error::'' @ e) errors @
              [''checked '' @ string_of_nat (length files) @ '' workflow/action file(s), '' @
               string_of_nat (length errors) @ '' error(s)''])))"

subsection \<open>The reading of a SHA\<close>

lemma pos_rest_step: "c' \<in> set (step_char p c) \<Longrightarrow> \<exists>x. p x \<and> pos_rest c = x # pos_rest c'"
  by (cases "pos_rest c") (auto simp: step_char_def split: if_splits)

lemma star_class_only:
  "c' \<in> set (star_matches n (step_char p) c) \<Longrightarrow> \<exists>t. pos_rest c = t @ pos_rest c' \<and> list_all p t"
proof (induction n arbitrary: c)
  case (Suc n)
  then consider "c' = c" | d where "d \<in> set (step_char p c)" "c' \<in> set (star_matches n (step_char p) d)"
    by auto
  then show ?case
  proof cases
    case 2
    obtain x where "p x" "pos_rest c = x # pos_rest d" using pos_rest_step [OF 2(1)] by blast
    moreover obtain t where "pos_rest d = t @ pos_rest c'" "list_all p t" using Suc.IH [OF 2(2)] by blast
    ultimately show ?thesis by (intro exI [of _ "x # t"]) simp
  qed simp
qed simp

lemma plus_class_only:
  assumes "c' \<in> set (matches (Plus_re (Chars p)) c)"
  shows "\<exists>t. pos_rest c = t @ pos_rest c' \<and> t \<noteq> [] \<and> list_all p t"
proof -
  have "matches (Chars p) = step_char p" by auto
  with assms obtain d where d: "d \<in> set (step_char p c)" "c' \<in> set (star_matches (length (pos_rest d)) (step_char p) d)"
    by (auto simp: Plus_re_def)
  obtain x where "p x" "pos_rest c = x # pos_rest d" using pos_rest_step [OF d(1)] by blast
  moreover obtain t where "pos_rest d = t @ pos_rest c'" "list_all p t" using star_class_only [OF d(2)] by blast
  ultimately show ?thesis by (intro exI [of _ "x # t"]) simp
qed

lemma group_class:
  assumes "c' \<in> set (matches (Group_re n (Plus_re (Chars p))) c)"
  shows "group_of n c' \<noteq> [] \<and> list_all p (group_of n c')"
proof -
  obtain d where d: "d \<in> set (matches (Plus_re (Chars p)) c)"
    and c': "c' = d\<lparr>pos_groups := (n, consumed c d) # pos_groups d\<rparr>"
    using assms by auto
  obtain t where t: "pos_rest c = t @ pos_rest d" "t \<noteq> []" "list_all p t"
    using plus_class_only [OF d] by blast
  then have "consumed c d = t" by (simp add: consumed_def)
  with t c' show ?thesis by (simp add: group_of_def)
qed

lemma first_of_set: "first_of xs = Some x \<Longrightarrow> x \<in> set xs"
  by (cases xs) auto

lemma find_all_match: "c \<in> set (find_all r q s) \<Longrightarrow> \<exists>d. c \<in> set (matches r d)"
  by (induction r q s rule: find_all.induct) (auto dest: first_of_set split: option.splits if_splits)

lemma refs_of_chars: "ref \<in> set (refs_of body) \<Longrightarrow> ref \<noteq> [] \<and> list_all ref_char ref"
proof -
  assume "ref \<in> set (refs_of body)"
  then obtain c d where c: "c \<in> set (matches USES d)" and ref: "ref = group_of 1 c"
    unfolding refs_of_def by (auto dest: find_all_match)
  then obtain d' where "c \<in> set (matches (Group_re 1 (Plus_re (Chars ref_char))) d')"
    by (auto simp: USES_def simp del: matches.simps(6))
  then show ?thesis unfolding ref by (rule group_class)
qed

definition full_sha :: "string \<Rightarrow> bool" where
  "full_sha s \<longleftrightarrow> length s = 40 \<and> list_all lower_hex s"

lemma full_sha_match:
  assumes "CHR 0x0A \<notin> set s"
  shows "re_match FULL_SHA s = None \<longleftrightarrow> \<not> full_sha s"
proof -
  have "re_match FULL_SHA s \<noteq> None \<longleftrightarrow>
      (\<exists>c \<in> set (matches (Times_re 40 (Chars lower_hex)) (start_of s)). pos_rest c = [] \<or> pos_rest c = [CHR 0x0A])"
    by (auto simp: re_match_def FULL_SHA_def filter_empty_conv simp del: Times_re.simps)
  also have "\<dots> \<longleftrightarrow> full_sha s"
  proof
    assume "\<exists>c \<in> set (matches (Times_re 40 (Chars lower_hex)) (start_of s)). pos_rest c = [] \<or> pos_rest c = [CHR 0x0A]"
    then obtain c where m: "c \<in> set (matches (Times_re 40 (Chars lower_hex)) (start_of s))"
      and c: "pos_rest c = [] \<or> pos_rest c = [CHR 0x0A]" ..
    obtain t where t: "pos_rest (start_of s) = t @ pos_rest c" "length t = 40" "list_all lower_hex t"
      using matches_Times_class_only [OF m] by blast
    then have "s = t @ pos_rest c" by (simp add: start_of_def)
    with c t assms show "full_sha s" by (auto simp: full_sha_def)
  next
    assume "full_sha s"
    then show "\<exists>c \<in> set (matches (Times_re 40 (Chars lower_hex)) (start_of s)). pos_rest c = [] \<or> pos_rest c = [CHR 0x0A]"
      using matches_Times_class [of lower_hex s 40 None "[]" "[]"] by (auto simp: full_sha_def start_of_def)
  qed
  finally show ?thesis by blast
qed

lemma rpartition_split:
  assumes "d \<in> set s" "rpartition d s = (a, b)"
  shows "s = a @ d # b \<and> d \<notin> set b"
proof -
  obtain b' a' where s: "rev s = b' @ d # a'" "d \<notin> set b'"
    using assms(1) split_list_first [of d "rev s"] by auto
  then have "takeWhile (\<lambda>c. c \<noteq> d) (rev s) = b'"
    by (auto simp: takeWhile_append takeWhile_tail)
  moreover have "s = rev a' @ d # rev b'" using s(1) by (metis rev_append rev_rev_ident rev.simps(2) append.assoc append_Cons append_Nil)
  ultimately show ?thesis using assms(2) s(2) by (auto simp: rpartition_def Let_def)
qed

text \<open>What is asked of a reference, and the Core pin it stands for.\<close>

definition pinned :: "string \<Rightarrow> bool" where
  "pinned ref \<longleftrightarrow> local_ref ref \<or> (\<exists>target sha. ref = target @ CHR ''@'' # sha \<and> full_sha sha)"

definition core_pin :: "string \<Rightarrow> string \<Rightarrow> bool" where
  "core_pin ref sha \<longleftrightarrow>
     \<not> local_ref ref \<and> full_sha sha \<and> (\<exists>target. ref = target @ CHR ''@'' # sha \<and> starts_with CORE_REPO target)"

lemma full_sha_at: "full_sha s \<Longrightarrow> CHR ''@'' \<notin> set s"
  by (auto simp: full_sha_def list_all_iff lower_hex_def is_digit_def)

lemma last_at_unique:
  "a @ CHR ''@'' # b = a' @ CHR ''@'' # b' \<Longrightarrow> CHR ''@'' \<notin> set b \<Longrightarrow> CHR ''@'' \<notin> set b' \<Longrightarrow> a = a' \<and> b = b'"
  by (auto simp: append_eq_append_conv2 append_eq_Cons_conv Cons_eq_append_conv)

lemma add_pin_keys:
  "fst ` set (add_pin r t pins) = insert r (fst ` set pins)"
  "distinct (map fst pins) \<Longrightarrow> distinct (map fst (add_pin r t pins))"
proof -
  show keys: "fst ` set (add_pin r t pins) = insert r (fst ` set pins)" for pins
  proof (induction pins)
    case (Cons p pins)
    then show ?case by (cases p) (simp add: insert_commute)
  qed simp
  show "distinct (map fst pins) \<Longrightarrow> distinct (map fst (add_pin r t pins))"
  proof (induction pins)
    case (Cons p pins)
    then show ?case by (cases p) (auto simp: keys)
  qed simp
qed

lemma check_ref_cases:
  assumes "CHR 0x0A \<notin> set ref"
  shows "\<exists>e ps'. check_ref path ref (es, ps) = (es @ e, ps') \<and> (e = [] \<longleftrightarrow> pinned ref) \<and>
    fst ` set ps' = fst ` set ps \<union> {sha. core_pin ref sha} \<and> (distinct (map fst ps) \<longrightarrow> distinct (map fst ps'))"
proof (cases "local_ref ref \<or> CHR ''@'' \<notin> set ref")
  case True
  then show ?thesis by (auto simp: check_ref_def pinned_def core_pin_def)
next
  case False
  obtain target sha where split: "rpartition CHR ''@'' ref = (target, sha)" by fastforce
  then have ref: "ref = target @ CHR ''@'' # sha" "CHR ''@'' \<notin> set sha"
    using False rpartition_split by blast+
  with assms have sha: "re_match FULL_SHA sha = None \<longleftrightarrow> \<not> full_sha sha"
    by (intro full_sha_match) auto
  have "pinned ref \<longleftrightarrow> full_sha sha"
    using False ref full_sha_at last_at_unique unfolding pinned_def by blast
  moreover have "core_pin ref s \<longleftrightarrow> s = sha \<and> full_sha sha \<and> starts_with CORE_REPO target" for s
    using False ref full_sha_at last_at_unique unfolding core_pin_def by blast
  ultimately show ?thesis
    using False by (auto simp: check_ref_def split sha add_pin_keys)
qed

lemma check_refs:
  assumes "\<forall>ref \<in> set refs. CHR 0x0A \<notin> set ref"
  shows "\<exists>e ps'. fold (check_ref path) refs (es, ps) = (es @ e, ps') \<and> (e = [] \<longleftrightarrow> list_all pinned refs) \<and>
    fst ` set ps' = fst ` set ps \<union> {sha. \<exists>ref \<in> set refs. core_pin ref sha} \<and>
    (distinct (map fst ps) \<longrightarrow> distinct (map fst ps'))"
  using assms
proof (induction refs arbitrary: es ps)
  case (Cons ref refs)
  obtain e ps' where 1: "check_ref path ref (es, ps) = (es @ e, ps')" "e = [] \<longleftrightarrow> pinned ref"
    "fst ` set ps' = fst ` set ps \<union> {sha. core_pin ref sha}" "distinct (map fst ps) \<longrightarrow> distinct (map fst ps')"
    using check_ref_cases [of ref path es ps] Cons.prems by auto
  obtain f qs where 2: "fold (check_ref path) refs (es @ e, ps') = ((es @ e) @ f, qs)" "f = [] \<longleftrightarrow> list_all pinned refs"
    "fst ` set qs = fst ` set ps' \<union> {sha. \<exists>ref \<in> set refs. core_pin ref sha}"
    "distinct (map fst ps') \<longrightarrow> distinct (map fst qs)"
    using Cons.IH [of "es @ e" ps'] Cons.prems by auto
  show ?case
    using 1 2 by (intro exI [of _ "e @ f"] exI [of _ qs]) auto
qed simp

lemma check_file_Nil:
  "check_file path body = [] \<longleftrightarrow>
     list_all pinned (refs_of body) \<and>
     (\<forall>r \<in> set (refs_of body). \<forall>r' \<in> set (refs_of body). \<forall>s s'. core_pin r s \<longrightarrow> core_pin r' s' \<longrightarrow> s = s')"
proof -
  have "re_space (CHR 0x0A)" by code_simp
  then have "\<forall>ref \<in> set (refs_of body). CHR 0x0A \<notin> set ref"
    using refs_of_chars by (auto simp: list_all_iff ref_char_def)
  then obtain e ps where fold: "fold (check_ref path) (refs_of body) ([], []) = (e, ps)"
    and e: "e = [] \<longleftrightarrow> list_all pinned (refs_of body)"
    and ps: "fst ` set ps = {sha. \<exists>ref \<in> set (refs_of body). core_pin ref sha}" "distinct (map fst ps)"
    using check_refs [of "refs_of body" path "[]" "[]"] by auto
  have "length ps \<le> 1 \<longleftrightarrow> (\<forall>s \<in> fst ` set ps. \<forall>s' \<in> fst ` set ps. s = s')"
  proof -
    have "length ps = card (fst ` set ps)" using distinct_card [OF ps(2)] by simp
    then show ?thesis by (simp add: card_le_Suc0_iff_eq)
  qed
  then show ?thesis
    unfolding check_file_def fold ps(1) by (auto simp: e)
qed

text \<open>The \<open>permissions:\<close> keys of a file.\<close>

definition permission_key :: "string \<Rightarrow> (string \<times> string) option" where
  "permission_key l = map_option (\<lambda>m. (group_of 1 m, py_strip (group_of 2 m))) (re_match PERMISSIONS_KEY l)"

definition permissions_filled :: "string list \<Rightarrow> bool" where
  "permissions_filled ls \<longleftrightarrow>
     (\<forall>i < length ls. \<forall>indent inline. permission_key (ls ! i) = Some (indent, inline) \<longrightarrow>
        inline \<noteq> [] \<and> \<not> starts_with ''#'' inline \<or> populated indent (drop (Suc i) ls))"

lemma permission_lines_spec:
  "fst (permission_lines path i ls) = [] \<longleftrightarrow> permissions_filled ls"
  "snd (permission_lines path i ls) \<longleftrightarrow> (\<exists>l \<in> set ls. \<exists>inline. permission_key l = Some ([], inline))"
proof (induction ls arbitrary: i)
  case (Cons l ls)
  case 1
  have "permissions_filled (l # ls) \<longleftrightarrow> permissions_filled ls \<and>
      (\<forall>indent inline. permission_key l = Some (indent, inline) \<longrightarrow>
         inline \<noteq> [] \<and> \<not> starts_with ''#'' inline \<or> populated indent ls)"
    unfolding permissions_filled_def by (simp add: All_less_Suc2) blast
  then show ?case
    using Cons.IH(1) [of "Suc i"]
    by (auto simp: permission_key_def Let_def split: option.splits prod.splits)
  case 2
  show ?case
    using Cons.IH(2) [of "Suc i"]
    by (auto simp: permission_key_def Let_def split: option.splits prod.splits)
qed (simp_all add: permissions_filled_def)


definition workflow_ok :: "workflow_file \<Rightarrow> bool" where
  "workflow_ok f \<longleftrightarrow>
     (\<exists>body. wf_text f = Inr body \<and> list_all pinned (refs_of body) \<and>
        (\<forall>r \<in> set (refs_of body). \<forall>r' \<in> set (refs_of body). \<forall>s s'. core_pin r s \<longrightarrow> core_pin r' s' \<longrightarrow> s = s') \<and>
        permissions_filled (splitlines body) \<and>
        (wf_parent f = ''workflows'' \<longrightarrow>
           (\<exists>l \<in> set (splitlines body). \<exists>inline. permission_key l = Some ([], inline))))"

lemma workflow_errors_Nil: "workflow_errors f = Inr [] \<longleftrightarrow> workflow_ok f"
proof (cases "wf_text f")
  case (Inr body)
  have "check_permissions (wf_path f) (wf_parent f) body = [] \<longleftrightarrow> permissions_filled (splitlines body) \<and>
      (wf_parent f = ''workflows'' \<longrightarrow> (\<exists>l \<in> set (splitlines body). \<exists>inline. permission_key l = Some ([], inline)))"
    using permission_lines_spec [of "wf_path f" 0 "splitlines body"]
    by (auto simp: check_permissions_def split: prod.splits)
  then show ?thesis
    by (auto simp: workflow_errors_def workflow_ok_def Inr check_file_Nil)
qed (simp add: workflow_errors_def workflow_ok_def)

text \<open>
  The action lint passes exactly on pinned workflows. It returns with exit code 0 exactly when, in
  every file, each \<open>uses:\<close> reference is local or ends in \<open>@\<close> and exactly forty lowercase hexadecimal
  digits, the references to Core carry one SHA, no \<open>permissions:\<close> key is empty, and a workflow has one
  at the top level. The \<open>$\<close> of the pattern, which would also accept a final newline, admits nothing more.
\<close>

theorem action_pins_pass:
  "(\<exists>lines. action_pins listings = Inr (0, lines)) \<longleftrightarrow> list_all workflow_ok (concat listings)"
proof -
  let ?files = "concat (map (sort_key wf_parts) listings)"
  have "(\<exists>lines. action_pins listings = Inr (0, lines)) \<longleftrightarrow>
      (\<exists>ess. map_res workflow_errors ?files = Inr ess \<and> concat ess = [])"
    by (cases "map_res workflow_errors ?files") (simp_all add: action_pins_def Let_def)
  then show ?thesis
    unfolding map_res_Nils workflow_errors_Nil by (auto simp: list_all_iff)
qed

text \<open>Only the block form of the key is seen: a step in flow style or with a quoted key is not checked.\<close>

lemma flow_style_unseen:
  "refs_of (''- {uses: actions/checkout@v4}'' @ [CHR 0x0A] @ ''- '' @ [CHR 0x22] @ ''uses'' @ [CHR 0x22] @
     '': actions/checkout@v4'') = []"
  "refs_of ''- uses: actions/checkout@v4'' = [''actions/checkout@v4'']"
  by code_simp+


end
