(* ===== verification/Action_Pins_Text.thy ===== *)
theory Action_Pins_Text
  imports Action_Pins
begin

text \<open>
  What the search for \<open>uses:\<close> misses. The references are found by a regular expression whose parts may
  cross line ends, so a match can begin on an earlier line and swallow the key of a later one. Whatever
  stands around it, an entry on its own line is either found with its reference, or the match that
  swallowed it read a part of the key as its reference and is reported; so a text that passes has no unpinned entry.
\<close>

subsection \<open>What a match reads\<close>

lemma append_eq_mid:
  "a @ x = p @ c # y \<longleftrightarrow>
     (\<exists>a'. a = p @ c # a' \<and> y = a' @ x) \<or> (\<exists>p'. p = a @ p' \<and> x = p' @ c # y)"
  by (auto simp: append_eq_append_conv2 Cons_eq_append_conv append_eq_Cons_conv)

lemma span_unique:
  assumes "a @ x = b @ y" "list_all p a" "list_all p b" "x = [] \<or> \<not> p (hd x)" "y = [] \<or> \<not> p (hd y)"
  shows "a = b \<and> x = y"
proof -
  have "takeWhile p (a @ x) = a" "takeWhile p (b @ y) = b"
    using assms(2-5) by (cases x; cases y; simp add: takeWhile_append list_all_iff takeWhile_eq_all_conv)+
  with assms(1) show ?thesis by auto
qed

lemma matches_Lit_only: "c' \<in> set (matches (Lit s) c) \<Longrightarrow> pos_rest c = s @ pos_rest c'"
proof (induction s arbitrary: c rule: Lit.induct)
  case (2 x)
  then show ?case using pos_rest_step by fastforce
next
  case (3 x y s)
  then obtain d where d: "d \<in> set (step_char (\<lambda>z. z = x) c)" "c' \<in> set (matches (Lit (y # s)) d)"
    by auto
  from pos_rest_step [OF d(1)] 3 d(2) show ?case by auto
qed simp

lemma matches_Lit_ex: "pos_rest c = s @ u \<Longrightarrow> \<exists>c' \<in> set (matches (Lit s) c). pos_rest c' = u"
proof (induction s arbitrary: c rule: Lit.induct)
  case (3 x y s)
  let ?d = "c\<lparr>pos_prev := Some x, pos_rest := y # s @ u\<rparr>"
  from 3 have "?d \<in> set (step_char (\<lambda>z. z = x) c)" by (simp add: step_char_def)
  moreover have "\<exists>c' \<in> set (matches (Lit (y # s)) ?d). pos_rest c' = u" using 3 by simp
  ultimately show ?case by (auto simp del: Lit.simps(3)) (auto intro!: bexI)
qed (auto simp: step_char_def)

lemma matches_star_only:
  "c' \<in> set (matches (Star_re (Chars p)) c) \<Longrightarrow> \<exists>t. pos_rest c = t @ pos_rest c' \<and> list_all p t"
proof -
  have "matches (Chars p) = step_char p" by auto
  then show "c' \<in> set (matches (Star_re (Chars p)) c) \<Longrightarrow> ?thesis" by (auto intro: star_class_only)
qed

lemma star_class_ex:
  "pos_rest c = t @ u \<Longrightarrow> list_all p t \<Longrightarrow> length t \<le> n \<Longrightarrow>
     \<exists>c' \<in> set (star_matches n (step_char p) c). pos_rest c' = u"
proof (induction n arbitrary: c t)
  case (Suc n)
  show ?case
  proof (cases t)
    case (Cons x xs)
    let ?d = "c\<lparr>pos_prev := Some x, pos_rest := xs @ u\<rparr>"
    have "step_char p c = [?d]" using Suc.prems Cons by (simp add: step_char_def)
    moreover have "\<exists>c' \<in> set (star_matches n (step_char p) ?d). pos_rest c' = u"
      using Suc.prems Cons by (intro Suc.IH [of _ xs]) auto
    ultimately show ?thesis using Suc.prems Cons by auto
  qed (use Suc.prems in auto)
qed auto

lemma matches_star_ex:
  "pos_rest c = t @ u \<Longrightarrow> list_all p t \<Longrightarrow> \<exists>c' \<in> set (matches (Star_re (Chars p)) c). pos_rest c' = u"
proof -
  have "matches (Chars p) = step_char p" by auto
  then show "pos_rest c = t @ u \<Longrightarrow> list_all p t \<Longrightarrow> ?thesis"
    using star_class_ex [of c t u p "length (pos_rest c)"] by simp
qed

lemma matches_plus_ex:
  assumes "pos_rest c = t @ u" "t \<noteq> []" "list_all p t"
  shows "\<exists>c' \<in> set (matches (Plus_re (Chars p)) c). pos_rest c' = u"
proof -
  obtain x xs where t: "t = x # xs" using assms(2) by (cases t) auto
  let ?d = "c\<lparr>pos_prev := Some x, pos_rest := xs @ u\<rparr>"
  have "step_char p c = [?d]" using assms t by (simp add: step_char_def)
  moreover have "\<exists>c' \<in> set (matches (Star_re (Chars p)) ?d). pos_rest c' = u"
    using assms t by (intro matches_star_ex [of _ xs]) auto
  ultimately show ?thesis by (simp add: Plus_re_def)
qed

subsection \<open>A match of the pattern\<close>

text \<open>The shape of the text before the reference.\<close>

definition uses_prefix :: "string \<Rightarrow> string \<Rightarrow> string \<Rightarrow> string \<Rightarrow> bool" where
  "uses_prefix w1 b w2 q \<longleftrightarrow>
     list_all re_space w1 \<and> (b = [] \<or> (\<exists>s. b = CHR ''-'' # s \<and> s \<noteq> [] \<and> list_all re_space s)) \<and>
     list_all re_space w2 \<and> (q = [] \<or> (\<exists>c. q = [c] \<and> quote_char c))"

lemma matches_Seq_set: "c' \<in> set (matches (Seq_re r s) c) \<longleftrightarrow> (\<exists>d \<in> set (matches r c). c' \<in> set (matches s d))"
  by auto

lemma opt_quote_only:
  assumes "c' \<in> set (matches (Opt_re (Chars p)) c)"
  shows "\<exists>q. pos_rest c = q @ pos_rest c' \<and> (q = [] \<or> (\<exists>x. q = [x] \<and> p x))"
  using assms pos_rest_step [of c' p c] by (auto simp: Opt_re_def)

lemma opt_dash_only:
  assumes "c' \<in> set (matches (Opt_re (Seq_re (Lit ''-'') (Plus_re (Chars p)))) c)"
  shows "\<exists>b. pos_rest c = b @ pos_rest c' \<and> (b = [] \<or> (\<exists>s. b = CHR ''-'' # s \<and> s \<noteq> [] \<and> list_all p s))"
proof -
  consider "c' = c" | d where "d \<in> set (matches (Lit ''-'') c)" "c' \<in> set (matches (Plus_re (Chars p)) d)"
    using assms by (auto simp: Opt_re_def simp del: Lit.simps)
  then show ?thesis
  proof cases
    case 2
    from matches_Lit_only [OF 2(1)] plus_class_only [OF 2(2)] show ?thesis by auto
  qed auto
qed

lemma group_only:
  assumes "c \<in> set (matches (Group_re n (Plus_re (Chars p))) d)"
  shows "pos_rest d = group_of n c @ pos_rest c \<and> group_of n c \<noteq> [] \<and> list_all p (group_of n c)"
proof -
  obtain e where e: "e \<in> set (matches (Plus_re (Chars p)) d)"
    and c: "c = e\<lparr>pos_groups := (n, consumed d e) # pos_groups e\<rparr>"
    using assms by auto
  obtain t where t: "pos_rest d = t @ pos_rest e" "t \<noteq> []" "list_all p t"
    using plus_class_only [OF e] by blast
  then have "consumed d e = t" by (simp add: consumed_def)
  with t c show ?thesis by (simp add: group_of_def)
qed

lemma USES_only:
  assumes "c \<in> set (matches USES d)"
  shows "\<exists>w1 b w2 q. pos_rest d = w1 @ b @ ''uses:'' @ w2 @ q @ group_of 1 c @ pos_rest c \<and>
    uses_prefix w1 b w2 q \<and> group_of 1 c \<noteq> [] \<and> list_all ref_char (group_of 1 c)"
proof -
  obtain d1 d2 d3 d4 d5 where
    m1: "d1 \<in> set (matches (Star_re (Chars re_space)) d)" and
    m2: "d2 \<in> set (matches (Opt_re (Seq_re (Lit ''-'') (Plus_re (Chars re_space)))) d1)" and
    m3: "d3 \<in> set (matches (Lit ''uses:'') d2)" and
    m4: "d4 \<in> set (matches (Star_re (Chars re_space)) d3)" and
    m5: "d5 \<in> set (matches (Opt_re (Chars quote_char)) d4)" and
    m6: "c \<in> set (matches (Group_re 1 (Plus_re (Chars ref_char))) d5)"
  proof -
    obtain d0 where "d0 \<in> set (matches (Not_behind (\<lambda>c. c \<noteq> CHR 0x0A)) d)" and
      c: "c \<in> set (matches (Seqs [Star_re (Chars re_space),
        Opt_re (Seqs [Lit ''-'', Plus_re (Chars re_space)]), Lit ''uses:'', Star_re (Chars re_space),
        Opt_re (Chars quote_char), Group_re 1 (Plus_re (Chars ref_char))]) d0)"
      using assms unfolding USES_def Seqs.simps matches_Seq_set by blast
    then have "d0 = d" by (auto split: option.splits if_splits)
    from c [unfolded this Seqs.simps matches_Seq_set] show ?thesis
      by (elim bexE) (rule that)
  qed
  from matches_star_only [OF m1] obtain w1 where 1: "pos_rest d = w1 @ pos_rest d1" "list_all re_space w1" by blast
  from opt_dash_only [OF m2] obtain b where 2: "pos_rest d1 = b @ pos_rest d2"
    "b = [] \<or> (\<exists>s. b = CHR ''-'' # s \<and> s \<noteq> [] \<and> list_all re_space s)" by blast
  from matches_Lit_only [OF m3] have 3: "pos_rest d2 = ''uses:'' @ pos_rest d3" .
  from matches_star_only [OF m4] obtain w2 where 4: "pos_rest d3 = w2 @ pos_rest d4" "list_all re_space w2" by blast
  from opt_quote_only [OF m5] obtain q where 5: "pos_rest d4 = q @ pos_rest d5"
    "q = [] \<or> (\<exists>x. q = [x] \<and> quote_char x)" by blast
  from group_only [OF m6] have 6: "pos_rest d5 = group_of 1 c @ pos_rest c"
    "group_of 1 c \<noteq> []" "list_all ref_char (group_of 1 c)" by blast+
  show ?thesis
  proof (intro exI conjI)
    show "pos_rest d = w1 @ b @ ''uses:'' @ w2 @ q @ group_of 1 c @ pos_rest c"
      by (simp only: 1(1) 2(1) 3 4(1) 5(1) 6(1))
    show "uses_prefix w1 b w2 q" using 1(2) 2(2) 4(2) 5(2) by (simp add: uses_prefix_def)
  qed (use 6 in auto)
qed

text \<open>The reference that is reported is maximal.\<close>

lemma first_of_concat: "first_of (concat (map f xs)) = Some c \<Longrightarrow> \<exists>x \<in> set xs. first_of (f x) = Some c"
proof (induction xs)
  case (Cons x xs)
  then show ?case by (cases "f x") auto
qed simp

lemma first_of_Seq: "first_of (matches (Seq_re r s) c) = Some c' \<Longrightarrow> \<exists>d. first_of (matches s d) = Some c'"
  using first_of_concat by fastforce

lemma first_of_Seqs:
  "rs \<noteq> [] \<Longrightarrow> first_of (matches (Seqs rs) c) = Some c' \<Longrightarrow> \<exists>d. first_of (matches (last rs) d) = Some c'"
proof (induction rs arbitrary: c rule: Seqs.induct)
  case (3 r s rs)
  from 3(3) obtain d where "first_of (matches (Seqs (s # rs)) d) = Some c'"
    unfolding Seqs.simps(3) using first_of_Seq by blast
  with 3(1) show ?case by simp
qed auto

lemma star_class_maximal:
  "first_of (star_matches n (step_char p) c) = Some c' \<Longrightarrow> length (pos_rest c) \<le> n \<Longrightarrow>
     pos_rest c' = [] \<or> \<not> p (hd (pos_rest c'))"
proof (induction n arbitrary: c)
  case (Suc n)
  show ?case
  proof (cases "pos_rest c \<noteq> [] \<and> p (hd (pos_rest c))")
    case True
    then obtain x xs where x: "pos_rest c = x # xs" "p x" by (cases "pos_rest c") auto
    let ?d = "c\<lparr>pos_prev := Some x, pos_rest := xs\<rparr>"
    have step: "step_char p c = [?d]" using x by (simp add: step_char_def)
    have "star_matches n (step_char p) ?d \<noteq> []" by (cases n) simp_all
    then have "first_of (star_matches n (step_char p) ?d) = Some c'"
      using Suc.prems(1) x by (cases "star_matches n (step_char p) ?d") (simp_all add: step)
    then show ?thesis using Suc.IH [of ?d] Suc.prems(2) x by simp
  next
    case False
    then have "step_char p c = []" by (cases "pos_rest c") (auto simp: step_char_def)
    with Suc.prems(1) False show ?thesis by auto
  qed
qed auto

lemma group_maximal:
  assumes "first_of (matches (Group_re n (Plus_re (Chars p))) d) = Some c"
  shows "pos_rest c = [] \<or> \<not> p (hd (pos_rest c))"
proof -
  have chars: "matches (Chars p) = step_char p" by auto
  obtain e where e: "first_of (matches (Plus_re (Chars p)) d) = Some e" "pos_rest c = pos_rest e"
    using assms by (cases "matches (Plus_re (Chars p)) d") auto
  then obtain e' where "first_of (matches (Star_re (Chars p)) e') = Some e"
    unfolding Plus_re_def using first_of_Seq by blast
  then have "pos_rest e = [] \<or> \<not> p (hd (pos_rest e))"
    by (intro star_class_maximal [of "length (pos_rest e')" p e']) (simp_all add: chars)
  with e show ?thesis by simp
qed

lemma USES_maximal:
  assumes "first_of (matches USES d) = Some c"
  shows "pos_rest c = [] \<or> \<not> ref_char (hd (pos_rest c))"
proof -
  obtain e where "first_of (matches (Group_re 1 (Plus_re (Chars ref_char))) e) = Some c"
    using first_of_Seqs [OF _ assms [unfolded USES_def]] by (auto simp del: matches.simps)
  then show ?thesis by (rule group_maximal)
qed


subsection \<open>An entry on a line of its own\<close>

definition spaces :: "string \<Rightarrow> bool" where
  "spaces s \<longleftrightarrow> set s \<subseteq> {CHR '' ''}"

text \<open>\<open>[- ]uses: ref\<close>, indented, with an optional opening quote.\<close>

definition uses_entry :: "string \<Rightarrow> string \<Rightarrow> bool" where
  "uses_entry l ref \<longleftrightarrow>
     (\<exists>indent dash gap q. l = indent @ dash @ ''uses:'' @ gap @ q @ ref \<and>
        spaces indent \<and> (dash = [] \<or> (\<exists>s. dash = CHR ''-'' # s \<and> s \<noteq> [] \<and> spaces s)) \<and>
        gap \<noteq> [] \<and> spaces gap \<and> (q = [] \<or> (\<exists>c. q = [c] \<and> quote_char c)) \<and> ref \<noteq> [] \<and> list_all ref_char ref)"

lemma space_chars:
  "re_space (CHR '' '')" "re_space (CHR 0x0A)" "\<not> re_space (CHR ''-'')" "\<not> re_space (CHR ''u'')"
  "\<not> quote_char (CHR ''-'')" "\<not> quote_char (CHR ''u'')" "\<not> quote_char (CHR 0x0A)"
  by code_simp+

lemma spaces_space: "spaces s \<Longrightarrow> list_all re_space s"
  using space_chars(1) by (auto simp: spaces_def list_all_iff)

lemma ref_char_space: "ref_char c \<Longrightarrow> \<not> re_space c" "ref_char c \<Longrightarrow> \<not> quote_char c"
  by (simp_all add: ref_char_def)

lemma quote_not_space: "quote_char c \<Longrightarrow> \<not> re_space c"
proof -
  have "\<not> re_space (CHR 0x27)" "\<not> re_space (CHR 0x22)" by code_simp+
  then show "quote_char c \<Longrightarrow> \<not> re_space c" by (auto simp: quote_char_def)
qed

lemma uses_entry_prefix:
  assumes "uses_entry l ref"
  obtains w1 b w2 q where "l = w1 @ b @ ''uses:'' @ w2 @ q @ ref" "uses_prefix w1 b w2 q" "spaces w1"
    "w2 \<noteq> []" "spaces w2" "ref \<noteq> []" "list_all ref_char ref"
  using assms unfolding uses_entry_def uses_prefix_def by (blast dest: spaces_space)

text \<open>A text has one reading as a prefix and a maximal reference.\<close>

lemma quoted_ref_unique:
  assumes "q @ g @ rest = q' @ r @ post"
    and "q = [] \<or> (\<exists>c. q = [c] \<and> quote_char c)" "q' = [] \<or> (\<exists>c. q' = [c] \<and> quote_char c)"
    and "g \<noteq> []" "list_all ref_char g" "r \<noteq> []" "list_all ref_char r"
    and "rest = [] \<or> \<not> ref_char (hd rest)" "post = [] \<or> \<not> ref_char (hd post)"
  shows "g = r"
proof -
  obtain x g' y r' where g: "g = x # g'" "ref_char x" and r: "r = y # r'" "ref_char y"
    using assms(4-7) by (cases g; cases r) auto
  have "g @ rest = r @ post"
    using assms(1-3) g r ref_char_space(2) by (elim disjE exE) auto
  then show ?thesis using span_unique assms(5,7,8,9) by blast
qed

lemma uses_prefix_unique:
  assumes "w1 @ b @ ''uses:'' @ w2 @ q @ g @ rest = v1 @ c @ ''uses:'' @ v2 @ p @ r @ post"
    and "uses_prefix w1 b w2 q" "uses_prefix v1 c v2 p"
    and "g \<noteq> []" "list_all ref_char g" "r \<noteq> []" "list_all ref_char r"
    and "rest = [] \<or> \<not> ref_char (hd rest)" "post = [] \<or> \<not> ref_char (hd post)"
  shows "g = r"
proof -
  have dash: "x = [] \<or> hd x = CHR ''-''" if "uses_prefix w x v y" for w x v y
    using that by (auto simp: uses_prefix_def)
  have start: "b @ ''uses:'' @ u = [] \<or> \<not> re_space (hd (b @ ''uses:'' @ u))" if "uses_prefix w b v y" for w b v y u
    using dash [OF that] space_chars by (cases b) auto
  have 1: "b @ ''uses:'' @ w2 @ q @ g @ rest = c @ ''uses:'' @ v2 @ p @ r @ post"
    using span_unique [OF assms(1)] start [OF assms(2)] start [OF assms(3)] assms(2,3)
    unfolding uses_prefix_def by blast
  have 2: "w2 @ q @ g @ rest = v2 @ p @ r @ post"
  proof (cases "b = [] \<or> c = []")
    case True
    with 1 dash [OF assms(2)] dash [OF assms(3)] show ?thesis by (cases b; cases c) auto
  next
    case False
    then obtain s t where s: "b = CHR ''-'' # s" "list_all re_space s" and t: "c = CHR ''-'' # t" "list_all re_space t"
      using assms(2,3) by (auto simp: uses_prefix_def)
    then have "s @ ''uses:'' @ w2 @ q @ g @ rest = t @ ''uses:'' @ v2 @ p @ r @ post" using 1 by simp
    from span_unique [OF this s(2) t(2)] space_chars(4) show ?thesis by simp
  qed
  have gap: "x @ y @ z = [] \<or> \<not> re_space (hd (x @ y @ z))"
    if "x = [] \<or> (\<exists>c. x = [c] \<and> quote_char c)" "y \<noteq> []" "list_all ref_char y" for x y z
    using that quote_not_space ref_char_space by (cases y) auto
  have "q @ g @ rest = p @ r @ post"
    using span_unique [OF 2] gap [of q g rest] gap [of p r post] assms(2-7)
    unfolding uses_prefix_def by blast
  then show ?thesis using quoted_ref_unique assms unfolding uses_prefix_def by blast
qed

text \<open>A reference read off the beginning of an entry is no reference: it holds only characters of the key.\<close>

lemma swallowed_entry:
  assumes "w @ q @ g @ rest = v1 @ c @ ''uses:'' @ v2 @ x" "list_all re_space w"
    and "q = [] \<or> (\<exists>c. q = [c] \<and> quote_char c)" "g \<noteq> []" "list_all ref_char g"
    and "uses_prefix v1 c v2 p" "spaces v1" "v2 \<noteq> []" "spaces v2"
  shows "set g \<subseteq> set ''uses:-''"
proof -
  let ?r = "v2 @ x"
  have c: "c = [] \<or> (\<exists>s. c = CHR ''-'' # s \<and> s \<noteq> [] \<and> list_all re_space s)"
    using assms(6) by (simp add: uses_prefix_def)
  have "q @ g @ rest = [] \<or> \<not> re_space (hd (q @ g @ rest))"
    using assms(3-5) quote_not_space ref_char_space by (cases g) auto
  moreover have "\<not> re_space (hd (c @ ''uses:'' @ ?r))" using c space_chars by auto
  ultimately have eq: "q @ g @ rest = c @ ''uses:'' @ ?r"
    using span_unique [OF assms(1) assms(2)] assms(6) unfolding uses_prefix_def by auto
  then have "q = []" using assms(3) c space_chars by (auto simp: Cons_eq_append_conv)
  with eq have eq: "g @ rest = c @ ''uses:'' @ ?r" by simp
  have nonspace: "\<forall>y \<in> set g. \<not> re_space y" using assms(5) ref_char_space by (auto simp: list_all_iff)
  show ?thesis
  proof (cases c)
    case Nil
    obtain y v where v: "v2 = y # v" "re_space y"
      using assms(8,9) spaces_space [OF assms(9)] by (cases v2) auto
    have "set g \<subseteq> set ''uses:''"
      using eq nonspace v unfolding Nil by (auto simp: append_eq_append_conv2 Cons_eq_append_conv append_eq_Cons_conv)
    then show ?thesis by (rule subset_trans) simp
  next
    case (Cons d s)
    then obtain y v where "c = CHR ''-'' # y # v" "re_space y"
      using c by (cases s) auto
    with eq nonspace assms(4) have "g = ''-''"
      by (auto simp: Cons_eq_append_conv append_eq_Cons_conv)
    then show ?thesis by simp
  qed
qed


lemma opt_dash_ex:
  assumes "pos_rest c = b @ u" "b = [] \<or> (\<exists>s. b = CHR ''-'' # s \<and> s \<noteq> [] \<and> list_all p s)"
  shows "\<exists>c' \<in> set (matches (Opt_re (Seq_re (Lit ''-'') (Plus_re (Chars p)))) c). pos_rest c' = u"
proof (cases "b = []")
  case False
  with assms(2) obtain s where s: "b = ''-'' @ s" "s \<noteq> []" "list_all p s" by auto
  with assms(1) obtain d where d: "d \<in> set (matches (Lit ''-'') c)" "pos_rest d = s @ u"
    using matches_Lit_ex [of c "''-''" "s @ u"] by auto
  then obtain c' where "c' \<in> set (matches (Plus_re (Chars p)) d)" "pos_rest c' = u"
    using matches_plus_ex s by blast
  with d(1) show ?thesis unfolding Opt_re_def by (auto simp del: Lit.simps)
qed (use assms in \<open>auto simp: Opt_re_def\<close>)

lemma opt_quote_ex:
  assumes "pos_rest c = q @ u" "q = [] \<or> (\<exists>x. q = [x] \<and> p x)"
  shows "\<exists>c' \<in> set (matches (Opt_re (Chars p)) c). pos_rest c' = u"
  using assms by (auto simp: Opt_re_def step_char_def)

lemma USES_ex:
  assumes "pos_prev d = None \<or> pos_prev d = Some (CHR 0x0A)"
    and "pos_rest d = w1 @ b @ ''uses:'' @ w2 @ q @ g @ rest" "uses_prefix w1 b w2 q" "g \<noteq> []" "list_all ref_char g"
  shows "matches USES d \<noteq> []"
proof -
  have 0: "d \<in> set (matches (Not_behind (\<lambda>c. c \<noteq> CHR 0x0A)) d)" using assms(1) by auto
  obtain d1 where 1: "d1 \<in> set (matches (Star_re (Chars re_space)) d)" "pos_rest d1 = b @ ''uses:'' @ w2 @ q @ g @ rest"
    using matches_star_ex [OF assms(2)] assms(3) unfolding uses_prefix_def by blast
  obtain d2 where 2: "d2 \<in> set (matches (Opt_re (Seq_re (Lit ''-'') (Plus_re (Chars re_space)))) d1)"
    "pos_rest d2 = ''uses:'' @ w2 @ q @ g @ rest"
    using opt_dash_ex [OF 1(2)] assms(3) unfolding uses_prefix_def by blast
  obtain d3 where 3: "d3 \<in> set (matches (Lit ''uses:'') d2)" "pos_rest d3 = w2 @ q @ g @ rest"
    using matches_Lit_ex [OF 2(2)] by blast
  obtain d4 where 4: "d4 \<in> set (matches (Star_re (Chars re_space)) d3)" "pos_rest d4 = q @ g @ rest"
    using matches_star_ex [OF 3(2)] assms(3) unfolding uses_prefix_def by blast
  obtain d5 where 5: "d5 \<in> set (matches (Opt_re (Chars quote_char)) d4)" "pos_rest d5 = g @ rest"
    using opt_quote_ex [OF 4(2)] assms(3) unfolding uses_prefix_def by blast
  obtain d6 where 6: "d6 \<in> set (matches (Plus_re (Chars ref_char)) d5)"
    using matches_plus_ex [OF 5(2) assms(4,5)] by blast
  then have "\<exists>d7. d7 \<in> set (matches (Group_re 1 (Plus_re (Chars ref_char))) d5)" by auto
  then obtain d7 where "d7 \<in> set (matches (Group_re 1 (Plus_re (Chars ref_char))) d5)" ..
  with 0 1(1) 2(1) 3(1) 4(1) 5(1) have "d7 \<in> set (matches USES d)"
    unfolding USES_def Seqs.simps matches_Seq_set by blast
  then show ?thesis by auto
qed

text \<open>A match that reaches into an entry.\<close>

lemma match_into_entry:
  assumes "uses_entry l ref" "post = [] \<or> \<not> ref_char (hd post)"
    and "w1 @ b @ ''uses:'' @ w2 @ q @ g @ rest = pre @ CHR 0x0A # l @ post" "uses_prefix w1 b w2 q"
    and "g \<noteq> []" "list_all ref_char g" "rest = [] \<or> \<not> ref_char (hd rest)"
  shows "g = ref \<or> set g \<subseteq> set ''uses:-'' \<or> (\<exists>pre'. rest = pre' @ CHR 0x0A # l @ post)"
proof -
  obtain v1 c v2 p where l: "l = v1 @ c @ ''uses:'' @ v2 @ p @ ref" "uses_prefix v1 c v2 p" "spaces v1"
    "v2 \<noteq> []" "spaces v2" "ref \<noteq> []" "list_all ref_char ref"
    using assms(1) by (rule uses_entry_prefix)
  let ?u = "''uses:'' @ w2 @ q @ g @ rest"
  have q: "q = [] \<or> (\<exists>c. q = [c] \<and> quote_char c)" using assms(4) by (simp add: uses_prefix_def)
  have line: "g = ref" if "w @ a @ ?u = l @ post" "uses_prefix w a w2 q" for w a
    using uses_prefix_unique [OF _ that(2) l(2) assms(5,6) l(6,7) assms(7,2)] that(1) l(1) by simp
  have "CHR 0x0A \<notin> set ''uses:''" "CHR 0x0A \<notin> set q" "CHR 0x0A \<notin> set g"
    using assms(6) q space_chars ref_char_space by (auto simp: list_all_iff)
  then have nl: "\<forall>x y. ''uses:'' \<noteq> x @ CHR 0x0A # y" "\<forall>x y. q \<noteq> x @ CHR 0x0A # y"
    "\<forall>x y. g \<noteq> x @ CHR 0x0A # y"
    by (metis in_set_conv_decomp)+
  consider (indent) a' where "w1 = pre @ CHR 0x0A # a'" "l @ post = a' @ b @ ?u"
    | (dash) p1 a' where "b = p1 @ CHR 0x0A # a'" "l @ post = a' @ ?u"
    | (gap) p1 a' where "w2 = p1 @ CHR 0x0A # a'" "l @ post = a' @ q @ g @ rest"
    | (later) p1 where "rest = p1 @ CHR 0x0A # l @ post"
    using assms(3) nl unfolding append_eq_mid by (elim disjE exE conjE) blast+
  then show ?thesis
  proof cases
    case indent
    then have "uses_prefix a' b w2 q" using assms(4) by (simp add: uses_prefix_def)
    with indent(2) show ?thesis using line by simp
  next
    case dash
    then have "list_all re_space a'" using assms(4) by (auto simp: uses_prefix_def append_eq_Cons_conv Cons_eq_append_conv)
    then have "uses_prefix a' [] w2 q" using assms(4) by (simp add: uses_prefix_def)
    with dash(2) show ?thesis using line [of a' "[]"] by simp
  next
    case gap
    then have "list_all re_space a'" using assms(4) by (simp add: uses_prefix_def)
    moreover have "a' @ q @ g @ rest = v1 @ c @ ''uses:'' @ v2 @ (p @ ref @ post)" using gap(2) l(1) by simp
    ultimately show ?thesis
      using swallowed_entry [of a' q g rest v1 c v2 "p @ ref @ post" p] q assms(5,6) l(2-5) by simp
  qed blast
qed

lemma find_all_entry:
  assumes "uses_entry l ref" "post = [] \<or> \<not> ref_char (hd post)"
  shows "r = USES \<Longrightarrow> s = pre @ l @ post \<Longrightarrow> (pre = [] \<longrightarrow> before = None \<or> before = Some (CHR 0x0A)) \<Longrightarrow>
      (pre \<noteq> [] \<longrightarrow> last pre = CHR 0x0A) \<Longrightarrow>
    \<exists>c \<in> set (find_all r before s). group_of 1 c = ref \<or> set (group_of 1 c) \<subseteq> set ''uses:-''"
proof (induction r before s arbitrary: pre rule: find_all.induct)
  case (1 r before)
  then show ?case using assms(1) by (auto simp: uses_entry_def)
next
  case (2 r before x xs)
  note r = "2.prems"(1)
  obtain v1 b v2 p where l: "l = v1 @ b @ ''uses:'' @ v2 @ p @ ref" "uses_prefix v1 b v2 p"
    "ref \<noteq> []" "list_all ref_char ref"
    using assms(1) by (rule uses_entry_prefix)
  let ?d = "\<lparr>pos_prev = before, pos_rest = x # xs, pos_groups = []\<rparr>"
  show ?case
  proof (cases "first_of (matches USES ?d)")
    case None
    then have "matches USES ?d = []" by simp
    have "pre \<noteq> []"
    proof
      assume "pre = []"
      then have "matches USES ?d \<noteq> []"
        using "2.prems"(2,3) l by (intro USES_ex [of ?d v1 b v2 p ref post]) auto
      with \<open>matches USES ?d = []\<close> show False by simp
    qed
    then obtain pre' where pre: "pre = x # pre'" "xs = pre' @ l @ post" using "2.prems"(2) by (cases pre) auto
    have "\<exists>c \<in> set (find_all USES (Some x) xs). group_of 1 c = ref \<or> set (group_of 1 c) \<subseteq> set ''uses:-''"
      using "2.prems"(4) pre None r by (intro "2.IH"(1) [of pre', unfolded r]) auto
    then show ?thesis using None by (simp add: r)
  next
    case (Some c)
    obtain w1 b' w2 q where m: "x # xs = w1 @ b' @ ''uses:'' @ w2 @ q @ group_of 1 c @ pos_rest c"
      "uses_prefix w1 b' w2 q" "group_of 1 c \<noteq> []" "list_all ref_char (group_of 1 c)"
      using USES_only [OF first_of_set [OF Some]] by auto
    have max: "pos_rest c = [] \<or> \<not> ref_char (hd (pos_rest c))" using Some by (rule USES_maximal)
    have "length (x # xs) = length (w1 @ b' @ ''uses:'' @ w2 @ q @ group_of 1 c @ pos_rest c)" by (simp only: m(1))
    then have shorter: "length (pos_rest c) < length (x # xs)" using m(3) by simp
    then have all: "find_all USES before (x # xs) = c # find_all USES (pos_prev c) (pos_rest c)"
      using Some by simp
    show ?thesis
    proof (cases "pre = []")
      case True
      then have "group_of 1 c = ref"
        using uses_prefix_unique [OF _ m(2) l(2) m(3,4) l(3,4) max assms(2)] m(1) "2.prems"(2) l(1) by simp
      then show ?thesis unfolding r all by simp
    next
      case False
      then obtain pre' where pre: "pre = pre' @ [CHR 0x0A]" using "2.prems"(4) by (metis append_butlast_last_id)
      have "group_of 1 c = ref \<or> set (group_of 1 c) \<subseteq> set ''uses:-'' \<or>
          (\<exists>rest'. pos_rest c = rest' @ CHR 0x0A # l @ post)"
        using match_into_entry [OF assms _ m(2-4) max, of pre'] m(1) "2.prems"(2) pre by simp
      then consider "group_of 1 c = ref \<or> set (group_of 1 c) \<subseteq> set ''uses:-''"
        | rest' where "pos_rest c = (rest' @ [CHR 0x0A]) @ l @ post" by auto
      then show ?thesis
      proof cases
        case 2
        then have "\<exists>c' \<in> set (find_all USES (pos_prev c) (pos_rest c)).
            group_of 1 c' = ref \<or> set (group_of 1 c') \<subseteq> set ''uses:-''"
          using Some shorter r by (intro "2.IH"(2) [of c "rest' @ [CHR 0x0A]", unfolded r]) auto
        then show ?thesis unfolding r all by auto
      next
        case 1
        then show ?thesis unfolding r all by auto
      qed
    qed
  qed
qed


lemma key_not_pinned: "set g \<subseteq> set ''uses:-'' \<Longrightarrow> \<not> pinned g"
proof -
  assume key: "set g \<subseteq> set ''uses:-''"
  then have "CHR ''@'' \<notin> set g" "CHR ''.'' \<notin> set g" "CHR ''d'' \<notin> set g" by auto
  moreover have "CHR ''.'' \<in> set g \<or> CHR ''d'' \<in> set g" if "local_ref g"
    using that by (cases g) (auto simp: local_ref_def LOCAL_PREFIXES_def starts_with_def)
  ultimately show ?thesis by (auto simp: pinned_def)
qed

text \<open>
  C40: no entry escapes the action lint. When the lint exits with 0, every line of every file that
  holds \<open>uses:\<close> in block form, with or without a dash and a quote, whatever the rest of the
  file contains, has a reference that is local or ends in \<open>@\<close> and forty lowercase hexadecimal digits.
\<close>

theorem unpinned_entry_reported:
  assumes "action_pins listings = Inr (0, out)" "f \<in> set (concat listings)" "wf_text f = Inr (pre @ l @ post)"
    and "pre = [] \<or> last pre = CHR 0x0A" "post = [] \<or> \<not> ref_char (hd post)" "uses_entry l ref"
  shows "local_ref ref \<or> (\<exists>target sha. ref = target @ CHR ''@'' # sha \<and> length sha = 40 \<and> list_all lower_hex sha)"
proof -
  have "list_all workflow_ok (concat listings)" using action_pins_pass assms(1) by blast
  then have "workflow_ok f" using assms(2) by (simp only: list_all_iff)
  then have "list_all pinned (refs_of (pre @ l @ post))" using assms(3) by (simp add: workflow_ok_def)
  moreover obtain c where "c \<in> set (find_all USES None (pre @ l @ post))"
    "group_of 1 c = ref \<or> set (group_of 1 c) \<subseteq> set ''uses:-''"
    using find_all_entry [OF assms(6,5), of USES "pre @ l @ post" pre None] assms(4) by auto
  ultimately have "pinned ref" using key_not_pinned by (auto simp: list_all_iff refs_of_def)
  then show ?thesis by (simp add: pinned_def full_sha_def)
qed

definition sample_action :: workflow_file where
  "sample_action = \<lparr>wf_path = ''a/action.yml'', wf_parent = ''a'', wf_parts = [''a'', ''action.yml''],
     wf_text = Inr (''steps:'' @ [CHR 0x0A] @ (''  - uses: o/a@'' @ replicate 40 CHR ''0'') @ '' # v1'')\<rparr>"

theorem unpinned_entry_reported_witness:
  "\<exists>out. action_pins [[sample_action]] = Inr (0, out) \<and> pinned (''o/a@'' @ replicate 40 CHR ''0'')"
proof -
  have "map_sum id fst (action_pins [[sample_action]]) = Inr 0" by code_simp
  then obtain out where out: "action_pins [[sample_action]] = Inr (0, out)"
    by (cases "action_pins [[sample_action]]") auto
  have "re_space (CHR '' '')" by (rule space_chars)
  then have sep: "\<not> ref_char (hd '' # v1'')" by (simp add: ref_char_def)
  have "list_all ref_char (''o/a@'' @ replicate 40 CHR ''0'')" by code_simp
  then have entry: "uses_entry (''  - uses: o/a@'' @ replicate 40 CHR ''0'') (''o/a@'' @ replicate 40 CHR ''0'')"
    unfolding uses_entry_def
    by (intro exI [of _ "''  ''"] exI [of _ "''- ''"] exI [of _ "'' ''"] exI [of _ "[]"]) (simp add: spaces_def)
  have wf: "wf_text sample_action =
      Inr ((''steps:'' @ [CHR 0x0A]) @ (''  - uses: o/a@'' @ replicate 40 CHR ''0'') @ '' # v1'')"
    by (simp add: sample_action_def)
  have "local_ref (''o/a@'' @ replicate 40 CHR ''0'') \<or>
      (\<exists>target sha. ''o/a@'' @ replicate 40 CHR ''0'' = target @ CHR ''@'' # sha \<and> length sha = 40 \<and> list_all lower_hex sha)"
    by (rule unpinned_entry_reported [OF out _ wf _ _ entry]) (use sep in simp_all)
  with out show ?thesis by (simp only: pinned_def full_sha_def) blast
qed


end
