(* ===== verification/Validation_Report.thy ===== *)
theory Validation_Report
  imports Sha256 Command_Line
begin

text \<open>
  \<open>scripts/generate_validation_report.py\<close>: the evidence file of a commit. What git prints, the bytes of
  the files, the installed versions and the writer are inputs; a git command that fails is an \<open>Inl\<close>.
\<close>

record report_inputs =
  ri_git :: "string list \<Rightarrow> string result"
  ri_bytes :: "string \<Rightarrow> string result"
  ri_version :: "string \<Rightarrow> string option"
  ri_sys_version :: string

definition REPORT_NAME :: string where
  "REPORT_NAME = ''VALIDATION_REPORT.json''"

definition SELF_GENERATED :: "string list" where
  "SELF_GENERATED = [''VALIDATION_REPORT.json'']"

definition EXCLUDED_DIRS :: "string list" where
  "EXCLUDED_DIRS = [''memory-bank'']"

definition GATE_COMMANDS :: "string list" where
  "GATE_COMMANDS =
     [''python -m compileall l9_ci'', ''python -m ruff check l9_ci tests scripts'',
      ''python -m ruff format --check l9_ci tests scripts'', ''python -m mypy l9_ci'',
      ''python -m pytest --cov=l9_ci --cov-branch'']"

definition RUNTIME_DEPENDENCIES :: "string list" where
  "RUNTIME_DEPENDENCIES = [''jsonschema'', ''referencing'', ''PyYAML'']"

definition TOOLCHAIN :: "string list" where
  "TOOLCHAIN = [''ruff'', ''mypy'', ''pytest'', ''pytest-cov'', ''coverage'']"

definition git_line :: "report_inputs \<Rightarrow> string list \<Rightarrow> string result" where
  "git_line i args = and_then (ri_git i args) (\<lambda>out. Inr (py_strip out))"

definition inventoried :: "string \<Rightarrow> bool" where
  "inventoried f \<longleftrightarrow> f \<notin> set SELF_GENERATED \<and> before_char CHR ''/'' f \<notin> set EXCLUDED_DIRS"

definition report_files :: "report_inputs \<Rightarrow> string list result" where
  "report_files i =
     and_then (ri_git i [''ls-files'', ''-z'']) (\<lambda>out.
     Inr (sort (filter inventoried (filter (\<lambda>f. f \<noteq> []) (split_on CHR 0x00 out)))))"

definition file_digest :: "report_inputs \<Rightarrow> string \<Rightarrow> (string \<times> string) result" where
  "file_digest i f = and_then (ri_bytes i f) (\<lambda>bytes. Inr (f, sha256_hexdigest bytes))"

definition version_table :: "report_inputs \<Rightarrow> string list \<Rightarrow> pyval" where
  "version_table i names =
     PDict (map (\<lambda>n. (PStr n, PStr (case ri_version i n of None \<Rightarrow> ''not-installed'' | Some v \<Rightarrow> v))) names)"

text \<open>The first two numbers of \<open>sys.version\<close>.\<close>

definition python_version :: "report_inputs \<Rightarrow> string" where
  "python_version i =
     join ''.'' (take 2 (split_on CHR ''.'' (takeWhile (\<lambda>c. \<not> py_isspace c) (py_lstrip (ri_sys_version i)))))"

definition tree_text :: "(string \<times> string) list \<Rightarrow> string" where
  "tree_text digests = concat (map (\<lambda>(f, d). d @ '' '' @ f @ [CHR 0x0A]) digests)"

definition file_tree_digest :: "(string \<times> string) list \<Rightarrow> string" where
  "file_tree_digest digests = sha256_hexdigest (utf8_encode (tree_text digests))"

definition build_report :: "report_inputs \<Rightarrow> (string \<times> string) list \<Rightarrow> pydict result" where
  "build_report i digests =
     and_then (git_line i [''rev-parse'', ''HEAD'']) (\<lambda>commit.
     and_then (git_line i [''show'', ''-s'', ''--format=%cI'', ''HEAD'']) (\<lambda>committed_at.
     Inr [(PStr ''schema'', PStr ''l9.validation-report/v2''),
          (PStr ''repository'', PStr ''Quantum-L9/l9-ci-sdk''),
          (PStr ''commit'', PStr commit), (PStr ''commit_committed_at'', PStr committed_at),
          (PStr ''generated_by'', PStr ''scripts/generate_validation_report.py''),
          (PStr ''validated_by'', PStr ''.github/workflows/ci.yml''),
          (PStr ''python_version'', PStr (python_version i)),
          (PStr ''toolchain_versions'', version_table i TOOLCHAIN),
          (PStr ''dependency_versions'', version_table i RUNTIME_DEPENDENCIES),
          (PStr ''gate_commands'', PList (map PStr GATE_COMMANDS)),
          (PStr ''file_count'', PInt (int (length digests))),
          (PStr ''file_tree_digest'', PStr (file_tree_digest digests))]))"

text \<open>The file written and the lines printed.\<close>

definition validation_report ::
  "file_writer \<Rightarrow> report_inputs \<Rightarrow> ((string \<times> string) \<times> string list) result"
where
  "validation_report writer i =
     and_then (report_files i) (\<lambda>files.
     and_then (map_res (file_digest i) files) (\<lambda>digests.
     and_then (build_report i digests) (\<lambda>report.
     and_then (json_pretty True 0 (PDict report)) (\<lambda>content.
     and_then (written writer REPORT_NAME (content @ [CHR 0x0A])) (\<lambda>f.
     Inr (f, [''wrote '' @ REPORT_NAME @ '' ('' @ string_of_nat (length files) @ '' files inventoried)'',
              ''commit='' @ py_str (dget_none report ''commit'') @ '' file_tree_digest='' @
              py_str (dget_none report ''file_tree_digest'')]))))))"

subsection \<open>Properties\<close>

text \<open>The files git lists, before the selection.\<close>

definition listed_files :: "report_inputs \<Rightarrow> string list result" where
  "listed_files i = and_then (ri_git i [''ls-files'', ''-z'']) (\<lambda>out. Inr (filter (\<lambda>f. f \<noteq> []) (split_on CHR 0x00 out)))"

lemma report_files_listed:
  "report_files i = and_then (listed_files i) (\<lambda>fs. Inr (sort (filter inventoried fs)))"
  by (cases "ri_git i [''ls-files'', ''-z'']") (simp_all add: report_files_def listed_files_def)

text \<open>
  The evidence is about the inventoried tree and nothing else. Two checkouts at one commit whose
  listings hold the same inventoried files, with the same bytes, in whatever order and beside whatever
  excluded files, give the same report and the same output; so the report file itself, whatever it held
  before, does not change the report that replaces it.
\<close>

theorem validation_report_reproducible:
  assumes "listed_files i = Inr fs" "listed_files j = Inr gs"
    and "filter_mset inventoried (mset fs) = filter_mset inventoried (mset gs)"
    and "\<forall>f \<in> set fs. inventoried f \<longrightarrow> ri_bytes i f = ri_bytes j f"
    and "ri_git i [''rev-parse'', ''HEAD''] = ri_git j [''rev-parse'', ''HEAD'']"
      "ri_git i [''show'', ''-s'', ''--format=%cI'', ''HEAD''] = ri_git j [''show'', ''-s'', ''--format=%cI'', ''HEAD'']"
      "ri_version i = ri_version j" "ri_sys_version i = ri_sys_version j"
  shows "validation_report writer i = validation_report writer j"
proof -
  have files: "report_files i = Inr (sort (filter inventoried fs))" "report_files j = Inr (sort (filter inventoried fs))"
    using assms(1-3) sort_mset_cong [of "filter inventoried fs" "filter inventoried gs"]
    by (simp_all add: report_files_listed)
  have "map_res (file_digest i) (sort (filter inventoried fs)) = map_res (file_digest j) (sort (filter inventoried fs))"
    using assms(4) by (intro map_res_cong) (auto simp: file_digest_def)
  moreover have "build_report i = build_report j"
    using assms(5-8) by (simp add: fun_eq_iff build_report_def git_line_def version_table_def python_version_def)
  ultimately show ?thesis
    using files by (simp add: validation_report_def)
qed

definition sample_checkout :: "string \<Rightarrow> string \<Rightarrow> report_inputs" where
  "sample_checkout listing previous =
     \<lparr>ri_git = (\<lambda>args. if args = [''ls-files'', ''-z''] then Inr listing else Inr ''c0ffee''),
      ri_bytes = (\<lambda>f. if f = REPORT_NAME then Inr previous else Inr (f @ ''!'')),
      ri_version = (\<lambda>n. if n = ''ruff'' then Some ''0.6'' else None), ri_sys_version = ''3.11.9 (main)''\<rparr>"

theorem validation_report_reproducible_witness:
  "validation_report (\<lambda>_ _. Inr ())
     (sample_checkout (join [CHR 0x00] [''VALIDATION_REPORT.json'', ''b'', ''a/c'', ''memory-bank/x'', []]) ''old'') =
   validation_report (\<lambda>_ _. Inr ()) (sample_checkout (join [CHR 0x00] [''a/c'', ''b'', []]) [])"
proof (rule validation_report_reproducible)
  show "listed_files (sample_checkout (join [CHR 0x00] [''VALIDATION_REPORT.json'', ''b'', ''a/c'', ''memory-bank/x'', []]) ''old'') =
      Inr [''VALIDATION_REPORT.json'', ''b'', ''a/c'', ''memory-bank/x'']"
    "listed_files (sample_checkout (join [CHR 0x00] [''a/c'', ''b'', []]) []) = Inr [''a/c'', ''b'']"
    by code_simp+
  have "\<not> inventoried ''VALIDATION_REPORT.json''" "\<not> inventoried ''memory-bank/x''"
    "inventoried ''b''" "inventoried ''a/c''"
    by code_simp+
  then show "filter_mset inventoried (mset [''VALIDATION_REPORT.json'', ''b'', ''a/c'', ''memory-bank/x'']) =
      filter_mset inventoried (mset [''a/c'', ''b''])"
    by simp
qed (simp_all add: sample_checkout_def inventoried_def SELF_GENERATED_def REPORT_NAME_def)

text \<open>
  The digest binds the tree: the hashed text determines the paths and the file digests, as long as no
  path holds a newline. With a newline in a path two trees have one text.
\<close>

lemma tree_text_unambiguous:
  assumes "tree_text ds = tree_text es"
    and "list_all (\<lambda>(f, d). CHR 0x0A \<notin> set f \<and> CHR 0x0A \<notin> set d \<and> length d = 64) ds"
      "list_all (\<lambda>(f, d). CHR 0x0A \<notin> set f \<and> CHR 0x0A \<notin> set d \<and> length d = 64) es"
  shows "ds = es"
  using assms
proof (induction ds arbitrary: es)
  case Nil
  then show ?case by (cases es) (auto simp: tree_text_def)
next
  case (Cons e ds)
  obtain f d where e: "e = (f, d)" by (cases e)
  from Cons.prems(1) e obtain g c es' where es: "es = (g, c) # es'"
    by (cases es) (auto simp: tree_text_def)
  have "(d @ '' '' @ f) @ CHR 0x0A # tree_text ds = (c @ '' '' @ g) @ CHR 0x0A # tree_text es'"
    using Cons.prems(1) e es by (simp add: tree_text_def)
  moreover have "CHR 0x0A \<notin> set (d @ '' '' @ f)" "CHR 0x0A \<notin> set (c @ '' '' @ g)"
    using Cons.prems(2,3) e es by auto
  ultimately have "d @ '' '' @ f = c @ '' '' @ g" "tree_text ds = tree_text es'"
    by (auto simp: append_eq_append_conv2 append_eq_Cons_conv Cons_eq_append_conv)
  then show ?case
    using Cons e es by auto
qed

lemma tree_text_collision:
  "tree_text [(f @ [CHR 0x0A] @ d' @ '' '' @ g, d)] = tree_text [(f, d), (g, d')]"
  by (simp add: tree_text_def)

end
